(* ===== verification/GoStrings.thy ===== *)
theory GoStrings
  imports Prelude
begin

text \<open>
  The parts of Go's \<^verbatim>\<open>unicode/utf8\<close> and \<^verbatim>\<open>strings\<close> packages that the sources call, on byte
  strings. Runes are natural numbers (code points). Decoding follows the UTF-8 table of
  \<^verbatim>\<open>utf8.DecodeRuneInString\<close>: an ill-formed byte yields U+FFFD with width 1.

  \<^verbatim>\<open>strings.ToLower\<close> needs the Unicode case tables for runes above ASCII. They are data
  of the Go distribution and enter as the argument \<open>T\<close> of type \<open>case_table\<close>; the ASCII
  part is written out.
\<close>

type_synonym rune = nat
type_synonym case_table = "rune \<Rightarrow> rune"

definition RuneError :: rune where
  "RuneError = 0xFFFD"

definition code :: "char \<Rightarrow> nat" where
  "code c = of_char c"

definition is_ascii :: "char \<Rightarrow> bool" where
  "is_ascii c \<longleftrightarrow> code c < 128"

definition cont_byte :: "char \<Rightarrow> bool" where
  "cont_byte c \<longleftrightarrow> 0x80 \<le> code c \<and> code c \<le> 0xBF"

text \<open>The accepted range of the second byte depends on the first one.\<close>

definition second_ok :: "char \<Rightarrow> char \<Rightarrow> bool" where
  "second_ok a b \<longleftrightarrow>
     (let x = code a; y = code b in
      (if x = 0xE0 then 0xA0 \<le> y else if x = 0xF0 then 0x90 \<le> y else 0x80 \<le> y) \<and>
      (if x = 0xED then y \<le> 0x9F else if x = 0xF4 then y \<le> 0x8F else y \<le> 0xBF))"

text \<open>\<^verbatim>\<open>utf8.DecodeRuneInString\<close>: the rune and its width; (U+FFFD, 0) on the empty string.\<close>

definition DecodeRune :: "string \<Rightarrow> rune \<times> nat" where
  "DecodeRune s =
    (case s of
       [] \<Rightarrow> (RuneError, 0)
     | a # r \<Rightarrow>
       if code a < 0x80 then (code a, 1)
       else if 0xC2 \<le> code a \<and> code a \<le> 0xDF then
         (case r of b # _ \<Rightarrow>
            if cont_byte b then ((code a mod 32) * 64 + code b mod 64, 2) else (RuneError, 1)
          | [] \<Rightarrow> (RuneError, 1))
       else if 0xE0 \<le> code a \<and> code a \<le> 0xEF then
         (case r of b # c # _ \<Rightarrow>
            if second_ok a b \<and> cont_byte c
            then ((code a mod 16) * 4096 + (code b mod 64) * 64 + code c mod 64, 3)
            else (RuneError, 1)
          | _ \<Rightarrow> (RuneError, 1))
       else if 0xF0 \<le> code a \<and> code a \<le> 0xF4 then
         (case r of b # c # d # _ \<Rightarrow>
            if second_ok a b \<and> cont_byte c \<and> cont_byte d
            then ((code a mod 8) * 262144 + (code b mod 64) * 4096 + (code c mod 64) * 64
                  + code d mod 64, 4)
            else (RuneError, 1)
          | _ \<Rightarrow> (RuneError, 1))
       else (RuneError, 1))"

text \<open>\<^verbatim>\<open>utf8.EncodeRune\<close>: invalid code points are written as U+FFFD.\<close>

definition EncodeRune :: "rune \<Rightarrow> string" where
  "EncodeRune r0 =
    (let r = (if r0 > 0x10FFFF \<or> (0xD800 \<le> r0 \<and> r0 \<le> 0xDFFF) then RuneError else r0) in
     if r < 0x80 then [char_of r]
     else if r < 0x800 then [char_of (0xC0 + r div 64), char_of (0x80 + r mod 64)]
     else if r < 0x10000 then
       [char_of (0xE0 + r div 4096), char_of (0x80 + r div 64 mod 64), char_of (0x80 + r mod 64)]
     else
       [char_of (0xF0 + r div 262144), char_of (0x80 + r div 4096 mod 64),
        char_of (0x80 + r div 64 mod 64), char_of (0x80 + r mod 64)])"

lemma DecodeRune_width: "s \<noteq> [] \<Longrightarrow> 1 \<le> snd (DecodeRune s)"
  by (auto simp: DecodeRune_def split: list.splits)

lemma DecodeRune_Cons_pos [simp]: "0 < snd (DecodeRune (c # s))"
  using DecodeRune_width [of "c # s"] by simp

lemma DecodeRune_ascii [simp]: "is_ascii c \<Longrightarrow> DecodeRune (c # s) = (code c, 1)"
  by (simp add: DecodeRune_def is_ascii_def)

text \<open>\<^verbatim>\<open>range s\<close>: the runes of a string, left to right.\<close>

function runes :: "string \<Rightarrow> rune list" where
  "runes [] = []"
| "runes (c # s) =
     fst (DecodeRune (c # s)) # runes (drop (snd (DecodeRune (c # s))) (c # s))"
  by pat_completeness auto
termination
  by (relation "measure length") (auto intro!: diff_less)

lemma runes_ascii_Cons [simp]: "is_ascii c \<Longrightarrow> runes (c # s) = code c # runes s"
  by simp

declare runes.simps(2) [simp del]

lemma runes_ascii_append:
  "list_all is_ascii s \<Longrightarrow> runes (s @ t) = map code s @ runes t"
  by (induction s) auto

text \<open>\<^verbatim>\<open>utf8.DecodeLastRuneInString\<close>: scan back over at most three continuation bytes.\<close>

definition rune_start :: "char \<Rightarrow> bool" where
  "rune_start c \<longleftrightarrow> \<not> cont_byte c"

definition last_start :: "string \<Rightarrow> nat" where
  "last_start s = length s - 1 - length (takeWhile (\<lambda>c. \<not> rune_start c) (take 3 (rev s)))"

definition DecodeLastRune :: "string \<Rightarrow> rune \<times> nat" where
  "DecodeLastRune s =
    (if s = [] then (RuneError, 0)
     else if is_ascii (last s) then (code (last s), 1)
     else let start = last_start s; (r, w) = DecodeRune (drop start s) in
          if start + w = length s then (r, w) else (RuneError, 1))"

lemma DecodeLastRune_width: "s \<noteq> [] \<Longrightarrow> 1 \<le> snd (DecodeLastRune s)"
proof -
  assume s: "s \<noteq> []"
  have "last_start s < length s"
    using s by (cases s) (auto simp: last_start_def)
  then have "1 \<le> snd (DecodeRune (drop (last_start s) s))"
    by (intro DecodeRune_width) simp
  with s show ?thesis
    by (auto simp: DecodeLastRune_def Let_def split: prod.splits)
qed

text \<open>\<^verbatim>\<open>unicode.IsSpace\<close>, written out: the Latin-1 cases and the White_Space property.\<close>

definition IsSpace :: "rune \<Rightarrow> bool" where
  "IsSpace r \<longleftrightarrow>
     (9 \<le> r \<and> r \<le> 13) \<or> r = 32 \<or> r = 0x85 \<or> r = 0xA0 \<or> r = 0x1680 \<or>
     (0x2000 \<le> r \<and> r \<le> 0x200A) \<or> r = 0x2028 \<or> r = 0x2029 \<or> r = 0x202F \<or> r = 0x205F \<or> r = 0x3000"

text \<open>\<^verbatim>\<open>strings.TrimSpace\<close>: drop leading and then trailing space runes.\<close>

function TrimLeftSpace :: "string \<Rightarrow> string" where
  "TrimLeftSpace s =
     (if s \<noteq> [] \<and> IsSpace (fst (DecodeRune s))
      then TrimLeftSpace (drop (snd (DecodeRune s)) s) else s)"
  by pat_completeness auto
termination
  by (relation "measure length") (auto intro!: diff_less dest: DecodeRune_width)

function TrimRightSpace :: "string \<Rightarrow> string" where
  "TrimRightSpace s =
     (if s \<noteq> [] \<and> IsSpace (fst (DecodeLastRune s))
      then TrimRightSpace (take (length s - snd (DecodeLastRune s)) s) else s)"
  by pat_completeness auto
termination
proof (relation "measure length")
  fix s :: string
  assume "s \<noteq> [] \<and> IsSpace (fst (DecodeLastRune s))"
  then have "0 < length s" and "0 < snd (DecodeLastRune s)"
    using DecodeLastRune_width [of s] by auto
  then have "length s - snd (DecodeLastRune s) < length s"
    by (intro diff_less)
  then show "(take (length s - snd (DecodeLastRune s)) s, s) \<in> measure length"
    by simp
qed simp

declare TrimLeftSpace.simps [simp del] TrimRightSpace.simps [simp del]

definition TrimSpace :: "string \<Rightarrow> string" where
  "TrimSpace s = TrimRightSpace (TrimLeftSpace s)"

text \<open>\<^verbatim>\<open>strings.Fields\<close>: the maximal runs of non-space runes; \<open>acc\<close> is the current run.\<close>

function fields_from :: "string \<Rightarrow> string \<Rightarrow> string list" where
  "fields_from acc [] = (if acc = [] then [] else [acc])"
| "fields_from acc (c # s) =
     (let (r, w) = DecodeRune (c # s) in
      if IsSpace r
      then (if acc = [] then [] else [acc]) @ fields_from [] (drop w (c # s))
      else fields_from (acc @ take w (c # s)) (drop w (c # s)))"
  by pat_completeness auto
termination
  by (relation "measure (\<lambda>(acc, s). length s)")
     (auto intro!: diff_less simp: prod_eq_iff)

definition Fields :: "string \<Rightarrow> string list" where
  "Fields s = fields_from [] s"

text \<open>\<^verbatim>\<open>unicode.ToLower\<close> and \<^verbatim>\<open>strings.ToLower\<close>.\<close>

definition toLowerRune :: "case_table \<Rightarrow> rune \<Rightarrow> rune" where
  "toLowerRune T r = (if r < 128 then (if 65 \<le> r \<and> r \<le> 90 then r + 32 else r) else T r)"

definition ToLower :: "case_table \<Rightarrow> string \<Rightarrow> string" where
  "ToLower T s = concat (map (\<lambda>r. EncodeRune (toLowerRune T r)) (runes s))"

definition ascii_lower :: "char \<Rightarrow> char" where
  "ascii_lower c = (if 65 \<le> code c \<and> code c \<le> 90 then char_of (code c + 32) else c)"

text \<open>\<^verbatim>\<open>strings.ToUpper\<close> on an ASCII string.\<close>

definition ascii_upper :: "char \<Rightarrow> char" where
  "ascii_upper c = (if 97 \<le> code c \<and> code c \<le> 122 then char_of (code c - 32) else c)"

text \<open>
  \<^verbatim>\<open>strings.EqualFold\<close> where one side is an ASCII string without the letters K and S, the
  only ASCII letters that simple folding identifies with a rune above ASCII (U+212A and
  U+017F): the other side must then be an ASCII string, equal up to ASCII case.
\<close>

definition EqualFoldAscii :: "string \<Rightarrow> string \<Rightarrow> bool" where
  "EqualFoldAscii s t \<longleftrightarrow> map ascii_lower s = map ascii_lower t"

text \<open>Searching and cutting\<close>

fun IndexByte :: "string \<Rightarrow> char \<Rightarrow> nat option" where
  "IndexByte [] c = None"
| "IndexByte (x # s) c = (if x = c then Some 0 else map_option Suc (IndexByte s c))"

fun LastIndexByte :: "string \<Rightarrow> char \<Rightarrow> nat option" where
  "LastIndexByte [] c = None"
| "LastIndexByte (x # s) c =
     (case LastIndexByte s c of Some i \<Rightarrow> Some (Suc i) | None \<Rightarrow> if x = c then Some 0 else None)"

text \<open>\<^verbatim>\<open>strings.Split\<close> with a one-byte separator and \<^verbatim>\<open>strings.Join\<close>.\<close>

fun split_from :: "string \<Rightarrow> string \<Rightarrow> char \<Rightarrow> string list" where
  "split_from acc [] c = [acc]"
| "split_from acc (x # s) c =
     (if x = c then acc # split_from [] s c else split_from (acc @ [x]) s c)"

definition Split :: "string \<Rightarrow> char \<Rightarrow> string list" where
  "Split s c = split_from [] s c"

fun Join :: "string list \<Rightarrow> string \<Rightarrow> string" where
  "Join [] sep = []"
| "Join [s] sep = s"
| "Join (s # t # ss) sep = s @ sep @ Join (t # ss) sep"

definition HasPrefix :: "string \<Rightarrow> string \<Rightarrow> bool" where
  "HasPrefix s p \<longleftrightarrow> take (length p) s = p"

definition HasSuffix :: "string \<Rightarrow> string \<Rightarrow> bool" where
  "HasSuffix s p \<longleftrightarrow> length p \<le> length s \<and> drop (length s - length p) s = p"

definition TrimPrefix :: "string \<Rightarrow> string \<Rightarrow> string" where
  "TrimPrefix s p = (if HasPrefix s p then drop (length p) s else s)"

definition TrimSuffix :: "string \<Rightarrow> string \<Rightarrow> string" where
  "TrimSuffix s p = (if HasSuffix s p then take (length s - length p) s else s)"

text \<open>\<^verbatim>\<open>strings.ContainsAny\<close> with an ASCII character set.\<close>

definition ContainsAny :: "string \<Rightarrow> string \<Rightarrow> bool" where
  "ContainsAny s cs \<longleftrightarrow> list_ex (\<lambda>c. c \<in> set cs) s"

end
