(* ===== verification/GoConv.thy ===== *)
theory GoConv
  imports GoStrings
begin

text \<open>
  The conversions of Go's \<^verbatim>\<open>strconv\<close>, \<^verbatim>\<open>fmt\<close> (\<^verbatim>\<open>%d\<close>), \<^verbatim>\<open>encoding/base64\<close> and
  \<^verbatim>\<open>encoding/hex\<close> that the configuration code uses. A conversion error is \<open>None\<close>.
\<close>

subsection \<open>Decimal numbers\<close>

definition is_digit :: "char \<Rightarrow> bool" where
  "is_digit c \<longleftrightarrow> 48 \<le> code c \<and> code c \<le> 57"

definition digit_val :: "char \<Rightarrow> nat" where
  "digit_val c = code c - 48"

definition dec_val :: "string \<Rightarrow> nat" where
  "dec_val s = foldl (\<lambda>n c. 10 * n + digit_val c) 0 s"

definition all_digits :: "string \<Rightarrow> bool" where
  "all_digits s \<longleftrightarrow> s \<noteq> [] \<and> list_all is_digit s"

text \<open>\<^verbatim>\<open>strconv.ParseUint(s, 10, bits)\<close>: no sign, in range.\<close>

definition ParseUint :: "string \<Rightarrow> nat \<Rightarrow> nat option" where
  "ParseUint s bits = (if all_digits s \<and> dec_val s < 2 ^ bits then Some (dec_val s) else None)"

text \<open>\<^verbatim>\<open>strconv.Atoi\<close> and \<^verbatim>\<open>strconv.ParseInt(s, 10, 64)\<close>: an optional sign, 64-bit range.\<close>

definition Atoi :: "string \<Rightarrow> int option" where
  "Atoi s =
    (case s of
       [] \<Rightarrow> None
     | c # r \<Rightarrow>
       if c = CHR ''-'' then
         (if all_digits r \<and> dec_val r \<le> 2 ^ 63 then Some (- int (dec_val r)) else None)
       else let d = (if c = CHR ''+'' then r else s) in
         (if all_digits d \<and> dec_val d < 2 ^ 63 then Some (int (dec_val d)) else None))"

text \<open>\<^verbatim>\<open>strconv.Itoa\<close> and \<^verbatim>\<open>%d\<close> on a non-negative number.\<close>

fun dec :: "nat \<Rightarrow> string" where
  "dec n = (if n < 10 then [char_of (48 + n)] else dec (n div 10) @ [char_of (48 + n mod 10)])"

declare dec.simps [simp del]

subsection \<open>Base64, standard alphabet with padding\<close>

definition enc6 :: "nat \<Rightarrow> char" where
  "enc6 n = (if n < 26 then char_of (65 + n) else if n < 52 then char_of (71 + n)
             else if n < 62 then char_of (n - 4) else if n = 62 then CHR ''+'' else CHR ''/'')"

definition dec6 :: "char \<Rightarrow> nat option" where
  "dec6 c = (let n = code c in
     if 65 \<le> n \<and> n \<le> 90 then Some (n - 65) else if 97 \<le> n \<and> n \<le> 122 then Some (n - 71)
     else if 48 \<le> n \<and> n \<le> 57 then Some (n + 4) else if n = 43 then Some 62
     else if n = 47 then Some 63 else None)"

definition to_byte :: "nat \<Rightarrow> byte" where
  "to_byte n = word_of_nat n"

fun EncodeBase64 :: "byte list \<Rightarrow> string" where
  "EncodeBase64 [] = []"
| "EncodeBase64 [a] =
     [enc6 (unat a div 4), enc6 (unat a mod 4 * 16), CHR ''='', CHR ''='']"
| "EncodeBase64 [a, b] =
     [enc6 (unat a div 4), enc6 (unat a mod 4 * 16 + unat b div 16),
      enc6 (unat b mod 16 * 4), CHR ''='']"
| "EncodeBase64 (a # b # c # r) =
     [enc6 (unat a div 4), enc6 (unat a mod 4 * 16 + unat b div 16),
      enc6 (unat b mod 16 * 4 + unat c div 64), enc6 (unat c mod 64)] @ EncodeBase64 r"

text \<open>
  \<^verbatim>\<open>base64.StdEncoding.DecodeString\<close>: carriage returns and line feeds are skipped, the last
  group carries the padding, unused trailing bits are not checked.
\<close>

fun base64_groups :: "string \<Rightarrow> byte list option" where
  "base64_groups [] = Some []"
| "base64_groups (a # b # c # d # r) =
     (case (dec6 a, dec6 b) of
        (Some x, Some y) \<Rightarrow>
          if c = CHR ''='' then
            (if d = CHR ''='' \<and> r = [] then Some [to_byte (x * 4 + y div 16)] else None)
          else (case dec6 c of
            None \<Rightarrow> None
          | Some z \<Rightarrow>
            if d = CHR ''='' then
              (if r = [] then Some [to_byte (x * 4 + y div 16), to_byte (y mod 16 * 16 + z div 4)]
               else None)
            else (case (dec6 d, base64_groups r) of
              (Some w, Some bs) \<Rightarrow>
                Some (to_byte (x * 4 + y div 16) # to_byte (y mod 16 * 16 + z div 4)
                      # to_byte (z mod 4 * 64 + w) # bs)
            | _ \<Rightarrow> None))
      | _ \<Rightarrow> None)"
| "base64_groups _ = None"

definition DecodeBase64 :: "string \<Rightarrow> byte list option" where
  "DecodeBase64 s = base64_groups (filter (\<lambda>c. code c \<noteq> 10 \<and> code c \<noteq> 13) s)"

subsection \<open>Hexadecimal\<close>

definition hex_digit :: "nat \<Rightarrow> char" where
  "hex_digit n = (if n < 10 then char_of (48 + n) else char_of (87 + n))"

definition hex_val :: "char \<Rightarrow> nat option" where
  "hex_val c = (let n = code c in
     if 48 \<le> n \<and> n \<le> 57 then Some (n - 48) else if 97 \<le> n \<and> n \<le> 102 then Some (n - 87)
     else if 65 \<le> n \<and> n \<le> 70 then Some (n - 55) else None)"

fun EncodeHex :: "byte list \<Rightarrow> string" where
  "EncodeHex [] = []"
| "EncodeHex (b # bs) = hex_digit (unat b div 16) # hex_digit (unat b mod 16) # EncodeHex bs"

fun DecodeHex :: "string \<Rightarrow> byte list option" where
  "DecodeHex [] = Some []"
| "DecodeHex (a # b # r) =
     (case (hex_val a, hex_val b, DecodeHex r) of
        (Some x, Some y, Some bs) \<Rightarrow> Some (to_byte (16 * x + y) # bs)
      | _ \<Rightarrow> None)"
| "DecodeHex _ = None"

end
