(* ===== verification/GoNet.thy ===== *)
theory GoNet
  imports GoConv
begin

text \<open>
  IP addresses of Go's \<^verbatim>\<open>net\<close> and \<^verbatim>\<open>net/netip\<close> packages: \<^verbatim>\<open>net.IP\<close> is a byte slice, so a
  list of bytes; \<open>[]\<close> is the nil address. \<^verbatim>\<open>net.ParseIP\<close> is \<^verbatim>\<open>netip.ParseAddr\<close> without
  zones, in the 16-byte form.
\<close>

type_synonym IP = "byte list"

definition v4InV6Prefix :: "byte list" where
  "v4InV6Prefix = [0, 0, 0, 0, 0, 0, 0, 0, 0, 0, 0xff, 0xff]"

definition To4 :: "IP \<Rightarrow> IP option" where
  "To4 ip = (if length ip = 4 then Some ip
             else if length ip = 16 \<and> take 12 ip = v4InV6Prefix then Some (drop 12 ip) else None)"

definition To16 :: "IP \<Rightarrow> IP option" where
  "To16 ip = (if length ip = 4 then Some (v4InV6Prefix @ ip)
              else if length ip = 16 then Some ip else None)"

subsection \<open>Parsing\<close>

definition parse_octet :: "string \<Rightarrow> byte option" where
  "parse_octet s =
     (if all_digits s \<and> (length s = 1 \<or> hd s \<noteq> CHR ''0'') \<and> dec_val s < 256
      then Some (to_byte (dec_val s)) else None)"

text \<open>\<^verbatim>\<open>netip.parseIPv4Fields\<close>: exactly four octets, no leading zeros.\<close>

definition parseIPv4Fields :: "string \<Rightarrow> byte list option" where
  "parseIPv4Fields s =
     (case map parse_octet (Split s CHR ''.'') of
        [Some a, Some b, Some c, Some d] \<Rightarrow> Some [a, b, c, d]
      | _ \<Rightarrow> None)"

definition is_hex :: "char \<Rightarrow> bool" where
  "is_hex c \<longleftrightarrow> hex_val c \<noteq> None"

definition hex_num :: "string \<Rightarrow> nat" where
  "hex_num s = foldl (\<lambda>n c. 16 * n + (case hex_val c of None \<Rightarrow> 0 | Some v \<Rightarrow> v)) 0 s"

text \<open>
  The field loop of \<^verbatim>\<open>netip.parseIPv6\<close>: \<open>ip\<close> holds the bytes written so far (its length is the
  source's \<^verbatim>\<open>i\<close>), \<open>ell\<close> the position of the ellipsis. The result is the bytes, the
  ellipsis and the unread rest.
\<close>

lemma drop_takeWhile_length:
  "c # d # r = drop (length (takeWhile P s)) s \<Longrightarrow> length r + 2 \<le> length s"
  by (drule arg_cong [where f = length]) simp

function v6_fields :: "byte list \<Rightarrow> nat option \<Rightarrow> string \<Rightarrow> (byte list \<times> nat option \<times> string) option"
where
  "v6_fields ip ell s =
     (if 16 \<le> length ip then Some (ip, ell, s) else
      let h = takeWhile is_hex s; r = drop (length h) s; n = hex_num h in
      if h = [] \<or> 4 < length h then None
      else if r \<noteq> [] \<and> hd r = CHR ''.'' then
        (if ell = None \<and> length ip \<noteq> 12 then None
         else if 16 < length ip + 4 then None
         else (case parseIPv4Fields s of
                 None \<Rightarrow> None
               | Some v4 \<Rightarrow> Some (ip @ v4, ell, [])))
      else let ip' = ip @ [to_byte (n div 256), to_byte (n mod 256)] in
        (case r of
           [] \<Rightarrow> Some (ip', ell, [])
         | [c] \<Rightarrow> None
         | c # d # r' \<Rightarrow>
           if c \<noteq> CHR '':'' then None
           else if d = CHR '':'' then
             (if ell \<noteq> None then None
              else if r' = [] then Some (ip', Some (length ip'), [])
              else v6_fields ip' (Some (length ip')) r')
           else v6_fields ip' ell (d # r')))"
  by pat_completeness auto
termination
  by (relation "measure (\<lambda>(ip, ell, s). length s)") (auto dest!: drop_takeWhile_length)

declare v6_fields.simps [simp del]

text \<open>\<^verbatim>\<open>netip.parseIPv6\<close> on a string without a zone.\<close>

definition v6_expand :: "byte list \<Rightarrow> nat option \<Rightarrow> IP option" where
  "v6_expand ip ell =
     (if length ip < 16 then
        (case ell of
           None \<Rightarrow> None
         | Some e \<Rightarrow> Some (take e ip @ replicate (16 - length ip) 0 @ drop e ip))
      else if ell \<noteq> None then None else Some ip)"

definition parseIPv6 :: "string \<Rightarrow> IP option" where
  "parseIPv6 s =
     (if HasPrefix s ''::'' \<and> length s = 2 then Some (replicate 16 0)
      else let lead = HasPrefix s ''::'' in
        (case v6_fields [] (if lead then Some 0 else None) (if lead then drop 2 s else s) of
           Some (ip, ell, []) \<Rightarrow> v6_expand ip ell
         | _ \<Rightarrow> None))"

text \<open>
  \<^verbatim>\<open>net.ParseIP\<close>: the first of dot, colon and percent decides the family; a zone makes the
  result nil, and so does a percent sign that comes first.
\<close>

definition ParseIP :: "string \<Rightarrow> IP option" where
  "ParseIP s =
     (case filter (\<lambda>c. c = CHR ''.'' \<or> c = CHR '':'' \<or> c = CHR ''%'') s of
        [] \<Rightarrow> None
      | c # _ \<Rightarrow>
        if c = CHR ''.'' then map_option (\<lambda>v4. v4InV6Prefix @ v4) (parseIPv4Fields s)
        else if c = CHR '':'' then (if CHR ''%'' \<in> set s then None else parseIPv6 s)
        else None)"

subsection \<open>Printing\<close>

definition v4_string :: "byte list \<Rightarrow> string" where
  "v4_string ip = Join (map (\<lambda>b. dec (unat b)) ip) ''.''"

fun v6_groups :: "byte list \<Rightarrow> nat list" where
  "v6_groups (a # b # r) = (unat a * 256 + unat b) # v6_groups r"
| "v6_groups _ = []"

text \<open>\<^verbatim>\<open>appendHex\<close>: lower case, no leading zeros.\<close>

definition hex_group :: "nat \<Rightarrow> string" where
  "hex_group n =
     (if 0x1000 \<le> n then [hex_digit (n div 0x1000)] else []) @
     (if 0x100 \<le> n then [hex_digit (n div 0x100 mod 16)] else []) @
     (if 0x10 \<le> n then [hex_digit (n div 0x10 mod 16)] else []) @
     [hex_digit (n mod 16)]"

text \<open>The first longest run of at least two zero groups, as start and length (0 for none).\<close>

definition zero_run :: "nat list \<Rightarrow> nat \<Rightarrow> nat" where
  "zero_run gs i = length (takeWhile (\<lambda>g. g = 0) (drop i gs))"

definition best_run :: "nat list \<Rightarrow> nat \<times> nat" where
  "best_run gs =
     fold (\<lambda>i (st, n). if 2 \<le> zero_run gs i \<and> n < zero_run gs i then (i, zero_run gs i) else (st, n))
       [0..<length gs] (0, 0)"

definition v6_string :: "byte list \<Rightarrow> string" where
  "v6_string ip =
     (let gs = v6_groups ip; (st, n) = best_run gs in
      if n = 0 then Join (map hex_group gs) '':''
      else Join (map hex_group (take st gs)) '':'' @ ''::'' @
           Join (map hex_group (drop (st + n) gs)) '':'')"

text \<open>\<^verbatim>\<open>IP.String\<close>\<close>

definition IPString :: "IP \<Rightarrow> string" where
  "IPString ip =
     (if ip = [] then ''<nil>''
      else if length ip \<noteq> 4 \<and> length ip \<noteq> 16 then ''?'' @ EncodeHex ip
      else case To4 ip of Some p4 \<Rightarrow> v4_string p4 | None \<Rightarrow> v6_string ip)"

text \<open>\<^verbatim>\<open>net.CIDRMask(ones, 8 * n)\<close>: \<open>n\<close> bytes with the first \<open>ones\<close> bits set.\<close>

definition mask_byte :: "nat \<Rightarrow> byte" where
  "mask_byte k = (if 8 \<le> k then 255 else to_byte (256 - 2 ^ (8 - k)))"

definition CIDRMask :: "nat \<Rightarrow> nat \<Rightarrow> byte list" where
  "CIDRMask ones n = map (\<lambda>i. mask_byte (ones - 8 * i)) [0..<n]"

end
