(* ===== verification/ConfConfig.thy ===== *)
theory ConfConfig
  imports GoNet
begin

text \<open>
  \<^verbatim>\<open>core/conf/config.go\<close>: the configuration of a tunnel and its own operations.

  The byte arrays of keys are byte lists of length 32 (\<open>key_ok\<close>); a Go map from strings
  to strings is an association list with distinct keys, its iteration order being the
  list's. \<^verbatim>\<open>MaskSelf\<close> works in place on the slice that backs an address, so the operations
  that call it return the configuration they leave behind as well.
\<close>

definition KeyLength :: nat where
  "KeyLength = 32"

type_synonym Key = "byte list"

definition key_ok :: "Key \<Rightarrow> bool" where
  "key_ok k \<longleftrightarrow> length k = KeyLength"

record IPCidr =
  IP :: IP
  Cidr :: uint8

record Endpoint =
  Host :: string
  Port :: uint16

record Interface =
  PrivateKey :: Key
  Addresses :: "IPCidr list"
  ListenPort :: uint16
  MTU :: uint16
  DNS :: "IP list"
  DNSSearch :: "string list"
  PreUp :: string
  PostUp :: string
  PreDown :: string
  PostDown :: string
  TableOff :: bool
  JunkPacketCount :: uint16
  JunkPacketMinSize :: uint16
  JunkPacketMaxSize :: uint16
  InitPacketJunkSize :: uint16
  ResponsePacketJunkSize :: uint16
  CookieReplyPacketJunkSize :: uint16
  TransportPacketJunkSize :: uint16
  InitPacketMagicHeader :: string
  ResponsePacketMagicHeader :: string
  UnderloadPacketMagicHeader :: string
  TransportPacketMagicHeader :: string
  HeaderProtectionKey :: Key
  ContentPaddingAddition :: string
  RekeyAfterTime :: string
  RekeyTimeout :: string
  RejectAfterTime :: string
  KeepaliveTimeout :: string
  MaxHandshakeAttempts :: string
  RandomTrailers :: string
  DisableCookies :: string
  IPackets :: "(string \<times> string) list"

record Peer =
  PublicKey :: Key
  PresharedKey :: Key
  AllowedIPs :: "IPCidr list"
  EndpointOf :: Endpoint
  PersistentKeepalive :: string
  RxBytes :: uint64
  TxBytes :: uint64
  LastHandshakeTime :: uint64

record Config =
  Name :: string
  InterfaceOf :: Interface
  Peers :: "Peer list"

text \<open>Zero values, as Go initialises them.\<close>

definition zero_key :: Key where
  "zero_key = replicate KeyLength 0"

definition zero_Endpoint :: Endpoint where
  "zero_Endpoint = \<lparr>Host = [], Port = 0\<rparr>"

definition zero_Interface :: Interface where
  "zero_Interface = \<lparr>PrivateKey = zero_key, Addresses = [], ListenPort = 0, MTU = 0, DNS = [],
     DNSSearch = [], PreUp = [], PostUp = [], PreDown = [], PostDown = [], TableOff = False,
     JunkPacketCount = 0, JunkPacketMinSize = 0, JunkPacketMaxSize = 0, InitPacketJunkSize = 0,
     ResponsePacketJunkSize = 0, CookieReplyPacketJunkSize = 0, TransportPacketJunkSize = 0,
     InitPacketMagicHeader = [], ResponsePacketMagicHeader = [], UnderloadPacketMagicHeader = [],
     TransportPacketMagicHeader = [], HeaderProtectionKey = zero_key,
     ContentPaddingAddition = [], RekeyAfterTime = [], RekeyTimeout = [], RejectAfterTime = [],
     KeepaliveTimeout = [], MaxHandshakeAttempts = [], RandomTrailers = [], DisableCookies = [],
     IPackets = []\<rparr>"

definition zero_Peer :: Peer where
  "zero_Peer = \<lparr>PublicKey = zero_key, PresharedKey = zero_key, AllowedIPs = [],
     EndpointOf = zero_Endpoint, PersistentKeepalive = [], RxBytes = 0, TxBytes = 0,
     LastHandshakeTime = 0\<rparr>"

subsection \<open>Addresses, endpoints and keys\<close>

definition IPCidr_String :: "IPCidr \<Rightarrow> string" where
  "IPCidr_String r = IPString (IP r) @ ''/'' @ dec (unat (Cidr r))"

definition IPCidr_Bits :: "IPCidr \<Rightarrow> uint8" where
  "IPCidr_Bits r = (if To4 (IP r) \<noteq> None then 32 else 128)"

text \<open>\<^verbatim>\<open>IPNet\<close>: the address with \<^verbatim>\<open>net.CIDRMask(Cidr, Bits)\<close>; the mask is nil out of range.\<close>

definition IPCidr_IPNet :: "IPCidr \<Rightarrow> IP \<times> byte list" where
  "IPCidr_IPNet r =
     (IP r, if unat (Cidr r) \<le> unat (IPCidr_Bits r)
            then CIDRMask (unat (Cidr r)) (unat (IPCidr_Bits r) div 8) else [])"

text \<open>
  \<^verbatim>\<open>MaskSelf\<close>: the first \<^verbatim>\<open>bits/8\<close> bytes of the address are combined with the mask, by index.
  On a 16-byte IPv4-mapped address these are the first four bytes. An index out of range
  (a prefix longer than the family, or a malformed address) panics: \<open>None\<close>.
\<close>

unbundle bit_operations_syntax

definition MaskSelf :: "IPCidr \<Rightarrow> IPCidr option" where
  "MaskSelf r =
     (let n = unat (IPCidr_Bits r) div 8; mask = snd (IPCidr_IPNet r) in
      if length mask = n \<and> n \<le> length (IP r)
      then Some (r\<lparr>IP := map2 (\<lambda>x m. x AND m) (take n (IP r)) mask @ drop n (IP r)\<rparr>)
      else None)"

definition Endpoint_String :: "Endpoint \<Rightarrow> string" where
  "Endpoint_String e =
     (if IndexByte (Host e) CHR '':'' \<noteq> None
      then ''['' @ Host e @ '']:'' @ dec (unat (Port e))
      else Host e @ '':'' @ dec (unat (Port e)))"

definition Endpoint_IsEmpty :: "Endpoint \<Rightarrow> bool" where
  "Endpoint_IsEmpty e \<longleftrightarrow> length (Host e) = 0"

definition Key_String :: "Key \<Rightarrow> string" where
  "Key_String k = EncodeBase64 k"

definition Key_HexString :: "Key \<Rightarrow> string" where
  "Key_HexString k = EncodeHex k"

definition Key_IsZero :: "Key \<Rightarrow> bool" where
  "Key_IsZero k \<longleftrightarrow> k = zero_key"

text \<open>
  \<^verbatim>\<open>NewPresharedKey\<close> and \<^verbatim>\<open>NewPrivateKey\<close>: the random source is an argument, \<open>None\<close> when
  \<^verbatim>\<open>rand.Read\<close> fails; the private key is clamped for Curve25519.
\<close>

definition NewPresharedKey :: "Key option \<Rightarrow> Key option" where
  "NewPresharedKey rnd = rnd"

definition clamp_key :: "Key \<Rightarrow> Key" where
  "clamp_key k = (k[0 := k ! 0 AND 248])[31 := (k ! 31 AND 127) OR 64]"

definition NewPrivateKey :: "Key option \<Rightarrow> Key option" where
  "NewPrivateKey rnd = map_option clamp_key (NewPresharedKey rnd)"

subsection \<open>Routes\<close>

text \<open>
  \<^verbatim>\<open>IntersectsWith\<close>. The keys of its table are addresses with a prefix length. The loops copy
  each entry, but the copy shares the bytes of the address, so \<^verbatim>\<open>MaskSelf\<close> is seen in the
  configuration afterwards; the entries are taken not to share bytes with one another. The
  functions return the entries they leave behind; \<open>None\<close> is a panic of \<^verbatim>\<open>MaskSelf\<close>.
\<close>

type_synonym route = "IP \<times> uint8"

definition route_of :: "IPCidr \<Rightarrow> route" where
  "route_of a = (IP a, Cidr a)"

definition host_route :: "IPCidr \<Rightarrow> route" where
  "host_route a = (IP a, word_of_nat (length (IP a) * 8))"

fun collect_addresses :: "IPCidr list \<Rightarrow> (route list \<times> IPCidr list) option" where
  "collect_addresses [] = Some ([], [])"
| "collect_addresses (a # as) =
     (case MaskSelf a of
        None \<Rightarrow> None
      | Some m \<Rightarrow>
        (case collect_addresses as of
           None \<Rightarrow> None
         | Some (rs, ms) \<Rightarrow> Some (host_route a # route_of m # rs, m # ms)))"

fun collect_allowed :: "IPCidr list \<Rightarrow> (route list \<times> IPCidr list) option" where
  "collect_allowed [] = Some ([], [])"
| "collect_allowed (a # as) =
     (case MaskSelf a of
        None \<Rightarrow> None
      | Some m \<Rightarrow>
        (case collect_allowed as of
           None \<Rightarrow> None
         | Some (rs, ms) \<Rightarrow> Some (route_of m # rs, m # ms)))"

fun collect_peers :: "Peer list \<Rightarrow> (route list \<times> Peer list) option" where
  "collect_peers [] = Some ([], [])"
| "collect_peers (p # ps) =
     (case collect_allowed (AllowedIPs p) of
        None \<Rightarrow> None
      | Some (rs, as) \<Rightarrow>
        (case collect_peers ps of
           None \<Rightarrow> None
         | Some (rs', qs) \<Rightarrow> Some (rs @ rs', p\<lparr>AllowedIPs := as\<rparr> # qs)))"

text \<open>The probing loops stop at the first hit; what they have not reached stays unmasked.\<close>

fun probe_addresses :: "route list \<Rightarrow> IPCidr list \<Rightarrow> (bool \<times> IPCidr list) option" where
  "probe_addresses rs [] = Some (False, [])"
| "probe_addresses rs (a # as) =
     (if host_route a \<in> set rs then Some (True, a # as)
      else case MaskSelf a of
        None \<Rightarrow> None
      | Some m \<Rightarrow>
        if route_of m \<in> set rs then Some (True, m # as)
        else map_option (\<lambda>(hit, ms). (hit, m # ms)) (probe_addresses rs as))"

fun probe_allowed :: "route list \<Rightarrow> IPCidr list \<Rightarrow> (bool \<times> IPCidr list) option" where
  "probe_allowed rs [] = Some (False, [])"
| "probe_allowed rs (a # as) =
     (case MaskSelf a of
        None \<Rightarrow> None
      | Some m \<Rightarrow>
        if route_of m \<in> set rs then Some (True, m # as)
        else map_option (\<lambda>(hit, ms). (hit, m # ms)) (probe_allowed rs as))"

fun probe_peers :: "route list \<Rightarrow> Peer list \<Rightarrow> (bool \<times> Peer list) option" where
  "probe_peers rs [] = Some (False, [])"
| "probe_peers rs (p # ps) =
     (case probe_allowed rs (AllowedIPs p) of
        None \<Rightarrow> None
      | Some (hit, as) \<Rightarrow>
        if hit then Some (True, p\<lparr>AllowedIPs := as\<rparr> # ps)
        else map_option (\<lambda>(h, qs). (h, p\<lparr>AllowedIPs := as\<rparr> # qs)) (probe_peers rs ps))"

definition with_routes :: "Config \<Rightarrow> IPCidr list \<Rightarrow> Peer list \<Rightarrow> Config" where
  "with_routes c as ps = c\<lparr>InterfaceOf := (InterfaceOf c)\<lparr>Addresses := as\<rparr>, Peers := ps\<rparr>"

definition IntersectsWith :: "Config \<Rightarrow> Config \<Rightarrow> (bool \<times> Config \<times> Config) option" where
  "IntersectsWith c other =
     (case collect_addresses (Addresses (InterfaceOf c)) of
        None \<Rightarrow> None
      | Some (rs1, as) \<Rightarrow>
        (case collect_peers (Peers c) of
           None \<Rightarrow> None
         | Some (rs2, ps) \<Rightarrow>
           (case probe_addresses (rs1 @ rs2) (Addresses (InterfaceOf other)) of
              None \<Rightarrow> None
            | Some (hit, bs) \<Rightarrow>
              if hit then Some (True, with_routes c as ps, with_routes other bs (Peers other))
              else map_option (\<lambda>(h, qs). (h, with_routes c as ps, with_routes other bs qs))
                     (probe_peers (rs1 @ rs2) (Peers other)))))"

subsection \<open>Duplicates and secrets\<close>

text \<open>The in-place loop of \<^verbatim>\<open>DeduplicateNetworkEntries\<close>: an entry is kept when its text is new.\<close>

fun dedup_by :: "('a \<Rightarrow> string) \<Rightarrow> string list \<Rightarrow> 'a list \<Rightarrow> 'a list" where
  "dedup_by key seen [] = []"
| "dedup_by key seen (x # xs) =
     (if key x \<in> set seen then dedup_by key seen xs
      else x # dedup_by key (key x # seen) xs)"

definition DeduplicateNetworkEntries :: "Config \<Rightarrow> Config" where
  "DeduplicateNetworkEntries c =
     c\<lparr>InterfaceOf := (InterfaceOf c)
         \<lparr>Addresses := dedup_by IPCidr_String [] (Addresses (InterfaceOf c)),
          DNS := dedup_by IPString [] (DNS (InterfaceOf c))\<rparr>,
       Peers := map (\<lambda>p. p\<lparr>AllowedIPs := dedup_by IPCidr_String [] (AllowedIPs p)\<rparr>) (Peers c)\<rparr>"

definition Redact :: "Config \<Rightarrow> Config" where
  "Redact c =
     c\<lparr>InterfaceOf := (InterfaceOf c)\<lparr>PrivateKey := zero_key, HeaderProtectionKey := zero_key\<rparr>,
       Peers := map (\<lambda>p. p\<lparr>PublicKey := zero_key, PresharedKey := zero_key\<rparr>) (Peers c)\<rparr>"

end
