(* ===== verification/ConfValidation.thy ===== *)
theory ConfValidation
  imports ConfConfig
begin

text \<open>
  \<^verbatim>\<open>core/conf/awg_validation.go\<close>: the checks an AmneziaWG profile must pass before any device,
  socket or adapter is created.

  Two loops of \<^verbatim>\<open>ValidateAWG\<close> range over a Go map literal and one over the map of CPS
  packets. Go leaves the order open; the model visits the entries in the order written (for
  the packets, in the order of the association list), which fixes the error that is
  reported when several entries are wrong and nothing else.
\<close>

datatype conf_error =
    Panic
  | ParseError string string
  | NumError string
  | AwgError string
  | Wrapped string conf_error
  | IOError

type_synonym 'a result = "conf_error + 'a"

subsection \<open>Ranges and switches\<close>

definition parse_boundary :: "nat \<Rightarrow> string \<Rightarrow> nat result" where
  "parse_boundary bits part =
     (if part = [] then Inl (AwgError ''empty range boundary'')
      else if list_ex (\<lambda>c. \<not> is_digit c) part
      then Inl (AwgError ''range must contain unsigned decimal integers'')
      else of_option (AwgError ''range boundary is too large'') (ParseUint part bits))"

definition ParseAWGRange :: "string \<Rightarrow> nat \<Rightarrow> (nat \<times> nat) result" where
  "ParseAWGRange value bits =
     (let parts = Split value CHR ''-'' in
      if length parts > 2 \<or> length parts = 0
      then Inl (AwgError ''expected an integer or min-max range'')
      else rbind (rmap (parse_boundary bits) parts) (\<lambda>vals.
        let lo = vals ! 0; hi = (if length parts = 1 then vals ! 0 else vals ! 1) in
        if lo > hi then Inl (AwgError ''range minimum exceeds maximum'') else Inr (lo, hi)))"

definition ParseAWGBool :: "case_table \<Rightarrow> string \<Rightarrow> bool result" where
  "ParseAWGBool T value =
     (let v = ToLower T value in
      if v \<in> set [''on'', ''true'', ''1'', ''yes'', ''t''] then Inr True
      else if v \<in> set [''off'', ''false'', ''0'', ''no'', ''f''] then Inr False
      else Inl (AwgError ''expected on or off''))"

text \<open>\<^verbatim>\<open>parsePersistentKeepalive\<close> of \<^verbatim>\<open>parser.go\<close>, which the validation calls.\<close>

definition parsePersistentKeepalive :: "string \<Rightarrow> string result" where
  "parsePersistentKeepalive s =
     (if EqualFoldAscii s ''off'' then Inr ''0''
      else case ParseAWGRange s 16 of
             Inl e \<Rightarrow> Inl (Wrapped ''invalid persistent keepalive'' e)
           | Inr _ \<Rightarrow> Inr s)"

subsection \<open>Custom protocol signature packets\<close>

record cps_state =
  cps_size :: nat
  cps_count :: nat
  cps_timestamps :: nat

text \<open>One tag element: the new size and timestamp count.\<close>

definition cps_tag :: "string \<Rightarrow> string \<Rightarrow> cps_state \<Rightarrow> cps_state result" where
  "cps_tag tag arg st =
     (if tag \<in> set [''r'', ''rc'', ''rd'', ''dz''] then
        (case ParseAWGRange arg 16 of
           Inl _ \<Rightarrow> Inl (AwgError ''CPS length must be a non-negative integer up to 65535'')
         | Inr (low, high) \<Rightarrow>
           if low \<noteq> high \<or> CHR ''-'' \<in> set arg
           then Inl (AwgError ''CPS length must be a non-negative integer up to 65535'')
           else Inr (st\<lparr>cps_size := cps_size st + low\<rparr>))
      else if tag = ''b'' then
        (let data = TrimPrefix arg ''0x'' in
         if data = [] \<or> length data mod 2 \<noteq> 0 \<or> DecodeHex data = None
         then Inl (AwgError ''invalid CPS hexadecimal bytes'')
         else Inr (st\<lparr>cps_size := cps_size st + length data div 2\<rparr>))
      else if tag = ''t'' then
        (if arg \<noteq> [] then Inl (AwgError ''CPS timestamp takes no argument'')
         else if cps_timestamps st + 1 > 1
         then Inl (AwgError ''CPS allows one timestamp per packet'')
         else Inr (st\<lparr>cps_size := cps_size st + 4, cps_timestamps := cps_timestamps st + 1\<rparr>))
      else if tag = ''d'' \<or> tag = ''ds'' then
        (if arg \<noteq> [] then Inl (AwgError ''CPS data tag takes no argument'') else Inr st)
      else Inl (AwgError (''unsupported CPS tag '' @ tag)))"

text \<open>The body of the loop up to the assignment of \<^verbatim>\<open>rest\<close>: the state and the new rest.\<close>

definition cps_step :: "string \<Rightarrow> cps_state \<Rightarrow> (string \<times> cps_state) result" where
  "cps_step rest st =
     (if hd rest \<noteq> CHR ''<'' then Inl (AwgError ''CPS must consist of <tag> elements'')
      else case IndexByte rest CHR ''>'' of
        None \<Rightarrow> Inl (AwgError ''CPS has an unclosed tag'')
      | Some end \<Rightarrow>
        let parts = Fields (drop 1 (take end rest)) in
        if length parts = 0 \<or> length parts > 2 then Inl (AwgError ''invalid CPS tag'')
        else rbind (cps_tag (parts ! 0) (if length parts = 2 then parts ! 1 else []) st) (\<lambda>st.
          if cps_size st > 65507 then Inl (AwgError ''CPS packet exceeds UDP payload limit'')
          else let st = st\<lparr>cps_count := cps_count st + 1\<rparr> in
            if cps_count st > 4096 then Inl (AwgError ''too many CPS tags'')
            else Inr (TrimSpace (drop (end + 1) rest), st)))"

lemma TrimLeftSpace_length: "length (TrimLeftSpace s) \<le> length s"
proof (induction s rule: TrimLeftSpace.induct)
  case (1 s)
  then show ?case by (subst TrimLeftSpace.simps) (auto dest: le_trans)
qed

lemma TrimRightSpace_length: "length (TrimRightSpace s) \<le> length s"
proof (induction s rule: TrimRightSpace.induct)
  case (1 s)
  then show ?case by (subst TrimRightSpace.simps) (auto dest: le_trans)
qed

lemma TrimSpace_length: "length (TrimSpace s) \<le> length s"
  unfolding TrimSpace_def using TrimLeftSpace_length TrimRightSpace_length le_trans by blast

lemma cps_step_shorter: "cps_step rest st = Inr (rest', st') \<Longrightarrow> rest \<noteq> [] \<Longrightarrow> length rest' < length rest"
proof -
  assume "cps_step rest st = Inr (rest', st')" and ne: "rest \<noteq> []"
  then obtain e where "rest' = TrimSpace (drop (e + 1) rest)"
    by (auto simp: cps_step_def Let_def result_simps split: if_splits option.splits)
  with ne TrimSpace_length [of "drop (e + 1) rest"] show ?thesis
    by (cases rest) auto
qed

function cps_loop :: "string \<Rightarrow> cps_state \<Rightarrow> cps_state result" where
  "cps_loop rest st =
     (if rest = [] then Inr st
      else case cps_step rest st of
        Inl e \<Rightarrow> Inl e
      | Inr (rest', st') \<Rightarrow> cps_loop rest' st')"
  by pat_completeness auto
termination
  by (relation "measure (\<lambda>(rest, st). length rest)") (auto dest: cps_step_shorter)

declare cps_loop.simps [simp del]

definition ValidateCPS :: "string \<Rightarrow> unit result" where
  "ValidateCPS spec =
     (if length spec > 256 * 1024 then Inl (AwgError ''CPS description is too large'')
      else rbind (cps_loop (TrimSpace spec) \<lparr>cps_size = 0, cps_count = 0, cps_timestamps = 0\<rparr>)
        (\<lambda>st. if cps_count st = 0 then Inl (AwgError ''empty CPS packet'') else Inr ()))"

subsection \<open>The whole profile\<close>

definition check_padding :: "bool \<Rightarrow> nat \<times> uint16 \<times> nat \<Rightarrow> unit \<Rightarrow> unit result" where
  "check_padding hasKey = (\<lambda>(n, p, payload) _.
     if unat p + payload > 65507
     then Inl (AwgError (''S'' @ dec (n + 1) @ '' and packet/MTU exceed UDP payload limit''))
     else if hasKey \<and> unat p < 12
     then Inl (AwgError (''S'' @ dec (n + 1) @ '' must be at least 12 with HeaderProtectionKey''))
     else Inr ())"

text \<open>The header loop: \<open>ranges\<close> holds the earlier ranges in order.\<close>

definition overlaps :: "nat \<times> nat \<Rightarrow> nat \<times> nat \<Rightarrow> bool" where
  "overlaps a b \<longleftrightarrow> fst a \<le> snd b \<and> snd a \<ge> fst b"

definition check_header ::
  "nat \<times> string \<Rightarrow> (nat \<times> nat) list \<Rightarrow> (nat \<times> nat) list result" where
  "check_header = (\<lambda>(n, h) ranges.
     let h = (if h = [] then dec (n + 1) else h) in
     case ParseAWGRange h 32 of
       Inl e \<Rightarrow> Inl (Wrapped (''H'' @ dec (n + 1)) e)
     | Inr r \<Rightarrow>
       (case filter (\<lambda>p. overlaps r (ranges ! p)) [0..<length ranges] of
          p # _ \<Rightarrow> Inl (AwgError (''H'' @ dec (p + 1) @ '' and H'' @ dec (n + 1) @ '' overlap''))
        | [] \<Rightarrow> Inr (ranges @ [r])))"

definition check_range :: "string \<times> string \<Rightarrow> unit \<Rightarrow> unit result" where
  "check_range = (\<lambda>(name, value) _.
     if value = [] then Inr ()
     else case ParseAWGRange value 16 of Inl e \<Rightarrow> Inl (Wrapped name e) | Inr _ \<Rightarrow> Inr ())"

definition check_bool :: "case_table \<Rightarrow> string \<times> string \<Rightarrow> unit \<Rightarrow> unit result" where
  "check_bool T = (\<lambda>(name, value) _.
     if value = [] then Inr ()
     else case ParseAWGBool T value of Inl e \<Rightarrow> Inl (Wrapped name e) | Inr _ \<Rightarrow> Inr ())"

definition check_keepalive :: "Peer \<Rightarrow> unit \<Rightarrow> unit result" where
  "check_keepalive p = (\<lambda>_.
     if PersistentKeepalive p = [] then Inr ()
     else rbind (parsePersistentKeepalive (PersistentKeepalive p)) (\<lambda>_. Inr ()))"

definition packet_keys :: "string list" where
  "packet_keys = [''i1'', ''i2'', ''i3'', ''i4'', ''i5'']"

definition check_packet :: "string \<times> string \<Rightarrow> unit \<Rightarrow> unit result" where
  "check_packet = (\<lambda>(key, spec) _.
     if key \<notin> set packet_keys then Inl (AwgError ''unknown CPS packet field'')
     else case ValidateCPS spec of
       Inl e \<Rightarrow> Inl (Wrapped (map ascii_upper key) e)
     | Inr _ \<Rightarrow> Inr ())"

definition effective_mtu :: "Interface \<Rightarrow> nat" where
  "effective_mtu i = (if MTU i = 0 then 1420 else unat (MTU i))"

definition paddings :: "Interface \<Rightarrow> (nat \<times> uint16 \<times> nat) list" where
  "paddings i =
     [(0, InitPacketJunkSize i, 148), (1, ResponsePacketJunkSize i, 92),
      (2, CookieReplyPacketJunkSize i, 64), (3, TransportPacketJunkSize i, effective_mtu i + 32 + 15)]"

definition magic_headers :: "Interface \<Rightarrow> (nat \<times> string) list" where
  "magic_headers i =
     [(0, InitPacketMagicHeader i), (1, ResponsePacketMagicHeader i),
      (2, UnderloadPacketMagicHeader i), (3, TransportPacketMagicHeader i)]"

definition timing_fields :: "Interface \<Rightarrow> (string \<times> string) list" where
  "timing_fields i =
     [(''ContentPaddingAddition'', ContentPaddingAddition i), (''RekeyAfterTime'', RekeyAfterTime i),
      (''RekeyTimeout'', RekeyTimeout i), (''RejectAfterTime'', RejectAfterTime i),
      (''KeepaliveTimeout'', KeepaliveTimeout i), (''MaxHandshakeAttempts'', MaxHandshakeAttempts i)]"

definition switch_fields :: "Interface \<Rightarrow> (string \<times> string) list" where
  "switch_fields i = [(''RandomTrailers'', RandomTrailers i), (''DisableCookies'', DisableCookies i)]"

definition ValidateAWG :: "case_table \<Rightarrow> Config \<Rightarrow> unit result" where
  "ValidateAWG T c =
     (let i = InterfaceOf c in
      if unat (JunkPacketMinSize i) > unat (JunkPacketMaxSize i)
      then Inl (AwgError ''Jmin must not exceed Jmax'')
      else if unat (JunkPacketMaxSize i) > 65507
      then Inl (AwgError ''Jmax exceeds UDP payload limit'')
      else rbind (rfold (check_padding (\<not> Key_IsZero (HeaderProtectionKey i))) (paddings i) ()) (\<lambda>_.
        rbind (rfold check_header (magic_headers i) []) (\<lambda>_.
        rbind (rfold check_range (timing_fields i) ()) (\<lambda>_.
        rbind (rfold (check_bool T) (switch_fields i) ()) (\<lambda>_.
        rbind (rfold check_keepalive (Peers c) ()) (\<lambda>_.
        rfold check_packet (IPackets i) ()))))))"

datatype protocol_description = AWG_3_1 | WireGuard_or_AWG_1_2

definition ProtocolDescription :: "Config \<Rightarrow> protocol_description" where
  "ProtocolDescription c =
     (let i = InterfaceOf c in
      if \<not> Key_IsZero (HeaderProtectionKey i) \<or> ContentPaddingAddition i \<noteq> [] \<or> RekeyAfterTime i \<noteq> [] \<or>
         RekeyTimeout i \<noteq> [] \<or> RejectAfterTime i \<noteq> [] \<or> KeepaliveTimeout i \<noteq> [] \<or>
         MaxHandshakeAttempts i \<noteq> [] \<or> RandomTrailers i \<noteq> [] \<or> DisableCookies i \<noteq> [] \<or>
         list_ex (\<lambda>p. CHR ''-'' \<in> set (PersistentKeepalive p)) (Peers c)
      then AWG_3_1 else WireGuard_or_AWG_1_2)"

end
