(* ===== verification/ConfName.thy ===== *)
theory ConfName
  imports GoConv
begin

text \<open>
  \<^verbatim>\<open>core/conf/name.go\<close> and the naming part of \<^verbatim>\<open>core/conf/store.go\<close>: which names a tunnel
  may have, and the natural order the lists of the user interface are sorted by.
\<close>

definition reservedNames :: "string list" where
  "reservedNames =
     [''CON'', ''PRN'', ''AUX'', ''NUL'',
      ''COM1'', ''COM2'', ''COM3'', ''COM4'', ''COM5'', ''COM6'', ''COM7'', ''COM8'', ''COM9'',
      ''LPT1'', ''LPT2'', ''LPT3'', ''LPT4'', ''LPT5'', ''LPT6'', ''LPT7'', ''LPT8'', ''LPT9'']"

definition serviceNameForbidden :: string where
  "serviceNameForbidden = ''$''"

definition netshellDllForbidden :: string where
  "netshellDllForbidden = [CHR 0x5C] @ ''/:*?'' @ [CHR 0x22] @ ''<>|'' @ [CHR 0x09]"

definition specialChars :: string where
  "specialChars =
     [CHR ''/'', CHR 0x5C, CHR ''<'', CHR ''>'', CHR '':'', CHR 0x22, CHR ''|'', CHR ''?'', CHR ''*'']
     @ map char_of [1..<32::nat] @ [CHR 0x00]"

definition isReserved :: "string \<Rightarrow> bool" where
  "isReserved name \<longleftrightarrow> name \<noteq> [] \<and> list_ex (\<lambda>r. EqualFoldAscii name r) reservedNames"

definition hasSpecialChars :: "string \<Rightarrow> bool" where
  "hasSpecialChars name \<longleftrightarrow>
     ContainsAny name specialChars \<or> ContainsAny name netshellDllForbidden \<or>
     ContainsAny name serviceNameForbidden"

text \<open>The regular expression \<^verbatim>\<open>^[a-zA-Z0-9_=+.-]{1,32}$\<close>.\<close>

definition nameChar :: "char \<Rightarrow> bool" where
  "nameChar c \<longleftrightarrow>
     (97 \<le> code c \<and> code c \<le> 122) \<or> (65 \<le> code c \<and> code c \<le> 90) \<or> is_digit c \<or> c \<in> set ''_=+.-''"

definition allowedNameFormat :: "string \<Rightarrow> bool" where
  "allowedNameFormat name \<longleftrightarrow> 1 \<le> length name \<and> length name \<le> 32 \<and> list_all nameChar name"

definition TunnelNameIsValid :: "string \<Rightarrow> bool" where
  "TunnelNameIsValid name \<longleftrightarrow>
     (if isReserved name \<or> hasSpecialChars name then False else allowedNameFormat name)"

subsection \<open>Natural order\<close>

record naturalSortToken =
  maybeString :: string
  maybeNumber :: int

text \<open>The matches of \<^verbatim>\<open>\d+|\D+\<close>: the maximal runs of digits and of other bytes.\<close>

fun digit_runs :: "string \<Rightarrow> string list" where
  "digit_runs [] = []"
| "digit_runs (c # s) =
     (case digit_runs s of
        [] \<Rightarrow> [[c]]
      | r # rs \<Rightarrow> if is_digit c = is_digit (hd r) then (c # r) # rs else [c] # r # rs)"

definition natural_token :: "string \<Rightarrow> naturalSortToken" where
  "natural_token s =
     (case Atoi s of
        Some n \<Rightarrow> \<lparr>maybeString = [], maybeNumber = n\<rparr>
      | None \<Rightarrow> \<lparr>maybeString = s, maybeNumber = 0\<rparr>)"

definition newNaturalSortString :: "case_table \<Rightarrow> string \<Rightarrow> naturalSortToken list" where
  "newNaturalSortString T s = map natural_token (digit_runs (ToLower T (Join (Fields s) '' '')))"

text \<open>Go compares strings bytewise.\<close>

fun string_less :: "string \<Rightarrow> string \<Rightarrow> bool" where
  "string_less _ [] = False"
| "string_less [] (_ # _) = True"
| "string_less (a # s) (b # t) = (code a < code b \<or> (a = b \<and> string_less s t))"

definition token_Cmp :: "naturalSortToken \<Rightarrow> naturalSortToken \<Rightarrow> int" where
  "token_Cmp f1 f2 =
     (if length (maybeString f1) = 0 then
        (if length (maybeString f2) > 0 \<or> maybeNumber f1 < maybeNumber f2 then -1
         else if maybeNumber f1 > maybeNumber f2 then 1 else 0)
      else if length (maybeString f2) = 0 \<or> string_less (maybeString f2) (maybeString f1) then 1
      else if string_less (maybeString f1) (maybeString f2) then -1
      else 0)"

fun tokens_less :: "naturalSortToken list \<Rightarrow> naturalSortToken list \<Rightarrow> bool" where
  "tokens_less _ [] = False"
| "tokens_less [] (_ # _) = True"
| "tokens_less (a # as) (b # bs) =
     (if token_Cmp a b = -1 then True else if token_Cmp a b = 1 then False else tokens_less as bs)"

definition TunnelNameIsLess :: "case_table \<Rightarrow> string \<Rightarrow> string \<Rightarrow> bool" where
  "TunnelNameIsLess T a b \<longleftrightarrow>
     a \<noteq> b \<and> tokens_less (newNaturalSortString T a) (newNaturalSortString T b)"

end
