(* ===== verification/ConfParser.thy ===== *)
theory ConfParser
  imports ConfValidation ConfName
begin

text \<open>
  \<^verbatim>\<open>core/conf/parser.go\<close>: the wg-quick reader \<^verbatim>\<open>FromWgQuick\<close> and the reader of the UAPI
  "get" stream \<^verbatim>\<open>FromUAPI\<close>.

  Localised message texts are identified by their English key. The decoders that
  \<^verbatim>\<open>FromWgQuickWithUnknownEncoding\<close> takes from \<^verbatim>\<open>golang.org/x/text\<close> are an argument.
\<close>

subsection \<open>Values\<close>

definition parseIPCidr :: "string \<Rightarrow> IPCidr result" where
  "parseIPCidr s =
     (let i = IndexByte s CHR ''/'';
          addrStr = (case i of None \<Rightarrow> s | Some n \<Rightarrow> take n s);
          cidrStr = (case i of None \<Rightarrow> [] | Some n \<Rightarrow> drop (n + 1) s) in
      case ParseIP addrStr of
        None \<Rightarrow> Inl (ParseError ''Invalid IP address'' s)
      | Some addr0 \<Rightarrow>
        let maybeV4 = To4 addr0;
            addr = (case maybeV4 of Some v4 \<Rightarrow> v4 | None \<Rightarrow> addr0) in
        if i \<noteq> None then
          (case Atoi cidrStr of
             None \<Rightarrow> Inl (ParseError ''Invalid network prefix length'' s)
           | Some cidr \<Rightarrow>
             if cidr < 0 \<or> cidr > 128 \<or> (cidr > 32 \<and> maybeV4 \<noteq> None)
             then Inl (ParseError ''Invalid network prefix length'' s)
             else Inr \<lparr>IP = addr, Cidr = word_of_int cidr\<rparr>)
        else Inr \<lparr>IP = addr, Cidr = (if maybeV4 \<noteq> None then 32 else 128)\<rparr>)"

definition parse_bounded :: "string \<Rightarrow> int \<Rightarrow> string \<Rightarrow> uint16 result" where
  "parse_bounded why lo s =
     (case Atoi s of
        None \<Rightarrow> Inl (NumError s)
      | Some m \<Rightarrow>
        if m < lo \<or> m > 65535 then Inl (ParseError why s) else Inr (word_of_int m))"

definition parseMTU :: "string \<Rightarrow> uint16 result" where
  "parseMTU s = parse_bounded ''Invalid MTU'' 576 s"

definition parsePort :: "string \<Rightarrow> uint16 result" where
  "parsePort s = parse_bounded ''Invalid port'' 0 s"

definition parseUint16 :: "string \<Rightarrow> string \<Rightarrow> uint16 result" where
  "parseUint16 value name = parse_bounded (''Invalid '' @ name) 0 value"

text \<open>The second half of \<^verbatim>\<open>parseEndpoint\<close>: brackets are for IPv6 hosts, with an optional zone.\<close>

definition endpoint_host :: "string \<Rightarrow> uint16 \<Rightarrow> Endpoint result" where
  "endpoint_host host port =
     (let hostColon = IndexByte host CHR '':'';
          colonInside = (case hostColon of None \<Rightarrow> False | Some n \<Rightarrow> n > 0) in
      if hd host = CHR ''['' \<or> last host = CHR '']'' \<or> colonInside then
        (if length host > 3 \<and> hd host = CHR ''['' \<and> last host = CHR '']'' \<and> colonInside then
           (let end = (case LastIndexByte host CHR ''%'' of
                         Some p \<Rightarrow> (if p > 1 then p else length host - 1)
                       | None \<Rightarrow> length host - 1) in
            case ParseIP (drop 1 (take end host)) of
              None \<Rightarrow> Inl (ParseError ''Brackets must contain an IPv6 address'' host)
            | Some maybeV6 \<Rightarrow>
              if length maybeV6 \<noteq> 16
              then Inl (ParseError ''Brackets must contain an IPv6 address'' host)
              else Inr \<lparr>Host = drop 1 (take (length host - 1) host), Port = port\<rparr>)
         else Inl (ParseError ''Brackets must contain an IPv6 address'' host))
      else Inr \<lparr>Host = host, Port = port\<rparr>)"

definition parseEndpoint :: "string \<Rightarrow> Endpoint result" where
  "parseEndpoint s =
     (case LastIndexByte s CHR '':'' of
        None \<Rightarrow> Inl (ParseError ''Missing port from endpoint'' s)
      | Some i \<Rightarrow>
        let host = take i s; portStr = drop (i + 1) s in
        if length host < 1 then Inl (ParseError ''Invalid endpoint host'' host)
        else rbind (parsePort portStr) (endpoint_host host))"

definition parseTableOff :: "string \<Rightarrow> bool result" where
  "parseTableOff s =
     (if s = ''off'' then Inr True
      else if s = ''auto'' \<or> s = ''main'' then Inr False
      else case ParseUint s 32 of None \<Rightarrow> Inl (NumError s) | Some _ \<Rightarrow> Inr False)"

definition parse_key :: "byte list option \<Rightarrow> string \<Rightarrow> Key result" where
  "parse_key decoded s =
     (case decoded of
        None \<Rightarrow> Inl (ParseError ''Invalid key'' s)
      | Some k \<Rightarrow>
        if length k \<noteq> KeyLength then Inl (ParseError ''Keys must decode to exactly 32 bytes'' s)
        else Inr k)"

definition parseKeyBase64 :: "string \<Rightarrow> Key result" where
  "parseKeyBase64 s = parse_key (DecodeBase64 s) s"

definition parseKeyHex :: "string \<Rightarrow> Key result" where
  "parseKeyHex s = parse_key (DecodeHex s) s"

definition parseBytesOrStamp :: "string \<Rightarrow> uint64 result" where
  "parseBytesOrStamp s =
     (case ParseUint s 64 of
        None \<Rightarrow> Inl (ParseError ''Number must be a number between 0 and 2^64-1'' s)
      | Some b \<Rightarrow> Inr (word_of_nat b))"

definition splitList :: "string \<Rightarrow> string list result" where
  "splitList s =
     rmap (\<lambda>split. let trim = TrimSpace split in
             if length trim = 0 then Inl (ParseError ''Two commas in a row'' s) else Inr trim)
          (Split s CHR '','')"

subsection \<open>The wg-quick format\<close>

datatype parserState = inInterfaceSection | inPeerSection | notInASection

record wgquick_state =
  parserStateOf :: parserState
  conf :: Config
  sawPrivateKey :: bool
  peer :: "Peer option"

definition maybeAddPeer :: "Config \<Rightarrow> Peer option \<Rightarrow> Config" where
  "maybeAddPeer c p = (case p of None \<Rightarrow> c | Some q \<Rightarrow> c\<lparr>Peers := Peers c @ [q]\<rparr>)"

definition specialHandshakeTags :: "string list" where
  "specialHandshakeTags = [''i1'', ''i2'', ''i3'', ''i4'', ''i5'', ''j1'', ''j2'', ''j3'', ''itime'']"

text \<open>The \<^verbatim>\<open>dns\<close> case: what parses as an address is a server, the rest are search domains.\<close>

definition add_dns :: "string list \<Rightarrow> Interface \<Rightarrow> Interface" where
  "add_dns addresses i =
     fold (\<lambda>a i. case ParseIP a of
             None \<Rightarrow> i\<lparr>DNSSearch := DNSSearch i @ [a]\<rparr>
           | Some ip \<Rightarrow> i\<lparr>DNS := DNS i @ [ip]\<rparr>) addresses i"

text \<open>The \<^verbatim>\<open>switch key\<close> of the interface section.\<close>

definition interface_key :: "string \<Rightarrow> string \<Rightarrow> Interface \<Rightarrow> Interface result" where
  "interface_key key val i =
    (if key = ''privatekey'' then rbind (parseKeyBase64 val) (\<lambda>k. Inr (i\<lparr>PrivateKey := k\<rparr>))
     else if key = ''listenport'' then rbind (parsePort val) (\<lambda>p. Inr (i\<lparr>ListenPort := p\<rparr>))
     else if key = ''jc'' then
       rbind (parseUint16 val ''junkPacketCount'') (\<lambda>n. Inr (i\<lparr>JunkPacketCount := n\<rparr>))
     else if key = ''jmin'' then
       rbind (parseUint16 val ''junkPacketMinSize'') (\<lambda>n. Inr (i\<lparr>JunkPacketMinSize := n\<rparr>))
     else if key = ''jmax'' then
       rbind (parseUint16 val ''junkPacketMaxSize'') (\<lambda>n. Inr (i\<lparr>JunkPacketMaxSize := n\<rparr>))
     else if key = ''s1'' then
       rbind (parseUint16 val ''initPacketJunkSize'') (\<lambda>n. Inr (i\<lparr>InitPacketJunkSize := n\<rparr>))
     else if key = ''s2'' then
       rbind (parseUint16 val ''responsePacketJunkSize'') (\<lambda>n. Inr (i\<lparr>ResponsePacketJunkSize := n\<rparr>))
     else if key = ''s3'' then
       rbind (parseUint16 val ''cookieReplyPacketJunkSize'')
         (\<lambda>n. Inr (i\<lparr>CookieReplyPacketJunkSize := n\<rparr>))
     else if key = ''s4'' then
       rbind (parseUint16 val ''transportPacketJunkSize'')
         (\<lambda>n. Inr (i\<lparr>TransportPacketJunkSize := n\<rparr>))
     else if key = ''h1'' then Inr (i\<lparr>InitPacketMagicHeader := val\<rparr>)
     else if key = ''h2'' then Inr (i\<lparr>ResponsePacketMagicHeader := val\<rparr>)
     else if key = ''h3'' then Inr (i\<lparr>UnderloadPacketMagicHeader := val\<rparr>)
     else if key = ''h4'' then Inr (i\<lparr>TransportPacketMagicHeader := val\<rparr>)
     else if key \<in> set packet_keys then
       (if length val = 0 then Inr i else Inr (i\<lparr>IPackets := AList.update key val (IPackets i)\<rparr>))
     else if key = ''headerprotectionkey'' then
       (case parseKeyBase64 val of
          Inl _ \<Rightarrow> Inl (AwgError ''invalid HeaderProtectionKey (expected a 32-byte base64 key)'')
        | Inr k \<Rightarrow> Inr (i\<lparr>HeaderProtectionKey := k\<rparr>))
     else if key = ''contentpaddingaddition'' then Inr (i\<lparr>ContentPaddingAddition := val\<rparr>)
     else if key = ''rekeyaftertime'' then Inr (i\<lparr>RekeyAfterTime := val\<rparr>)
     else if key = ''rekeytimeout'' then Inr (i\<lparr>RekeyTimeout := val\<rparr>)
     else if key = ''rejectaftertime'' then Inr (i\<lparr>RejectAfterTime := val\<rparr>)
     else if key = ''keepalivetimeout'' then Inr (i\<lparr>KeepaliveTimeout := val\<rparr>)
     else if key = ''maxhandshakeattempts'' then Inr (i\<lparr>MaxHandshakeAttempts := val\<rparr>)
     else if key = ''randomtrailers'' then Inr (i\<lparr>RandomTrailers := val\<rparr>)
     else if key = ''disablecookies'' then Inr (i\<lparr>DisableCookies := val\<rparr>)
     else if key = ''mtu'' then rbind (parseMTU val) (\<lambda>m. Inr (i\<lparr>MTU := m\<rparr>))
     else if key = ''address'' then
       rbind (splitList val) (\<lambda>addresses.
         rbind (rmap parseIPCidr addresses) (\<lambda>as. Inr (i\<lparr>Addresses := Addresses i @ as\<rparr>)))
     else if key = ''dns'' then rbind (splitList val) (\<lambda>addresses. Inr (add_dns addresses i))
     else if key = ''preup'' then Inr (i\<lparr>PreUp := val\<rparr>)
     else if key = ''postup'' then Inr (i\<lparr>PostUp := val\<rparr>)
     else if key = ''predown'' then Inr (i\<lparr>PreDown := val\<rparr>)
     else if key = ''postdown'' then Inr (i\<lparr>PostDown := val\<rparr>)
     else if key = ''table'' then rbind (parseTableOff val) (\<lambda>t. Inr (i\<lparr>TableOff := t\<rparr>))
     else Inl (ParseError ''Invalid key for [Interface] section'' key))"

text \<open>The \<^verbatim>\<open>switch key\<close> of a peer section.\<close>

definition peer_key :: "string \<Rightarrow> string \<Rightarrow> Peer \<Rightarrow> Peer result" where
  "peer_key key val p =
    (if key = ''publickey'' then rbind (parseKeyBase64 val) (\<lambda>k. Inr (p\<lparr>PublicKey := k\<rparr>))
     else if key = ''presharedkey'' then rbind (parseKeyBase64 val) (\<lambda>k. Inr (p\<lparr>PresharedKey := k\<rparr>))
     else if key = ''allowedips'' then
       rbind (splitList val) (\<lambda>addresses.
         rbind (rmap parseIPCidr addresses) (\<lambda>as. Inr (p\<lparr>AllowedIPs := AllowedIPs p @ as\<rparr>)))
     else if key = ''persistentkeepalive'' then
       rbind (parsePersistentKeepalive val) (\<lambda>k. Inr (p\<lparr>PersistentKeepalive := k\<rparr>))
     else if key = ''endpoint'' then rbind (parseEndpoint val) (\<lambda>e. Inr (p\<lparr>EndpointOf := e\<rparr>))
     else Inl (ParseError ''Invalid key for [Peer] section'' key))"

text \<open>The comment is cut at the first \<^verbatim>\<open>#\<close>, then the line is trimmed.\<close>

definition strip_line :: "string \<Rightarrow> string" where
  "strip_line line0 =
     TrimSpace (case IndexByte line0 CHR ''#'' of None \<Rightarrow> line0 | Some n \<Rightarrow> take n line0)"

text \<open>
  A key line. \<^verbatim>\<open>lineLower[:equals]\<close> cuts the lower-cased line at the position of the equals
  sign in the original one; lower-casing can shorten a line, and cutting beyond its end panics.
\<close>

definition key_line :: "case_table \<Rightarrow> string \<Rightarrow> wgquick_state \<Rightarrow> wgquick_state result" where
  "key_line T line st =
     (if parserStateOf st = notInASection then Inl (ParseError ''Line must occur in a section'' line)
      else case IndexByte line CHR ''='' of
        None \<Rightarrow> Inl (ParseError ''Config key is missing an equals separator'' line)
      | Some equals \<Rightarrow>
        let lineLower = ToLower T line in
        if length lineLower < equals then Inl Panic
        else let key = TrimSpace (take equals lineLower); val = TrimSpace (drop (equals + 1) line) in
          if key \<notin> set specialHandshakeTags \<and> length val = 0
          then Inl (ParseError ''Key must have a value'' line)
          else if parserStateOf st = inInterfaceSection then
            rbind (interface_key key val (InterfaceOf (conf st))) (\<lambda>i.
              Inr (st\<lparr>conf := (conf st)\<lparr>InterfaceOf := i\<rparr>,
                      sawPrivateKey := sawPrivateKey st \<or> key = ''privatekey''\<rparr>))
          else (case peer st of
                  None \<Rightarrow> Inl Panic
                | Some p \<Rightarrow> rbind (peer_key key val p) (\<lambda>q. Inr (st\<lparr>peer := Some q\<rparr>))))"

definition wgquick_line :: "case_table \<Rightarrow> string \<Rightarrow> wgquick_state \<Rightarrow> wgquick_state result" where
  "wgquick_line T line0 st =
     (let line = strip_line line0 in
      if length line = 0 then Inr st
      else if ToLower T line = ''[interface]'' then
        Inr (st\<lparr>conf := maybeAddPeer (conf st) (peer st), peer := None, parserStateOf := inInterfaceSection\<rparr>)
      else if ToLower T line = ''[peer]'' then
        Inr (st\<lparr>conf := maybeAddPeer (conf st) (peer st), peer := Some zero_Peer,
                parserStateOf := inPeerSection\<rparr>)
      else key_line T line st)"

definition wgquick_init :: "string \<Rightarrow> wgquick_state" where
  "wgquick_init name =
     \<lparr>parserStateOf = notInASection,
      conf = \<lparr>Name = name, InterfaceOf = zero_Interface\<lparr>MTU := 1420\<rparr>, Peers = []\<rparr>,
      sawPrivateKey = False, peer = None\<rparr>"

definition wgquick_finish :: "case_table \<Rightarrow> wgquick_state \<Rightarrow> Config result" where
  "wgquick_finish T st =
     (let c = maybeAddPeer (conf st) (peer st) in
      if \<not> sawPrivateKey st
      then Inl (ParseError ''An interface must have a private key'' ''[none specified]'')
      else if list_ex (\<lambda>p. Key_IsZero (PublicKey p)) (Peers c)
      then Inl (ParseError ''All peers must have public keys'' ''[none specified]'')
      else rbind (ValidateAWG T c) (\<lambda>_. Inr c))"

definition FromWgQuick :: "case_table \<Rightarrow> string \<Rightarrow> string \<Rightarrow> Config result" where
  "FromWgQuick T s name =
     (if \<not> TunnelNameIsValid name then Inl (ParseError ''Tunnel name is not valid'' name)
      else rbind (rfold (wgquick_line T) (Split s CHR 0x0A) (wgquick_init name)) (wgquick_finish T))"

text \<open>
  The text is retried under each decoder of the list, in order; the first error is kept. A
  panic is not an error value and ends the call.
\<close>

fun try_decoders ::
  "case_table \<Rightarrow> (string \<Rightarrow> string option) list \<Rightarrow> string \<Rightarrow> string \<Rightarrow> conf_error \<Rightarrow> Config result"
where
  "try_decoders T [] s name firstErr = Inl firstErr"
| "try_decoders T (d # ds) s name firstErr =
     (case d s of
        None \<Rightarrow> try_decoders T ds s name firstErr
      | Some decoded \<Rightarrow>
        (case FromWgQuick T decoded name of
           Inr c \<Rightarrow> Inr c
         | Inl Panic \<Rightarrow> Inl Panic
         | Inl _ \<Rightarrow> try_decoders T ds s name firstErr))"

definition FromWgQuickWithUnknownEncoding ::
  "case_table \<Rightarrow> (string \<Rightarrow> string option) list \<Rightarrow> string \<Rightarrow> string \<Rightarrow> Config result" where
  "FromWgQuickWithUnknownEncoding T decoders s name =
     (case FromWgQuick T s name of
        Inr c \<Rightarrow> Inr c
      | Inl Panic \<Rightarrow> Inl Panic
      | Inl firstErr \<Rightarrow> try_decoders T decoders s name firstErr)"

end
