(* ===== verification/ConfWriter.thy ===== *)
theory ConfWriter
  imports ConfValidation
begin

text \<open>
  \<^verbatim>\<open>core/conf/writer.go\<close>: the wg-quick text a configuration is stored as and the UAPI "set"
  text the device is configured with. \<^verbatim>\<open>resolveHostname\<close> asks the Windows resolver and is
  the argument \<open>resolve\<close> of \<open>ToUAPI\<close>.
\<close>

definition true_words :: "string list" where
  "true_words = [''on'', ''1'', ''true'', ''t'', ''yes'']"

definition boolToUAPI :: "case_table \<Rightarrow> string \<Rightarrow> string" where
  "boolToUAPI T v = (if ToLower T (TrimSpace v) \<in> set true_words then ''1'' else ''0'')"

definition boolFromUAPI :: "case_table \<Rightarrow> string \<Rightarrow> string" where
  "boolFromUAPI T v = (if ToLower T (TrimSpace v) \<in> set true_words then ''on'' else ''off'')"

definition newline :: char where
  "newline = CHR 0x0A"

subsection \<open>wg-quick\<close>

text \<open>\<^verbatim>\<open>fmt.Sprintf("Key = %s\n", value)\<close> under a condition.\<close>

definition quick_line :: "bool \<Rightarrow> string \<Rightarrow> string \<Rightarrow> string" where
  "quick_line cond key val = (if cond then key @ '' = '' @ val @ [newline] else [])"

definition quick_num :: "string \<Rightarrow> uint16 \<Rightarrow> string" where
  "quick_num key n = quick_line (n > 0) key (dec (unat n))"

definition quick_str :: "string \<Rightarrow> string \<Rightarrow> string" where
  "quick_str key s = quick_line (length s > 0) key s"

definition packet_value :: "Interface \<Rightarrow> string \<Rightarrow> string" where
  "packet_value i key = (case map_of (IPackets i) key of None \<Rightarrow> [] | Some v \<Rightarrow> v)"

definition quick_packets :: "Interface \<Rightarrow> string" where
  "quick_packets i =
     concat (map (\<lambda>key. quick_line (packet_value i key \<noteq> []) (map ascii_upper key) (packet_value i key))
                 packet_keys)"

definition quick_interface :: "Interface \<Rightarrow> string" where
  "quick_interface i =
     ''[Interface]'' @ [newline] @
     quick_line True ''PrivateKey'' (Key_String (PrivateKey i)) @
     quick_num ''ListenPort'' (ListenPort i) @
     quick_num ''Jc'' (JunkPacketCount i) @
     quick_num ''Jmin'' (JunkPacketMinSize i) @
     quick_num ''Jmax'' (JunkPacketMaxSize i) @
     quick_num ''S1'' (InitPacketJunkSize i) @
     quick_num ''S2'' (ResponsePacketJunkSize i) @
     quick_num ''S3'' (CookieReplyPacketJunkSize i) @
     quick_num ''S4'' (TransportPacketJunkSize i) @
     quick_str ''H1'' (InitPacketMagicHeader i) @
     quick_str ''H2'' (ResponsePacketMagicHeader i) @
     quick_str ''H3'' (UnderloadPacketMagicHeader i) @
     quick_str ''H4'' (TransportPacketMagicHeader i) @
     quick_packets i @
     quick_line (\<not> Key_IsZero (HeaderProtectionKey i)) ''HeaderProtectionKey''
       (Key_String (HeaderProtectionKey i)) @
     quick_str ''ContentPaddingAddition'' (ContentPaddingAddition i) @
     quick_str ''RekeyAfterTime'' (RekeyAfterTime i) @
     quick_str ''RekeyTimeout'' (RekeyTimeout i) @
     quick_str ''RejectAfterTime'' (RejectAfterTime i) @
     quick_str ''KeepaliveTimeout'' (KeepaliveTimeout i) @
     quick_str ''MaxHandshakeAttempts'' (MaxHandshakeAttempts i) @
     quick_str ''RandomTrailers'' (RandomTrailers i) @
     quick_str ''DisableCookies'' (DisableCookies i) @
     quick_line (length (Addresses i) > 0) ''Address'' (Join (map IPCidr_String (Addresses i)) '', '') @
     quick_line (length (DNS i) + length (DNSSearch i) > 0) ''DNS''
       (Join (map IPString (DNS i) @ DNSSearch i) '', '') @
     quick_num ''MTU'' (MTU i) @
     quick_str ''PreUp'' (PreUp i) @
     quick_str ''PostUp'' (PostUp i) @
     quick_str ''PreDown'' (PreDown i) @
     quick_str ''PostDown'' (PostDown i) @
     quick_line (TableOff i) ''Table'' ''off''"

definition quick_peer :: "Peer \<Rightarrow> string" where
  "quick_peer p =
     [newline] @ ''[Peer]'' @ [newline] @
     quick_line True ''PublicKey'' (Key_String (PublicKey p)) @
     quick_line (\<not> Key_IsZero (PresharedKey p)) ''PresharedKey'' (Key_String (PresharedKey p)) @
     quick_line (length (AllowedIPs p) > 0) ''AllowedIPs''
       (Join (map IPCidr_String (AllowedIPs p)) '', '') @
     quick_line (\<not> Endpoint_IsEmpty (EndpointOf p)) ''Endpoint'' (Endpoint_String (EndpointOf p)) @
     quick_line (length (PersistentKeepalive p) > 0 \<and> PersistentKeepalive p \<noteq> ''0'' \<and>
                 PersistentKeepalive p \<noteq> ''off'')
       ''PersistentKeepalive'' (PersistentKeepalive p)"

definition ToWgQuick :: "Config \<Rightarrow> string" where
  "ToWgQuick c = quick_interface (InterfaceOf c) @ concat (map quick_peer (Peers c))"

subsection \<open>UAPI\<close>

definition uapi_line :: "bool \<Rightarrow> string \<Rightarrow> string \<Rightarrow> string" where
  "uapi_line cond key val = (if cond then key @ ''='' @ val @ [newline] else [])"

definition uapi_num :: "string \<Rightarrow> uint16 \<Rightarrow> string" where
  "uapi_num key n = uapi_line (n > 0) key (dec (unat n))"

definition uapi_str :: "string \<Rightarrow> string \<Rightarrow> string" where
  "uapi_str key s = uapi_line (length s > 0) key s"

definition uapi_packets :: "Interface \<Rightarrow> string" where
  "uapi_packets i =
     concat (map (\<lambda>key. uapi_line (packet_value i key \<noteq> []) key (packet_value i key)) packet_keys)"

definition uapi_interface :: "case_table \<Rightarrow> Interface \<Rightarrow> string" where
  "uapi_interface T i =
     uapi_line True ''private_key'' (Key_HexString (PrivateKey i)) @
     uapi_num ''listen_port'' (ListenPort i) @
     uapi_num ''jc'' (JunkPacketCount i) @
     uapi_num ''jmin'' (JunkPacketMinSize i) @
     uapi_num ''jmax'' (JunkPacketMaxSize i) @
     uapi_num ''s1'' (InitPacketJunkSize i) @
     uapi_num ''s2'' (ResponsePacketJunkSize i) @
     uapi_num ''s3'' (CookieReplyPacketJunkSize i) @
     uapi_num ''s4'' (TransportPacketJunkSize i) @
     uapi_str ''h1'' (InitPacketMagicHeader i) @
     uapi_str ''h2'' (ResponsePacketMagicHeader i) @
     uapi_str ''h3'' (UnderloadPacketMagicHeader i) @
     uapi_str ''h4'' (TransportPacketMagicHeader i) @
     uapi_packets i @
     uapi_line (\<not> Key_IsZero (HeaderProtectionKey i)) ''header_protection_key''
       (Key_HexString (HeaderProtectionKey i)) @
     uapi_str ''content_padding_addition'' (ContentPaddingAddition i) @
     uapi_str ''rekey_after_time'' (RekeyAfterTime i) @
     uapi_str ''rekey_timeout'' (RekeyTimeout i) @
     uapi_str ''reject_after_time'' (RejectAfterTime i) @
     uapi_str ''keepalive_timeout'' (KeepaliveTimeout i) @
     uapi_str ''max_handshake_attempts'' (MaxHandshakeAttempts i) @
     uapi_line (length (RandomTrailers i) > 0) ''random_trailers'' (boolToUAPI T (RandomTrailers i)) @
     uapi_line (length (DisableCookies i) > 0) ''disable_cookies'' (boolToUAPI T (DisableCookies i))"

definition keepalive_or_zero :: "string \<Rightarrow> string" where
  "keepalive_or_zero k = (if k = [] \<or> k = ''off'' then ''0'' else k)"

definition uapi_peer :: "(string \<Rightarrow> string result) \<Rightarrow> Peer \<Rightarrow> string result" where
  "uapi_peer resolve p =
     rbind (if Endpoint_IsEmpty (EndpointOf p) then Inr []
            else rbind (resolve (Host (EndpointOf p))) (\<lambda>ip.
              Inr (uapi_line True ''endpoint''
                     (Endpoint_String \<lparr>Host = ip, Port = Port (EndpointOf p)\<rparr>)))) (\<lambda>endpoint.
     Inr (uapi_line True ''public_key'' (Key_HexString (PublicKey p)) @
          uapi_line (\<not> Key_IsZero (PresharedKey p)) ''preshared_key'' (Key_HexString (PresharedKey p)) @
          endpoint @
          uapi_line True ''persistent_keepalive_interval''
            (keepalive_or_zero (PersistentKeepalive p)) @
          (if length (AllowedIPs p) > 0
           then uapi_line True ''replace_allowed_ips'' ''true'' @
                concat (map (\<lambda>a. uapi_line True ''allowed_ip'' (IPCidr_String a)) (AllowedIPs p))
           else [])))"

definition ToUAPI :: "case_table \<Rightarrow> (string \<Rightarrow> string result) \<Rightarrow> Config \<Rightarrow> string result" where
  "ToUAPI T resolve c =
     rbind (ValidateAWG T c) (\<lambda>_.
     rbind (rmap (uapi_peer resolve) (Peers c)) (\<lambda>peers.
     Inr (uapi_interface T (InterfaceOf c) @
          uapi_line (length (Peers c) > 0) ''replace_peers'' ''true'' @
          concat peers)))"

end
