(* ===== verification/ConfUapi.thy ===== *)
theory ConfUapi
  imports ConfParser ConfWriter
begin

text \<open>
  \<^verbatim>\<open>FromUAPI\<close> of \<^verbatim>\<open>core/conf/parser.go\<close>: the running state of a device read back over the
  UAPI, laid over the stored configuration. The reader's content is the string argument.
  A stream that ends before its empty line is an I/O error.
\<close>

definition uapi_interface_key :: "string \<Rightarrow> string \<Rightarrow> Interface \<Rightarrow> Interface result" where
  "uapi_interface_key key val i =
    (if key = ''private_key'' then rbind (parseKeyHex val) (\<lambda>k. Inr (i\<lparr>PrivateKey := k\<rparr>))
     else if key = ''listen_port'' then rbind (parsePort val) (\<lambda>p. Inr (i\<lparr>ListenPort := p\<rparr>))
     else if key = ''jc'' then
       rbind (parseUint16 val ''junkPacketCount'') (\<lambda>n. Inr (i\<lparr>JunkPacketCount := n\<rparr>))
     else if key = ''jmin'' then
       rbind (parseUint16 val ''junkPacketMinSize'') (\<lambda>n. Inr (i\<lparr>JunkPacketMinSize := n\<rparr>))
     else if key = ''jmax'' then
       rbind (parseUint16 val ''junkPacketMaxSize'') (\<lambda>n. Inr (i\<lparr>JunkPacketMaxSize := n\<rparr>))
     else if key = ''s1'' then
       rbind (parseUint16 val ''initPacketJunkSize'') (\<lambda>n. Inr (i\<lparr>InitPacketJunkSize := n\<rparr>))
     else if key = ''s2'' then
       rbind (parseUint16 val ''responsePacketJunkSize'') (\<lambda>n. Inr (i\<lparr>ResponsePacketJunkSize := n\<rparr>))
     else if key = ''s3'' then
       rbind (parseUint16 val ''cookieReplyPacketJunkSize'')
         (\<lambda>n. Inr (i\<lparr>CookieReplyPacketJunkSize := n\<rparr>))
     else if key = ''s4'' then
       rbind (parseUint16 val ''transportPacketJunkSize'')
         (\<lambda>n. Inr (i\<lparr>TransportPacketJunkSize := n\<rparr>))
     else if key = ''h1'' then Inr (i\<lparr>InitPacketMagicHeader := val\<rparr>)
     else if key = ''h2'' then Inr (i\<lparr>ResponsePacketMagicHeader := val\<rparr>)
     else if key = ''h3'' then Inr (i\<lparr>UnderloadPacketMagicHeader := val\<rparr>)
     else if key = ''h4'' then Inr (i\<lparr>TransportPacketMagicHeader := val\<rparr>)
     else if key \<in> set packet_keys then
       (if length val = 0 then Inl (AwgError (''cannot parse empty '' @ key @ '' junk value: '' @ val))
        else Inr (i\<lparr>IPackets := AList.update key val (IPackets i)\<rparr>))
     else if key = ''header_protection_key'' then
       (case parseKeyHex val of
          Inl _ \<Rightarrow> Inl (AwgError ''invalid HeaderProtectionKey'')
        | Inr k \<Rightarrow> Inr (i\<lparr>HeaderProtectionKey := k\<rparr>))
     else if key = ''content_padding_addition'' then Inr (i\<lparr>ContentPaddingAddition := val\<rparr>)
     else if key = ''rekey_after_time'' then Inr (i\<lparr>RekeyAfterTime := val\<rparr>)
     else if key = ''rekey_timeout'' then Inr (i\<lparr>RekeyTimeout := val\<rparr>)
     else if key = ''reject_after_time'' then Inr (i\<lparr>RejectAfterTime := val\<rparr>)
     else if key = ''keepalive_timeout'' then Inr (i\<lparr>KeepaliveTimeout := val\<rparr>)
     else if key = ''max_handshake_attempts'' then Inr (i\<lparr>MaxHandshakeAttempts := val\<rparr>)
     else if key = ''random_trailers'' then Inr (i\<lparr>RandomTrailers := val\<rparr>)
     else if key = ''disable_cookies'' then Inr (i\<lparr>DisableCookies := val\<rparr>)
     else if key = ''fwmark'' then Inr i
     else Inl (ParseError ''Invalid key for interface section'' key))"

definition uapi_peer_key :: "string \<Rightarrow> string \<Rightarrow> Peer \<Rightarrow> Peer result" where
  "uapi_peer_key key val p =
    (if key = ''public_key'' then rbind (parseKeyHex val) (\<lambda>k. Inr (p\<lparr>PublicKey := k\<rparr>))
     else if key = ''preshared_key'' then rbind (parseKeyHex val) (\<lambda>k. Inr (p\<lparr>PresharedKey := k\<rparr>))
     else if key = ''protocol_version'' then
       (if val \<noteq> ''1'' then Inl (ParseError ''Protocol version must be 1'' val) else Inr p)
     else if key = ''allowed_ip'' then
       rbind (parseIPCidr val) (\<lambda>a. Inr (p\<lparr>AllowedIPs := AllowedIPs p @ [a]\<rparr>))
     else if key = ''persistent_keepalive_interval'' then
       rbind (parsePersistentKeepalive val) (\<lambda>k. Inr (p\<lparr>PersistentKeepalive := k\<rparr>))
     else if key = ''endpoint'' then rbind (parseEndpoint val) (\<lambda>e. Inr (p\<lparr>EndpointOf := e\<rparr>))
     else if key = ''tx_bytes'' then rbind (parseBytesOrStamp val) (\<lambda>b. Inr (p\<lparr>TxBytes := b\<rparr>))
     else if key = ''rx_bytes'' then rbind (parseBytesOrStamp val) (\<lambda>b. Inr (p\<lparr>RxBytes := b\<rparr>))
     else if key = ''last_handshake_time_sec'' then
       rbind (parseBytesOrStamp val) (\<lambda>t.
         Inr (p\<lparr>LastHandshakeTime := LastHandshakeTime p + t * 1000000000\<rparr>))
     else if key = ''last_handshake_time_nsec'' then
       rbind (parseBytesOrStamp val) (\<lambda>t. Inr (p\<lparr>LastHandshakeTime := LastHandshakeTime p + t\<rparr>))
     else Inl (ParseError ''Invalid key for peer section'' key))"

record uapi_state =
  uapi_conf :: Config
  uapi_peer_of :: "Peer option"

text \<open>
  One line. The parser is in the peer section exactly when a peer is open: \<^verbatim>\<open>public_key\<close> opens
  one and nothing leaves the section again.
\<close>

definition uapi_key_line :: "string \<Rightarrow> string \<Rightarrow> uapi_state \<Rightarrow> uapi_state result" where
  "uapi_key_line key val st0 =
     (if key = ''errno'' then
        (if val = ''0'' then Inr st0 else Inl (ParseError ''Error in getting configuration'' val))
      else let st = (if key = ''public_key''
                     then st0\<lparr>uapi_conf := maybeAddPeer (uapi_conf st0) (uapi_peer_of st0),
                              uapi_peer_of := Some zero_Peer\<rparr>
                     else st0) in
        (case uapi_peer_of st of
           None \<Rightarrow> rbind (uapi_interface_key key val (InterfaceOf (uapi_conf st))) (\<lambda>i.
                     Inr (st\<lparr>uapi_conf := (uapi_conf st)\<lparr>InterfaceOf := i\<rparr>\<rparr>))
         | Some p \<Rightarrow> rbind (uapi_peer_key key val p) (\<lambda>q. Inr (st\<lparr>uapi_peer_of := Some q\<rparr>))))"

definition uapi_line_step :: "string \<Rightarrow> uapi_state \<Rightarrow> uapi_state result" where
  "uapi_line_step line st =
     (case IndexByte line CHR ''='' of
        None \<Rightarrow> Inl (ParseError ''Config key is missing an equals separator'' line)
      | Some equals \<Rightarrow>
        let key = take equals line; val = drop (equals + 1) line in
        if length val = 0 then Inl (ParseError ''Key must have a value'' line)
        else uapi_key_line key val st)"

text \<open>The read loop: \<^verbatim>\<open>ReadString\<close> fails at the end of the input, an empty line ends the stream.\<close>

fun uapi_loop :: "string \<Rightarrow> string \<Rightarrow> uapi_state \<Rightarrow> uapi_state result" where
  "uapi_loop acc [] st = Inl IOError"
| "uapi_loop acc (c # s) st =
     (if c \<noteq> newline then uapi_loop (acc @ [c]) s st
      else if acc = [] then Inr st
      else case uapi_line_step acc st of Inl e \<Rightarrow> Inl e | Inr st' \<Rightarrow> uapi_loop [] s st')"

text \<open>The copied fields of the stored configuration; key and port come from the device.\<close>

definition uapi_start :: "Config \<Rightarrow> Config" where
  "uapi_start existing =
     \<lparr>Name = Name existing,
      InterfaceOf = (InterfaceOf existing)\<lparr>PrivateKey := zero_key, ListenPort := 0\<rparr>,
      Peers = []\<rparr>"

definition FromUAPI :: "string \<Rightarrow> Config \<Rightarrow> Config result" where
  "FromUAPI reader existing =
     rbind (uapi_loop [] reader \<lparr>uapi_conf = uapi_start existing, uapi_peer_of = None\<rparr>) (\<lambda>st.
       Inr (maybeAddPeer (uapi_conf st) (uapi_peer_of st)))"

end
