(* ===== verification/GoStringFacts.thy ===== *)
theory GoStringFacts
  imports GoStrings
begin

text \<open>
  Facts on the string library that the readers and writers share: trimming keeps a value
  that it has trimmed once, an ASCII prefix is lower-cased bytewise, and splitting undoes
  joining.
\<close>

subsection \<open>Characters and decoding\<close>

lemma code_less_256 [simp]: "code c < 256"
  by (simp add: code_def)

lemma char_of_code [simp]: "char_of (code c) = c"
  by (simp add: code_def)

lemma code_char_of: "n < 256 \<Longrightarrow> code (char_of n) = n"
  by (simp add: code_def)

lemma code_eq_iff: "code c = code d \<longleftrightarrow> c = d"
  by (metis char_of_code)

lemma DecodeRune_append:
  "fst (DecodeRune s) \<noteq> RuneError \<Longrightarrow> DecodeRune (s @ t) = DecodeRune s"
proof -
  assume ne: "fst (DecodeRune s) \<noteq> RuneError"
  consider "s = []" | a where "s = [a]" | a b where "s = [a, b]" | a b c where "s = [a, b, c]"
    | a b c d r where "s = a # b # c # d # r"
    by (metis list.exhaust)
  then show ?thesis
    using ne by cases (simp_all add: DecodeRune_def split: if_splits)
qed

lemma RuneError_not_space [simp]: "\<not> IsSpace RuneError"
  by (simp add: IsSpace_def RuneError_def)

definition plain :: "char \<Rightarrow> bool" where
  "plain c \<longleftrightarrow> is_ascii c \<and> \<not> IsSpace (code c)"

lemma TrimLeftSpace_fix: "s = [] \<or> \<not> IsSpace (fst (DecodeRune s)) \<Longrightarrow> TrimLeftSpace s = s"
  by (subst TrimLeftSpace.simps) auto

lemma TrimLeftSpace_step:
  "s \<noteq> [] \<Longrightarrow> IsSpace (fst (DecodeRune s)) \<Longrightarrow>
   TrimLeftSpace s = TrimLeftSpace (drop (snd (DecodeRune s)) s)"
  by (subst TrimLeftSpace.simps) simp

lemma TrimRightSpace_fix: "s = [] \<or> \<not> IsSpace (fst (DecodeLastRune s)) \<Longrightarrow> TrimRightSpace s = s"
  by (subst TrimRightSpace.simps) auto

lemma TrimRightSpace_step:
  "s \<noteq> [] \<Longrightarrow> IsSpace (fst (DecodeLastRune s)) \<Longrightarrow>
   TrimRightSpace s = TrimRightSpace (take (length s - snd (DecodeLastRune s)) s)"
  by (subst TrimRightSpace.simps) simp

lemma TrimLeftSpace_plain: "plain c \<Longrightarrow> TrimLeftSpace (c # s) = c # s"
  by (rule TrimLeftSpace_fix) (simp add: plain_def)

lemma TrimLeftSpace_space: "TrimLeftSpace (CHR '' '' # s) = TrimLeftSpace s"
  by (simp add: TrimLeftSpace_step [of "CHR '' '' # s"] is_ascii_def code_def IsSpace_def)

lemma TrimLeftSpace_not_space: 
  "TrimLeftSpace s = [] \<or> \<not> IsSpace (fst (DecodeRune (TrimLeftSpace s)))"
proof (induction s rule: TrimLeftSpace.induct)
  case (1 s)
  then show ?case
    by (cases "s = [] \<or> \<not> IsSpace (fst (DecodeRune s))")
       (auto simp: TrimLeftSpace_fix TrimLeftSpace_step)
qed

lemma TrimRightSpace_not_space:
  "TrimRightSpace s = [] \<or> \<not> IsSpace (fst (DecodeLastRune (TrimRightSpace s)))"
proof (induction s rule: TrimRightSpace.induct)
  case (1 s)
  then show ?case
    by (cases "s = [] \<or> \<not> IsSpace (fst (DecodeLastRune s))")
       (auto simp: TrimRightSpace_fix TrimRightSpace_step)
qed

lemma TrimRightSpace_prefix: "\<exists>t. s = TrimRightSpace s @ t"
proof (induction s rule: TrimRightSpace.induct)
  case (1 s)
  let ?n = "length s - snd (DecodeLastRune s)"
  show ?case
  proof (cases "s \<noteq> [] \<and> IsSpace (fst (DecodeLastRune s))")
    case True
    with 1 obtain t where "take ?n s = TrimRightSpace (take ?n s) @ t" by blast
    then have "s = TrimRightSpace (take ?n s) @ (t @ drop ?n s)"
      by (metis append.assoc append_take_drop_id)
    with True show ?thesis using TrimRightSpace_step by metis
  qed (simp add: TrimRightSpace_fix)
qed

lemma TrimLeftSpace_suffix: "\<exists>t. s = t @ TrimLeftSpace s"
proof (induction s rule: TrimLeftSpace.induct)
  case (1 s)
  let ?n = "snd (DecodeRune s)"
  show ?case
  proof (cases "s \<noteq> [] \<and> IsSpace (fst (DecodeRune s))")
    case True
    with 1 obtain t where "drop ?n s = t @ TrimLeftSpace (drop ?n s)" by blast
    then have "s = (take ?n s @ t) @ TrimLeftSpace (drop ?n s)"
      by (metis append.assoc append_take_drop_id)
    with True show ?thesis using TrimLeftSpace_step by metis
  qed (simp add: TrimLeftSpace_fix)
qed

lemma TrimRightSpace_idem [simp]: "TrimRightSpace (TrimRightSpace s) = TrimRightSpace s"
  by (rule TrimRightSpace_fix) (rule TrimRightSpace_not_space)

lemma TrimLeftSpace_TrimSpace: "TrimLeftSpace (TrimSpace s) = TrimSpace s"
proof (rule TrimLeftSpace_fix)
  obtain t where t: "TrimLeftSpace s = TrimSpace s @ t"
    unfolding TrimSpace_def using TrimRightSpace_prefix by blast
  show "TrimSpace s = [] \<or> \<not> IsSpace (fst (DecodeRune (TrimSpace s)))"
  proof (rule ccontr)
    assume "\<not> ?thesis"
    then have ne: "TrimSpace s \<noteq> []" and sp: "IsSpace (fst (DecodeRune (TrimSpace s)))" by auto
    then have "fst (DecodeRune (TrimSpace s)) \<noteq> RuneError" by auto
    then have "DecodeRune (TrimLeftSpace s) = DecodeRune (TrimSpace s)"
      using t DecodeRune_append by metis
    with TrimLeftSpace_not_space [of s] t ne sp show False by simp
  qed
qed

lemma TrimSpace_idem [simp]: "TrimSpace (TrimSpace s) = TrimSpace s"
  by (metis TrimLeftSpace_TrimSpace TrimRightSpace_idem TrimSpace_def)

lemma set_TrimSpace: "set (TrimSpace s) \<subseteq> set s"
proof -
  have "set (TrimRightSpace (TrimLeftSpace s)) \<subseteq> set (TrimLeftSpace s)"
    using TrimRightSpace_prefix [of "TrimLeftSpace s"] by (metis Un_upper1 set_append)
  also have "\<dots> \<subseteq> set s"
    using TrimLeftSpace_suffix [of s] by (metis Un_upper2 set_append)
  finally show ?thesis by (simp add: TrimSpace_def)
qed

lemma DecodeLastRune_append:
  assumes v: "v \<noteq> []" and x: "is_ascii x"
  shows "DecodeLastRune (u @ x # v) = DecodeLastRune v"
proof -
  let ?P = "\<lambda>c. \<not> rune_start c"
  let ?k = "length (takeWhile ?P (take 3 (rev v)))"
  have start_x: "\<not> ?P x" using x by (simp add: rune_start_def cont_byte_def is_ascii_def)
  have tw: "takeWhile ?P (take 3 (rev v @ x # rev u)) = takeWhile ?P (take 3 (rev v))"
  proof (cases "3 - length v")
    case (Suc n)
    then have v3: "take 3 (rev v) = rev v" by simp
    show ?thesis
    proof (cases "\<forall>c \<in> set v. ?P c")
      case True
      then have "takeWhile ?P (rev v) = rev v" by simp
      note all = this
      from True start_x Suc show ?thesis by (simp add: takeWhile_append v3 all)
    next
      case False
      with Suc show ?thesis by (auto simp: takeWhile_append v3)
    qed
  qed simp
  show ?thesis
  proof (cases "?k < length v")
    case True
    then have "last_start (u @ x # v) = length u + 1 + last_start v"
      by (simp add: last_start_def tw del: take_append)
    then show ?thesis
      using v by (simp add: DecodeLastRune_def Let_def split: prod.splits)
  next
    case False
    have "?k \<le> length (take 3 (rev v))" by (rule length_takeWhile_le)
    with False have k: "?k = length v" and len: "length v \<le> 3" by auto
    have "takeWhile ?P (rev v) = take (length v) (rev v)"
      using takeWhile_eq_take [of ?P "rev v"] len k by simp
    then have cont: "\<forall>c \<in> set v. cont_byte c"
      by (simp add: takeWhile_eq_all_conv rune_start_def)
    have na: "\<not> is_ascii c" if "cont_byte c" for c
      using that by (simp add: cont_byte_def is_ascii_def)
    obtain c r where cr: "v = c # r" using v by (cases v) auto
    have dec: "DecodeRune (c # r) = (RuneError, 1)"
      using cont cr by (simp add: DecodeRune_def cont_byte_def)
    have "last_start v = 0" using k by (simp add: last_start_def)
    then have small: "DecodeLastRune v = (RuneError, 1)"
      using v cont na dec cr by (simp add: DecodeLastRune_def)
    have "last_start (u @ x # v) = length u" using k by (simp add: last_start_def tw del: take_append)
    then have "DecodeLastRune (u @ x # v) = (RuneError, 1)"
      using v cont na x by (simp add: DecodeLastRune_def)
    with small show ?thesis by simp
  qed
qed

text \<open>An ASCII separator never takes part in the rune before it.\<close>

lemma DecodeRune_sep:
  assumes "is_ascii x" "fst (DecodeRune (h @ x # y)) \<noteq> RuneError" "h \<noteq> []"
  shows "DecodeRune (h @ x # y) = DecodeRune h"
proof -
  have c: "\<not> cont_byte x" "\<not> second_ok z x" for z
    using assms(1) by (simp_all add: is_ascii_def cont_byte_def second_ok_def Let_def)
  consider a where "h = [a]" | a b where "h = [a, b]" | a b c where "h = [a, b, c]"
    | a b c d r where "h = a # b # c # d # r"
    using assms(3) by (metis list.exhaust)
  then show ?thesis
    using assms(2) by cases (simp_all add: DecodeRune_def c split: if_splits list.splits)
qed

lemma TrimLeftSpace_fix_iff: "TrimLeftSpace s = s \<longleftrightarrow> s = [] \<or> \<not> IsSpace (fst (DecodeRune s))"
  using TrimLeftSpace_fix [of s] TrimLeftSpace_not_space [of s] by auto

lemma TrimLeftSpace_sep_iff:
  assumes "h \<noteq> []" "is_ascii x"
  shows "TrimLeftSpace (h @ x # y) = h @ x # y \<longleftrightarrow> TrimLeftSpace h = h"
proof -
  have "IsSpace (fst (DecodeRune (h @ x # y))) \<longleftrightarrow> IsSpace (fst (DecodeRune h))"
    using DecodeRune_sep [OF assms(2) _ assms(1), of y] DecodeRune_append [of h "x # y"]
    by (metis RuneError_not_space)
  then show ?thesis using assms(1) by (simp add: TrimLeftSpace_fix_iff)
qed

text \<open>A value that survives trimming: what the parser stores and the writer prints.\<close>

definition trimmed :: "string \<Rightarrow> bool" where
  "trimmed v \<longleftrightarrow> TrimSpace v = v"

lemma trimmed_TrimSpace [simp]: "trimmed (TrimSpace s)"
  by (simp add: trimmed_def)

lemma trimmed_left: "trimmed v \<Longrightarrow> TrimLeftSpace v = v"
  using TrimLeftSpace_TrimSpace [of v] by (simp add: trimmed_def)

lemma trimmed_right: "trimmed v \<Longrightarrow> TrimRightSpace v = v"
  using trimmed_left [of v] by (simp add: trimmed_def TrimSpace_def)

lemma TrimRightSpace_append:
  assumes "v \<noteq> []" and "is_ascii x" and "TrimRightSpace v = v"
  shows "TrimRightSpace (u @ x # v) = u @ x # v"
proof (rule TrimRightSpace_fix)
  have "\<not> IsSpace (fst (DecodeLastRune v))"
    using TrimRightSpace_not_space [of v] assms by auto
  then show "u @ x # v = [] \<or> \<not> IsSpace (fst (DecodeLastRune (u @ x # v)))"
    using assms DecodeLastRune_append by simp
qed

lemma TrimSpace_plain_append:
  assumes "plain c" and "v \<noteq> []" and "is_ascii x" and "trimmed v"
  shows "TrimSpace (c # u @ x # v) = c # u @ x # v"
proof -
  have "TrimRightSpace ((c # u) @ x # v) = (c # u) @ x # v"
    using assms by (intro TrimRightSpace_append trimmed_right)
  then show ?thesis using assms by (simp add: TrimSpace_def TrimLeftSpace_plain)
qed

lemma TrimSpace_space_Cons: "TrimSpace (CHR '' '' # s) = TrimSpace s"
  by (simp add: TrimSpace_def TrimLeftSpace_space)

lemma plain_ends_trimmed:
  assumes "s = [] \<or> plain (hd s) \<and> plain (last s)"
  shows "TrimSpace s = s"
proof (cases s)
  case (Cons c r)
  with assms have "TrimLeftSpace s = s" by (simp add: TrimLeftSpace_plain)
  moreover have "TrimRightSpace s = s"
    using assms Cons by (intro TrimRightSpace_fix) (auto simp: DecodeLastRune_def plain_def)
  ultimately show ?thesis by (simp add: TrimSpace_def)
qed (simp add: TrimSpace_def TrimLeftSpace_fix TrimRightSpace_fix)

lemma TrimSpace_trailing_space:
  assumes "s = [] \<or> plain (hd s) \<and> plain (last s)"
  shows "TrimSpace (s @ '' '') = s"
proof -
  have last: "DecodeLastRune (s @ '' '') = (32, 1)"
    by (simp add: DecodeLastRune_def is_ascii_def code_def)
  have "TrimRightSpace (s @ '' '') = TrimRightSpace s"
    by (subst TrimRightSpace_step) (simp_all add: last IsSpace_def)
  then have r: "TrimRightSpace (s @ '' '') = s"
    using plain_ends_trimmed [OF assms] by (simp add: trimmed_right trimmed_def)
  show ?thesis
  proof (cases s)
    case Nil
    then show ?thesis by (simp add: TrimSpace_space_Cons plain_ends_trimmed)
  next
    case (Cons c t)
    with assms r show ?thesis by (simp add: TrimSpace_def TrimLeftSpace_plain)
  qed
qed

text \<open>Lower-casing an ASCII prefix is bytewise and does not touch the rest.\<close>

lemma EncodeRune_lower_ascii:
  assumes "is_ascii c"
  shows "EncodeRune (toLowerRune T (code c)) = [ascii_lower c]"
  using assms
  by (auto simp: is_ascii_def toLowerRune_def EncodeRune_def ascii_lower_def Let_def)

lemma ToLower_append:
  "list_all is_ascii s \<Longrightarrow> ToLower T (s @ t) = map ascii_lower s @ ToLower T t"
proof (induction s)
  case (Cons c s)
  then have "ToLower T (c # (s @ t)) = [ascii_lower c] @ ToLower T (s @ t)"
    by (simp add: ToLower_def EncodeRune_lower_ascii)
  with Cons show ?case by simp
qed simp

lemma ToLower_Nil [simp]: "ToLower T [] = []"
  by (simp add: ToLower_def)

lemma ToLower_ascii: "list_all is_ascii s \<Longrightarrow> ToLower T s = map ascii_lower s"
  using ToLower_append [of s T "[]"] by simp

text \<open>Searching\<close>

lemma IndexByte_append [simp]:
  "c \<notin> set s \<Longrightarrow> IndexByte (s @ c # t) c = Some (length s)"
  by (induction s) auto

lemma IndexByte_None_iff: "IndexByte s c = None \<longleftrightarrow> c \<notin> set s"
  by (induction s) auto

lemma IndexByte_SomeD: "IndexByte s c = Some n \<Longrightarrow> n < length s \<and> s ! n = c \<and> c \<notin> set (take n s)"
proof (induction s arbitrary: n)
  case (Cons x s)
  then show ?case by (cases n) (auto split: if_splits)
qed simp

lemma LastIndexByte_None_iff: "LastIndexByte s c = None \<longleftrightarrow> c \<notin> set s"
  by (induction s) (auto split: option.splits)

lemma LastIndexByte_append [simp]:
  "c \<notin> set t \<Longrightarrow> LastIndexByte (s @ c # t) c = Some (length s)"
proof (induction s)
  case Nil
  then show ?case using LastIndexByte_None_iff [of t c] by simp
next
  case (Cons x s)
  then show ?case by simp
qed

lemma LastIndexByte_SomeD:
  "LastIndexByte s c = Some n \<Longrightarrow> n < length s \<and> s ! n = c \<and> c \<notin> set (drop (Suc n) s)"
proof (induction s arbitrary: n)
  case (Cons x s)
  then show ?case
    using LastIndexByte_None_iff [of s c]
    by (auto split: option.splits if_splits)
qed simp

text \<open>Splitting and joining\<close>

lemma split_from_no_sep: "c \<notin> set s \<Longrightarrow> split_from acc s c = [acc @ s]"
  by (induction s arbitrary: acc) auto

lemma split_from_append:
  "c \<notin> set s \<Longrightarrow> split_from acc (s @ c # t) c = (acc @ s) # split_from [] t c"
  by (induction s arbitrary: acc) auto

lemma Split_no_sep: "c \<notin> set s \<Longrightarrow> Split s c = [s]"
  by (simp add: Split_def split_from_no_sep)

lemma Split_append: "c \<notin> set s \<Longrightarrow> Split (s @ c # t) c = s # Split t c"
  by (simp add: Split_def split_from_append)

lemma split_from_parts: "c \<notin> set acc \<Longrightarrow> p \<in> set (split_from acc s c) \<Longrightarrow> c \<notin> set p \<and> set p \<subseteq> set acc \<union> set s"
proof (induction s arbitrary: acc)
  case (Cons x s)
  show ?case
  proof (cases "x = c")
    case True
    with Cons.prems Cons.IH [of "[]"] show ?thesis by auto
  next
    case False
    with Cons.prems Cons.IH [of "acc @ [x]"] show ?thesis by auto
  qed
qed simp

lemma Split_parts: "p \<in> set (Split s c) \<Longrightarrow> c \<notin> set p \<and> set p \<subseteq> set s"
  using split_from_parts [of c "[]" p s] by (auto simp: Split_def)

lemma Split_not_Nil [simp]: "Split s c \<noteq> []"
proof -
  have "split_from acc s c \<noteq> []" for acc by (induction s arbitrary: acc) auto
  then show ?thesis by (simp add: Split_def)
qed

lemma Split_lines:
  "\<forall>l \<in> set ls. c \<notin> set l \<Longrightarrow> Split (concat (map (\<lambda>l. l @ [c]) ls) @ t) c = ls @ Split t c"
proof (induction ls)
  case (Cons l ls)
  then show ?case using Split_append [of c l] by simp
qed simp

lemma Split_Nil [simp]: "Split [] c = [[]]"
  by (simp add: Split_def)

lemma set_Join: "set (Join ss sep) \<subseteq> \<Union> (set ` set ss) \<union> set sep"
  by (induction ss sep rule: Join.induct) auto

lemma Split_Join:
  assumes "\<forall>s \<in> set ss. c \<notin> set s" and "ss \<noteq> []"
  shows "Split (Join ss [c]) c = ss"
  using assms
proof (induction ss "[c]" rule: Join.induct)
  case (3 s t ss)
  then show ?case using Split_append [of c s] by simp
qed (simp_all add: Split_no_sep)

text \<open>The comma-separated lists the writer prints have a space after each comma.\<close>

lemma split_from_acc:
  "split_from acc u c = (acc @ hd (split_from [] u c)) # tl (split_from [] u c)"
proof (induction u arbitrary: acc)
  case (Cons x u)
  show ?case
  proof (cases "x = c")
    case False
    then show ?thesis using Cons.IH [of "acc @ [x]"] Cons.IH [of "[x]"]
      by (metis append.assoc append_Nil list.sel(1,3) split_from.simps(2))
  qed simp
qed simp

lemma Split_Cons: "x \<noteq> c \<Longrightarrow> Split (x # u) c = (x # hd (Split u c)) # tl (Split u c)"
  using split_from_acc [of "[x]" u c] by (simp add: Split_def)

lemma Split_Join_space:
  assumes "\<forall>s \<in> set ss. c \<notin> set s" and "ss \<noteq> []" and "c \<noteq> CHR '' ''"
  shows "Split (Join ss [c, CHR '' '']) c = hd ss # map (\<lambda>s. CHR '' '' # s) (tl ss)"
  using assms
proof (induction ss "[c, CHR '' '']" rule: Join.induct)
  case (3 s t ss)
  define J where "J = Join (t # ss) [c, CHR '' '']"
  have J: "Split J c = t # map (\<lambda>s. CHR '' '' # s) ss"
    using 3 by (simp add: J_def)
  have "Join (s # t # ss) [c, CHR '' ''] = s @ c # CHR '' '' # J"
    by (simp add: J_def)
  moreover have "Split (CHR '' '' # J) c = (CHR '' '' # t) # map (\<lambda>s. CHR '' '' # s) ss"
    using Split_Cons [of "CHR '' ''" c J] J "3.prems" by simp
  ultimately show ?case
    using "3.prems" Split_append [of c s "CHR '' '' # J"] by simp
qed (simp_all add: Split_no_sep)

end
