(* ===== verification/GoConvFacts.thy ===== *)
theory GoConvFacts
  imports GoConv GoStringFacts
begin

text \<open>
  The conversions of \<^verbatim>\<open>GoConv\<close> are inverse to one another: decimal numbers, base64 and hex
  text are read back to the value that was printed, and the printed text is made of plain
  characters none of which is a separator of the configuration format.
\<close>


lemma all_lt_code: "(\<forall>n < k. P n) \<longleftrightarrow> list_all P [0..<k]" for k :: nat
  by (auto simp: list_all_iff)

lemma digit_char: "n < 10 \<Longrightarrow> is_digit (char_of (48 + n)) \<and> digit_val (char_of (48 + n)) = n"
  by (simp add: is_digit_def digit_val_def code_char_of)

lemma dec_val_snoc: "dec_val (s @ [c]) = 10 * dec_val s + digit_val c"
  by (simp add: dec_val_def)

lemma dec_digits: "all_digits (dec n) \<and> dec_val (dec n) = n"
proof (induction n rule: dec.induct)
  case (1 n)
  show ?case
  proof (cases "n < 10")
    case True
    then show ?thesis
      using digit_char [of n] by (simp add: dec.simps [of n] all_digits_def dec_val_def)
  next
    case False
    then show ?thesis
      using 1 digit_char [of "n mod 10"]
      by (simp add: dec.simps [of n] all_digits_def dec_val_snoc)
  qed
qed

lemma all_digits_dec [simp]: "all_digits (dec n)"
  and dec_val_dec [simp]: "dec_val (dec n) = n"
  using dec_digits by auto

lemma dec_not_Nil [simp]: "dec n \<noteq> []"
  using all_digits_dec [of n] by (auto simp: all_digits_def simp del: all_digits_dec)

lemma set_dec: "c \<in> set (dec n) \<Longrightarrow> is_digit c"
  using all_digits_dec [of n] by (auto simp: all_digits_def list_all_iff simp del: all_digits_dec)

lemma hd_dec: "0 < n \<Longrightarrow> hd (dec n) \<noteq> CHR ''0''"
proof (induction n rule: dec.induct)
  case (1 n)
  show ?case
  proof (cases "n < 10")
    case True
    then have "code (char_of (48 + n)) \<noteq> code CHR ''0''"
      using "1.prems" by (simp add: code_char_of) (simp add: code_def)
    then have "char_of (48 + n) \<noteq> CHR ''0''" by auto
    then show ?thesis using True by (simp add: dec.simps [of n])
  next
    case False
    then show ?thesis using 1 by (simp add: dec.simps [of n])
  qed
qed

lemma dec_single: "length (dec n) = 1 \<longleftrightarrow> n < 10"
  by (subst dec.simps) simp

lemma ParseUint_dec: "n < 2 ^ bits \<Longrightarrow> ParseUint (dec n) bits = Some n"
  by (simp add: ParseUint_def)

lemma Atoi_digits: "all_digits s \<Longrightarrow> dec_val s < 2 ^ 63 \<Longrightarrow> Atoi s = Some (int (dec_val s))"
  by (cases s) (auto simp: Atoi_def all_digits_def is_digit_def code_def)

lemma Atoi_dec: "n < 2 ^ 63 \<Longrightarrow> Atoi (dec n) = Some (int n)"
  by (simp add: Atoi_digits)

lemma is_digit_plain: "is_digit c \<Longrightarrow> plain c"
  by (auto simp: is_digit_def plain_def is_ascii_def IsSpace_def)


text \<open>Base64\<close>

lemma enc6_facts:
  assumes "n < 64"
  shows "dec6 (enc6 n) = Some n" and "plain (enc6 n)" and "enc6 n \<notin> set ''=#,''"
    and "code (enc6 n) \<noteq> 10" and "code (enc6 n) \<noteq> 13"
proof -
  have "\<forall>n < 64. dec6 (enc6 n) = Some n \<and> plain (enc6 n) \<and> enc6 n \<notin> set ''=#,'' \<and>
                  code (enc6 n) \<noteq> 10 \<and> code (enc6 n) \<noteq> 13"
    unfolding all_lt_code by code_simp
  with assms show "dec6 (enc6 n) = Some n" and "plain (enc6 n)" and "enc6 n \<notin> set ''=#,''"
    and "code (enc6 n) \<noteq> 10" and "code (enc6 n) \<noteq> 13"
    by blast+
qed


lemma unat_byte_less [simp]: "unat (b :: byte) < 256"
  using unsigned_less [of b, where 'a = nat] by simp

lemma to_byte_unat [simp]: "to_byte (unat b) = b"
  by (simp add: to_byte_def)

lemma byte_div:
  "unat (b :: byte) div 16 div 16 = 0" "unat b div 64 div 4 = 0"
  "unat b div 16 mod 16 = unat b div 16" "unat b div 64 mod 4 = unat b div 64"
proof -
  have "unat b div 16 < 16" "unat b div 64 < 4" using unat_byte_less [of b] by linarith+
  then show "unat b div 16 div 16 = 0" "unat b div 64 div 4 = 0"
    "unat b div 16 mod 16 = unat b div 16" "unat b div 64 mod 4 = unat b div 64" by simp_all
qed

lemma base64_bounds:
  "unat (a :: byte) div 4 < 64" "unat a mod 4 * 16 < 64" "unat a mod 16 * 4 < 64"
  "unat a mod 4 * 16 + unat (b :: byte) div 16 < 64" "unat a mod 16 * 4 + unat b div 64 < 64"
  "unat a mod 64 < 64"
proof -
  have "unat b div 16 < 16" "unat b div 64 < 4" using unat_byte_less [of b] by linarith+
  moreover have "unat a mod 4 < 4" "unat a mod 16 < 16" by simp_all
  ultimately show "unat a mod 4 * 16 + unat b div 16 < 64" "unat a mod 16 * 4 + unat b div 64 < 64"
    "unat a mod 4 * 16 < 64" "unat a mod 16 * 4 < 64" by linarith+
  show "unat a div 4 < 64" using unat_byte_less [of a] by linarith
  show "unat a mod 64 < 64" by simp
qed

lemma base64_groups_Encode: "base64_groups (EncodeBase64 bs) = Some bs"
proof (induction bs rule: EncodeBase64.induct)
  case (2 a)
  show ?case by (simp add: enc6_facts base64_bounds)
next
  case (3 a b)
  have "enc6 (unat b mod 16 * 4) \<noteq> CHR ''=''"
    using enc6_facts(3) [of "unat b mod 16 * 4"] base64_bounds by simp
  then show ?case by (simp add: enc6_facts base64_bounds byte_div)
next
  case (4 a b c r)
  have "enc6 (unat b mod 16 * 4 + unat c div 64) \<noteq> CHR ''=''" "enc6 (unat c mod 64) \<noteq> CHR ''=''"
    using enc6_facts(3) [of "unat b mod 16 * 4 + unat c div 64"] enc6_facts(3) [of "unat c mod 64"]
      base64_bounds by simp_all
  with 4 show ?case by (simp add: enc6_facts base64_bounds byte_div)
qed simp

lemma set_EncodeBase64:
  "c \<in> set (EncodeBase64 bs) \<Longrightarrow> plain c \<and> c \<notin> set ''#,'' \<and> code c \<noteq> 10 \<and> code c \<noteq> 13"
proof (induction bs rule: EncodeBase64.induct)
  have eq: "plain CHR ''=''" "code CHR ''='' = 61"
    by (simp_all add: plain_def is_ascii_def code_def IsSpace_def)
  {
    case (2 a)
    then show ?case using eq enc6_facts base64_bounds by auto
  next
    case (3 a b)
    then show ?case using eq enc6_facts base64_bounds by auto
  next
    case (4 a b c r)
    then show ?case using eq enc6_facts base64_bounds by auto
  }
qed simp

theorem DecodeBase64_Encode: "DecodeBase64 (EncodeBase64 bs) = Some bs"
proof -
  have "filter (\<lambda>c. code c \<noteq> 10 \<and> code c \<noteq> 13) (EncodeBase64 bs) = EncodeBase64 bs"
    using set_EncodeBase64 by (simp add: filter_id_conv)
  then show ?thesis by (simp add: DecodeBase64_def base64_groups_Encode)
qed

lemma EncodeBase64_not_Nil: "bs \<noteq> [] \<Longrightarrow> EncodeBase64 bs \<noteq> []"
  by (cases bs rule: EncodeBase64.cases) auto

text \<open>Hexadecimal\<close>

lemma hex_facts:
  assumes "n < 16"
  shows "hex_val (hex_digit n) = Some n" and "plain (hex_digit n)"
    and "hex_digit n \<notin> set ''=#,.:/%'' "
proof -
  have "\<forall>n < 16. hex_val (hex_digit n) = Some n \<and> plain (hex_digit n) \<and> hex_digit n \<notin> set ''=#,.:/%'' "
    unfolding all_lt_code by code_simp
  with assms show "hex_val (hex_digit n) = Some n" and "plain (hex_digit n)"
    and "hex_digit n \<notin> set ''=#,.:/%''" by blast+
qed

theorem DecodeHex_Encode: "DecodeHex (EncodeHex bs) = Some bs"
proof (induction bs)
  case (Cons b bs)
  have "unat b div 16 < 16" using unat_byte_less [of b] by linarith
  with Cons show ?case by (simp add: hex_facts)
qed simp

end
