(* ===== verification/GoNetFacts.thy ===== *)
theory GoNetFacts
  imports GoNet GoConvFacts
begin

text \<open>
  \<^verbatim>\<open>net.ParseIP\<close> reads back what \<^verbatim>\<open>IP.String\<close> prints, for IPv4 and for IPv6 with its zero
  run compressed.
\<close>


subsection \<open>IPv4\<close>

lemma parse_octet_dec: "parse_octet (dec (unat b)) = Some b"
proof -
  have "length (dec (unat b)) = 1 \<or> hd (dec (unat b)) \<noteq> CHR ''0''"
    using hd_dec [of "unat b"] dec_single [of "unat b"] by (cases "unat b = 0") auto
  then show ?thesis by (simp add: parse_octet_def)
qed

lemma dec_no: "\<not> is_digit c \<Longrightarrow> c \<notin> set (dec n)"
  using set_dec by blast

lemma not_digit [simp]: "\<not> is_digit CHR ''.''" "\<not> is_digit CHR '':''" "\<not> is_digit CHR ''%''"
  "\<not> is_digit CHR ''/''" "\<not> is_digit CHR '',''" "\<not> is_digit CHR ''#''" "\<not> is_digit CHR ''-''"
  "\<not> is_digit CHR ''=''" "\<not> is_digit CHR 0x0A"
  by (simp_all add: is_digit_def code_def)

lemma length_4E:
  assumes "length xs = 4"
  obtains a b c d where "xs = [a, b, c, d]"
proof -
  have "length xs = Suc (Suc (Suc (Suc 0)))" using assms by simp
  then show thesis using that by (auto simp: length_Suc_conv)
qed

lemma parseIPv4Fields_string:
  assumes "length ip = 4"
  shows "parseIPv4Fields (v4_string ip) = Some ip"
proof -
  obtain a b c d where ip: "ip = [a, b, c, d]"
    using assms by (rule length_4E)
  have "Split (v4_string ip) CHR ''.'' = map (\<lambda>b. dec (unat b)) ip"
    unfolding v4_string_def by (rule Split_Join) (auto simp: dec_no ip)
  then show ?thesis by (simp add: parseIPv4Fields_def ip parse_octet_dec)
qed

lemma filter_dec_sep: "filter (\<lambda>c. c = CHR ''.'' \<or> c = CHR '':'' \<or> c = CHR ''%'') (dec n) = []"
  using dec_no [of _ n] by (auto simp: filter_empty_conv)

lemma ParseIP_v4_string:
  assumes "length ip = 4"
  shows "ParseIP (v4_string ip) = Some (v4InV6Prefix @ ip)"
proof -
  obtain a b c d where ip: "ip = [a, b, c, d]"
    using assms by (rule length_4E)
  show ?thesis
    using parseIPv4Fields_string [OF assms]
    by (simp add: ParseIP_def filter_dec_sep v4_string_def ip)
qed

subsection \<open>IPv6\<close>

definition group_bytes :: "nat list \<Rightarrow> byte list" where
  "group_bytes gs = concat (map (\<lambda>g. [to_byte (g div 256), to_byte (g mod 256)]) gs)"

lemma group_bytes_simps [simp]:
  "group_bytes [] = []"
  "group_bytes (g # gs) = to_byte (g div 256) # to_byte (g mod 256) # group_bytes gs"
  "group_bytes (xs @ ys) = group_bytes xs @ group_bytes ys"
  by (simp_all add: group_bytes_def)

lemma length_group_bytes [simp]: "length (group_bytes gs) = 2 * length gs"
  by (induction gs) simp_all

lemma group_bytes_groups: "even (length ip) \<Longrightarrow> group_bytes (v6_groups ip) = ip"
  by (induction ip rule: v6_groups.induct) (simp_all add: div_mult_self3)

lemma group_bytes_zeros: "group_bytes (replicate n 0) = replicate (2 * n) 0"
  by (induction n) (simp_all add: to_byte_def)

lemma length_v6_groups: "length (v6_groups ip) = length ip div 2"
  by (induction ip rule: v6_groups.induct) simp_all

lemma v6_groups_bound: "g \<in> set (v6_groups ip) \<Longrightarrow> g < 65536"
proof (induction ip rule: v6_groups.induct)
  case (1 a b r)
  have "unat a * 256 + unat b < 65536"
    using unat_byte_less [of a] unat_byte_less [of b] by linarith
  with 1 show ?case by auto
qed simp_all

lemma hex_group_digits:
  assumes "n < 65536" "c \<in> set (hex_group n)"
  shows "\<exists>k < 16. c = hex_digit k"
proof -
  have "n div 4096 < 16" using assms(1) by auto
  then have "set (hex_group n) \<subseteq> hex_digit ` {..<16}"
    by (auto simp: hex_group_def intro!: imageI)
  then show ?thesis using assms(2) by auto
qed

lemma hex_group_hex:
  assumes "n < 65536" "c \<in> set (hex_group n)"
  shows "is_hex c \<and> c \<notin> set ''=#,.:/%'' \<and> plain c"
proof -
  obtain k where k: "k < 16" "c = hex_digit k" using hex_group_digits [OF assms] by blast
  show ?thesis unfolding k(2) is_hex_def hex_facts(1) [OF k(1)]
    using hex_facts(2, 3) [OF k(1)] by blast
qed

lemma hex_group_length: "hex_group n \<noteq> []" "length (hex_group n) \<le> 4"
  by (auto simp: hex_group_def)

lemma hex_num_group:
  assumes "n < 65536"
  shows "hex_num (hex_group n) = n"
proof -
  have d: "n div 4096 < 16" "n div 256 mod 16 < 16" "n div 16 mod 16 < 16" "n mod 16 < 16"
    "n < 256 \<Longrightarrow> n div 16 < 16" "n < 4096 \<Longrightarrow> n div 256 < 16"
    using assms by auto
  have e: "n = 16 * (n div 16) + n mod 16" "n div 16 = 16 * (n div 256) + n div 16 mod 16"
    "n div 256 = 16 * (n div 4096) + n div 256 mod 16"
    using mult_div_mod_eq [of 16 n] mult_div_mod_eq [of 16 "n div 16"] mult_div_mod_eq [of 16 "n div 256"]
    by (simp_all add: div_mult2_eq [symmetric])
  consider "n < 16" | "16 \<le> n" "n < 256" | "256 \<le> n" "n < 4096" | "4096 \<le> n" by linarith
  then show ?thesis
  proof cases
    case 3
    then have "hex_num (hex_group n) = 256 * (n div 256) + 16 * (n div 16 mod 16) + n mod 16"
      using d by (simp add: hex_group_def hex_num_def hex_facts)
    with e show ?thesis by linarith
  next
    case 4
    then have "hex_num (hex_group n) =
        4096 * (n div 4096) + 256 * (n div 256 mod 16) + 16 * (n div 16 mod 16) + n mod 16"
      using d by (simp add: hex_group_def hex_num_def hex_facts)
    with e show ?thesis by linarith
  qed (use d in \<open>auto simp: hex_group_def hex_num_def hex_facts\<close>)
qed

lemma takeWhile_hex_group:
  "n < 65536 \<Longrightarrow> \<not> is_hex c \<Longrightarrow> takeWhile is_hex (hex_group n @ c # r) = hex_group n"
  "n < 65536 \<Longrightarrow> takeWhile is_hex (hex_group n) = hex_group n"
  using hex_group_hex by (auto simp: takeWhile_append)

lemma not_hex_colon: "\<not> is_hex CHR '':''"
  by (simp add: is_hex_def hex_val_def code_def)

lemma v6_fields_last:
  assumes "n < 65536" "length ip < 16"
  shows "v6_fields ip ell (hex_group n) = Some (ip @ [to_byte (n div 256), to_byte (n mod 256)], ell, [])"
  using assms hex_group_length [of n]
  by (subst v6_fields.simps) (simp add: takeWhile_hex_group hex_num_group)

lemma v6_fields_colon:
  assumes "n < 65536" "length ip < 16" "r \<noteq> []" "hd r \<noteq> CHR '':''"
  shows "v6_fields ip ell (hex_group n @ CHR '':'' # r) =
           v6_fields (ip @ [to_byte (n div 256), to_byte (n mod 256)]) ell r"
  using assms hex_group_length [of n]
  by (subst v6_fields.simps)
     (auto simp: takeWhile_hex_group hex_num_group not_hex_colon Let_def split: list.splits)

lemma v6_fields_ellipsis:
  assumes "n < 65536" "length ip < 16"
  shows "v6_fields ip None (hex_group n @ CHR '':'' # CHR '':'' # r) =
           (let ip' = ip @ [to_byte (n div 256), to_byte (n mod 256)] in
            if r = [] then Some (ip', Some (length ip'), []) else v6_fields ip' (Some (length ip')) r)"
  using assms hex_group_length [of n]
  by (subst v6_fields.simps)
     (simp add: takeWhile_hex_group hex_num_group not_hex_colon Let_def)

lemma hd_hex_group: "n < 65536 \<Longrightarrow> hd (hex_group n @ r) \<noteq> CHR '':''"
  using hex_group_hex [of n "hd (hex_group n)"] hex_group_length [of n] by auto

lemma Join_groups_hd:
  "gs \<noteq> [] \<Longrightarrow> \<forall>g \<in> set gs. g < 65536 \<Longrightarrow>
   Join (map hex_group gs) sep @ r \<noteq> [] \<and> hd (Join (map hex_group gs) sep @ r) \<noteq> CHR '':''"
  using hd_hex_group [where r = "[]"]
  by (cases gs; cases "tl gs") (auto simp: hd_hex_group hex_group_length)

lemma v6_fields_groups:
  assumes "gs \<noteq> []" "\<forall>g \<in> set gs. g < 65536" "length ip + 2 * length gs \<le> 16"
  shows "v6_fields ip ell (Join (map hex_group gs) '':'') = Some (ip @ group_bytes gs, ell, [])"
  using assms
proof (induction gs arbitrary: ip)
  case (Cons g gs)
  show ?case
  proof (cases gs)
    case Nil
    with Cons show ?thesis by (simp add: v6_fields_last)
  next
    case (Cons h hs)
    let ?r = "Join (map hex_group gs) '':''"
    have r: "?r \<noteq> []" "hd ?r \<noteq> CHR '':''"
      using Join_groups_hd [of gs "'':''" "[]"] Cons.prems \<open>gs = h # hs\<close> by auto
    have "Join (map hex_group (g # gs)) '':'' = hex_group g @ CHR '':'' # ?r"
      using \<open>gs = h # hs\<close> by simp
    then have "v6_fields ip ell (Join (map hex_group (g # gs)) '':'') =
        v6_fields (ip @ [to_byte (g div 256), to_byte (g mod 256)]) ell ?r"
      using v6_fields_colon [OF _ _ r, of g ip ell] Cons.prems by simp
    with Cons.IH [of "ip @ [to_byte (g div 256), to_byte (g mod 256)]"] Cons.prems \<open>gs = h # hs\<close>
    show ?thesis by simp
  qed
qed simp

lemma v6_fields_groups_ellipsis:
  assumes "gs \<noteq> []" "\<forall>g \<in> set gs. g < 65536" "length ip + 2 * length gs \<le> 16"
  shows "v6_fields ip None (Join (map hex_group gs) '':'' @ ''::'' @ r) =
           (let ip' = ip @ group_bytes gs in
            if r = [] then Some (ip', Some (length ip'), []) else v6_fields ip' (Some (length ip')) r)"
  using assms
proof (induction gs arbitrary: ip)
  case (Cons g gs)
  show ?case
  proof (cases gs)
    case Nil
    with Cons show ?thesis by (simp add: v6_fields_ellipsis)
  next
    case (Cons h hs)
    let ?r = "Join (map hex_group gs) '':'' @ ''::'' @ r"
    have r: "?r \<noteq> []" "hd ?r \<noteq> CHR '':''"
      using Join_groups_hd [of gs "'':''" "''::'' @ r"] Cons.prems \<open>gs = h # hs\<close> by auto
    have "Join (map hex_group (g # gs)) '':'' @ ''::'' @ r = hex_group g @ CHR '':'' # ?r"
      using \<open>gs = h # hs\<close> by simp
    then have "v6_fields ip None (Join (map hex_group (g # gs)) '':'' @ ''::'' @ r) =
        v6_fields (ip @ [to_byte (g div 256), to_byte (g mod 256)]) None ?r"
      using v6_fields_colon [OF _ _ r, of g ip None] Cons.prems by simp
    with Cons.IH [of "ip @ [to_byte (g div 256), to_byte (g mod 256)]"] Cons.prems \<open>gs = h # hs\<close>
    show ?thesis by simp
  qed
qed simp

subsection \<open>The printed address\<close>

lemma zero_run_zeros: "take (zero_run gs i) (drop i gs) = replicate (zero_run gs i) 0"
proof -
  let ?w = "takeWhile (\<lambda>g. g = 0) (drop i gs)"
  have "?w = replicate (length ?w) 0"
    by (rule replicate_eqI) (auto dest: set_takeWhileD)
  then show ?thesis
    unfolding zero_run_def by (simp only: takeWhile_eq_take [symmetric])
qed

lemma best_run_fold:
  assumes "fold (\<lambda>i (st, n). if 2 \<le> zero_run gs i \<and> n < zero_run gs i then (i, zero_run gs i) else (st, n))
       is p = (st, n)"
    and "snd p = 0 \<or> snd p = zero_run gs (fst p)"
  shows "n = 0 \<or> n = zero_run gs st"
  using assms by (induction "is" arbitrary: p) (auto split: if_splits prod.splits)

lemma best_run_split:
  assumes "best_run gs = (st, n)" "n \<noteq> 0"
  shows "gs = take st gs @ replicate n 0 @ drop (st + n) gs"
proof -
  have "n = zero_run gs st"
    using best_run_fold [OF assms(1) [unfolded best_run_def]] assms(2) by simp
  then have "replicate n 0 @ drop (st + n) gs = drop st gs"
    using zero_run_zeros [of gs st] append_take_drop_id [of n "drop st gs"] by (simp add: add.commute)
  then show ?thesis by (metis append_take_drop_id)
qed

definition v6_char :: "char \<Rightarrow> bool" where
  "v6_char c \<longleftrightarrow> c = CHR '':'' \<or> is_hex c \<and> c \<notin> set ''=#,.:/%'' \<and> plain c"

lemma v6_char_colon: "v6_char CHR '':''"
  by (simp add: v6_char_def)

lemma set_Join_groups:
  assumes "\<forall>g \<in> set gs. g < 65536" "c \<in> set (Join (map hex_group gs) '':'')"
  shows "v6_char c"
proof (cases "c = CHR '':''")
  case False
  then obtain g where g: "g \<in> set gs" "c \<in> set (hex_group g)"
    using assms(2) set_Join [of "map hex_group gs" "'':''"] by auto
  have "g < 65536" using assms(1) g(1) by simp
  from hex_group_hex [OF this g(2)] show ?thesis unfolding v6_char_def by (rule disjI2)
qed (simp add: v6_char_colon)

lemma Join_colon: "2 \<le> length xs \<Longrightarrow> CHR '':'' \<in> set (Join xs '':'')"
  by (cases xs; cases "tl xs") auto

lemma set_v6_string:
  assumes "c \<in> set (v6_string ip)"
  shows "v6_char c"
proof -
  let ?gs = "v6_groups ip"
  obtain st n where b: "best_run ?gs = (st, n)" by fastforce
  have "\<forall>g \<in> set ?gs. g < 65536" "\<forall>g \<in> set (take st ?gs). g < 65536"
    "\<forall>g \<in> set (drop (st + n) ?gs). g < 65536"
    by (auto dest!: in_set_takeD in_set_dropD v6_groups_bound)
  then show ?thesis
    using assms set_Join_groups [of ?gs c] set_Join_groups [of "take st ?gs" c]
      set_Join_groups [of "drop (st + n) ?gs" c]
    by (auto simp: v6_string_def b v6_char_colon Let_def split: if_splits)
qed

lemma v6_string_colon: "length ip = 16 \<Longrightarrow> CHR '':'' \<in> set (v6_string ip)"
  by (cases "best_run (v6_groups ip)") (simp add: v6_string_def Let_def length_v6_groups Join_colon)

lemma parseIPv6_v6_string:
  assumes "length ip = 16"
  shows "parseIPv6 (v6_string ip) = Some ip"
proof -
  let ?gs = "v6_groups ip"
  obtain st n where b: "best_run ?gs = (st, n)" by fastforce
  define xs where "xs = take st ?gs"
  define ys where "ys = drop (st + n) ?gs"
  have bound: "\<forall>g \<in> set ?gs. g < 65536" "\<forall>g \<in> set xs. g < 65536" "\<forall>g \<in> set ys. g < 65536"
    by (auto simp: xs_def ys_def dest!: in_set_takeD in_set_dropD v6_groups_bound)
  have len: "length ?gs = 8" and ip: "group_bytes ?gs = ip"
    using assms by (simp_all add: length_v6_groups group_bytes_groups)
  have nolead: "zs \<noteq> [] \<Longrightarrow> \<forall>g \<in> set zs. g < 65536 \<Longrightarrow> \<not> HasPrefix (Join (map hex_group zs) '':'' @ r) ''::''"
    for zs r using Join_groups_hd [of zs "'':''" r]
    by (cases "Join (map hex_group zs) '':'' @ r") (auto simp: HasPrefix_def)
  show ?thesis
  proof (cases "n = 0")
    case True
    have "?gs \<noteq> []" using len by auto
    then show ?thesis
      using True b bound len ip nolead [of ?gs "[]"] v6_fields_groups [of ?gs "[]" None]
      by (simp add: v6_string_def parseIPv6_def v6_expand_def assms Let_def)
  next
    case False
    have gs: "?gs = xs @ replicate n 0 @ ys"
      using best_run_split [OF b False] by (simp add: xs_def ys_def)
    have s: "v6_string ip = Join (map hex_group xs) '':'' @ ''::'' @ Join (map hex_group ys) '':''"
      using False b by (simp add: v6_string_def xs_def ys_def Let_def)
    have l: "length xs + n + length ys = 8" using gs len by (metis add.assoc length_append length_replicate)
    have out: "ip = group_bytes xs @ replicate (2 * n) 0 @ group_bytes ys"
      using ip gs by (metis group_bytes_simps(3) group_bytes_zeros)
    have n2: "16 - (2 * length xs + 2 * length ys) = 2 * n" using l by linarith
    have small: "2 * length xs + 2 * length ys < 16" using l False by linarith
    have ys: "ys \<noteq> [] \<Longrightarrow> Join (map hex_group ys) '':'' \<noteq> []"
      using Join_groups_hd [of ys "'':''" "[]"] bound by simp
    consider "xs = []" "ys = []" | "xs = []" "ys \<noteq> []" | "xs \<noteq> []" "ys = []" | "xs \<noteq> []" "ys \<noteq> []" by blast
    then show ?thesis
    proof cases
      case 1
      then show ?thesis using s out l by (simp add: parseIPv6_def HasPrefix_def)
    next
      case 2
      then show ?thesis
        using s out small n2 bound ys v6_fields_groups [of ys "[]" "Some 0"] l
        by (simp add: parseIPv6_def HasPrefix_def v6_expand_def)
    next
      case 3
      then show ?thesis
        using s out small n2 bound nolead [of xs "''::''"] v6_fields_groups_ellipsis [of xs "[]" "[]"] l
        by (simp add: parseIPv6_def v6_expand_def)
    next
      case 4
      then show ?thesis
        using s out small n2 bound ys nolead [of xs "''::'' @ Join (map hex_group ys) '':''"]
          v6_fields_groups_ellipsis [of xs "[]" "Join (map hex_group ys) '':''"]
          v6_fields_groups [of ys "group_bytes xs" "Some (2 * length xs)"] l
        by (simp add: parseIPv6_def v6_expand_def Let_def)
    qed
  qed
qed

lemma filter_all_colon:
  assumes "\<forall>c \<in> set s. c = CHR '':'' \<or> c \<noteq> CHR ''.'' \<and> c \<noteq> CHR ''%''" "CHR '':'' \<in> set s"
  shows "\<exists>r. filter (\<lambda>c. c = CHR ''.'' \<or> c = CHR '':'' \<or> c = CHR ''%'') s = CHR '':'' # r"
proof -
  let ?f = "filter (\<lambda>c. c = CHR ''.'' \<or> c = CHR '':'' \<or> c = CHR ''%'') s"
  have "?f \<noteq> []" using assms(2) by (auto simp: filter_empty_conv)
  then obtain c r where f: "?f = c # r" by (cases ?f) blast+
  then have "c \<in> set ?f" by (simp only: list.set_intros)
  then have "c \<in> set s" "c = CHR ''.'' \<or> c = CHR '':'' \<or> c = CHR ''%''" by simp_all
  with bspec [OF assms(1), of c] have "c = CHR '':''" by (elim disjE) simp_all
  with f show ?thesis by blast
qed

lemma ParseIP_v6_string:
  assumes "length ip = 16"
  shows "ParseIP (v6_string ip) = Some ip"
proof -
  have c: "\<forall>c \<in> set (v6_string ip). c = CHR '':'' \<or> c \<noteq> CHR ''.'' \<and> c \<noteq> CHR ''%''"
    by (rule ballI, drule set_v6_string, unfold v6_char_def, elim disjE conjE) simp_all
  have "CHR ''%'' \<notin> set (v6_string ip)" using bspec [OF c, of "CHR ''%''"] by (intro notI) simp
  moreover obtain r where "filter (\<lambda>c. c = CHR ''.'' \<or> c = CHR '':'' \<or> c = CHR ''%'') (v6_string ip) = CHR '':'' # r"
    using filter_all_colon [OF c v6_string_colon [OF assms]] by blast
  ultimately show ?thesis by (simp add: ParseIP_def parseIPv6_v6_string assms)
qed

text \<open>\<^verbatim>\<open>ParseIP\<close> reads back what \<^verbatim>\<open>IP.String\<close> prints, in the 16-byte form.\<close>

lemma ParseIP_IPString:
  assumes "length ip = 4 \<or> length ip = 16"
  shows "ParseIP (IPString ip) = To16 ip"
proof (cases "To4 ip")
  case None
  then show ?thesis using assms
    by (auto simp: IPString_def To16_def To4_def ParseIP_v6_string split: if_splits)
next
  case (Some p4)
  then have "length p4 = 4" "To16 ip = Some (v4InV6Prefix @ p4)" using assms
    by (auto simp: To4_def To16_def split: if_splits) (metis append_take_drop_id)
  then show ?thesis using Some assms
    by (auto simp: IPString_def ParseIP_v4_string)
qed

lemma v6_fields_length:
  "v6_fields ip ell s = Some (ip', ell', r) \<Longrightarrow> even (length ip) \<Longrightarrow> length ip \<le> 16 \<Longrightarrow>
   even (length ip') \<and> length ip' \<le> 16"
proof (induction ip ell s arbitrary: ip' ell' r rule: v6_fields.induct)
  case (1 ip ell s)
  let ?h = "takeWhile is_hex s"
  let ?r = "drop (length ?h) s"
  let ?ip = "ip @ [to_byte (hex_num ?h div 256), to_byte (hex_num ?h mod 256)]"
  note eq = "1.prems"(1) [unfolded v6_fields.simps [of ip ell s] Let_def]
  show ?case
  proof (cases "16 \<le> length ip")
    case True
    with "1.prems" eq show ?thesis by simp
  next
    case False
    then have "length ip < 16" by simp
    with "1.prems"(2) have "length ip \<le> 14" by presburger
    then have even: "even (length ?ip)" "length ?ip \<le> 16"
      using "1.prems"(2) by simp_all
    have v4: "length p = 4" if "parseIPv4Fields t = Some p" for t p
      using that by (auto simp: parseIPv4Fields_def split: list.splits option.splits)
    have bad: "\<not> (?h = [] \<or> 4 < length ?h)"
      using False eq by auto
    show ?thesis
    proof (cases "?r \<noteq> [] \<and> hd ?r = CHR ''.''")
      case True
      with False bad "1.prems"(2) eq show ?thesis
        by (auto simp: v4 split: if_splits option.splits)
    next
      case dot: False
      note IH = "1.IH"(1) [OF False refl refl refl bad dot refl] "1.IH"(2) [OF False refl refl refl bad dot refl]
      show ?thesis
        using False bad dot eq even IH
        by (auto split: if_splits option.splits list.splits)
    qed
  qed
qed

lemma ParseIP_length:
  assumes "ParseIP s = Some ip"
  shows "length ip = 16"
proof -
  have v4: "length p = 4" if "parseIPv4Fields t = Some p" for t p
    using that by (auto simp: parseIPv4Fields_def split: list.splits option.splits)
  have v6: "length p = 16" if parse: "parseIPv6 t = Some p" for t p
  proof (cases "HasPrefix t ''::'' \<and> length t = 2")
    case False
    then obtain q e where q: "v6_fields [] (if HasPrefix t ''::'' then Some 0 else None)
          (if HasPrefix t ''::'' then drop 2 t else t) = Some (q, e, [])" and p: "v6_expand q e = Some p"
      using parse unfolding parseIPv6_def Let_def by (auto split: option.splits list.splits if_splits)
    have "length q \<le> 16" using v6_fields_length [OF q] by simp
    with p show ?thesis by (auto simp: v6_expand_def split: if_splits option.splits)
  qed (use that in \<open>auto simp: parseIPv6_def\<close>)
  show ?thesis
    using assms v4 v6 unfolding ParseIP_def
    by (auto simp: v4InV6Prefix_def split: list.splits if_splits)
qed

end
