(* ===== verification/ConfCodec.thy ===== *)
theory ConfCodec
  imports ConfUapi GoNetFacts
begin

text \<open>
  The values of a configuration and their texts. A \<open>codec\<close> is a printer with a parser that
  reads back everything in its domain; a \<open>list_codec\<close> also prints texts that may stand between
  commas on one line. The provider side of both contracts is discharged here for the
  numbers, keys, addresses and endpoints of \<^verbatim>\<open>core/conf\<close>; the writers and readers use
  the lemmas proved once in the locales.
\<close>

section \<open>Stored texts\<close>

definition storable :: "string \<Rightarrow> bool" where
  "storable v \<longleftrightarrow> v \<noteq> [] \<and> trimmed v \<and> CHR ''#'' \<notin> set v \<and> newline \<notin> set v"

definition list_item :: "string \<Rightarrow> bool" where
  "list_item v \<longleftrightarrow> storable v \<and> CHR '','' \<notin> set v"

definition token_text :: "string \<Rightarrow> bool" where
  "token_text v \<longleftrightarrow> v \<noteq> [] \<and> list_all plain v \<and> CHR ''#'' \<notin> set v \<and> CHR '','' \<notin> set v"

lemma plain_newline [simp]: "\<not> plain newline"
  by (simp add: plain_def newline_def IsSpace_def code_def)

lemma token_text_item: "token_text v \<Longrightarrow> list_item v"
proof -
  assume t: "token_text v"
  then have "v \<noteq> []" "plain (hd v)" "plain (last v)" by (auto simp: token_text_def list_all_iff)
  then have "trimmed v" by (simp add: trimmed_def plain_ends_trimmed)
  moreover have "newline \<notin> set v" using t plain_newline by (metis list_all_iff token_text_def)
  ultimately show ?thesis using t by (simp add: token_text_def list_item_def storable_def)
qed

lemma token_text_append:
  "token_text u \<Longrightarrow> token_text v \<Longrightarrow> token_text (u @ v)"
  by (simp add: token_text_def)

lemma token_dec [simp]: "token_text (dec n)"
  using dec_no [of "CHR ''#''" n] dec_no [of "CHR '',''" n]
  by (auto simp: token_text_def list_all_iff dest: set_dec intro: is_digit_plain)

lemma splitList_Join:
  assumes "ss \<noteq> []" "\<forall>s \<in> set ss. list_item s"
  shows "splitList (Join ss '', '') = Inr ss"
proof -
  have "\<forall>s \<in> set ss. CHR '','' \<notin> set s" using assms(2) by (auto simp: list_item_def)
  then have "Split (Join ss '', '') CHR '','' = hd ss # map (\<lambda>s. CHR '' '' # s) (tl ss)"
    using assms(1) by (rule Split_Join_space) simp
  moreover have "hd ss # tl ss = ss" using assms(1) by simp
  moreover have "TrimSpace s = s \<and> TrimSpace (CHR '' '' # s) = s \<and> s \<noteq> []" if "s \<in> set ss" for s
    using assms(2) that by (simp add: list_item_def storable_def trimmed_def TrimSpace_space_Cons)
  ultimately show ?thesis
    by (cases ss) (simp_all add: splitList_def rmap_all_Inr)
qed

section \<open>Codecs\<close>

locale codec =
  fixes enc :: "'a \<Rightarrow> string" and deco :: "string \<Rightarrow> 'a result" and ok :: "'a \<Rightarrow> bool"
  assumes deco_enc: "ok x \<Longrightarrow> deco (enc x) = Inr x"
begin

lemma enc_inj: "ok x \<Longrightarrow> ok y \<Longrightarrow> enc x = enc y \<Longrightarrow> x = y"
  by (metis deco_enc Inr_inject)

lemma enc_inj_on: "inj_on enc {x. ok x}"
  by (auto intro: inj_onI enc_inj)

lemma map_deco_enc: "\<forall>x \<in> set xs. ok x \<Longrightarrow> rmap deco (map enc xs) = Inr xs"
  by (simp add: rmap_all_Inr deco_enc)

end

locale list_codec = codec +
  assumes enc_item: "ok x \<Longrightarrow> list_item (enc x)"
begin

lemma enc_storable: "ok x \<Longrightarrow> storable (enc x)"
  using enc_item by (simp add: list_item_def)

lemma list_round_trip:
  assumes "xs \<noteq> []" "\<forall>x \<in> set xs. ok x"
  shows "rbind (splitList (Join (map enc xs) '', '')) (rmap deco) = Inr xs"
  using assms by (subst splitList_Join) (auto simp: enc_item map_deco_enc)

end

lemma unat_uint16_less [simp]: "unat (n :: uint16) < 65536"
  using unsigned_less [of n, where 'a = nat] by simp

lemma parse_bounded_dec:
  assumes "lo \<le> uint n"
  shows "parse_bounded why lo (dec (unat n)) = Inr n"
proof -
  have "Atoi (dec (unat n)) = Some (int (unat n))"
    by (rule Atoi_dec, rule less_trans [OF unat_uint16_less]) simp
  then show ?thesis
    using assms unsigned_less [of n, where 'a = int] by (simp add: parse_bounded_def)
qed

interpretation uint16_codec: list_codec "\<lambda>n. dec (unat n)" "\<lambda>s. parseUint16 s name" "\<lambda>_. True" for name
  by unfold_locales (simp_all add: parseUint16_def parse_bounded_dec token_text_item)

interpretation port_codec: list_codec "\<lambda>n. dec (unat n)" parsePort "\<lambda>_. True"
  by unfold_locales (simp_all add: parsePort_def parse_bounded_dec token_text_item)

interpretation mtu_codec: list_codec "\<lambda>n. dec (unat n)" parseMTU "\<lambda>n. 576 \<le> uint n"
  by unfold_locales (simp_all add: parseMTU_def parse_bounded_dec token_text_item)

lemma token_EncodeBase64: "bs \<noteq> [] \<Longrightarrow> token_text (EncodeBase64 bs)"
  using set_EncodeBase64 [of _ bs] EncodeBase64_not_Nil [of bs]
  unfolding token_text_def list_all_iff by (metis list.set_intros(1) list.set_intros(2))

lemma token_EncodeHex: "bs \<noteq> [] \<Longrightarrow> token_text (EncodeHex bs)"
proof -
  assume "bs \<noteq> []"
  moreover have "list_all plain (EncodeHex bs) \<and> CHR ''#'' \<notin> set (EncodeHex bs) \<and> CHR '','' \<notin> set (EncodeHex bs)"
  proof (induction bs)
    case (Cons b bs)
    have "unat b div 16 < 16" "unat b mod 16 < 16" using unat_byte_less [of b] by linarith+
    with Cons hex_facts(2, 3) [OF this(1)] hex_facts(2, 3) [OF this(2)] show ?case by auto
  qed simp
  ultimately show ?thesis by (cases bs) (simp_all add: token_text_def)
qed

interpretation key_codec: list_codec Key_String parseKeyBase64 key_ok
  by unfold_locales
     (auto simp: Key_String_def parseKeyBase64_def parse_key_def key_ok_def KeyLength_def
        DecodeBase64_Encode intro!: token_text_item token_EncodeBase64)

interpretation key_hex_codec: list_codec Key_HexString parseKeyHex key_ok
  by unfold_locales
     (auto simp: Key_HexString_def parseKeyHex_def parse_key_def key_ok_def KeyLength_def
        DecodeHex_Encode intro!: token_text_item token_EncodeHex)

text \<open>Addresses with a prefix length, in the form \<^verbatim>\<open>parseIPCidr\<close> produces.\<close>

definition cidr_ok :: "IPCidr \<Rightarrow> bool" where
  "cidr_ok r \<longleftrightarrow> (length (IP r) = 4 \<or> length (IP r) = 16 \<and> To4 (IP r) = None) \<and>
                 unat (Cidr r) \<le> 8 * length (IP r)"

lemma IPString_chars:
  assumes "length ip = 4 \<or> length ip = 16"
  shows "token_text (IPString ip)" and "CHR ''/'' \<notin> set (IPString ip)"
proof -
  have dot: "plain CHR ''.''" "plain CHR '':''" by (simp_all add: plain_def is_ascii_def code_def IsSpace_def)
  have v4: "token_text (v4_string p) \<and> CHR ''/'' \<notin> set (v4_string p)" if "length p = 4" for p
  proof -
    obtain a b c d where p: "p = [a, b, c, d]" using \<open>length p = 4\<close> length_4E by blast
    have "list_all plain (dec n) \<and> CHR ''#'' \<notin> set (dec n) \<and> CHR '','' \<notin> set (dec n) \<and> CHR ''/'' \<notin> set (dec n)" for n
      using token_dec [of n] dec_no [of "CHR ''/''"] by (simp add: token_text_def)
    then show ?thesis using dot by (simp add: v4_string_def p token_text_def)
  qed
  have v6: "token_text (v6_string p) \<and> CHR ''/'' \<notin> set (v6_string p)" if "length p = 16" for p
  proof -
    have "v6_string p \<noteq> []" using v6_string_colon [OF that] by force
    moreover have "plain c \<and> c \<noteq> CHR ''#'' \<and> c \<noteq> CHR '','' \<and> c \<noteq> CHR ''/''" if "c \<in> set (v6_string p)" for c
      using set_v6_string [OF that] dot unfolding v6_char_def by (elim disjE conjE) simp_all
    ultimately show ?thesis unfolding token_text_def list_all_iff by blast
  qed
  have "token_text (IPString ip) \<and> CHR ''/'' \<notin> set (IPString ip)"
  proof (cases "To4 ip")
    case None
    with assms have "IPString ip = v6_string ip" "length ip = 16"
      by (auto simp: IPString_def To4_def)
    then show ?thesis using v6 by simp
  next
    case (Some p)
    with assms have "IPString ip = v4_string p" "length p = 4"
      by (auto simp: IPString_def To4_def split: if_splits)
    then show ?thesis using v4 by simp
  qed
  then show "token_text (IPString ip)" "CHR ''/'' \<notin> set (IPString ip)" by blast+
qed

lemma To4_mapped [simp]: "length p = 4 \<Longrightarrow> To4 (v4InV6Prefix @ p) = Some p"
  by (simp add: To4_def v4InV6Prefix_def)

lemma parseIPCidr_String:
  assumes "cidr_ok r"
  shows "parseIPCidr (IPCidr_String r) = Inr r"
proof -
  have len: "length (IP r) = 4 \<or> length (IP r) = 16" using assms by (auto simp: cidr_ok_def)
  let ?d = "dec (unat (Cidr r))"
  have idx: "IndexByte (IPCidr_String r) CHR ''/'' = Some (length (IPString (IP r)))"
    using IPString_chars(2) [OF len] by (simp add: IPCidr_String_def)
  have atoi: "Atoi ?d = Some (int (unat (Cidr r)))"
    by (rule Atoi_dec, rule less_trans [OF unat_byte_less]) simp
  have ip: "ParseIP (IPString (IP r)) = To16 (IP r)" by (rule ParseIP_IPString [OF len])
  show ?thesis
  proof (cases "length (IP r) = 4")
    case True
    then have "int (unat (Cidr r)) \<le> int 32" using assms unfolding zle_int by (simp add: cidr_ok_def)
    then have "uint (Cidr r) \<le> 32" by simp
    with True show ?thesis
      by (simp add: parseIPCidr_def idx) (simp add: IPCidr_String_def ip atoi To16_def)
  next
    case False
    then have ip16: "length (IP r) = 16" "To4 (IP r) = None" and "int (unat (Cidr r)) \<le> int 128"
      using assms unfolding zle_int by (auto simp: cidr_ok_def)
    then have "uint (Cidr r) \<le> 128" by simp
    with ip16 show ?thesis
      by (simp add: parseIPCidr_def idx) (simp add: IPCidr_String_def ip atoi To16_def)
  qed
qed

interpretation cidr_codec: list_codec IPCidr_String parseIPCidr cidr_ok
proof
  fix r assume ok: "cidr_ok r"
  show "parseIPCidr (IPCidr_String r) = Inr r" using ok by (rule parseIPCidr_String)
  have slash: "token_text ''/''" by (simp add: token_text_def plain_def is_ascii_def code_def IsSpace_def)
  have "length (IP r) = 4 \<or> length (IP r) = 16" using ok by (auto simp: cidr_ok_def)
  then show "list_item (IPCidr_String r)"
    unfolding IPCidr_String_def
    by (intro token_text_item token_text_append IPString_chars slash token_dec)
qed

section \<open>Endpoints\<close>

definition zone_cut :: "string \<Rightarrow> string" where
  "zone_cut h = (case LastIndexByte h CHR ''%'' of
                   Some q \<Rightarrow> if q > 0 then take q h else h
                 | None \<Rightarrow> h)"

definition ipv6_host :: "string \<Rightarrow> bool" where
  "ipv6_host h \<longleftrightarrow> 2 \<le> length h \<and> (case ParseIP (zone_cut h) of None \<Rightarrow> False | Some ip \<Rightarrow> length ip = 16)"

definition endpoint_ok :: "Endpoint \<Rightarrow> bool" where
  "endpoint_ok e \<longleftrightarrow>
     (if CHR '':'' \<in> set (Host e) then ipv6_host (Host e)
      else Host e \<noteq> [] \<and> hd (Host e) \<noteq> CHR ''['' \<and> last (Host e) \<noteq> CHR '']'')"

lemma LastIndexByte_Cons_snoc:
  "LastIndexByte (a # h @ [b]) c =
     (if b = c then Some (length h + 1)
      else case LastIndexByte h c of Some q \<Rightarrow> Some (q + 1) | None \<Rightarrow> if a = c then Some 0 else None)"
proof -
  have "LastIndexByte (h @ [b]) c = (if b = c then Some (length h) else LastIndexByte h c)"
    by (induction h) (auto split: option.splits)
  then show ?thesis by (auto split: option.splits)
qed

lemma IndexByte_ex: "c \<in> set s \<Longrightarrow> \<exists>n. IndexByte s c = Some n"
  using IndexByte_None_iff [of s c] by auto

lemma IndexByte_prefix: "IndexByte s c = Some n \<Longrightarrow> IndexByte (s @ t) c = Some n"
  by (induction s arbitrary: n) (auto split: if_splits)

lemma bracket_host:
  defines "host \<equiv> \<lambda>h. CHR ''['' # h @ '']''"
  shows "drop 1 (take (case LastIndexByte (host h) CHR ''%'' of
                         Some p \<Rightarrow> (if p > 1 then p else length (host h) - 1)
                       | None \<Rightarrow> length (host h) - 1) (host h)) = zone_cut h"
proof (cases "LastIndexByte h CHR ''%''")
  case (Some q)
  then have "q < length h" using LastIndexByte_SomeD by blast
  with Some show ?thesis
    unfolding host_def LastIndexByte_Cons_snoc zone_cut_def by simp
next
  case None
  then show ?thesis unfolding host_def LastIndexByte_Cons_snoc zone_cut_def by simp
qed

lemma parseEndpoint_port:
  assumes "host \<noteq> []"
  shows "parseEndpoint (host @ '':'' @ dec (unat p)) = endpoint_host host p"
proof -
  have "LastIndexByte (host @ CHR '':'' # dec (unat p)) CHR '':'' = Some (length host)"
    by (simp add: dec_no)
  then show ?thesis using assms port_codec.deco_enc [of p] by (simp add: parseEndpoint_def)
qed

lemma parseEndpoint_String:
  assumes "endpoint_ok e"
  shows "parseEndpoint (Endpoint_String e) = Inr e"
proof (cases "CHR '':'' \<in> set (Host e)")
  case True
  let ?h = "CHR ''['' # Host e @ '']''"
  have v6: "ipv6_host (Host e)" using assms True by (simp add: endpoint_ok_def)
  obtain n where n: "IndexByte (Host e) CHR '':'' = Some n"
    using IndexByte_ex [OF True] by blast
  have "IndexByte (Host e @ '']'') CHR '':'' = Some n"
    using n by (rule IndexByte_prefix)
  then have c: "IndexByte ?h CHR '':'' = Some (Suc n)" by simp
  have "Endpoint_String e = ?h @ '':'' @ dec (unat (Port e))"
    using n by (simp add: Endpoint_String_def)
  moreover have "parseEndpoint (?h @ '':'' @ dec (unat (Port e))) = Inr e"
    using v6 unfolding parseEndpoint_port [OF list.distinct(2)] ipv6_host_def endpoint_host_def Let_def bracket_host c
    by (auto split: option.splits)
  ultimately show ?thesis by simp
next
  case False
  then have n: "IndexByte (Host e) CHR '':'' = None" by (simp add: IndexByte_None_iff)
  then have "Endpoint_String e = Host e @ '':'' @ dec (unat (Port e))"
    by (simp add: Endpoint_String_def)
  moreover have "endpoint_host (Host e) (Port e) = Inr e" "Host e \<noteq> []"
    using False n assms by (simp_all add: endpoint_ok_def endpoint_host_def)
  ultimately show ?thesis using parseEndpoint_port [of "Host e" "Port e"] by simp
qed

interpretation endpoint_codec: codec Endpoint_String parseEndpoint endpoint_ok
  by unfold_locales (rule parseEndpoint_String)

text \<open>Which endpoints the parser accepts.\<close>

lemma parseEndpoint_accepts:
  assumes "parseEndpoint s = Inr e"
  obtains (name) portStr where "s = Host e @ '':'' @ portStr" "Host e \<noteq> []"
      "hd (Host e) \<noteq> CHR ''[''" "last (Host e) \<noteq> CHR '']''"
      "CHR '':'' \<in> set (Host e) \<Longrightarrow> hd (Host e) = CHR '':''"
    | (ipv6) portStr where "s = ''['' @ Host e @ '']:'' @ portStr" "ipv6_host (Host e)"
      "CHR '':'' \<in> set (Host e)"
proof -
  obtain i where i: "LastIndexByte s CHR '':'' = Some i"
    using assms by (cases "LastIndexByte s CHR '':''") (simp_all add: parseEndpoint_def)
  define host where "host = take i s"
  define portStr where "portStr = drop (i + 1) s"
  have s: "s = host @ '':'' @ portStr"
    using LastIndexByte_SomeD [OF i] id_take_nth_drop [of i s] by (simp add: host_def portStr_def)
  have ne: "host \<noteq> []"
    using assms i by (auto simp: parseEndpoint_def Let_def host_def split: if_splits)
  obtain p where p: "parsePort portStr = Inr p"
    using assms i ne
    by (cases "parsePort portStr") (auto simp: parseEndpoint_def Let_def host_def portStr_def)
  have e: "endpoint_host host p = Inr e"
    using assms i ne p by (simp add: parseEndpoint_def host_def portStr_def)
  show thesis
  proof (cases "hd host = CHR ''['' \<or> last host = CHR '']'' \<or> (case IndexByte host CHR '':'' of None \<Rightarrow> False | Some n \<Rightarrow> n > 0)")
    case False
    then have "e = \<lparr>Host = host, Port = p\<rparr>"
      using e unfolding endpoint_host_def by simp
    moreover have "hd host = CHR '':''" if colon: "CHR '':'' \<in> set host"
    proof -
      obtain n where n: "IndexByte host CHR '':'' = Some n"
        using IndexByte_ex [OF colon] by blast
      with False IndexByte_SomeD [OF n] ne show ?thesis by (simp add: hd_conv_nth)
    qed
    ultimately show ?thesis using name [of portStr] s ne False by simp
  next
    case True
    then have b: "length host > 3" "hd host = CHR ''[''" "last host = CHR '']''"
        "case IndexByte host CHR '':'' of None \<Rightarrow> False | Some n \<Rightarrow> n > 0"
      using e unfolding endpoint_host_def Let_def by (auto simp del: last.simps split: if_splits)
    define h where "h = drop 1 (take (length host - 1) host)"
    have host: "host = CHR ''['' # h @ '']''"
    proof -
      have "host = butlast host @ [last host]" using ne by simp
      moreover have "butlast host = hd host # h"
        using b(1) by (cases host) (auto simp: h_def butlast_conv_take take_Cons split: nat.splits)
      ultimately show ?thesis using b by simp
    qed
    have "CHR '':'' \<in> set host"
      using b(4) IndexByte_None_iff [of host "CHR '':''"] by (cases "IndexByte host CHR '':''") auto
    then have colon: "CHR '':'' \<in> set h" using host by auto
    have "ipv6_host h \<and> e = \<lparr>Host = h, Port = p\<rparr>"
      using e b unfolding endpoint_host_def Let_def
      unfolding host bracket_host ipv6_host_def
      by (auto split: option.splits if_splits)
    with colon host s show ?thesis using ipv6 [of portStr] by simp
  qed
qed

lemma parseEndpoint_ok:
  assumes "parseEndpoint s = Inr e" and "hd (Host e) = CHR '':'' \<Longrightarrow> ipv6_host (Host e)"
  shows "endpoint_ok e"
  using assms(1)
proof (cases rule: parseEndpoint_accepts)
  case (name portStr)
  then show ?thesis using assms(2) by (auto simp: endpoint_ok_def)
qed (simp add: endpoint_ok_def)

lemma list_item_colon: "plain CHR '':''" "plain CHR ''[''"
  by (simp_all add: plain_def is_ascii_def code_def IsSpace_def)

definition endpoint_stored :: "Endpoint \<Rightarrow> bool" where
  "endpoint_stored e \<longleftrightarrow> Host e \<noteq> [] \<and> storable (Endpoint_String e) \<and>
     ((hd (Host e) = CHR '':'' \<longrightarrow> ipv6_host (Host e)) \<longrightarrow> endpoint_ok e)"

lemma last_dec: "plain (last (dec n))"
  using set_dec [of "last (dec n)" n] is_digit_plain by simp

lemma newline_not_digit: "newline \<notin> set (dec n)"
  using dec_no [of newline n] by (simp add: newline_def)

lemma newline_char: "newline \<noteq> CHR '':''" "newline \<noteq> CHR ''[''" "newline \<noteq> CHR '']''"
  by (simp_all add: newline_def)

lemma storable_bracketed:
  assumes "CHR ''#'' \<notin> set h" "newline \<notin> set h"
  shows "storable (''['' @ h @ '']:'' @ dec n)"
  using assms dec_no [of "CHR ''#''" n] newline_not_digit [of n] newline_char last_dec [of n]
  by (auto simp: storable_def trimmed_def plain_ends_trimmed list_item_colon)

lemma storable_named:
  assumes "h \<noteq> []" "storable (h @ CHR '':'' # x)"
  shows "storable (h @ CHR '':'' # dec n)"
proof -
  have "trimmed (h @ CHR '':'' # x)" using assms(2) by (simp add: storable_def)
  then have "TrimLeftSpace (h @ CHR '':'' # dec n) = h @ CHR '':'' # dec n"
    using TrimLeftSpace_sep_iff [OF assms(1), of "CHR '':''"] trimmed_left [of "h @ CHR '':'' # x"]
    by (simp add: is_ascii_def code_def)
  moreover have "TrimRightSpace (dec n) = dec n"
    using token_text_item [OF token_dec [of n]] by (intro trimmed_right) (simp add: list_item_def storable_def)
  then have "TrimRightSpace (h @ CHR '':'' # dec n) = h @ CHR '':'' # dec n"
    by (intro TrimRightSpace_append) (simp_all add: is_ascii_def code_def)
  ultimately have "trimmed (h @ CHR '':'' # dec n)" by (simp add: trimmed_def TrimSpace_def)
  with assms show ?thesis
    using dec_no [of "CHR ''#''" n] newline_not_digit [of n] newline_char
    by (auto simp: storable_def)
qed

lemma parseEndpoint_stored:
  assumes "parseEndpoint s = Inr e" "storable s"
  shows "endpoint_stored e"
proof -
  have ok: "(hd (Host e) = CHR '':'' \<longrightarrow> ipv6_host (Host e)) \<longrightarrow> endpoint_ok e"
    using parseEndpoint_ok [OF assms(1)] by blast
  have clean: "CHR ''#'' \<notin> set s" "newline \<notin> set s" using assms(2) by (auto simp: storable_def)
  have "Host e \<noteq> [] \<and> storable (Endpoint_String e)"
  proof (cases "CHR '':'' \<in> set (Host e)")
    case True
    then have "Endpoint_String e = ''['' @ Host e @ '']:'' @ dec (unat (Port e))"
      by (auto simp: Endpoint_String_def IndexByte_None_iff)
    moreover have "CHR ''#'' \<notin> set (Host e)" "newline \<notin> set (Host e)"
      using assms(1) clean by (auto elim!: parseEndpoint_accepts)
    ultimately show ?thesis using True storable_bracketed by auto
  next
    case False
    then have "Endpoint_String e = Host e @ CHR '':'' # dec (unat (Port e))"
      by (simp add: Endpoint_String_def IndexByte_None_iff)
    moreover from assms(1) have "Host e \<noteq> [] \<and> (\<exists>x. s = Host e @ CHR '':'' # x)"
      by (cases rule: parseEndpoint_accepts) (use False in auto)
    ultimately show ?thesis using assms(2) storable_named by metis
  qed
  with ok show ?thesis by (simp add: endpoint_stored_def)
qed

end
