(* ===== verification/ConfParsed.thy ===== *)
theory ConfParsed
  imports ConfCodec
begin

text \<open>
  The reader \<^verbatim>\<open>FromWgQuick\<close>: how it reads one \<open>Key = value\<close> line, and the invariant of every
  configuration it returns (\<open>parsed_config\<close>): keys of 32 bytes, addresses in their shortest
  form with a prefix that fits, texts that survive being written to a line of the file.
\<close>

section \<open>A line of the file\<close>

definition key_text :: "string \<Rightarrow> bool" where
  "key_text k \<longleftrightarrow> k \<noteq> [] \<and>
     list_all (\<lambda>c. plain c \<and> plain (ascii_lower c) \<and> c \<noteq> CHR ''#'' \<and> c \<noteq> CHR ''='' \<and> ascii_lower c \<noteq> CHR ''['') k"

definition entry_line :: "string \<times> string \<Rightarrow> string" where
  "entry_line kv = fst kv @ '' = '' @ snd kv"

lemma strip_entry_line:
  assumes "key_text k" "storable v"
  shows "strip_line (entry_line (k, v)) = entry_line (k, v)"
proof -
  have "CHR ''#'' \<notin> set (entry_line (k, v))"
    using assms by (auto simp: entry_line_def key_text_def storable_def list_all_iff)
  then have "strip_line (entry_line (k, v)) = TrimSpace (entry_line (k, v))"
    by (simp add: strip_line_def flip: IndexByte_None_iff)
  moreover obtain c r where k: "k = c # r" "plain c"
    using assms(1) by (cases k) (auto simp: key_text_def)
  moreover have "TrimSpace (c # (r @ '' ='') @ CHR '' '' # v) = c # (r @ '' ='') @ CHR '' '' # v"
    using assms(2) k(2) by (intro TrimSpace_plain_append) (auto simp: storable_def is_ascii_def code_def)
  ultimately show ?thesis by (simp add: entry_line_def)
qed

lemma ToLower_entry_line:
  assumes "key_text k"
  shows "ToLower T (entry_line (k, v)) = map ascii_lower k @ '' = '' @ ToLower T v"
proof -
  have "list_all is_ascii (k @ '' = '')"
    using assms by (auto simp: key_text_def list_all_iff plain_def is_ascii_def code_def)
  then have "ToLower T ((k @ '' = '') @ v) = map ascii_lower (k @ '' = '') @ ToLower T v"
    by (rule ToLower_append)
  then show ?thesis by (simp add: entry_line_def ascii_lower_def code_def)
qed

lemma key_of_entry_line:
  assumes "key_text k"
  shows "TrimSpace (map ascii_lower k @ '' '') = map ascii_lower k"
  using assms by (intro TrimSpace_trailing_space) (auto simp: key_text_def list_all_iff hd_map last_map)

lemma wgquick_entry_line:
  assumes "key_text k" "storable v"
  shows "wgquick_line T (entry_line (k, v)) st = key_line T (entry_line (k, v)) st"
proof -
  have "map ascii_lower k @ x \<noteq> CHR ''['' # y" for x y
    using assms(1) by (cases k) (auto simp: key_text_def)
  moreover have "entry_line (k, v) \<noteq> []" using assms by (simp add: entry_line_def)
  ultimately show ?thesis
    using strip_entry_line [OF assms] ToLower_entry_line [OF assms(1), of T v]
    by (simp add: wgquick_line_def)
qed

lemma key_line_entry:
  assumes "key_text k" "storable v" "parserStateOf st \<noteq> notInASection"
  shows "key_line T (entry_line (k, v)) st =
    (if parserStateOf st = inInterfaceSection then
       rbind (interface_key (map ascii_lower k) v (InterfaceOf (conf st))) (\<lambda>i.
         Inr (st\<lparr>conf := (conf st)\<lparr>InterfaceOf := i\<rparr>,
                 sawPrivateKey := sawPrivateKey st \<or> map ascii_lower k = ''privatekey''\<rparr>))
     else (case peer st of
             None \<Rightarrow> Inl Panic
           | Some p \<Rightarrow> rbind (peer_key (map ascii_lower k) v p) (\<lambda>q. Inr (st\<lparr>peer := Some q\<rparr>))))"
proof -
  have "CHR ''='' \<notin> set (k @ '' '')" using assms(1) by (auto simp: key_text_def list_all_iff)
  then have idx: "IndexByte (entry_line (k, v)) CHR ''='' = Some (length k + 1)"
    using IndexByte_append [of "CHR ''=''" "k @ '' ''" "CHR '' '' # v"] by (simp add: entry_line_def)
  have low: "take (length k + 1) (ToLower T (entry_line (k, v))) = map ascii_lower k @ '' ''"
    using ToLower_entry_line [OF assms(1), of T v] by simp
  have len: "\<not> length (ToLower T (entry_line (k, v))) < length k + 1"
    using ToLower_entry_line [OF assms(1), of T v] by simp
  have val: "TrimSpace (drop (length k + 1 + 1) (entry_line (k, v))) = v"
    using assms(2) by (simp add: entry_line_def TrimSpace_space_Cons storable_def trimmed_def)
  have ne: "length v \<noteq> 0" using assms(2) by (simp add: storable_def)
  show ?thesis
    unfolding key_line_def idx option.case Let_def low val key_of_entry_line [OF assms(1)]
    using len ne assms(3) by simp
qed

section \<open>What a parsed configuration is made of\<close>

lemma cidr_okI:
  assumes "ParseIP a = Some addr" "0 \<le> c" "c \<le> 128" "To4 addr \<noteq> None \<Longrightarrow> c \<le> 32"
  shows "cidr_ok \<lparr>IP = (case To4 addr of Some v4 \<Rightarrow> v4 | None \<Rightarrow> addr), Cidr = word_of_int c\<rparr>"
proof -
  have "unat (word_of_int c :: uint8) = nat c"
    using assms(2, 3) by (simp add: unsigned_of_int take_bit_int_eq_self)
  with assms ParseIP_length [OF assms(1)] show ?thesis
    by (auto simp: cidr_ok_def To4_def split: if_splits)
qed

lemma parseIPCidr_ok:
  assumes "parseIPCidr s = Inr r"
  shows "cidr_ok r"
proof (cases "IndexByte s CHR ''/''")
  case None
  then obtain addr where "ParseIP s = Some addr"
    and "r = \<lparr>IP = (case To4 addr of Some v4 \<Rightarrow> v4 | None \<Rightarrow> addr),
              Cidr = word_of_int (if To4 addr \<noteq> None then 32 else 128)\<rparr>"
    using assms by (auto simp: parseIPCidr_def Let_def split: option.splits)
  then show ?thesis using cidr_okI [of s addr "if To4 addr \<noteq> None then 32 else 128"] by simp
next
  case (Some n)
  obtain addr where addr: "ParseIP (take n s) = Some addr"
    using assms Some by (cases "ParseIP (take n s)") (simp_all add: parseIPCidr_def)
  obtain c where c: "Atoi (drop (n + 1) s) = Some c"
    using assms Some addr by (cases "Atoi (drop (n + 1) s)") (simp_all add: parseIPCidr_def)
  have "\<not> (c < 0 \<or> c > 128 \<or> (c > 32 \<and> To4 addr \<noteq> None))"
    using assms Some addr c by (auto simp: parseIPCidr_def Let_def split: if_splits)
  then show ?thesis
    using assms Some addr c cidr_okI [OF addr, of c] by (auto simp: parseIPCidr_def Let_def)
qed

lemma splitList_items:
  assumes "splitList s = Inr xs" "storable s" "x \<in> set xs"
  shows "list_item x"
proof -
  obtain p where "p \<in> set (Split s CHR '','')" "x = TrimSpace p" "x \<noteq> []"
    using rmap_Inr_elem [OF assms(1) [unfolded splitList_def] assms(3)]
    by (auto simp: Let_def split: if_splits)
  then show ?thesis
    using Split_parts [of p s "CHR '',''"] set_TrimSpace [of p] assms(2)
    by (auto simp: list_item_def storable_def)
qed

definition text_field :: "string \<Rightarrow> bool" where
  "text_field v \<longleftrightarrow> v = [] \<or> storable v"

definition texts :: "Interface \<Rightarrow> string list" where
  "texts i = [PreUp i, PostUp i, PreDown i, PostDown i, InitPacketMagicHeader i,
     ResponsePacketMagicHeader i, UnderloadPacketMagicHeader i, TransportPacketMagicHeader i,
     ContentPaddingAddition i, RekeyAfterTime i, RekeyTimeout i, RejectAfterTime i,
     KeepaliveTimeout i, MaxHandshakeAttempts i, RandomTrailers i, DisableCookies i]"

definition dns_ok :: "Interface \<Rightarrow> bool" where
  "dns_ok i \<longleftrightarrow> (\<forall>ip \<in> set (DNS i). length ip = 16) \<and>
     (\<forall>d \<in> set (DNSSearch i). list_item d \<and> ParseIP d = None)"

definition packets_ok :: "Interface \<Rightarrow> bool" where
  "packets_ok i \<longleftrightarrow> distinct (map fst (IPackets i)) \<and>
     (\<forall>kv \<in> set (IPackets i). fst kv \<in> set packet_keys \<and> storable (snd kv))"

definition parsed_interface :: "Interface \<Rightarrow> bool" where
  "parsed_interface i \<longleftrightarrow> key_ok (PrivateKey i) \<and> key_ok (HeaderProtectionKey i) \<and>
     (\<forall>v \<in> set (texts i). text_field v) \<and> (\<forall>a \<in> set (Addresses i). cidr_ok a) \<and> dns_ok i \<and>
     576 \<le> uint (MTU i) \<and> packets_ok i"

definition parsed_peer :: "Peer \<Rightarrow> bool" where
  "parsed_peer p \<longleftrightarrow> key_ok (PublicKey p) \<and> key_ok (PresharedKey p) \<and>
     (\<forall>a \<in> set (AllowedIPs p). cidr_ok a) \<and>
     (EndpointOf p = zero_Endpoint \<or> endpoint_stored (EndpointOf p)) \<and>
     (PersistentKeepalive p = [] \<or>
      storable (PersistentKeepalive p) \<and> PersistentKeepalive p \<noteq> ''off'' \<and>
      parsePersistentKeepalive (PersistentKeepalive p) = Inr (PersistentKeepalive p)) \<and>
     RxBytes p = 0 \<and> TxBytes p = 0 \<and> LastHandshakeTime p = 0"

lemma zero_key_ok [simp]: "key_ok zero_key"
  by (simp add: key_ok_def zero_key_def)

lemma parseKeyBase64_ok: "parseKeyBase64 s = Inr k \<Longrightarrow> key_ok k"
  by (auto simp: parseKeyBase64_def parse_key_def key_ok_def split: option.splits if_splits)

lemma parseMTU_ok: "parseMTU s = Inr m \<Longrightarrow> 576 \<le> uint m"
  by (auto simp: parseMTU_def parse_bounded_def take_bit_int_eq_self unsigned_of_int
      split: option.splits if_splits)

lemma add_dns_eq:
  "add_dns xs i = i\<lparr>DNS := DNS i @ List.map_filter ParseIP xs,
                    DNSSearch := DNSSearch i @ filter (\<lambda>a. ParseIP a = None) xs\<rparr>"
proof (induction xs arbitrary: i)
  case (Cons x xs)
  show ?case
  proof (cases "ParseIP x")
    case None
    then have "add_dns (x # xs) i = add_dns xs (i\<lparr>DNSSearch := DNSSearch i @ [x]\<rparr>)"
      by (simp add: add_dns_def)
    with None Cons.IH show ?thesis by (simp add: List.map_filter_simps)
  next
    case (Some ip)
    then have "add_dns (x # xs) i = add_dns xs (i\<lparr>DNS := DNS i @ [ip]\<rparr>)"
      by (simp add: add_dns_def)
    with Some Cons.IH show ?thesis by (simp add: List.map_filter_simps)
  qed
qed (simp add: add_dns_def List.map_filter_simps)

lemma add_dns_ok: "\<forall>x \<in> set xs. list_item x \<Longrightarrow> dns_ok i \<Longrightarrow> dns_ok (add_dns xs i)"
  by (auto simp: add_dns_eq dns_ok_def List.map_filter_def ParseIP_length)

lemma update_elem: "kv \<in> set (AList.update k v al) \<Longrightarrow> kv = (k, v) \<or> kv \<in> set al"
  by (induction al) (auto split: if_splits)

lemma packets_ok_update:
  "packets_ok i \<Longrightarrow> k \<in> set packet_keys \<Longrightarrow> storable v \<Longrightarrow>
   packets_ok (i\<lparr>IPackets := AList.update k v (IPackets i)\<rparr>)"
  by (auto simp: packets_ok_def distinct_update dest!: update_elem)

lemma if_elim: "(b \<Longrightarrow> P x) \<Longrightarrow> P y \<Longrightarrow> P (if b then x else y)"
  by simp

lemma parsed_add_dns:
  "parsed_interface i \<Longrightarrow> \<forall>x \<in> set xs. list_item x \<Longrightarrow> parsed_interface (add_dns xs i)"
proof -
  assume i: "parsed_interface i" and xs: "\<forall>x \<in> set xs. list_item x"
  have "dns_ok (add_dns xs i)" using i xs by (simp add: add_dns_ok parsed_interface_def)
  with i show ?thesis
    by (simp add: parsed_interface_def texts_def packets_ok_def add_dns_eq)
qed

lemma parsed_update_packets:
  "parsed_interface i \<Longrightarrow> k \<in> set packet_keys \<Longrightarrow> storable v \<Longrightarrow>
   parsed_interface (i\<lparr>IPackets := AList.update k v (IPackets i)\<rparr>)"
  using packets_ok_update [of i k v] by (simp add: parsed_interface_def texts_def dns_ok_def)

lemma parsed_field_updates:
  assumes "parsed_interface i"
  shows "key_ok k \<Longrightarrow> parsed_interface (i\<lparr>PrivateKey := k\<rparr>)"
    "key_ok k \<Longrightarrow> parsed_interface (i\<lparr>HeaderProtectionKey := k\<rparr>)"
    "\<forall>a \<in> set as. cidr_ok a \<Longrightarrow> parsed_interface (i\<lparr>Addresses := Addresses i @ as\<rparr>)"
    "576 \<le> uint m \<Longrightarrow> parsed_interface (i\<lparr>MTU := m\<rparr>)"
    "parsed_interface (i\<lparr>ListenPort := n\<rparr>)" "parsed_interface (i\<lparr>TableOff := b\<rparr>)"
    "parsed_interface (i\<lparr>JunkPacketCount := n\<rparr>)" "parsed_interface (i\<lparr>JunkPacketMinSize := n\<rparr>)"
    "parsed_interface (i\<lparr>JunkPacketMaxSize := n\<rparr>)" "parsed_interface (i\<lparr>InitPacketJunkSize := n\<rparr>)"
    "parsed_interface (i\<lparr>ResponsePacketJunkSize := n\<rparr>)"
    "parsed_interface (i\<lparr>CookieReplyPacketJunkSize := n\<rparr>)"
    "parsed_interface (i\<lparr>TransportPacketJunkSize := n\<rparr>)"
  using assms by (auto simp: parsed_interface_def texts_def dns_ok_def packets_ok_def)

lemma parsed_text_updates:
  assumes "parsed_interface i" "storable v"
  shows "parsed_interface (i\<lparr>PreUp := v\<rparr>)" "parsed_interface (i\<lparr>PostUp := v\<rparr>)"
    "parsed_interface (i\<lparr>PreDown := v\<rparr>)" "parsed_interface (i\<lparr>PostDown := v\<rparr>)"
    "parsed_interface (i\<lparr>InitPacketMagicHeader := v\<rparr>)"
    "parsed_interface (i\<lparr>ResponsePacketMagicHeader := v\<rparr>)"
    "parsed_interface (i\<lparr>UnderloadPacketMagicHeader := v\<rparr>)"
    "parsed_interface (i\<lparr>TransportPacketMagicHeader := v\<rparr>)"
    "parsed_interface (i\<lparr>ContentPaddingAddition := v\<rparr>)" "parsed_interface (i\<lparr>RekeyAfterTime := v\<rparr>)"
    "parsed_interface (i\<lparr>RekeyTimeout := v\<rparr>)" "parsed_interface (i\<lparr>RejectAfterTime := v\<rparr>)"
    "parsed_interface (i\<lparr>KeepaliveTimeout := v\<rparr>)" "parsed_interface (i\<lparr>MaxHandshakeAttempts := v\<rparr>)"
    "parsed_interface (i\<lparr>RandomTrailers := v\<rparr>)" "parsed_interface (i\<lparr>DisableCookies := v\<rparr>)"
  using assms by (simp_all add: parsed_interface_def texts_def text_field_def dns_ok_def packets_ok_def)

lemma splitList_cidrs:
  "rmap parseIPCidr xs = Inr rs \<Longrightarrow> \<forall>r \<in> set rs. cidr_ok r"
  using parseIPCidr_ok by (auto dest: rmap_Inr_elem)

lemma interface_key_parsed:
  assumes i: "parsed_interface i" and val: "storable val"
  shows "interface_key key val i = Inr i' \<Longrightarrow> parsed_interface i'"
proof -
  note updates = parsed_field_updates [OF i] parsed_add_dns [OF i] parsed_update_packets [OF i]
    parsed_text_updates [OF i]
  have "\<forall>i'. interface_key key val i = Inr i' \<longrightarrow> parsed_interface i'"
    unfolding interface_key_def
    by (intro if_elim [where P = "\<lambda>r. \<forall>i'. r = Inr i' \<longrightarrow> parsed_interface i'"];
        use val i in \<open>auto simp: result_simps intro!: updates split: sum.splits
          dest: parseKeyBase64_ok parseMTU_ok splitList_cidrs splitList_items\<close>)
  then show "interface_key key val i = Inr i' \<Longrightarrow> parsed_interface i'" by blast
qed

lemma interface_key_tag:
  "key \<in> set specialHandshakeTags \<Longrightarrow> interface_key key [] i = Inr i' \<Longrightarrow> i' = i"
  by (auto simp: specialHandshakeTags_def interface_key_def packet_keys_def)

lemma parsePersistentKeepalive_stored:
  assumes "parsePersistentKeepalive s = Inr k" "storable s"
  shows "storable k \<and> k \<noteq> ''off'' \<and> parsePersistentKeepalive k = Inr k"
proof (cases "EqualFoldAscii s ''off''")
  case True
  then have "k = ''0''" using assms by (simp add: parsePersistentKeepalive_def)
  moreover have "storable ''0''"
  proof -
    have "dec 0 = ''0''" by code_simp
    then show ?thesis using token_text_item [OF token_dec [of 0]] by (simp add: list_item_def)
  qed
  moreover have "parsePersistentKeepalive ''0'' = Inr ''0''" by code_simp
  ultimately show ?thesis by simp
next
  case False
  then have "k = s" using assms by (simp add: parsePersistentKeepalive_def split: sum.splits)
  moreover have "EqualFoldAscii ''off'' ''off''" by code_simp
  ultimately show ?thesis using assms False by auto
qed

lemma peer_key_parsed:
  assumes p: "parsed_peer p" and val: "storable val"
  shows "peer_key key val p = Inr p' \<Longrightarrow> parsed_peer p'"
proof -
  have "\<forall>p'. peer_key key val p = Inr p' \<longrightarrow> parsed_peer p'"
    unfolding peer_key_def
    by (intro if_elim [where P = "\<lambda>r. \<forall>p'. r = Inr p' \<longrightarrow> parsed_peer p'"];
        use val p in \<open>auto simp: result_simps parsed_peer_def
          dest: parseKeyBase64_ok bspec [OF splitList_cidrs] parsePersistentKeepalive_stored
            parseEndpoint_stored\<close>)
  then show "peer_key key val p = Inr p' \<Longrightarrow> parsed_peer p'" by blast
qed

definition parsed_config :: "Config \<Rightarrow> bool" where
  "parsed_config c \<longleftrightarrow> parsed_interface (InterfaceOf c) \<and> (\<forall>p \<in> set (Peers c). parsed_peer p)"

definition parsed_state :: "wgquick_state \<Rightarrow> bool" where
  "parsed_state st \<longleftrightarrow> parsed_config (conf st) \<and> (case peer st of None \<Rightarrow> True | Some p \<Rightarrow> parsed_peer p)"

lemma zero_Peer_parsed: "parsed_peer zero_Peer"
  by (simp add: parsed_peer_def zero_Peer_def)

lemma maybeAddPeer_parsed: "parsed_state st \<Longrightarrow> parsed_config (maybeAddPeer (conf st) (peer st))"
  by (auto simp: parsed_state_def parsed_config_def maybeAddPeer_def split: option.splits)

lemma strip_line_clean:
  assumes "newline \<notin> set line"
  shows "CHR ''#'' \<notin> set (strip_line line) \<and> newline \<notin> set (strip_line line)"
proof (cases "IndexByte line CHR ''#''")
  case None
  then have "strip_line line = TrimSpace line" by (simp add: strip_line_def)
  with assms None set_TrimSpace [of line] show ?thesis by (auto simp: IndexByte_None_iff)
next
  case (Some n)
  then have "strip_line line = TrimSpace (take n line)" by (simp add: strip_line_def)
  with assms IndexByte_SomeD [OF Some] set_TrimSpace [of "take n line"] show ?thesis
    by (auto dest: in_set_takeD)
qed

lemma key_line_parsed:
  assumes "parsed_state st" "CHR ''#'' \<notin> set line" "newline \<notin> set line"
    and step: "key_line T line st = Inr st'"
  shows "parsed_state st'"
proof -
  from step obtain n where n: "IndexByte line CHR ''='' = Some n"
    by (auto simp: key_line_def split: if_splits option.splits)
  define key where "key = TrimSpace (take n (ToLower T line))"
  define val where "val = TrimSpace (drop (n + 1) line)"
  have val: "val = [] \<or> storable val"
    using assms(2, 3) set_TrimSpace [of "drop (n + 1) line"]
    by (auto simp: val_def storable_def dest: in_set_dropD)
  have tag: "val = [] \<Longrightarrow> key \<in> set specialHandshakeTags"
    using step n by (auto simp: key_line_def Let_def key_def val_def split: if_splits)
  show ?thesis
  proof (cases "parserStateOf st = inInterfaceSection")
    case True
    then obtain i where i: "interface_key key val (InterfaceOf (conf st)) = Inr i"
      and st': "st' = st\<lparr>conf := (conf st)\<lparr>InterfaceOf := i\<rparr>, sawPrivateKey := sawPrivateKey st \<or> key = ''privatekey''\<rparr>"
      using step n by (auto simp: key_line_def Let_def key_def val_def result_simps split: if_splits)
    have "parsed_interface (InterfaceOf (conf st))"
      using assms(1) by (simp add: parsed_state_def parsed_config_def)
    then have "parsed_interface i"
      using val tag i interface_key_parsed [of _ val key i] interface_key_tag [of key _ i] by auto
    then show ?thesis using assms(1) st' by (simp add: parsed_state_def parsed_config_def)
  next
    case False
    then obtain p q where p: "peer st = Some p" "peer_key key val p = Inr q" "st' = st\<lparr>peer := Some q\<rparr>"
      using step n by (auto simp: key_line_def Let_def key_def val_def result_simps split: if_splits option.splits)
    have "val \<noteq> []"
      using p(2) tag by (auto simp: specialHandshakeTags_def peer_key_def)
    with val p assms(1) peer_key_parsed [of p val key q] show ?thesis by (auto simp: parsed_state_def)
  qed
qed

lemma wgquick_line_parsed:
  assumes "parsed_state st" "newline \<notin> set line" "wgquick_line T line st = Inr st'"
  shows "parsed_state st'"
proof -
  have clean: "CHR ''#'' \<notin> set (strip_line line)" "newline \<notin> set (strip_line line)"
    using strip_line_clean [OF assms(2)] by blast+
  show ?thesis
    using assms(3) key_line_parsed [OF assms(1) clean] maybeAddPeer_parsed [OF assms(1)] assms(1)
      zero_Peer_parsed
    unfolding wgquick_line_def Let_def
    by (auto simp: parsed_state_def split: if_splits)
qed

lemma key_line_name:
  assumes "key_line T line st = Inr st'"
  shows "Name (conf st') = Name (conf st)"
  using assms by (auto simp: key_line_def Let_def result_simps split: if_splits option.splits)

lemma wgquick_line_name:
  assumes "wgquick_line T line st = Inr st'"
  shows "Name (conf st') = Name (conf st)"
  using assms key_line_name [of T "strip_line line" st st']
  unfolding wgquick_line_def Let_def
  by (auto simp: maybeAddPeer_def split: if_splits option.splits)

lemma wgquick_init_parsed: "parsed_state (wgquick_init name)"
  by (simp add: parsed_state_def parsed_config_def wgquick_init_def zero_Interface_def
      parsed_interface_def texts_def text_field_def dns_ok_def packets_ok_def)

lemma FromWgQuick_parsed:
  assumes "FromWgQuick T s name = Inr c"
  shows "TunnelNameIsValid name" "Name c = name" "parsed_config c" "ValidateAWG T c = Inr ()"
    "\<forall>p \<in> set (Peers c). \<not> Key_IsZero (PublicKey p)"
proof -
  obtain st where valid: "TunnelNameIsValid name"
    and loop: "rfold (wgquick_line T) (Split s CHR 0x0A) (wgquick_init name) = Inr st"
    and fin: "wgquick_finish T st = Inr c"
    using assms by (auto simp: FromWgQuick_def result_simps split: if_splits)
  have "parsed_state st \<and> Name (conf st) = name"
    using loop
  proof (rule rfold_invariant)
    show "parsed_state (wgquick_init name) \<and> Name (conf (wgquick_init name)) = name"
      using wgquick_init_parsed by (simp add: wgquick_init_def)
    fix line st st'
    assume "line \<in> set (Split s CHR 0x0A)"
      and st: "parsed_state st \<and> Name (conf st) = name" and step: "wgquick_line T line st = Inr st'"
    then have "newline \<notin> set line" using Split_parts by (simp add: newline_def)
    with st step show "parsed_state st' \<and> Name (conf st') = name"
      using wgquick_line_parsed wgquick_line_name by blast
  qed
  then have st: "parsed_state st" "Name (conf st) = name" by blast+
  have c: "c = maybeAddPeer (conf st) (peer st)" "ValidateAWG T c = Inr ()"
    "list_all (\<lambda>p. \<not> Key_IsZero (PublicKey p)) (Peers c)"
    using fin by (auto simp: wgquick_finish_def Let_def result_simps list_ex_iff list_all_iff split: if_splits)
  show "TunnelNameIsValid name" "ValidateAWG T c = Inr ()"
    "\<forall>p \<in> set (Peers c). \<not> Key_IsZero (PublicKey p)"
    using valid c by (simp_all add: list_all_iff)
  show "Name c = name" using st c(1) by (simp add: maybeAddPeer_def split: option.splits)
  show "parsed_config c" using maybeAddPeer_parsed [OF st(1)] c(1) by simp
qed

end
