(* ===== verification/ConfValidationFacts.thy ===== *)
theory ConfValidationFacts
  imports ConfParsed
begin

text \<open>
  \<^verbatim>\<open>awg_validation.go\<close> against a declarative specification: ranges, whole profiles, and the
  bounds of custom protocol signature packets.
\<close>


section \<open>Ranges\<close>

definition awg_range :: "nat \<Rightarrow> string \<Rightarrow> nat \<Rightarrow> nat \<Rightarrow> bool" where
  "awg_range bits s lo hi \<longleftrightarrow>
     lo \<le> hi \<and> hi < 2 ^ bits \<and>
     (all_digits s \<and> lo = dec_val s \<and> hi = dec_val s \<or>
      (\<exists>a b. s = a @ ''-'' @ b \<and> all_digits a \<and> all_digits b \<and> lo = dec_val a \<and> hi = dec_val b))"

lemma parse_boundary_iff: "parse_boundary bits s = Inr n \<longleftrightarrow> all_digits s \<and> n = dec_val s \<and> n < 2 ^ bits"
  by (auto simp: parse_boundary_def all_digits_def list_ex_iff list_all_iff ParseUint_def of_option_eq_Inr_iff)

lemma Split_single_iff: "Split s c = [x] \<longleftrightarrow> s = x \<and> c \<notin> set s"
proof
  assume "Split s c = [x]"
  moreover have "c \<notin> set s"
  proof
    assume "c \<in> set s"
    then obtain a b where "s = a @ c # b" "c \<notin> set a" by (meson split_list_first)
    with \<open>Split s c = [x]\<close> show False by (simp add: Split_append)
  qed
  ultimately show "s = x \<and> c \<notin> set s" by (simp add: Split_no_sep)
qed (auto simp: Split_no_sep)

lemma Split_pair_iff: "Split s c = [x, y] \<longleftrightarrow> s = x @ c # y \<and> c \<notin> set x \<and> c \<notin> set y"
proof
  assume eq: "Split s c = [x, y]"
  have "c \<in> set s" using eq Split_no_sep [of c s] by force
  then obtain a b where s: "s = a @ c # b" "c \<notin> set a" by (meson split_list_first)
  with eq have "a = x" "Split b c = [y]" by (simp_all add: Split_append)
  with s show "s = x @ c # y \<and> c \<notin> set x \<and> c \<notin> set y" by (auto simp: Split_single_iff)
qed (auto simp: Split_append Split_no_sep)

lemma all_digits_no_dash: "all_digits s \<Longrightarrow> CHR ''-'' \<notin> set s"
  by (auto simp: all_digits_def list_all_iff)

lemma ParseAWGRange_iff:
  "ParseAWGRange s bits = Inr (lo, hi) \<longleftrightarrow> awg_range bits s lo hi"
proof -
  consider x where "Split s CHR ''-'' = [x]" | x y where "Split s CHR ''-'' = [x, y]"
    | x y z r where "Split s CHR ''-'' = x # y # z # r"
    by (metis Split_not_Nil list.exhaust)
  then show ?thesis
  proof cases
    case 1
    then have "s = x" "CHR ''-'' \<notin> set s" by (auto simp: Split_single_iff)
    then show ?thesis using 1
      by (auto simp: ParseAWGRange_def awg_range_def result_simps parse_boundary_iff Let_def)
  next
    case 2
    then have s: "s = x @ CHR ''-'' # y" "CHR ''-'' \<notin> set x" "CHR ''-'' \<notin> set y"
      by (auto simp: Split_pair_iff)
    then have nd: "\<not> all_digits s" using all_digits_no_dash [of s] by auto
    have "a = x \<and> b = y" if "s = a @ ''-'' @ b" "all_digits a" "all_digits b" for a b
      using that 2 Split_pair_iff [of s "CHR ''-''" a b] all_digits_no_dash by simp
    then have "awg_range bits s lo hi \<longleftrightarrow> lo \<le> hi \<and> hi < 2 ^ bits \<and> all_digits x \<and> all_digits y \<and> lo = dec_val x \<and> hi = dec_val y"
      using s(1) nd unfolding awg_range_def by auto
    then show ?thesis using 2
      by (auto simp: ParseAWGRange_def result_simps parse_boundary_iff Let_def)
  next
    case 3
    have "\<not> awg_range bits s lo hi"
    proof
      assume "awg_range bits s lo hi"
      then consider "all_digits s" | a b where "s = a @ ''-'' @ b" "all_digits a" "all_digits b"
        by (auto simp: awg_range_def)
      then show False
      proof cases
        case 1
        then show False using 3 Split_no_sep [OF all_digits_no_dash] by simp
      next
        case 2
        then have "Split s CHR ''-'' = [a, b]" by (simp add: Split_pair_iff all_digits_no_dash)
        with 3 show False by simp
      qed
    qed
    then show ?thesis using 3 by (simp add: ParseAWGRange_def)
  qed
qed


section \<open>Profiles\<close>

definition is_awg_range :: "nat \<Rightarrow> string \<Rightarrow> bool" where
  "is_awg_range bits s \<longleftrightarrow> (\<exists>lo hi. awg_range bits s lo hi)"

definition header_range :: "nat \<times> string \<Rightarrow> nat \<times> nat \<Rightarrow> bool" where
  "header_range nh r \<longleftrightarrow>
     awg_range 32 (if snd nh = [] then dec (fst nh + 1) else snd nh) (fst r) (snd r)"

definition disjoint_ranges :: "(nat \<times> nat) list \<Rightarrow> bool" where
  "disjoint_ranges rs \<longleftrightarrow> sorted_wrt (\<lambda>a b. {fst a..snd a} \<inter> {fst b..snd b} = {}) rs"

definition awg_valid :: "case_table \<Rightarrow> Config \<Rightarrow> bool" where
  "awg_valid T c \<longleftrightarrow>
     (let i = InterfaceOf c in
      JunkPacketMinSize i \<le> JunkPacketMaxSize i \<and> JunkPacketMaxSize i \<le> 65507 \<and>
      (\<forall>(n, p, payload) \<in> set (paddings i).
         unat p + payload \<le> 65507 \<and> (HeaderProtectionKey i \<noteq> zero_key \<longrightarrow> 12 \<le> unat p)) \<and>
      (\<exists>rs. list_all2 header_range (magic_headers i) rs \<and> disjoint_ranges rs) \<and>
      (\<forall>(name, v) \<in> set (timing_fields i). v = [] \<or> is_awg_range 16 v) \<and>
      (\<forall>(name, v) \<in> set (switch_fields i). v = [] \<or> (\<exists>b. ParseAWGBool T v = Inr b)) \<and>
      (\<forall>p \<in> set (Peers c). PersistentKeepalive p = [] \<or> EqualFoldAscii (PersistentKeepalive p) ''off'' \<or>
         is_awg_range 16 (PersistentKeepalive p)) \<and>
      (\<forall>(key, spec) \<in> set (IPackets i). key \<in> set packet_keys \<and> ValidateCPS spec = Inr ()))"

lemma is_awg_range_iff:
  "is_awg_range bits s \<longleftrightarrow> (case ParseAWGRange s bits of Inl e \<Rightarrow> False | Inr r \<Rightarrow> True)"
  unfolding is_awg_range_def ParseAWGRange_iff [symmetric] by (auto split: sum.splits)

lemma awg_range_le: "awg_range bits s lo hi \<Longrightarrow> lo \<le> hi"
  by (simp add: awg_range_def)

lemma overlaps_iff: "fst a \<le> snd a \<Longrightarrow> fst b \<le> snd b \<Longrightarrow> overlaps b a \<longleftrightarrow> {fst a..snd a} \<inter> {fst b..snd b} \<noteq> {}"
  by (auto simp: overlaps_def)

lemma check_header_iff:
  "check_header nh rs = Inr rs' \<longleftrightarrow>
   (\<exists>r. header_range nh r \<and> (\<forall>q \<in> set rs. \<not> overlaps r q) \<and> rs' = rs @ [r])"
proof -
  let ?h = "if snd nh = [] then dec (fst nh + 1) else snd nh"
  have filt: "filter (\<lambda>p. overlaps r (rs ! p)) [0..<length rs] = [] \<longleftrightarrow> (\<forall>q \<in> set rs. \<not> overlaps r q)" for r
    by (auto simp: filter_empty_conv all_set_conv_all_nth)
  show ?thesis
  proof (cases "ParseAWGRange ?h 32")
    case (Inl e)
    then have "\<not> header_range nh r" for r
      using ParseAWGRange_iff [of ?h 32 "fst r" "snd r"] by (simp add: header_range_def)
    with Inl show ?thesis by (simp add: check_header_def split_beta)
  next
    case (Inr r)
    then have "header_range nh q \<longleftrightarrow> q = r" for q
      using ParseAWGRange_iff [of ?h 32 "fst q" "snd q"] by (auto simp: header_range_def)
    with Inr filt [of r] show ?thesis
      by (auto simp: check_header_def split_beta split: list.splits)
  qed
qed

lemma check_headers_iff:
  assumes "\<forall>r \<in> set rs. fst r \<le> snd r" "disjoint_ranges rs"
  shows "(\<exists>rs'. rfold check_header hs rs = Inr rs') \<longleftrightarrow>
         (\<exists>new. list_all2 header_range hs new \<and> disjoint_ranges (rs @ new))"
  using assms
proof (induction hs arbitrary: rs)
  case (Cons h hs)
  have le: "fst r \<le> snd r" if "header_range h r" for r
    using that awg_range_le by (simp add: header_range_def)
  have step: "(\<exists>rs'. rfold check_header (h # hs) rs = Inr rs') \<longleftrightarrow>
     (\<exists>r. header_range h r \<and> (\<forall>q \<in> set rs. \<not> overlaps r q) \<and> (\<exists>rs'. rfold check_header hs (rs @ [r]) = Inr rs'))"
    unfolding rfold_Cons_eq rbind_eq_Inr_iff check_header_iff by blast
  have ext: "(\<forall>q \<in> set rs. \<not> overlaps r q) \<longleftrightarrow> disjoint_ranges (rs @ [r])" if "header_range h r" for r
    using Cons.prems le [OF that] overlaps_iff by (auto simp: disjoint_ranges_def sorted_wrt_append)
  have rest: "(\<exists>rs'. rfold check_header hs (rs @ [r]) = Inr rs') \<longleftrightarrow>
      (\<exists>new. list_all2 header_range hs new \<and> disjoint_ranges (rs @ r # new))"
    if "header_range h r" "disjoint_ranges (rs @ [r])" for r
    using Cons.IH [of "rs @ [r]"] Cons.prems(1) le [OF that(1)] that by simp
  have prefix: "disjoint_ranges (rs @ [r])" if "disjoint_ranges (rs @ r # new)" for r new
    using that by (auto simp: disjoint_ranges_def sorted_wrt_append)
  show ?case
  proof
    assume "\<exists>rs'. rfold check_header (h # hs) rs = Inr rs'"
    then obtain r where r: "header_range h r" "disjoint_ranges (rs @ [r])"
      and "\<exists>rs'. rfold check_header hs (rs @ [r]) = Inr rs'"
      using step ext by auto
    then obtain new where "list_all2 header_range hs new" "disjoint_ranges (rs @ r # new)"
      using rest [OF r] by auto
    with r show "\<exists>new. list_all2 header_range (h # hs) new \<and> disjoint_ranges (rs @ new)"
      by (intro exI [of _ "r # new"]) simp
  next
    assume "\<exists>new. list_all2 header_range (h # hs) new \<and> disjoint_ranges (rs @ new)"
    then obtain r new where r: "header_range h r" and new: "list_all2 header_range hs new" "disjoint_ranges (rs @ r # new)"
      by (auto simp: list_all2_Cons1)
    then have "\<exists>rs'. rfold check_header hs (rs @ [r]) = Inr rs'"
      using rest [OF r prefix [OF new(2)]] by auto
    with r show "\<exists>rs'. rfold check_header (h # hs) rs = Inr rs'"
      unfolding step using ext [OF r] prefix [OF new(2)] by (intro exI [of _ r]) simp
  qed
qed simp


lemma check_padding_iff:
  "check_padding hasKey x () = Inr () \<longleftrightarrow>
   (case x of (n, p, payload) \<Rightarrow> unat p + payload \<le> 65507 \<and> (hasKey \<longrightarrow> 12 \<le> unat p))"
  by (auto simp: check_padding_def split: prod.splits)

lemma check_range_iff:
  "check_range x () = Inr () \<longleftrightarrow> (case x of (name, v) \<Rightarrow> v = [] \<or> is_awg_range 16 v)"
  by (auto simp: check_range_def is_awg_range_iff split: prod.splits sum.splits)

lemma check_bool_iff:
  "check_bool T x () = Inr () \<longleftrightarrow> (case x of (name, v) \<Rightarrow> v = [] \<or> (\<exists>b. ParseAWGBool T v = Inr b))"
  by (auto simp: check_bool_def split: prod.splits sum.splits)

lemma check_keepalive_iff:
  "check_keepalive p () = Inr () \<longleftrightarrow>
   PersistentKeepalive p = [] \<or> EqualFoldAscii (PersistentKeepalive p) ''off'' \<or>
   is_awg_range 16 (PersistentKeepalive p)"
  by (auto simp: check_keepalive_def is_awg_range_iff parsePersistentKeepalive_def result_simps split: sum.splits)

lemma check_packet_iff:
  "check_packet x () = Inr () \<longleftrightarrow>
   (case x of (key, spec) \<Rightarrow> key \<in> set packet_keys \<and> ValidateCPS spec = Inr ())"
  by (auto simp: check_packet_def split: prod.splits sum.splits)

lemmas check_iffs = check_padding_iff check_range_iff check_bool_iff check_keepalive_iff check_packet_iff

lemma ValidateAWG_spec: "ValidateAWG T c = Inr () \<longleftrightarrow> awg_valid T c"
proof -
  let ?i = "InterfaceOf c"
  have headers: "(\<exists>rs. rfold check_header (magic_headers ?i) [] = Inr rs) \<longleftrightarrow>
      (\<exists>rs. list_all2 header_range (magic_headers ?i) rs \<and> disjoint_ranges rs)"
    using check_headers_iff [of "[]" "magic_headers ?i"] by (simp add: disjoint_ranges_def)
  have junk: "\<not> unat (JunkPacketMaxSize ?i) < unat (JunkPacketMinSize ?i) \<longleftrightarrow> JunkPacketMinSize ?i \<le> JunkPacketMaxSize ?i"
    "\<not> 65507 < unat (JunkPacketMaxSize ?i) \<longleftrightarrow> JunkPacketMaxSize ?i \<le> 65507"
    by (simp_all add: word_le_nat_alt not_less)
  have "ValidateAWG T c = Inr () \<longleftrightarrow>
     JunkPacketMinSize ?i \<le> JunkPacketMaxSize ?i \<and> JunkPacketMaxSize ?i \<le> 65507 \<and>
     rfold (check_padding (\<not> Key_IsZero (HeaderProtectionKey ?i))) (paddings ?i) () = Inr () \<and>
     (\<exists>rs. rfold check_header (magic_headers ?i) [] = Inr rs) \<and>
     rfold check_range (timing_fields ?i) () = Inr () \<and> rfold (check_bool T) (switch_fields ?i) () = Inr () \<and>
     rfold check_keepalive (Peers c) () = Inr () \<and> rfold check_packet (IPackets ?i) () = Inr ()"
    unfolding ValidateAWG_def Let_def junk [symmetric] by (auto simp: rbind_eq_Inr_iff)
  then show ?thesis
    unfolding headers rfold_unit check_iffs awg_valid_def Let_def Key_IsZero_def by (simp add: split_beta)
qed


section \<open>Custom protocol signatures\<close>

definition cps_within :: "cps_state \<Rightarrow> bool" where
  "cps_within st \<longleftrightarrow> cps_size st \<le> 65507 \<and> cps_count st \<le> 4096 \<and> cps_timestamps st \<le> 1"

lemma cps_tag_timestamps: "cps_tag tag arg st = Inr st' \<Longrightarrow> cps_timestamps st \<le> 1 \<Longrightarrow> cps_timestamps st' \<le> 1"
  by (auto simp: cps_tag_def Let_def split: if_splits sum.splits)

lemma cps_tag_size: "cps_tag tag arg st = Inr st' \<Longrightarrow> cps_size st \<le> cps_size st' \<and> cps_count st' = cps_count st"
  by (auto simp: cps_tag_def Let_def split: if_splits sum.splits)

lemma cps_step_within:
  assumes "cps_step rest st = Inr (rest', st')" "cps_within st"
  shows "cps_within st' \<and> cps_count st' = cps_count st + 1 \<and> cps_size st \<le> cps_size st'"
proof -
  obtain tag arg st1 where tag: "cps_tag tag arg st = Inr st1"
    and st': "st' = st1\<lparr>cps_count := cps_count st1 + 1\<rparr>" "cps_size st1 \<le> 65507" "cps_count st1 + 1 \<le> 4096"
    using assms(1) by (auto simp: cps_step_def Let_def result_simps split: if_splits option.splits)
  then show ?thesis
    using cps_tag_timestamps [OF tag] cps_tag_size [OF tag] assms(2) by (auto simp: cps_within_def)
qed

lemma cps_loop_within:
  "cps_loop rest st = Inr st' \<Longrightarrow> cps_within st \<Longrightarrow>
   cps_within st' \<and> cps_size st \<le> cps_size st' \<and> cps_count st \<le> cps_count st' \<and> (rest \<noteq> [] \<longrightarrow> cps_count st < cps_count st')"
proof (induction rest st arbitrary: st' rule: cps_loop.induct)
  case (1 rest st)
  show ?case
  proof (cases "rest = []")
    case True
    with 1 show ?thesis by (simp add: cps_loop.simps)
  next
    case False
    then obtain r s where step: "cps_step rest st = Inr (r, s)" and loop: "cps_loop r s = Inr st'"
      using "1.prems"(1) by (subst (asm) cps_loop.simps) (auto split: sum.splits)
    have "cps_within s \<and> cps_count s = cps_count st + 1 \<and> cps_size st \<le> cps_size s"
      using cps_step_within [OF step "1.prems"(2)] .
    with "1.IH" [OF False step refl loop] show ?thesis by auto
  qed
qed

lemma ParseAWGBool_UAPI:
  assumes "ParseAWGBool T v = Inr b" "trimmed v"
  shows "boolToUAPI T v = (if b then ''1'' else ''0'')"
proof -
  have "TrimSpace v = v" using assms(2) by (simp add: trimmed_def)
  with assms(1) show ?thesis
    by (auto simp: ParseAWGBool_def boolToUAPI_def true_words_def Let_def split: if_splits)
qed

section \<open>Properties\<close>

text \<open>
  C2: \<^verbatim>\<open>ValidateAWG\<close> accepts exactly the profiles of the declarative specification
  \<open>awg_valid\<close>: ordered junk sizes within a UDP payload, paddings that keep every packet within
  it (and leave room for the nonce when headers are protected), four header ranges that parse
  and are pairwise disjoint, well-formed timing ranges and switches, and known, valid packets.
\<close>

theorem ValidateAWG_iff: "ValidateAWG T c = Inr () \<longleftrightarrow> awg_valid T c"
  by (rule ValidateAWG_spec)

text \<open>
  C6: \<^verbatim>\<open>ParseAWGRange\<close> accepts exactly the texts "n" and "lo-hi" of unsigned decimal numbers
  with lo at most hi and hi below 2^bits, and returns their bounds; everything else is an
  error value and never a panic.
\<close>

theorem ParseAWGRange_correct:
  "(ParseAWGRange s bits = Inr (lo, hi) \<longleftrightarrow> awg_range bits s lo hi) \<and>
   (\<not> is_awg_range bits s \<longleftrightarrow> (\<exists>e. ParseAWGRange s bits = Inl e \<and> e \<noteq> Panic))"
proof
  show "ParseAWGRange s bits = Inr (lo, hi) \<longleftrightarrow> awg_range bits s lo hi" by (rule ParseAWGRange_iff)
  have "ParseAWGRange s bits \<noteq> Inl Panic"
    by (auto simp: ParseAWGRange_def Let_def rbind_eq_Inl_iff dest!: rmap_Inl_elem split: if_splits)
       (auto simp: parse_boundary_def of_option_def split: if_splits option.splits)
  then show "\<not> is_awg_range bits s \<longleftrightarrow> (\<exists>e. ParseAWGRange s bits = Inl e \<and> e \<noteq> Panic)"
    by (auto simp: is_awg_range_iff split: sum.splits)
qed



end
