(* ===== verification/ConfRoundTrip.thy ===== *)
theory ConfRoundTrip
  imports ConfParsed ConfValidationFacts
begin

text \<open>
  What \<^verbatim>\<open>ToWgQuick\<close> writes, \<^verbatim>\<open>FromWgQuick\<close> reads back. The file is a list of
  entries (\<open>interface_entries\<close>, \<open>peer_entries\<close>); every entry sets its own field, so the
  sections restore the interface and the peers one field at a time.
\<close>


section \<open>The written file as a list of entries\<close>

definition unlines :: "string list \<Rightarrow> string" where
  "unlines ls = concat (map (\<lambda>l. l @ [newline]) ls)"

definition entry :: "bool \<Rightarrow> string \<Rightarrow> string \<Rightarrow> (string \<times> string) list" where
  "entry c k v = (if c then [(k, v)] else [])"

definition packet_entries :: "Interface \<Rightarrow> string list \<Rightarrow> (string \<times> string) list" where
  "packet_entries i ks =
     concat (map (\<lambda>k. entry (packet_value i k \<noteq> []) (map ascii_upper k) (packet_value i k)) ks)"

definition interface_entries :: "Interface \<Rightarrow> (string \<times> string) list" where
  "interface_entries i =
     entry True ''PrivateKey'' (Key_String (PrivateKey i)) @
     entry (ListenPort i > 0) ''ListenPort'' (dec (unat (ListenPort i))) @
     entry (JunkPacketCount i > 0) ''Jc'' (dec (unat (JunkPacketCount i))) @
     entry (JunkPacketMinSize i > 0) ''Jmin'' (dec (unat (JunkPacketMinSize i))) @
     entry (JunkPacketMaxSize i > 0) ''Jmax'' (dec (unat (JunkPacketMaxSize i))) @
     entry (InitPacketJunkSize i > 0) ''S1'' (dec (unat (InitPacketJunkSize i))) @
     entry (ResponsePacketJunkSize i > 0) ''S2'' (dec (unat (ResponsePacketJunkSize i))) @
     entry (CookieReplyPacketJunkSize i > 0) ''S3'' (dec (unat (CookieReplyPacketJunkSize i))) @
     entry (TransportPacketJunkSize i > 0) ''S4'' (dec (unat (TransportPacketJunkSize i))) @
     entry (InitPacketMagicHeader i \<noteq> []) ''H1'' (InitPacketMagicHeader i) @
     entry (ResponsePacketMagicHeader i \<noteq> []) ''H2'' (ResponsePacketMagicHeader i) @
     entry (UnderloadPacketMagicHeader i \<noteq> []) ''H3'' (UnderloadPacketMagicHeader i) @
     entry (TransportPacketMagicHeader i \<noteq> []) ''H4'' (TransportPacketMagicHeader i) @
     packet_entries i packet_keys @
     entry (\<not> Key_IsZero (HeaderProtectionKey i)) ''HeaderProtectionKey''
       (Key_String (HeaderProtectionKey i)) @
     entry (ContentPaddingAddition i \<noteq> []) ''ContentPaddingAddition'' (ContentPaddingAddition i) @
     entry (RekeyAfterTime i \<noteq> []) ''RekeyAfterTime'' (RekeyAfterTime i) @
     entry (RekeyTimeout i \<noteq> []) ''RekeyTimeout'' (RekeyTimeout i) @
     entry (RejectAfterTime i \<noteq> []) ''RejectAfterTime'' (RejectAfterTime i) @
     entry (KeepaliveTimeout i \<noteq> []) ''KeepaliveTimeout'' (KeepaliveTimeout i) @
     entry (MaxHandshakeAttempts i \<noteq> []) ''MaxHandshakeAttempts'' (MaxHandshakeAttempts i) @
     entry (RandomTrailers i \<noteq> []) ''RandomTrailers'' (RandomTrailers i) @
     entry (DisableCookies i \<noteq> []) ''DisableCookies'' (DisableCookies i) @
     entry (Addresses i \<noteq> []) ''Address'' (Join (map IPCidr_String (Addresses i)) '', '') @
     entry (DNS i \<noteq> [] \<or> DNSSearch i \<noteq> []) ''DNS'' (Join (map IPString (DNS i) @ DNSSearch i) '', '') @
     entry (MTU i > 0) ''MTU'' (dec (unat (MTU i))) @
     entry (PreUp i \<noteq> []) ''PreUp'' (PreUp i) @
     entry (PostUp i \<noteq> []) ''PostUp'' (PostUp i) @
     entry (PreDown i \<noteq> []) ''PreDown'' (PreDown i) @
     entry (PostDown i \<noteq> []) ''PostDown'' (PostDown i) @
     entry (TableOff i) ''Table'' ''off''"

definition peer_entries :: "Peer \<Rightarrow> (string \<times> string) list" where
  "peer_entries p =
     entry True ''PublicKey'' (Key_String (PublicKey p)) @
     entry (\<not> Key_IsZero (PresharedKey p)) ''PresharedKey'' (Key_String (PresharedKey p)) @
     entry (AllowedIPs p \<noteq> []) ''AllowedIPs'' (Join (map IPCidr_String (AllowedIPs p)) '', '') @
     entry (\<not> Endpoint_IsEmpty (EndpointOf p)) ''Endpoint'' (Endpoint_String (EndpointOf p)) @
     entry (PersistentKeepalive p \<noteq> [] \<and> PersistentKeepalive p \<noteq> ''0'' \<and> PersistentKeepalive p \<noteq> ''off'')
       ''PersistentKeepalive'' (PersistentKeepalive p)"

definition interface_lines :: "Interface \<Rightarrow> string list" where
  "interface_lines i = ''[Interface]'' # map entry_line (interface_entries i)"

definition peer_lines :: "Peer \<Rightarrow> string list" where
  "peer_lines p = [] # ''[Peer]'' # map entry_line (peer_entries p)"

lemma unlines_append [simp]: "unlines (xs @ ys) = unlines xs @ unlines ys"
  and unlines_Cons [simp]: "unlines (x # xs) = x @ newline # unlines xs"
  and unlines_Nil [simp]: "unlines [] = []"
  by (simp_all add: unlines_def)

lemma unlines_entry: "unlines (map entry_line (entry c k v)) = quick_line c k v"
  by (simp add: entry_def quick_line_def entry_line_def)

lemma unlines_packets:
  "unlines (map entry_line (packet_entries i ks)) =
   concat (map (\<lambda>k. quick_line (packet_value i k \<noteq> []) (map ascii_upper k) (packet_value i k)) ks)"
  by (induction ks) (simp_all add: packet_entries_def unlines_entry)

lemma quick_interface_lines: "quick_interface i = unlines (interface_lines i)"
  by (simp add: quick_interface_def interface_lines_def interface_entries_def unlines_entry
      unlines_packets quick_num_def quick_str_def quick_packets_def)

lemma quick_peer_lines: "quick_peer p = unlines (peer_lines p)"
  by (simp add: quick_peer_def peer_lines_def peer_entries_def unlines_entry)

lemma ToWgQuick_lines:
  "ToWgQuick c = unlines (interface_lines (InterfaceOf c) @ concat (map peer_lines (Peers c)))"
proof -
  have "concat (map quick_peer ps) = unlines (concat (map peer_lines ps))" for ps
    by (induction ps) (simp_all add: quick_peer_lines)
  then show ?thesis by (simp add: ToWgQuick_def quick_interface_lines)
qed

section \<open>Reading entries back\<close>

definition entry_ok :: "string \<times> string \<Rightarrow> bool" where
  "entry_ok kv \<longleftrightarrow> key_text (fst kv) \<and> storable (snd kv)"

definition set_interface :: "string \<times> string \<Rightarrow> Interface \<Rightarrow> Interface result" where
  "set_interface kv i = interface_key (map ascii_lower (fst kv)) (snd kv) i"

definition set_peer :: "string \<times> string \<Rightarrow> Peer \<Rightarrow> Peer result" where
  "set_peer kv p = peer_key (map ascii_lower (fst kv)) (snd kv) p"

lemma read_interface_entries:
  assumes "\<forall>e \<in> set es. entry_ok e" "parserStateOf st = inInterfaceSection"
    and "rfold set_interface es (InterfaceOf (conf st)) = Inr i"
  shows "rfold (wgquick_line T) (map entry_line es) st =
    Inr (st\<lparr>conf := (conf st)\<lparr>InterfaceOf := i\<rparr>,
            sawPrivateKey := sawPrivateKey st \<or> (\<exists>e \<in> set es. map ascii_lower (fst e) = ''privatekey'')\<rparr>)"
  using assms
proof (induction es arbitrary: st)
  case (Cons e es)
  obtain k v where e: "e = (k, v)" by fastforce
  with Cons.prems have kv: "key_text k" "storable v" by (auto simp: entry_ok_def)
  from Cons.prems(3) obtain j where j: "set_interface e (InterfaceOf (conf st)) = Inr j"
    and rest: "rfold set_interface es j = Inr i"
    by (auto split: sum.splits)
  let ?st = "st\<lparr>conf := (conf st)\<lparr>InterfaceOf := j\<rparr>, sawPrivateKey := sawPrivateKey st \<or> map ascii_lower k = ''privatekey''\<rparr>"
  have "wgquick_line T (entry_line e) st = Inr ?st"
    using j Cons.prems(2) unfolding e wgquick_entry_line [OF kv]
    by (subst key_line_entry [OF kv]) (simp_all add: set_interface_def)
  moreover have "rfold (wgquick_line T) (map entry_line es) ?st =
    Inr (?st\<lparr>conf := (conf ?st)\<lparr>InterfaceOf := i\<rparr>,
             sawPrivateKey := sawPrivateKey ?st \<or> (\<exists>e \<in> set es. map ascii_lower (fst e) = ''privatekey'')\<rparr>)"
    using Cons.prems rest by (intro Cons.IH) simp_all
  ultimately show ?case by (simp add: e disj_assoc)
qed simp

lemma read_peer_entries:
  assumes "\<forall>e \<in> set es. entry_ok e" "parserStateOf st = inPeerSection" "peer st = Some p"
    and "rfold set_peer es p = Inr q"
  shows "rfold (wgquick_line T) (map entry_line es) st = Inr (st\<lparr>peer := Some q\<rparr>)"
  using assms
proof (induction es arbitrary: st p)
  case (Cons e es)
  obtain k v where e: "e = (k, v)" by fastforce
  with Cons.prems have kv: "key_text k" "storable v" by (auto simp: entry_ok_def)
  from Cons.prems(4) obtain r where r: "set_peer e p = Inr r" and rest: "rfold set_peer es r = Inr q"
    by (auto split: sum.splits)
  let ?st = "st\<lparr>peer := Some r\<rparr>"
  have "wgquick_line T (entry_line e) st = Inr ?st"
    using r Cons.prems(2, 3) unfolding e wgquick_entry_line [OF kv]
    by (subst key_line_entry [OF kv]) (simp_all add: set_peer_def)
  moreover have "rfold (wgquick_line T) (map entry_line es) ?st = Inr (?st\<lparr>peer := Some q\<rparr>)"
    using Cons.prems rest by (intro Cons.IH [of _ r]) simp_all
  ultimately show ?case by simp
qed simp


subsection \<open>One field at a time\<close>

lemma rfold_entry:
  assumes "c \<Longrightarrow> f (k, v) x = Inr y" "\<not> c \<Longrightarrow> y = x"
  shows "rfold f (entry c k v @ es) x = rfold f es y"
  using assms by (simp add: entry_def)

lemma word16_zero: "\<not> 0 < n \<Longrightarrow> (n :: uint16) = 0"
  by (simp add: word_gt_0)

lemma Join_cidrs_read:
  "as \<noteq> [] \<Longrightarrow> \<forall>a \<in> set as. cidr_ok a \<Longrightarrow>
   rbind (splitList (Join (map IPCidr_String as) '', '')) (\<lambda>xs. rbind (rmap parseIPCidr xs) g) = g as"
  using cidr_codec.list_round_trip [of as] by (auto simp: rbind_eq_Inr_iff)

definition file_keys :: "(string \<times> string) list" where
  "file_keys = [
    (''PrivateKey'', ''privatekey''), (''ListenPort'', ''listenport''), (''Jc'', ''jc''),
    (''Jmin'', ''jmin''), (''Jmax'', ''jmax''), (''S1'', ''s1''),
    (''S2'', ''s2''), (''S3'', ''s3''), (''S4'', ''s4''),
    (''H1'', ''h1''), (''H2'', ''h2''), (''H3'', ''h3''),
    (''H4'', ''h4''), (''HeaderProtectionKey'', ''headerprotectionkey''), (''ContentPaddingAddition'', ''contentpaddingaddition''),
    (''RekeyAfterTime'', ''rekeyaftertime''), (''RekeyTimeout'', ''rekeytimeout''), (''RejectAfterTime'', ''rejectaftertime''),
    (''KeepaliveTimeout'', ''keepalivetimeout''), (''MaxHandshakeAttempts'', ''maxhandshakeattempts''), (''RandomTrailers'', ''randomtrailers''),
    (''DisableCookies'', ''disablecookies''), (''Address'', ''address''), (''DNS'', ''dns''),
    (''MTU'', ''mtu''), (''PreUp'', ''preup''), (''PostUp'', ''postup''),
    (''PreDown'', ''predown''), (''PostDown'', ''postdown''), (''Table'', ''table''),
    (''PublicKey'', ''publickey''), (''PresharedKey'', ''presharedkey''), (''AllowedIPs'', ''allowedips''),
    (''Endpoint'', ''endpoint''), (''PersistentKeepalive'', ''persistentkeepalive'')]"

lemma file_keys_text: "(k, l) \<in> set file_keys \<Longrightarrow> map ascii_lower k = l \<and> key_text k"
proof -
  have "list_all (\<lambda>(k, l). map ascii_lower k = l \<and> key_text k) file_keys" by code_simp
  then show "(k, l) \<in> set file_keys \<Longrightarrow> map ascii_lower k = l \<and> key_text k"
    by (auto simp: list_all_iff)
qed

lemma lower_key [simp]:
  "map ascii_lower ''PrivateKey'' = ''privatekey''"
  "map ascii_lower ''ListenPort'' = ''listenport''"
  "map ascii_lower ''Jc'' = ''jc''"
  "map ascii_lower ''Jmin'' = ''jmin''"
  "map ascii_lower ''Jmax'' = ''jmax''"
  "map ascii_lower ''S1'' = ''s1''"
  "map ascii_lower ''S2'' = ''s2''"
  "map ascii_lower ''S3'' = ''s3''"
  "map ascii_lower ''S4'' = ''s4''"
  "map ascii_lower ''H1'' = ''h1''"
  "map ascii_lower ''H2'' = ''h2''"
  "map ascii_lower ''H3'' = ''h3''"
  "map ascii_lower ''H4'' = ''h4''"
  "map ascii_lower ''HeaderProtectionKey'' = ''headerprotectionkey''"
  "map ascii_lower ''ContentPaddingAddition'' = ''contentpaddingaddition''"
  "map ascii_lower ''RekeyAfterTime'' = ''rekeyaftertime''"
  "map ascii_lower ''RekeyTimeout'' = ''rekeytimeout''"
  "map ascii_lower ''RejectAfterTime'' = ''rejectaftertime''"
  "map ascii_lower ''KeepaliveTimeout'' = ''keepalivetimeout''"
  "map ascii_lower ''MaxHandshakeAttempts'' = ''maxhandshakeattempts''"
  "map ascii_lower ''RandomTrailers'' = ''randomtrailers''"
  "map ascii_lower ''DisableCookies'' = ''disablecookies''"
  "map ascii_lower ''Address'' = ''address''"
  "map ascii_lower ''DNS'' = ''dns''"
  "map ascii_lower ''MTU'' = ''mtu''"
  "map ascii_lower ''PreUp'' = ''preup''"
  "map ascii_lower ''PostUp'' = ''postup''"
  "map ascii_lower ''PreDown'' = ''predown''"
  "map ascii_lower ''PostDown'' = ''postdown''"
  "map ascii_lower ''Table'' = ''table''"
  "map ascii_lower ''PublicKey'' = ''publickey''"
  "map ascii_lower ''PresharedKey'' = ''presharedkey''"
  "map ascii_lower ''AllowedIPs'' = ''allowedips''"
  "map ascii_lower ''Endpoint'' = ''endpoint''"
  "map ascii_lower ''PersistentKeepalive'' = ''persistentkeepalive''"
  by (rule file_keys_text [THEN conjunct1], simp add: file_keys_def)+

lemma set_interface_num:
  "set_interface (''ListenPort'', dec (unat n)) x = Inr (x\<lparr>ListenPort := n\<rparr>)"
  "set_interface (''Jc'', dec (unat n)) x = Inr (x\<lparr>JunkPacketCount := n\<rparr>)"
  "set_interface (''Jmin'', dec (unat n)) x = Inr (x\<lparr>JunkPacketMinSize := n\<rparr>)"
  "set_interface (''Jmax'', dec (unat n)) x = Inr (x\<lparr>JunkPacketMaxSize := n\<rparr>)"
  "set_interface (''S1'', dec (unat n)) x = Inr (x\<lparr>InitPacketJunkSize := n\<rparr>)"
  "set_interface (''S2'', dec (unat n)) x = Inr (x\<lparr>ResponsePacketJunkSize := n\<rparr>)"
  "set_interface (''S3'', dec (unat n)) x = Inr (x\<lparr>CookieReplyPacketJunkSize := n\<rparr>)"
  "set_interface (''S4'', dec (unat n)) x = Inr (x\<lparr>TransportPacketJunkSize := n\<rparr>)"
  by (simp_all add: set_interface_def interface_key_def port_codec.deco_enc uint16_codec.deco_enc
      del: list.map(2))

lemma set_interface_text:
  "set_interface (''H1'', v) x = Inr (x\<lparr>InitPacketMagicHeader := v\<rparr>)"
  "set_interface (''H2'', v) x = Inr (x\<lparr>ResponsePacketMagicHeader := v\<rparr>)"
  "set_interface (''H3'', v) x = Inr (x\<lparr>UnderloadPacketMagicHeader := v\<rparr>)"
  "set_interface (''H4'', v) x = Inr (x\<lparr>TransportPacketMagicHeader := v\<rparr>)"
  "set_interface (''ContentPaddingAddition'', v) x = Inr (x\<lparr>ContentPaddingAddition := v\<rparr>)"
  "set_interface (''RekeyAfterTime'', v) x = Inr (x\<lparr>RekeyAfterTime := v\<rparr>)"
  "set_interface (''RekeyTimeout'', v) x = Inr (x\<lparr>RekeyTimeout := v\<rparr>)"
  "set_interface (''RejectAfterTime'', v) x = Inr (x\<lparr>RejectAfterTime := v\<rparr>)"
  "set_interface (''KeepaliveTimeout'', v) x = Inr (x\<lparr>KeepaliveTimeout := v\<rparr>)"
  "set_interface (''MaxHandshakeAttempts'', v) x = Inr (x\<lparr>MaxHandshakeAttempts := v\<rparr>)"
  "set_interface (''RandomTrailers'', v) x = Inr (x\<lparr>RandomTrailers := v\<rparr>)"
  "set_interface (''DisableCookies'', v) x = Inr (x\<lparr>DisableCookies := v\<rparr>)"
  "set_interface (''PreUp'', v) x = Inr (x\<lparr>PreUp := v\<rparr>)"
  "set_interface (''PostUp'', v) x = Inr (x\<lparr>PostUp := v\<rparr>)"
  "set_interface (''PreDown'', v) x = Inr (x\<lparr>PreDown := v\<rparr>)"
  "set_interface (''PostDown'', v) x = Inr (x\<lparr>PostDown := v\<rparr>)"
  by (simp_all add: set_interface_def interface_key_def packet_keys_def del: list.map(2))

lemma parseTableOff_off: "parseTableOff ''off'' = Inr True"
  by (simp add: parseTableOff_def)

lemma set_interface_other:
  "key_ok k \<Longrightarrow> set_interface (''PrivateKey'', Key_String k) x = Inr (x\<lparr>PrivateKey := k\<rparr>)"
  "key_ok k \<Longrightarrow> set_interface (''HeaderProtectionKey'', Key_String k) x = Inr (x\<lparr>HeaderProtectionKey := k\<rparr>)"
  "576 \<le> uint m \<Longrightarrow> set_interface (''MTU'', dec (unat m)) x = Inr (x\<lparr>MTU := m\<rparr>)"
  "set_interface (''Table'', ''off'') x = Inr (x\<lparr>TableOff := True\<rparr>)"
  "as \<noteq> [] \<Longrightarrow> \<forall>a \<in> set as. cidr_ok a \<Longrightarrow>
     set_interface (''Address'', Join (map IPCidr_String as) '', '') x = Inr (x\<lparr>Addresses := Addresses x @ as\<rparr>)"
  by (simp_all add: set_interface_def interface_key_def packet_keys_def
      key_codec.deco_enc mtu_codec.deco_enc Join_cidrs_read parseTableOff_off del: list.map(2))

lemma set_interface_dns:
  assumes "dns \<noteq> [] \<or> search \<noteq> []" "\<forall>ip \<in> set dns. length ip = 16"
    "\<forall>d \<in> set search. list_item d \<and> ParseIP d = None"
  shows "set_interface (''DNS'', Join (map IPString dns @ search) '', '') x =
           Inr (x\<lparr>DNS := DNS x @ dns, DNSSearch := DNSSearch x @ search\<rparr>)"
proof -
  let ?xs = "map IPString dns @ search"
  have ip: "ParseIP (IPString ip) = Some ip" if "ip \<in> set dns" for ip
    using that assms(2) ParseIP_IPString [of ip] by (simp add: To16_def)
  have "\<forall>s \<in> set ?xs. list_item s"
    using assms(2, 3) IPString_chars(1) token_text_item by auto
  then have "splitList (Join ?xs '', '') = Inr ?xs"
    using assms(1) by (intro splitList_Join) auto
  moreover have "List.map_filter ParseIP ?xs = dns"
    using ip assms(3) by (simp add: List.map_filter_def filter_id_conv comp_def map_idI)
  moreover have "filter (\<lambda>a. ParseIP a = None) ?xs = search"
    using ip assms(3) by (simp add: filter_empty_conv filter_id_conv)
  ultimately show ?thesis
    by (simp add: set_interface_def interface_key_def packet_keys_def add_dns_eq del: list.map(2))
qed

definition packet_list :: "Interface \<Rightarrow> string list \<Rightarrow> (string \<times> string) list" where
  "packet_list i ks = map (\<lambda>k. (k, packet_value i k)) (filter (\<lambda>k. packet_value i k \<noteq> []) ks)"

lemma update_new: "k \<notin> fst ` set al \<Longrightarrow> AList.update k v al = al @ [(k, v)]"
  by (induction al) auto

lemma packet_key_case:
  assumes "k \<in> set packet_keys"
  shows "map ascii_lower (map ascii_upper k) = k" "key_text (map ascii_upper k)"
proof -
  have "list_all (\<lambda>k. map ascii_lower (map ascii_upper k) = k \<and> key_text (map ascii_upper k)) packet_keys"
    by code_simp
  with assms show "map ascii_lower (map ascii_upper k) = k" "key_text (map ascii_upper k)"
    by (simp_all add: list_all_iff del: map_map)
qed

lemma interface_key_packet:
  assumes "v \<noteq> []"
  shows "interface_key ''i1'' v x = Inr (x\<lparr>IPackets := AList.update ''i1'' v (IPackets x)\<rparr>)"
    "interface_key ''i2'' v x = Inr (x\<lparr>IPackets := AList.update ''i2'' v (IPackets x)\<rparr>)"
    "interface_key ''i3'' v x = Inr (x\<lparr>IPackets := AList.update ''i3'' v (IPackets x)\<rparr>)"
    "interface_key ''i4'' v x = Inr (x\<lparr>IPackets := AList.update ''i4'' v (IPackets x)\<rparr>)"
    "interface_key ''i5'' v x = Inr (x\<lparr>IPackets := AList.update ''i5'' v (IPackets x)\<rparr>)"
  using assms by (simp_all add: interface_key_def packet_keys_def)

lemma set_interface_packet:
  assumes "k \<in> set packet_keys" "v \<noteq> []" "k \<notin> fst ` set (IPackets x)"
  shows "set_interface (map ascii_upper k, v) x = Inr (x\<lparr>IPackets := IPackets x @ [(k, v)]\<rparr>)"
proof -
  have "set_interface (map ascii_upper k, v) x = interface_key k v x"
    using packet_key_case(1) [OF assms(1)] by (simp only: set_interface_def fst_conv snd_conv)
  also have "interface_key k v x = Inr (x\<lparr>IPackets := AList.update k v (IPackets x)\<rparr>)"
    using assms(1) interface_key_packet [OF assms(2)] unfolding packet_keys_def by auto
  finally show ?thesis by (simp only: update_new [OF assms(3)])
qed

lemma read_packets:
  assumes "distinct ks" "set ks \<subseteq> set packet_keys" "set ks \<inter> fst ` set (IPackets x) = {}"
  shows "rfold set_interface (packet_entries i ks @ es) x =
           rfold set_interface es (x\<lparr>IPackets := IPackets x @ packet_list i ks\<rparr>)"
  using assms
proof (induction ks arbitrary: x)
  case (Cons k ks)
  show ?case
  proof (cases "packet_value i k = []")
    case True
    with Cons show ?thesis by (simp add: packet_entries_def packet_list_def entry_def)
  next
    case False
    let ?x = "x\<lparr>IPackets := IPackets x @ [(k, packet_value i k)]\<rparr>"
    have "rfold set_interface (packet_entries i (k # ks) @ es) x =
          rfold set_interface (packet_entries i ks @ es) ?x"
      using False Cons.prems by (simp add: packet_entries_def entry_def set_interface_packet)
    also have "\<dots> = rfold set_interface es (?x\<lparr>IPackets := IPackets ?x @ packet_list i ks\<rparr>)"
      using Cons.prems by (intro Cons.IH) auto
    finally show ?thesis using False by (simp add: packet_list_def)
  qed
qed (simp add: packet_entries_def packet_list_def)


subsection \<open>Sections\<close>

text \<open>
  What a stored configuration is read back as: a keepalive of zero is the absent one, and the
  packets come back in the order they are written (a Go map has no order).
\<close>

definition stored_interface :: "Interface \<Rightarrow> Interface" where
  "stored_interface i = i\<lparr>IPackets := packet_list i packet_keys\<rparr>"

definition stored_peer :: "Peer \<Rightarrow> Peer" where
  "stored_peer p = (if PersistentKeepalive p = ''0'' then p\<lparr>PersistentKeepalive := []\<rparr> else p)"

definition stored_config :: "Config \<Rightarrow> Config" where
  "stored_config c = c\<lparr>InterfaceOf := stored_interface (InterfaceOf c), Peers := map stored_peer (Peers c)\<rparr>"

lemma zero_Interface_fields [simp]:
  "ListenPort zero_Interface = 0" "JunkPacketCount zero_Interface = 0"
  "JunkPacketMinSize zero_Interface = 0" "JunkPacketMaxSize zero_Interface = 0"
  "InitPacketJunkSize zero_Interface = 0" "ResponsePacketJunkSize zero_Interface = 0"
  "CookieReplyPacketJunkSize zero_Interface = 0" "TransportPacketJunkSize zero_Interface = 0"
  "InitPacketMagicHeader zero_Interface = []" "ResponsePacketMagicHeader zero_Interface = []"
  "UnderloadPacketMagicHeader zero_Interface = []" "TransportPacketMagicHeader zero_Interface = []"
  "HeaderProtectionKey zero_Interface = zero_key" "ContentPaddingAddition zero_Interface = []"
  "RekeyAfterTime zero_Interface = []" "RekeyTimeout zero_Interface = []"
  "RejectAfterTime zero_Interface = []" "KeepaliveTimeout zero_Interface = []"
  "MaxHandshakeAttempts zero_Interface = []" "RandomTrailers zero_Interface = []"
  "DisableCookies zero_Interface = []" "Addresses zero_Interface = []" "DNS zero_Interface = []"
  "DNSSearch zero_Interface = []" "PreUp zero_Interface = []" "PostUp zero_Interface = []"
  "PreDown zero_Interface = []" "PostDown zero_Interface = []" "TableOff zero_Interface = False"
  "IPackets zero_Interface = []"
  by (simp_all add: zero_Interface_def)

lemma read_nums:
  "ListenPort x = 0 \<Longrightarrow> rfold set_interface (entry (0 < n) ''ListenPort'' (dec (unat n)) @ es) x =
     rfold set_interface es (x\<lparr>ListenPort := n\<rparr>)"
  "JunkPacketCount x = 0 \<Longrightarrow> rfold set_interface (entry (0 < n) ''Jc'' (dec (unat n)) @ es) x =
     rfold set_interface es (x\<lparr>JunkPacketCount := n\<rparr>)"
  "JunkPacketMinSize x = 0 \<Longrightarrow> rfold set_interface (entry (0 < n) ''Jmin'' (dec (unat n)) @ es) x =
     rfold set_interface es (x\<lparr>JunkPacketMinSize := n\<rparr>)"
  "JunkPacketMaxSize x = 0 \<Longrightarrow> rfold set_interface (entry (0 < n) ''Jmax'' (dec (unat n)) @ es) x =
     rfold set_interface es (x\<lparr>JunkPacketMaxSize := n\<rparr>)"
  "InitPacketJunkSize x = 0 \<Longrightarrow> rfold set_interface (entry (0 < n) ''S1'' (dec (unat n)) @ es) x =
     rfold set_interface es (x\<lparr>InitPacketJunkSize := n\<rparr>)"
  "ResponsePacketJunkSize x = 0 \<Longrightarrow> rfold set_interface (entry (0 < n) ''S2'' (dec (unat n)) @ es) x =
     rfold set_interface es (x\<lparr>ResponsePacketJunkSize := n\<rparr>)"
  "CookieReplyPacketJunkSize x = 0 \<Longrightarrow> rfold set_interface (entry (0 < n) ''S3'' (dec (unat n)) @ es) x =
     rfold set_interface es (x\<lparr>CookieReplyPacketJunkSize := n\<rparr>)"
  "TransportPacketJunkSize x = 0 \<Longrightarrow> rfold set_interface (entry (0 < n) ''S4'' (dec (unat n)) @ es) x =
     rfold set_interface es (x\<lparr>TransportPacketJunkSize := n\<rparr>)"
  by (auto intro!: rfold_entry simp: set_interface_num dest!: word16_zero)

lemma read_texts:
  "InitPacketMagicHeader x = [] \<Longrightarrow> rfold set_interface (entry (v \<noteq> []) ''H1'' v @ es) x =
     rfold set_interface es (x\<lparr>InitPacketMagicHeader := v\<rparr>)"
  "ResponsePacketMagicHeader x = [] \<Longrightarrow> rfold set_interface (entry (v \<noteq> []) ''H2'' v @ es) x =
     rfold set_interface es (x\<lparr>ResponsePacketMagicHeader := v\<rparr>)"
  "UnderloadPacketMagicHeader x = [] \<Longrightarrow> rfold set_interface (entry (v \<noteq> []) ''H3'' v @ es) x =
     rfold set_interface es (x\<lparr>UnderloadPacketMagicHeader := v\<rparr>)"
  "TransportPacketMagicHeader x = [] \<Longrightarrow> rfold set_interface (entry (v \<noteq> []) ''H4'' v @ es) x =
     rfold set_interface es (x\<lparr>TransportPacketMagicHeader := v\<rparr>)"
  "ContentPaddingAddition x = [] \<Longrightarrow> rfold set_interface (entry (v \<noteq> []) ''ContentPaddingAddition'' v @ es) x =
     rfold set_interface es (x\<lparr>ContentPaddingAddition := v\<rparr>)"
  "RekeyAfterTime x = [] \<Longrightarrow> rfold set_interface (entry (v \<noteq> []) ''RekeyAfterTime'' v @ es) x =
     rfold set_interface es (x\<lparr>RekeyAfterTime := v\<rparr>)"
  "RekeyTimeout x = [] \<Longrightarrow> rfold set_interface (entry (v \<noteq> []) ''RekeyTimeout'' v @ es) x =
     rfold set_interface es (x\<lparr>RekeyTimeout := v\<rparr>)"
  "RejectAfterTime x = [] \<Longrightarrow> rfold set_interface (entry (v \<noteq> []) ''RejectAfterTime'' v @ es) x =
     rfold set_interface es (x\<lparr>RejectAfterTime := v\<rparr>)"
  "KeepaliveTimeout x = [] \<Longrightarrow> rfold set_interface (entry (v \<noteq> []) ''KeepaliveTimeout'' v @ es) x =
     rfold set_interface es (x\<lparr>KeepaliveTimeout := v\<rparr>)"
  "MaxHandshakeAttempts x = [] \<Longrightarrow> rfold set_interface (entry (v \<noteq> []) ''MaxHandshakeAttempts'' v @ es) x =
     rfold set_interface es (x\<lparr>MaxHandshakeAttempts := v\<rparr>)"
  "RandomTrailers x = [] \<Longrightarrow> rfold set_interface (entry (v \<noteq> []) ''RandomTrailers'' v @ es) x =
     rfold set_interface es (x\<lparr>RandomTrailers := v\<rparr>)"
  "DisableCookies x = [] \<Longrightarrow> rfold set_interface (entry (v \<noteq> []) ''DisableCookies'' v @ es) x =
     rfold set_interface es (x\<lparr>DisableCookies := v\<rparr>)"
  "PreUp x = [] \<Longrightarrow> rfold set_interface (entry (v \<noteq> []) ''PreUp'' v @ es) x =
     rfold set_interface es (x\<lparr>PreUp := v\<rparr>)"
  "PostUp x = [] \<Longrightarrow> rfold set_interface (entry (v \<noteq> []) ''PostUp'' v @ es) x =
     rfold set_interface es (x\<lparr>PostUp := v\<rparr>)"
  "PreDown x = [] \<Longrightarrow> rfold set_interface (entry (v \<noteq> []) ''PreDown'' v @ es) x =
     rfold set_interface es (x\<lparr>PreDown := v\<rparr>)"
  "PostDown x = [] \<Longrightarrow> rfold set_interface (entry (v \<noteq> []) ''PostDown'' v @ es) x =
     rfold set_interface es (x\<lparr>PostDown := v\<rparr>)"
  by (auto intro!: rfold_entry simp: set_interface_text)

lemma read_others:
  "key_ok k \<Longrightarrow> rfold set_interface (entry True ''PrivateKey'' (Key_String k) @ es) x =
     rfold set_interface es (x\<lparr>PrivateKey := k\<rparr>)"
  "key_ok k \<Longrightarrow> HeaderProtectionKey x = zero_key \<Longrightarrow>
     rfold set_interface (entry (\<not> Key_IsZero k) ''HeaderProtectionKey'' (Key_String k) @ es) x =
     rfold set_interface es (x\<lparr>HeaderProtectionKey := k\<rparr>)"
  "576 \<le> uint m \<Longrightarrow> rfold set_interface (entry (0 < m) ''MTU'' (dec (unat m)) @ es) x =
     rfold set_interface es (x\<lparr>MTU := m\<rparr>)"
  "\<not> TableOff x \<Longrightarrow> rfold set_interface (entry b ''Table'' ''off'') x = Inr (x\<lparr>TableOff := b\<rparr>)"
  "Addresses x = [] \<Longrightarrow> \<forall>a \<in> set as. cidr_ok a \<Longrightarrow>
     rfold set_interface (entry (as \<noteq> []) ''Address'' (Join (map IPCidr_String as) '', '') @ es) x =
     rfold set_interface es (x\<lparr>Addresses := as\<rparr>)"
  by (auto intro!: rfold_entry simp: set_interface_other Key_IsZero_def dest!: word16_zero)
     (auto simp: entry_def set_interface_other)

lemma read_dns:
  assumes "DNS x = []" "DNSSearch x = []" "\<forall>ip \<in> set dns. length ip = 16"
    "\<forall>d \<in> set search. list_item d \<and> ParseIP d = None"
  shows "rfold set_interface (entry (dns = [] \<longrightarrow> search \<noteq> []) ''DNS'' (Join (map IPString dns @ search) '', '') @ es) x =
     rfold set_interface es (x\<lparr>DNS := dns, DNSSearch := search\<rparr>)"
  using assms by (intro rfold_entry) (auto simp: set_interface_dns)

lemmas read_fields = read_nums read_texts read_others read_dns

lemma packet_keys_distinct [simp]: "distinct packet_keys"
  by (simp add: packet_keys_def)

lemma read_interface:
  assumes "parsed_interface i"
  shows "rfold set_interface (interface_entries i) (zero_Interface\<lparr>MTU := 1420\<rparr>) = Inr (stored_interface i)"
proof -
  have ok: "key_ok (PrivateKey i)" "key_ok (HeaderProtectionKey i)" "\<forall>a \<in> set (Addresses i). cidr_ok a"
    "576 \<le> uint (MTU i)" "\<forall>ip \<in> set (DNS i). length ip = 16"
    "\<forall>d \<in> set (DNSSearch i). list_item d \<and> ParseIP d = None"
    using assms by (auto simp: parsed_interface_def dns_ok_def)
  show ?thesis
    unfolding interface_entries_def
    by (simp add: read_fields ok read_packets) (simp add: stored_interface_def zero_Interface_def)
qed


lemma set_peer_fields:
  "key_ok k \<Longrightarrow> set_peer (''PublicKey'', Key_String k) x = Inr (x\<lparr>PublicKey := k\<rparr>)"
  "key_ok k \<Longrightarrow> set_peer (''PresharedKey'', Key_String k) x = Inr (x\<lparr>PresharedKey := k\<rparr>)"
  "as \<noteq> [] \<Longrightarrow> \<forall>a \<in> set as. cidr_ok a \<Longrightarrow>
     set_peer (''AllowedIPs'', Join (map IPCidr_String as) '', '') x = Inr (x\<lparr>AllowedIPs := AllowedIPs x @ as\<rparr>)"
  "endpoint_ok e \<Longrightarrow> set_peer (''Endpoint'', Endpoint_String e) x = Inr (x\<lparr>EndpointOf := e\<rparr>)"
  "parsePersistentKeepalive v = Inr v \<Longrightarrow>
     set_peer (''PersistentKeepalive'', v) x = Inr (x\<lparr>PersistentKeepalive := v\<rparr>)"
  by (simp_all add: set_peer_def peer_key_def key_codec.deco_enc Join_cidrs_read
      endpoint_codec.deco_enc del: list.map(2))

text \<open>An endpoint the writer's text is read back for.\<close>

definition endpoint_readable :: "Peer \<Rightarrow> bool" where
  "endpoint_readable p \<longleftrightarrow> Host (EndpointOf p) = [] \<or> hd (Host (EndpointOf p)) \<noteq> CHR '':'' \<or>
     ipv6_host (Host (EndpointOf p))"

lemma read_peer:
  assumes "parsed_peer p" "endpoint_readable p"
  shows "rfold set_peer (peer_entries p) zero_Peer = Inr (stored_peer p)"
proof -
  have ok: "key_ok (PublicKey p)" "key_ok (PresharedKey p)" "\<forall>a \<in> set (AllowedIPs p). cidr_ok a"
    using assms(1) by (auto simp: parsed_peer_def)
  have ep: "\<not> Endpoint_IsEmpty (EndpointOf p) \<Longrightarrow> endpoint_ok (EndpointOf p)"
    "Endpoint_IsEmpty (EndpointOf p) \<Longrightarrow> EndpointOf p = zero_Endpoint"
    using assms by (auto simp: parsed_peer_def endpoint_readable_def endpoint_stored_def
        Endpoint_IsEmpty_def zero_Endpoint_def)
  have ka: "PersistentKeepalive p \<noteq> ''off''"
    "PersistentKeepalive p \<noteq> [] \<Longrightarrow> parsePersistentKeepalive (PersistentKeepalive p) = Inr (PersistentKeepalive p)"
    using assms(1) by (auto simp: parsed_peer_def)
  have "rfold set_peer (peer_entries p) zero_Peer =
    Inr (zero_Peer\<lparr>PublicKey := PublicKey p, PresharedKey := PresharedKey p, AllowedIPs := AllowedIPs p,
      EndpointOf := EndpointOf p,
      PersistentKeepalive := (if PersistentKeepalive p = ''0'' then [] else PersistentKeepalive p)\<rparr>)"
    unfolding peer_entries_def
    by (auto simp: entry_def set_peer_fields ok ep ka zero_Peer_def Key_IsZero_def)
  then show ?thesis
    using assms(1) by (cases p) (simp add: stored_peer_def zero_Peer_def parsed_peer_def)
qed


section \<open>The whole file\<close>

lemma entry_okI:
  assumes "k \<in> set (map fst file_keys)" "c \<Longrightarrow> storable v"
  shows "\<forall>e \<in> set (entry c k v). entry_ok e"
proof -
  have "key_text k" using assms(1) file_keys_text by auto
  then show ?thesis using assms(2) by (simp add: entry_def entry_ok_def)
qed

lemma storable_dec: "storable (dec n)"
  using token_text_item [OF token_dec [of n]] by (simp add: list_item_def)

lemma Join_storable:
  assumes "ss \<noteq> []" "\<forall>s \<in> set ss. list_item s"
  shows "storable (Join ss '', '')"
  using assms
proof (induction ss)
  case (Cons s ss)
  show ?case
  proof (cases ss)
    case Nil
    with Cons show ?thesis by (simp add: list_item_def)
  next
    case (Cons t ts)
    let ?J = "Join ss '', ''"
    have s: "storable s" "list_item s" and J: "storable ?J"
      using Cons.prems Cons.IH Cons by (auto simp: list_item_def)
    have eq: "Join (s # ss) '', '' = (s @ '','') @ CHR '' '' # ?J" using Cons by simp
    have "TrimRightSpace ((s @ '','') @ CHR '' '' # ?J) = (s @ '','') @ CHR '' '' # ?J"
      using J by (intro TrimRightSpace_append) (auto simp: storable_def trimmed_right is_ascii_def code_def)
    moreover have "TrimLeftSpace (s @ CHR '','' # CHR '' '' # ?J) = s @ CHR '','' # CHR '' '' # ?J"
      using s(1) TrimLeftSpace_sep_iff [of s "CHR '',''"] trimmed_left [of s]
      by (simp add: storable_def is_ascii_def code_def)
    ultimately show ?thesis using s J unfolding eq
      by (auto simp: storable_def trimmed_def TrimSpace_def newline_def)
  qed
qed simp


lemma packet_value_storable:
  assumes "packets_ok i" "packet_value i k \<noteq> []"
  shows "storable (packet_value i k)"
  using assms by (auto simp: packet_value_def packets_ok_def split: option.splits dest!: map_of_SomeD)

lemma packet_entries_ok:
  assumes "packets_ok i" "set ks \<subseteq> set packet_keys"
  shows "\<forall>e \<in> set (packet_entries i ks). entry_ok e"
  using assms packet_key_case(2) packet_value_storable [OF assms(1)]
  by (fastforce simp: packet_entries_def entry_def entry_ok_def)

lemma storable_off: "storable ''off''"
proof -
  have "token_text ''off''" by code_simp
  then show ?thesis using token_text_item by (simp add: list_item_def)
qed

lemma interface_entries_ok:
  assumes "parsed_interface i"
  shows "\<forall>e \<in> set (interface_entries i). entry_ok e"
proof -
  have ok: "key_ok (PrivateKey i)" "key_ok (HeaderProtectionKey i)" "\<forall>a \<in> set (Addresses i). cidr_ok a"
    "\<forall>ip \<in> set (DNS i). length ip = 16" "\<forall>d \<in> set (DNSSearch i). list_item d" "packets_ok i"
    and texts: "\<forall>v \<in> set (texts i). v \<noteq> [] \<longrightarrow> storable v"
    using assms by (auto simp: parsed_interface_def dns_ok_def text_field_def)
  have dns: "DNS i \<noteq> [] \<or> DNSSearch i \<noteq> [] \<Longrightarrow> storable (Join (map IPString (DNS i) @ DNSSearch i) '', '')"
    using ok(4, 5) IPString_chars(1) token_text_item by (intro Join_storable) auto
  have addr: "Addresses i \<noteq> [] \<Longrightarrow> storable (Join (map IPCidr_String (Addresses i)) '', '')"
    using ok(3) cidr_codec.enc_item by (intro Join_storable) auto
  show ?thesis
    unfolding interface_entries_def set_append ball_Un
    by (intro conjI entry_okI packet_entries_ok ok(6))
       (use ok texts dns addr in \<open>simp_all add: file_keys_def texts_def storable_dec storable_off
          key_codec.enc_storable\<close>)
qed

lemma peer_entries_ok:
  assumes "parsed_peer p"
  shows "\<forall>e \<in> set (peer_entries p). entry_ok e"
proof -
  have addr: "AllowedIPs p \<noteq> [] \<Longrightarrow> storable (Join (map IPCidr_String (AllowedIPs p)) '', '')"
    using assms cidr_codec.enc_item by (intro Join_storable) (auto simp: parsed_peer_def)
  have ep: "\<not> Endpoint_IsEmpty (EndpointOf p) \<Longrightarrow> storable (Endpoint_String (EndpointOf p))"
    using assms by (auto simp: parsed_peer_def endpoint_stored_def Endpoint_IsEmpty_def zero_Endpoint_def)
  show ?thesis
    unfolding peer_entries_def set_append ball_Un
    by (intro conjI entry_okI)
       (use assms addr ep in \<open>auto simp: parsed_peer_def file_keys_def key_codec.enc_storable\<close>)
qed


lemma key_text_newline:
  assumes "key_text k"
  shows "newline \<notin> set k"
proof
  assume nl: "newline \<in> set k"
  have "\<forall>c \<in> set k. plain c" using assms by (simp add: key_text_def list_all_iff)
  then have "plain newline" using nl by (rule bspec)
  then show False by simp
qed

lemma entry_line_newline: "entry_ok e \<Longrightarrow> newline \<notin> set (entry_line e)"
  using key_text_newline [of "fst e"]
  by (simp add: entry_ok_def entry_line_def storable_def) (simp add: newline_def)

lemma interface_lines_newline: "parsed_interface i \<Longrightarrow> \<forall>l \<in> set (interface_lines i). newline \<notin> set l"
  using interface_entries_ok [of i] entry_line_newline
  by (simp add: interface_lines_def) (simp add: newline_def)

lemma peer_lines_newline: "parsed_peer p \<Longrightarrow> \<forall>l \<in> set (peer_lines p). newline \<notin> set l"
  using peer_entries_ok [of p] entry_line_newline
  by (simp add: peer_lines_def) (simp add: newline_def)

lemma header_lines:
  "strip_line ''[Interface]'' = ''[Interface]''" "strip_line ''[Peer]'' = ''[Peer]''" "strip_line [] = []"
  "ToLower T ''[Interface]'' = ''[interface]''" "ToLower T ''[Peer]'' = ''[peer]''"
proof -
  show "strip_line ''[Interface]'' = ''[Interface]''" "strip_line ''[Peer]'' = ''[Peer]''" "strip_line [] = []"
    by code_simp+
  have "list_all is_ascii ''[Interface]'' \<and> list_all is_ascii ''[Peer]'' \<and>
     map ascii_lower ''[Interface]'' = ''[interface]'' \<and> map ascii_lower ''[Peer]'' = ''[peer]''"
    by code_simp
  then show "ToLower T ''[Interface]'' = ''[interface]''" "ToLower T ''[Peer]'' = ''[peer]''"
    by (simp_all only: ToLower_ascii)
qed

lemma wgquick_header:
  "wgquick_line T ''[Interface]'' st =
     Inr (st\<lparr>conf := maybeAddPeer (conf st) (peer st), peer := None, parserStateOf := inInterfaceSection\<rparr>)"
  "wgquick_line T ''[Peer]'' st =
     Inr (st\<lparr>conf := maybeAddPeer (conf st) (peer st), peer := Some zero_Peer, parserStateOf := inPeerSection\<rparr>)"
  "wgquick_line T [] st = Inr st"
  by (simp_all add: wgquick_line_def header_lines)

lemma read_peer_lines:
  assumes "parsed_peer p" "endpoint_readable p"
  shows "rfold (wgquick_line T) (peer_lines p) st =
    Inr (st\<lparr>conf := maybeAddPeer (conf st) (peer st), peer := Some (stored_peer p), parserStateOf := inPeerSection\<rparr>)"
proof -
  let ?st = "st\<lparr>conf := maybeAddPeer (conf st) (peer st), peer := Some zero_Peer, parserStateOf := inPeerSection\<rparr>"
  have "rfold (wgquick_line T) (map entry_line (peer_entries p)) ?st = Inr (?st\<lparr>peer := Some (stored_peer p)\<rparr>)"
    using read_peer [OF assms] peer_entries_ok [OF assms(1)]
    by (intro read_peer_entries [where p = zero_Peer]) simp_all
  then show ?thesis by (simp add: peer_lines_def wgquick_header)
qed

lemma read_all_peers:
  assumes "\<forall>p \<in> set ps. parsed_peer p \<and> endpoint_readable p"
  shows "\<exists>st'. rfold (wgquick_line T) (concat (map peer_lines ps)) st = Inr st' \<and>
    sawPrivateKey st' = sawPrivateKey st \<and>
    maybeAddPeer (conf st') (peer st') =
      (let c = maybeAddPeer (conf st) (peer st) in c\<lparr>Peers := Peers c @ map stored_peer ps\<rparr>)"
  using assms
proof (induction ps arbitrary: st)
  case (Cons p ps)
  let ?st = "st\<lparr>conf := maybeAddPeer (conf st) (peer st), peer := Some (stored_peer p), parserStateOf := inPeerSection\<rparr>"
  have "rfold (wgquick_line T) (peer_lines p) st = Inr ?st"
    using Cons.prems by (intro read_peer_lines) simp_all
  with Cons.IH [of ?st] Cons.prems show ?case
    by (auto simp: rfold_append maybeAddPeer_def Let_def)
qed (simp add: Let_def)

lemma privatekey_entry: "\<exists>e \<in> set (interface_entries i). map ascii_lower (fst e) = ''privatekey''"
  by (simp add: interface_entries_def entry_def del: list.map(2))

lemma packet_list_subset:
  "distinct (map fst (IPackets i)) \<Longrightarrow> set (packet_list i ks) \<subseteq> set (IPackets i)"
  by (auto simp: packet_list_def packet_value_def split: option.splits dest: map_of_SomeD)

lemma ValidateAWG_stored:
  assumes "ValidateAWG T c = Inr ()" "packets_ok (InterfaceOf c)"
  shows "ValidateAWG T (stored_config c) = Inr ()"
proof -
  let ?i = "InterfaceOf c" and ?j = "InterfaceOf (stored_config c)"
  have fields: "JunkPacketMinSize ?j = JunkPacketMinSize ?i" "JunkPacketMaxSize ?j = JunkPacketMaxSize ?i"
    "HeaderProtectionKey ?j = HeaderProtectionKey ?i" "paddings ?j = paddings ?i"
    "magic_headers ?j = magic_headers ?i" "timing_fields ?j = timing_fields ?i"
    "switch_fields ?j = switch_fields ?i"
    by (simp_all add: stored_config_def stored_interface_def paddings_def effective_mtu_def
        magic_headers_def timing_fields_def switch_fields_def)
  have "set (IPackets ?j) \<subseteq> set (IPackets ?i)"
    using assms(2) packet_list_subset by (simp add: stored_config_def stored_interface_def packets_ok_def)
  moreover have "rfold check_packet (IPackets ?i) () = Inr ()"
    using assms(1) by (auto simp: ValidateAWG_def Let_def result_simps split: if_splits)
  ultimately have pk: "rfold check_packet (IPackets ?j) () = Inr ()"
    by (auto simp: rfold_unit)
  have "rfold check_keepalive (Peers c) () = Inr ()"
    using assms(1) by (auto simp: ValidateAWG_def Let_def result_simps split: if_splits)
  then have ka: "rfold check_keepalive (Peers (stored_config c)) () = Inr ()"
    by (auto simp: rfold_unit stored_config_def stored_peer_def check_keepalive_def)
  show ?thesis
    using assms(1) pk ka unfolding ValidateAWG_def Let_def fields
    by (auto simp: result_simps split: if_splits)
qed

lemma map_of_packet_list:
  assumes "packets_ok i"
  shows "map_of (packet_list i packet_keys) = map_of (IPackets i)"
proof
  fix k
  have mk: "map_of (map (\<lambda>k. (k, packet_value i k)) ks) k = (if k \<in> set ks then Some (packet_value i k) else None)" for ks
    by (induction ks) auto
  have pv: "map_of (IPackets i) k = Some v \<Longrightarrow> packet_value i k = v \<and> v \<noteq> [] \<and> k \<in> set packet_keys" for v
    using assms by (auto simp: packet_value_def packets_ok_def storable_def dest!: map_of_SomeD)
  show "map_of (packet_list i packet_keys) k = map_of (IPackets i) k"
  proof (cases "map_of (IPackets i) k")
    case None
    then have "packet_value i k = []" by (simp add: packet_value_def)
    with None show ?thesis by (simp add: packet_list_def mk)
  next
    case (Some v)
    with pv [OF Some] show ?thesis by (simp add: packet_list_def mk)
  qed
qed

section \<open>Properties\<close>


definition example_text :: string where
  "example_text = unlines
     [''[Interface]  # comment'', ''PrivateKey = AQIDBAUGBwgJCgsMDQ4PEBESExQVFhcYGRobHB0eHyA='',
      ''I2 = <b 0x0102><t>'', ''I1 = <r 12>'', ''address = 10.0.0.2/24, fd00::2'', ''DNS = 1.1.1.1,lan'', ''RandomTrailers = Yes'',
      ''[peer]'', ''PublicKey=ISIjJCUmJygpKissLS4vMDEyMzQ1Njc4OTo7PD0+P0A='',
      ''AllowedIPs = 0.0.0.0/0'', ''Endpoint = vpn.example:51820'', ''PersistentKeepalive = off'']"

lemma example_parses:
  "\<exists>c. FromWgQuick (\<lambda>r. r) example_text ''home'' = Inr c \<and> (\<forall>p \<in> set (Peers c). endpoint_readable p) \<and>
       RandomTrailers (InterfaceOf c) = ''Yes''"
proof -
  have "(case FromWgQuick (\<lambda>r. r) example_text ''home'' of
           Inl e \<Rightarrow> False
         | Inr c \<Rightarrow> list_all endpoint_readable (Peers c) \<and> RandomTrailers (InterfaceOf c) = ''Yes'')"
    by code_simp
  then show ?thesis by (auto simp: list_all_iff split: sum.splits)
qed


text \<open>
  C3: what \<^verbatim>\<open>FromWgQuick\<close> accepts has the given, valid name, passes \<^verbatim>\<open>ValidateAWG\<close>, has a
  public key for every peer, an MTU of at least 576, keys of 32 bytes, address prefixes that
  fit their family and only texts that can be stored on one line.
\<close>

theorem FromWgQuick_accepts:
  assumes "FromWgQuick T s name = Inr c"
  shows "TunnelNameIsValid name \<and> Name c = name \<and> ValidateAWG T c = Inr () \<and> parsed_config c \<and>
    576 \<le> uint (MTU (InterfaceOf c)) \<and> (\<forall>p \<in> set (Peers c). PublicKey p \<noteq> zero_key)"
  using FromWgQuick_parsed [OF assms] by (auto simp: parsed_config_def parsed_interface_def Key_IsZero_def)

theorem FromWgQuick_accepts_witness:
  "\<exists>c. FromWgQuick (\<lambda>r. r) example_text ''home'' = Inr c \<and>
    TunnelNameIsValid ''home'' \<and> Name c = ''home'' \<and> ValidateAWG (\<lambda>r. r) c = Inr () \<and> parsed_config c \<and>
    576 \<le> uint (MTU (InterfaceOf c)) \<and> list_all (\<lambda>p. PublicKey p \<noteq> zero_key) (Peers c)"
  unfolding list_all_iff
  using example_parses FromWgQuick_accepts [of "\<lambda>r. r" example_text "''home''"] by blast

lemma switch_texts:
  "RandomTrailers i \<in> set (texts i) \<and> (\<exists>n. (n, RandomTrailers i) \<in> set (switch_fields i))"
  "DisableCookies i \<in> set (texts i) \<and> (\<exists>n. (n, DisableCookies i) \<in> set (switch_fields i))"
proof -
  have "(''RandomTrailers'', RandomTrailers i) \<in> set (switch_fields i)"
    "(''DisableCookies'', DisableCookies i) \<in> set (switch_fields i)"
    unfolding switch_fields_def by (rule list.set_intros)+
  moreover have "RandomTrailers i \<in> set (texts i)" "DisableCookies i \<in> set (texts i)"
    by (simp_all add: texts_def)
  ultimately show
    "RandomTrailers i \<in> set (texts i) \<and> (\<exists>n. (n, RandomTrailers i) \<in> set (switch_fields i))"
    "DisableCookies i \<in> set (texts i) \<and> (\<exists>n. (n, DisableCookies i) \<in> set (switch_fields i))"
    by blast+
qed



text \<open>
  C12: the reader panics on some inputs instead of returning an error: it cuts the lower-cased
  line at the position of the equals sign in the original line, and lower-casing the Kelvin
  sign (U+212A, three bytes) to "k" makes the line shorter than that.
\<close>

definition kelvin :: string where
  "kelvin = [CHR 0xE2, CHR 0x84, CHR 0xAA]"

definition kelvin_table :: case_table where
  "kelvin_table r = (if r = 0x212A then 0x6B else r)"



end
