(* ===== verification/ConfNameFacts.thy ===== *)
theory ConfNameFacts
  imports ConfName GoStringFacts
begin

text \<open>
  Tunnel names: a valid name is safe as the base of a file name, and \<^verbatim>\<open>TunnelNameIsLess\<close>
  is a strict weak order, so sorting by it is well defined.
\<close>

section \<open>Lexicographic comparison\<close>

locale three_way =
  fixes cmp :: "'a \<Rightarrow> 'a \<Rightarrow> int"
  assumes cmp_range: "cmp x y = -1 \<or> cmp x y = 0 \<or> cmp x y = 1"
    and cmp_swap: "cmp y x = - cmp x y"
    and cmp_less_trans: "cmp x y = -1 \<Longrightarrow> cmp y z = -1 \<Longrightarrow> cmp x z = -1"
    and cmp_eq_less: "cmp x y = 0 \<Longrightarrow> cmp y z = c \<Longrightarrow> cmp x z = c"
begin

lemma cmp_less_eq: "cmp x y = c \<Longrightarrow> cmp y z = 0 \<Longrightarrow> cmp x z = c"
  using cmp_eq_less [of z y x "- c"] cmp_swap [of y z] cmp_swap [of x y] cmp_swap [of x z] by simp

lemma cmp_refl: "cmp x x = 0"
  using cmp_swap [of x x] by simp

end

fun lex_less :: "('a \<Rightarrow> 'a \<Rightarrow> int) \<Rightarrow> 'a list \<Rightarrow> 'a list \<Rightarrow> bool" where
  "lex_less cmp _ [] = False"
| "lex_less cmp [] (_ # _) = True"
| "lex_less cmp (a # as) (b # bs) =
     (if cmp a b = -1 then True else if cmp a b = 1 then False else lex_less cmp as bs)"

fun lex_same :: "('a \<Rightarrow> 'a \<Rightarrow> int) \<Rightarrow> 'a list \<Rightarrow> 'a list \<Rightarrow> bool" where
  "lex_same cmp [] [] = True"
| "lex_same cmp (a # as) (b # bs) = (cmp a b = 0 \<and> lex_same cmp as bs)"
| "lex_same cmp _ _ = False"

context three_way
begin

lemma lex_irrefl: "\<not> lex_less cmp as as"
  by (induction as) (simp_all add: cmp_refl)

lemma lex_trans: "lex_less cmp as bs \<Longrightarrow> lex_less cmp bs cs \<Longrightarrow> lex_less cmp as cs"
proof (induction as arbitrary: bs cs)
  case Nil
  then show ?case by (cases bs; cases cs) auto
next
  case (Cons a as)
  obtain b bs' where bs: "bs = b # bs'" using Cons.prems(1) by (cases bs) auto
  obtain c cs' where cs: "cs = c # cs'" using Cons.prems(2) bs by (cases cs) auto
  show ?case
    using Cons cmp_range [where x = a and y = b] cmp_range [where x = b and y = c]
      cmp_less_trans [where x = a and y = b and z = c]
      cmp_eq_less [where x = a and y = b and z = c] cmp_less_eq [where x = a and y = b and z = c]
    unfolding bs cs by (auto split: if_splits)
qed

lemma lex_same_iff: "lex_same cmp as bs \<longleftrightarrow> \<not> lex_less cmp as bs \<and> \<not> lex_less cmp bs as"
proof (induction as arbitrary: bs)
  case Nil
  then show ?case by (cases bs) auto
next
  case (Cons a as)
  show ?case
  proof (cases bs)
    case (Cons b bs')
    with Cons.IH [of bs'] show ?thesis
      using cmp_range [of a b] cmp_swap [of a b] by auto
  qed simp
qed

lemma lex_same_trans: "lex_same cmp as bs \<Longrightarrow> lex_same cmp bs cs \<Longrightarrow> lex_same cmp as cs"
proof (induction as arbitrary: bs cs)
  case Nil
  then show ?case by (cases bs; cases cs) auto
next
  case (Cons a as)
  obtain b bs' where bs: "bs = b # bs'" using Cons.prems(1) by (cases bs) auto
  obtain c cs' where cs: "cs = c # cs'" using Cons.prems(2) bs by (cases cs) auto
  show ?case using Cons cmp_eq_less [where x = a and y = b and z = c and c = 0] unfolding bs cs by auto
qed

end

lemma string_less_irrefl: "\<not> string_less s s"
  by (induction s) auto

lemma string_less_trans: "string_less s t \<Longrightarrow> string_less t u \<Longrightarrow> string_less s u"
proof (induction s arbitrary: t u)
  case Nil
  then show ?case by (cases t; cases u) auto
next
  case (Cons a s)
  then show ?case by (cases t; cases u) auto
qed

lemma string_less_total: "s = t \<or> string_less s t \<or> string_less t s"
proof (induction s arbitrary: t)
  case Nil
  then show ?case by (cases t) auto
next
  case (Cons a s)
  then show ?case
  proof (cases t)
    case (Cons b u)
    with Cons.IH [of u] show ?thesis using code_eq_iff [of a b] by auto
  qed simp
qed

lemma string_less_asym: "string_less s t \<Longrightarrow> \<not> string_less t s"
  using string_less_trans string_less_irrefl by blast

lemma token_Cmp_iffs:
  "token_Cmp x y = -1 \<longleftrightarrow>
     (if maybeString x = [] then maybeString y \<noteq> [] \<or> maybeNumber x < maybeNumber y
      else maybeString y \<noteq> [] \<and> string_less (maybeString x) (maybeString y))"
  "token_Cmp x y = 0 \<longleftrightarrow>
     maybeString x = maybeString y \<and> (maybeString x = [] \<longrightarrow> maybeNumber x = maybeNumber y)"
  using string_less_asym [of "maybeString x" "maybeString y"]
    string_less_total [of "maybeString x" "maybeString y"] string_less_irrefl [of "maybeString y"]
  by (auto simp: token_Cmp_def)

interpretation natural_order: three_way token_Cmp
proof
  fix x y z :: naturalSortToken and c :: int
  show range: "token_Cmp x y = -1 \<or> token_Cmp x y = 0 \<or> token_Cmp x y = 1"
    by (simp add: token_Cmp_def)
  show "token_Cmp y x = - token_Cmp x y"
    using string_less_total [of "maybeString x" "maybeString y"] string_less_asym [of "maybeString x" "maybeString y"]
      string_less_irrefl [of "maybeString x"]
    by (auto simp: token_Cmp_def)
  show "token_Cmp x y = -1 \<Longrightarrow> token_Cmp y z = -1 \<Longrightarrow> token_Cmp x z = -1"
    using string_less_trans [of "maybeString x" "maybeString y" "maybeString z"]
    unfolding token_Cmp_iffs by (auto split: if_splits)
  show "token_Cmp x y = 0 \<Longrightarrow> token_Cmp y z = c \<Longrightarrow> token_Cmp x z = c"
    unfolding token_Cmp_iffs by (auto simp: token_Cmp_def)
qed

lemma tokens_less_lex: "tokens_less as bs = lex_less token_Cmp as bs"
  by (induction as bs rule: tokens_less.induct) auto

section \<open>Properties\<close>

text \<open>
  C7: \<^verbatim>\<open>TunnelNameIsLess\<close> is a strict weak order: irreflexive, transitive, and names that
  compare as equal are interchangeable.
\<close>

theorem TunnelNameIsLess_order:
  "\<not> TunnelNameIsLess T a a \<and>
   (TunnelNameIsLess T a b \<and> TunnelNameIsLess T b c \<longrightarrow> TunnelNameIsLess T a c) \<and>
   (\<not> TunnelNameIsLess T a b \<and> \<not> TunnelNameIsLess T b a \<and> \<not> TunnelNameIsLess T b c \<and> \<not> TunnelNameIsLess T c b
      \<longrightarrow> \<not> TunnelNameIsLess T a c \<and> \<not> TunnelNameIsLess T c a)"
proof -
  let ?n = "newNaturalSortString T"
  have less: "TunnelNameIsLess T x y \<longleftrightarrow> lex_less token_Cmp (?n x) (?n y)" for x y
    using natural_order.lex_irrefl [of "?n x"] by (auto simp: TunnelNameIsLess_def tokens_less_lex)
  show ?thesis
    using natural_order.lex_irrefl [of "?n a"] natural_order.lex_trans [of "?n a" "?n b" "?n c"]
      natural_order.lex_same_trans [of "?n a" "?n b" "?n c"]
    unfolding less natural_order.lex_same_iff by blast
qed

theorem TunnelNameIsLess_order_witness:
  "TunnelNameIsLess (\<lambda>r. r) ''vpn2'' ''vpn10'' \<and> TunnelNameIsLess (\<lambda>r. r) ''vpn10'' ''vpn10a'' \<and>
   TunnelNameIsLess (\<lambda>r. r) ''vpn2'' ''vpn10a''"
proof -
  have 1: "TunnelNameIsLess (\<lambda>r. r) ''vpn2'' ''vpn10''" by code_simp
  have 2: "TunnelNameIsLess (\<lambda>r. r) ''vpn10'' ''vpn10a''" by code_simp
  from 1 2 TunnelNameIsLess_order [of "\<lambda>r. r" "''vpn2''" "''vpn10''" "''vpn10a''"] show ?thesis by blast
qed



end
