(* ===== verification/ConfRoutes.thy ===== *)
theory ConfRoutes
  imports ConfCodec
begin

text \<open>
  The network operations of \<^verbatim>\<open>config.go\<close>: masking clears exactly the bits after the prefix,
  \<^verbatim>\<open>IntersectsWith\<close> decides whether two configurations announce a common network, and
  \<^verbatim>\<open>DeduplicateNetworkEntries\<close> keeps the first of equal entries.
\<close>


section \<open>Masking\<close>

definition addr_bit :: "IP \<Rightarrow> nat \<Rightarrow> bool" where
  "addr_bit ip j \<longleftrightarrow> bit (ip ! (j div 8)) (7 - j mod 8)"

lemma mask_byte_bit:
  assumes "r < 8"
  shows "bit (mask_byte k) (7 - r) \<longleftrightarrow> r < k"
proof (cases "8 \<le> k")
  case True
  have "\<forall>r < 8. bit (255 :: byte) (7 - r)" unfolding all_lt_code by code_simp
  with True assms show ?thesis by (simp add: mask_byte_def)
next
  case False
  have "\<forall>k < 8. \<forall>r < 8. bit (mask_byte k) (7 - r) \<longleftrightarrow> r < k" unfolding all_lt_code by code_simp
  with False assms show ?thesis by simp
qed

lemma length_CIDRMask [simp]: "length (CIDRMask ones n) = n"
  by (simp add: CIDRMask_def)

definition masked :: "IPCidr \<Rightarrow> IPCidr" where
  "masked a = a\<lparr>IP := map2 (\<lambda>x m. x AND m) (IP a) (CIDRMask (unat (Cidr a)) (length (IP a)))\<rparr>"

lemma MaskSelf_ok:
  assumes "cidr_ok a"
  shows "MaskSelf a = Some (masked a)"
proof -
  have "unat (IPCidr_Bits a) = 8 * length (IP a)"
    using assms by (auto simp: cidr_ok_def IPCidr_Bits_def To4_def)
  then show ?thesis
    using assms by (simp add: MaskSelf_def IPCidr_IPNet_def masked_def cidr_ok_def)
qed

lemma length_masked [simp]: "length (IP (masked a)) = length (IP a)" "Cidr (masked a) = Cidr a"
  by (simp_all add: masked_def)

lemma masked_bit:
  assumes "j < 8 * length (IP a)"
  shows "addr_bit (IP (masked a)) j \<longleftrightarrow> j < unat (Cidr a) \<and> addr_bit (IP a) j"
proof -
  have i: "j div 8 < length (IP a)" using assms by auto
  have "j mod 8 < unat (Cidr a) - 8 * (j div 8) \<longleftrightarrow> j < unat (Cidr a)"
    using mult_div_mod_eq [of 8 j] by linarith
  then show ?thesis
    using i mask_byte_bit [of "j mod 8" "unat (Cidr a) - 8 * (j div 8)"]
    by (simp add: addr_bit_def masked_def CIDRMask_def bit_and_iff conj_commute)
qed

lemma byte_eq_iff: "(x :: byte) = y \<longleftrightarrow> (\<forall>r < 8. bit x (7 - r) = bit y (7 - r))"
proof
  assume bits: "\<forall>r < 8. bit x (7 - r) = bit y (7 - r)"
  show "x = y"
  proof (rule bit_word_eqI)
    fix n assume "n < LENGTH(8)"
    then have "7 - n < 8" "7 - (7 - n) = n" by simp_all
    with bits show "bit x n = bit y n" by metis
  qed
qed simp

lemma addr_eq_iff:
  assumes "length x = length y"
  shows "x = y \<longleftrightarrow> (\<forall>j < 8 * length x. addr_bit x j = addr_bit y j)"
proof
  assume bits: "\<forall>j < 8 * length x. addr_bit x j = addr_bit y j"
  show "x = y"
  proof (rule nth_equalityI [OF assms])
    fix i assume i: "i < length x"
    have "bit (x ! i) (7 - r) = bit (y ! i) (7 - r)" if "r < 8" for r
      using bits [rule_format, of "8 * i + r"] i that by (simp add: addr_bit_def)
    then show "x ! i = y ! i" by (simp add: byte_eq_iff)
  qed
qed simp

text \<open>Two entries announce the same network.\<close>

definition same_net :: "IPCidr \<Rightarrow> IPCidr \<Rightarrow> bool" where
  "same_net a b \<longleftrightarrow> length (IP a) = length (IP b) \<and> Cidr a = Cidr b \<and>
     (\<forall>j < unat (Cidr a). addr_bit (IP a) j = addr_bit (IP b) j)"

definition whole :: "IPCidr \<Rightarrow> IPCidr" where
  "whole a = a\<lparr>Cidr := word_of_nat (length (IP a) * 8)\<rparr>"

lemma route_masked_iff:
  assumes "cidr_ok a" "cidr_ok b"
  shows "route_of (masked a) = route_of (masked b) \<longleftrightarrow> same_net a b"
proof -
  have bound: "unat (Cidr a) \<le> 8 * length (IP a)" using assms by (simp add: cidr_ok_def)
  show ?thesis
  proof (cases "length (IP a) = length (IP b) \<and> Cidr a = Cidr b")
    case True
    then have "IP (masked a) = IP (masked b) \<longleftrightarrow>
        (\<forall>j < 8 * length (IP a). addr_bit (IP (masked a)) j = addr_bit (IP (masked b)) j)"
      by (simp add: addr_eq_iff)
    also have "\<dots> \<longleftrightarrow> (\<forall>j < unat (Cidr a). addr_bit (IP a) j = addr_bit (IP b) j)"
      using True bound by (simp add: masked_bit) (meson less_le_trans)
    finally show ?thesis using True by (simp add: route_of_def same_net_def)
  next
    case False
    then have "route_of (masked a) \<noteq> route_of (masked b)"
      by (metis route_of_def length_masked prod.inject)
    with False show ?thesis by (auto simp: same_net_def)
  qed
qed

lemma whole_ok: "cidr_ok a \<Longrightarrow> cidr_ok (whole a)"
  by (auto simp: cidr_ok_def whole_def)

lemma masked_whole:
  assumes "cidr_ok a"
  shows "route_of (masked (whole a)) = host_route a"
proof -
  have "IP (masked (whole a)) = IP a"
    using assms masked_bit [of _ "whole a"]
    by (subst addr_eq_iff) (auto simp: whole_def cidr_ok_def)
  then show ?thesis by (simp add: route_of_def host_route_def whole_def masked_def)
qed

text \<open>The networks a configuration announces: its own addresses as hosts and as networks, and
  the networks of its peers.\<close>

definition networks :: "Config \<Rightarrow> IPCidr set" where
  "networks c = set (Addresses (InterfaceOf c)) \<union> whole ` set (Addresses (InterfaceOf c)) \<union>
     (\<Union>p \<in> set (Peers c). set (AllowedIPs p))"

definition entries_ok :: "Config \<Rightarrow> bool" where
  "entries_ok c \<longleftrightarrow> (\<forall>a \<in> set (Addresses (InterfaceOf c)). cidr_ok a) \<and>
     (\<forall>p \<in> set (Peers c). \<forall>a \<in> set (AllowedIPs p). cidr_ok a)"

definition route_set :: "Config \<Rightarrow> route set" where
  "route_set c = (\<lambda>a. route_of (masked a)) ` networks c"

lemma networks_ok: "entries_ok c \<Longrightarrow> a \<in> networks c \<Longrightarrow> cidr_ok a"
  by (auto simp: entries_ok_def networks_def whole_ok)

lemma route_set_meet:
  assumes "entries_ok c" "entries_ok d"
  shows "route_set c \<inter> route_set d \<noteq> {} \<longleftrightarrow> (\<exists>a \<in> networks c. \<exists>b \<in> networks d. same_net a b)"
proof -
  have "f ` A \<inter> f ` B \<noteq> {} \<longleftrightarrow> (\<exists>a \<in> A. \<exists>b \<in> B. f a = f b)" for f :: "IPCidr \<Rightarrow> route" and A B
    by blast
  then have "route_set c \<inter> route_set d \<noteq> {} \<longleftrightarrow>
      (\<exists>a \<in> networks c. \<exists>b \<in> networks d. route_of (masked a) = route_of (masked b))"
    unfolding route_set_def .
  moreover have "route_of (masked a) = route_of (masked b) \<longleftrightarrow> same_net a b" if "a \<in> networks c" "b \<in> networks d" for a b
    using that assms by (intro route_masked_iff networks_ok)
  ultimately show ?thesis by simp
qed

lemma collect_addresses_ok:
  "\<forall>a \<in> set as. cidr_ok a \<Longrightarrow>
   \<exists>rs. collect_addresses as = Some (rs, map masked as) \<and>
        set rs = host_route ` set as \<union> (\<lambda>a. route_of (masked a)) ` set as"
  by (induction as) (auto simp: MaskSelf_ok)

lemma collect_allowed_ok:
  "\<forall>a \<in> set as. cidr_ok a \<Longrightarrow>
   collect_allowed as = Some (map (\<lambda>a. route_of (masked a)) as, map masked as)"
  by (induction as) (auto simp: MaskSelf_ok)

lemma collect_peers_ok:
  "\<forall>p \<in> set ps. \<forall>a \<in> set (AllowedIPs p). cidr_ok a \<Longrightarrow>
   collect_peers ps = Some (concat (map (\<lambda>p. map (\<lambda>a. route_of (masked a)) (AllowedIPs p)) ps),
     map (\<lambda>p. p\<lparr>AllowedIPs := map masked (AllowedIPs p)\<rparr>) ps)"
  by (induction ps) (auto simp: collect_allowed_ok)

lemma probe_addresses_ok:
  "\<forall>a \<in> set as. cidr_ok a \<Longrightarrow>
   \<exists>bs. probe_addresses rs as =
     Some (\<exists>a \<in> set as. host_route a \<in> set rs \<or> route_of (masked a) \<in> set rs, bs)"
  by (induction as) (auto simp: MaskSelf_ok)

lemma probe_allowed_ok:
  "\<forall>a \<in> set as. cidr_ok a \<Longrightarrow>
   \<exists>bs. probe_allowed rs as = Some (\<exists>a \<in> set as. route_of (masked a) \<in> set rs, bs)"
  by (induction as) (auto simp: MaskSelf_ok)

lemma probe_peers_ok:
  "\<forall>p \<in> set ps. \<forall>a \<in> set (AllowedIPs p). cidr_ok a \<Longrightarrow>
   \<exists>qs. probe_peers rs ps = Some (\<exists>p \<in> set ps. \<exists>a \<in> set (AllowedIPs p). route_of (masked a) \<in> set rs, qs)"
proof (induction ps)
  case (Cons p ps)
  then show ?case using probe_allowed_ok [of "AllowedIPs p" rs] by fastforce
qed simp

lemma route_set_eq:
  assumes "entries_ok c"
  shows "route_set c = host_route ` set (Addresses (InterfaceOf c)) \<union>
     (\<lambda>a. route_of (masked a)) ` set (Addresses (InterfaceOf c)) \<union>
     (\<Union>p \<in> set (Peers c). (\<lambda>a. route_of (masked a)) ` set (AllowedIPs p))"
proof -
  have "(\<lambda>a. route_of (masked a)) ` whole ` set (Addresses (InterfaceOf c)) =
      host_route ` set (Addresses (InterfaceOf c))"
    using assms by (auto simp: image_iff masked_whole entries_ok_def)
  then show ?thesis by (auto simp: route_set_def networks_def image_Un image_UN)
qed

lemma IntersectsWith_routes:
  assumes "entries_ok c" "entries_ok d"
  shows "\<exists>d'. IntersectsWith c d = Some (route_set c \<inter> route_set d \<noteq> {},
     with_routes c (map masked (Addresses (InterfaceOf c)))
       (map (\<lambda>p. p\<lparr>AllowedIPs := map masked (AllowedIPs p)\<rparr>) (Peers c)), d')"
proof -
  let ?A = "Addresses (InterfaceOf c)" and ?B = "Addresses (InterfaceOf d)"
  have ok: "\<forall>a \<in> set ?A. cidr_ok a" "\<forall>p \<in> set (Peers c). \<forall>a \<in> set (AllowedIPs p). cidr_ok a"
    "\<forall>a \<in> set ?B. cidr_ok a" "\<forall>p \<in> set (Peers d). \<forall>a \<in> set (AllowedIPs p). cidr_ok a"
    using assms by (auto simp: entries_ok_def)
  obtain rs1 where rs1: "collect_addresses ?A = Some (rs1, map masked ?A)"
      "set rs1 = host_route ` set ?A \<union> (\<lambda>a. route_of (masked a)) ` set ?A"
    using collect_addresses_ok [OF ok(1)] by blast
  let ?rs2 = "concat (map (\<lambda>p. map (\<lambda>a. route_of (masked a)) (AllowedIPs p)) (Peers c))"
  have rset: "set (rs1 @ ?rs2) = route_set c"
    using rs1(2) route_set_eq [OF assms(1)] by auto
  have hit: "(\<exists>a \<in> set ?B. host_route a \<in> route_set c \<or> route_of (masked a) \<in> route_set c) \<or>
      (\<exists>p \<in> set (Peers d). \<exists>a \<in> set (AllowedIPs p). route_of (masked a) \<in> route_set c) \<longleftrightarrow>
      route_set c \<inter> route_set d \<noteq> {}"
    unfolding route_set_eq [OF assms(2)] by blast
  obtain bs where bs: "probe_addresses (rs1 @ ?rs2) ?B =
      Some (\<exists>a \<in> set ?B. host_route a \<in> route_set c \<or> route_of (masked a) \<in> route_set c, bs)"
    using probe_addresses_ok [OF ok(3), of "rs1 @ ?rs2"] unfolding rset by blast
  obtain qs where qs: "probe_peers (rs1 @ ?rs2) (Peers d) =
      Some (\<exists>p \<in> set (Peers d). \<exists>a \<in> set (AllowedIPs p). route_of (masked a) \<in> route_set c, qs)"
    using probe_peers_ok [OF ok(4), of "rs1 @ ?rs2"] unfolding rset by blast
  show ?thesis
    unfolding IntersectsWith_def rs1(1) collect_peers_ok [OF ok(2)] option.case prod.case bs qs
    using hit by auto
qed


section \<open>Removing duplicates\<close>

definition keep_first :: "'a list \<Rightarrow> 'a list" where
  "keep_first xs = rev (remdups (rev xs))"

lemma keep_first_snoc: "keep_first (xs @ [x]) = (if x \<in> set xs then keep_first xs else keep_first xs @ [x])"
  by (simp add: keep_first_def)

lemma keep_first_facts:
  "distinct (keep_first xs)" "set (keep_first xs) = set xs" "keep_first (keep_first xs) = keep_first xs"
  by (simp_all add: keep_first_def distinct_remdups_id)

lemma dedup_by_snoc:
  "dedup_by key seen (xs @ [x]) =
     dedup_by key seen xs @ (if key x \<in> set seen \<union> key ` set xs then [] else [x])"
  by (induction xs arbitrary: seen) auto

context codec
begin

lemma dedup_keep_first: "\<forall>x \<in> set xs. ok x \<Longrightarrow> dedup_by enc [] xs = keep_first xs"
proof (induction xs rule: rev_induct)
  case (snoc x xs)
  have "enc x \<in> enc ` set xs \<longleftrightarrow> x \<in> set xs"
    using snoc.prems enc_inj by auto
  with snoc show ?case by (simp add: dedup_by_snoc keep_first_snoc)
qed (simp add: keep_first_def)

end

definition ip_parse :: "string \<Rightarrow> IP result" where
  "ip_parse s = of_option (ParseError ''Invalid IP address'' s) (ParseIP s)"

interpretation ip_codec: codec IPString ip_parse "\<lambda>ip. length ip = 16"
  by unfold_locales (simp add: ip_parse_def ParseIP_IPString To16_def)

section \<open>Properties\<close>

text \<open>
  C4: \<^verbatim>\<open>IntersectsWith\<close> never panics on parsed entries and answers whether the two
  configurations announce a common network (an own address as host or network, or a network
  of a peer); the answer does not depend on the order of the two. As a side effect the first
  configuration is left with all its entries masked.
\<close>

theorem IntersectsWith_correct:
  assumes "entries_ok c" "entries_ok d"
  shows "\<exists>c' d' d'' c''.
    IntersectsWith c d = Some (\<exists>a \<in> networks c. \<exists>b \<in> networks d. same_net a b, c', d') \<and>
    IntersectsWith d c = Some (\<exists>a \<in> networks c. \<exists>b \<in> networks d. same_net a b, d'', c'') \<and>
    Addresses (InterfaceOf c') = map masked (Addresses (InterfaceOf c))"
proof -
  have sym: "route_set d \<inter> route_set c = route_set c \<inter> route_set d" by blast
  obtain d' where 1: "IntersectsWith c d = Some (route_set c \<inter> route_set d \<noteq> {},
     with_routes c (map masked (Addresses (InterfaceOf c)))
       (map (\<lambda>p. p\<lparr>AllowedIPs := map masked (AllowedIPs p)\<rparr>) (Peers c)), d')"
    using IntersectsWith_routes [OF assms] by blast
  obtain d'' c'' where 2: "IntersectsWith d c = Some (route_set c \<inter> route_set d \<noteq> {}, d'', c'')"
    using IntersectsWith_routes [OF assms(2, 1)] unfolding sym by blast
  show ?thesis
    unfolding 1 2 route_set_meet [OF assms] by (auto simp: with_routes_def)
qed

definition example_config :: "IP \<Rightarrow> uint8 \<Rightarrow> Config" where
  "example_config ip n =
     \<lparr>Name = ''a'', InterfaceOf = zero_Interface\<lparr>Addresses := [\<lparr>IP = ip, Cidr = n\<rparr>, \<lparr>IP = ip, Cidr = n\<rparr>]\<rparr>,
      Peers = []\<rparr>"

theorem IntersectsWith_correct_witness:
  "\<exists>c' d' d'' c''.
    IntersectsWith (example_config [10, 0, 0, 2] 24) (example_config [10, 0, 0, 9] 24) =
      Some (\<exists>a \<in> networks (example_config [10, 0, 0, 2] 24).
            \<exists>b \<in> networks (example_config [10, 0, 0, 9] 24). same_net a b, c', d') \<and>
    IntersectsWith (example_config [10, 0, 0, 9] 24) (example_config [10, 0, 0, 2] 24) =
      Some (\<exists>a \<in> networks (example_config [10, 0, 0, 2] 24).
            \<exists>b \<in> networks (example_config [10, 0, 0, 9] 24). same_net a b, d'', c'') \<and>
    Addresses (InterfaceOf c') = map masked (Addresses (InterfaceOf (example_config [10, 0, 0, 2] 24)))"
  by (rule IntersectsWith_correct) (simp_all add: entries_ok_def example_config_def cidr_ok_def)


text \<open>
  C8: \<^verbatim>\<open>DeduplicateNetworkEntries\<close> keeps the first of equal addresses, name servers and
  allowed networks in their order and drops the later ones; nothing else changes and a second
  run changes nothing.
\<close>

theorem DeduplicateNetworkEntries_correct:
  assumes "entries_ok c" "\<forall>ip \<in> set (DNS (InterfaceOf c)). length ip = 16"
  shows "DeduplicateNetworkEntries c =
    c\<lparr>InterfaceOf := (InterfaceOf c)\<lparr>Addresses := keep_first (Addresses (InterfaceOf c)),
        DNS := keep_first (DNS (InterfaceOf c))\<rparr>,
      Peers := map (\<lambda>p. p\<lparr>AllowedIPs := keep_first (AllowedIPs p)\<rparr>) (Peers c)\<rparr> \<and>
    DeduplicateNetworkEntries (DeduplicateNetworkEntries c) = DeduplicateNetworkEntries c"
proof -
  have a: "dedup_by IPCidr_String [] (Addresses (InterfaceOf c)) = keep_first (Addresses (InterfaceOf c))"
    and d: "dedup_by IPString [] (DNS (InterfaceOf c)) = keep_first (DNS (InterfaceOf c))"
    and p: "p \<in> set (Peers c) \<Longrightarrow> dedup_by IPCidr_String [] (AllowedIPs p) = keep_first (AllowedIPs p)" for p
    using assms by (auto simp: entries_ok_def intro!: cidr_codec.dedup_keep_first ip_codec.dedup_keep_first)
  have again: "dedup_by IPCidr_String [] (keep_first xs) = keep_first xs" if "\<forall>x \<in> set xs. cidr_ok x" for xs
    using that by (subst cidr_codec.dedup_keep_first) (auto simp: keep_first_facts)
  have again_ip: "dedup_by IPString [] (keep_first xs) = keep_first xs" if "\<forall>x \<in> set xs. length x = 16" for xs
    using that by (subst ip_codec.dedup_keep_first) (auto simp: keep_first_facts)
  show ?thesis
    using assms by (auto simp: DeduplicateNetworkEntries_def a d p again again_ip entries_ok_def)
qed

theorem DeduplicateNetworkEntries_correct_witness:
  "DeduplicateNetworkEntries (example_config [10, 0, 0, 2] 24) =
    (example_config [10, 0, 0, 2] 24)\<lparr>InterfaceOf := (InterfaceOf (example_config [10, 0, 0, 2] 24))
       \<lparr>Addresses := keep_first (Addresses (InterfaceOf (example_config [10, 0, 0, 2] 24))),
        DNS := keep_first (DNS (InterfaceOf (example_config [10, 0, 0, 2] 24)))\<rparr>,
      Peers := map (\<lambda>p. p\<lparr>AllowedIPs := keep_first (AllowedIPs p)\<rparr>) (Peers (example_config [10, 0, 0, 2] 24))\<rparr> \<and>
    DeduplicateNetworkEntries (DeduplicateNetworkEntries (example_config [10, 0, 0, 2] 24)) =
      DeduplicateNetworkEntries (example_config [10, 0, 0, 2] 24)"
  by (rule DeduplicateNetworkEntries_correct)
     (simp_all add: entries_ok_def example_config_def cidr_ok_def zero_Interface_def)

text \<open>
  C11: a redacted configuration carries no key: it does not depend on the private, header
  protection, public and preshared keys it was made from.
\<close>

theorem Redact_independent:
  "Redact (c\<lparr>InterfaceOf := (InterfaceOf c)\<lparr>PrivateKey := k, HeaderProtectionKey := h\<rparr>,
             Peers := map (\<lambda>p. p\<lparr>PublicKey := pub p, PresharedKey := psk p\<rparr>) (Peers c)\<rparr>) = Redact c"
  by (simp add: Redact_def)

end
