(* ===== verification/WfpTypes.thy ===== *)
theory WfpTypes
  imports GoNet
begin

unbundle bit_operations_syntax

text \<open>
  The Windows Filtering Platform (WFP) structures of
  \<^verbatim>\<open>core/tunnel/firewall/types_windows.go\<close> and \<^verbatim>\<open>types_windows_64.go\<close>, the keys the rules use,
  and the calls the firewall makes to the filtering engine.

  The engine is an operating system service. What it answers is an argument of the model, the
  record \<open>os\<close>: the status of a call, given the calls made before it, the handle of an opened
  session, the pages of an enumeration, generated GUIDs and the facts about the current
  process. The state of the model is the global session handle together with the sequence of
  calls made so far, so a statement about the rules in force is a statement about that sequence.
\<close>

subsection \<open>Keys and constants\<close>

datatype GUID = GUID (Data1: uint32) (Data2: uint16) (Data3: uint16) (Data4: "byte list")

definition zero_GUID :: GUID where
  "zero_GUID = GUID 0 0 0 [0, 0, 0, 0, 0, 0, 0, 0]"

definition cFWPM_CONDITION_IP_LOCAL_INTERFACE :: GUID where
  "cFWPM_CONDITION_IP_LOCAL_INTERFACE =
     GUID 0x4cd62a49 0x59c3 0x4969 [0xb7, 0xf3, 0xbd, 0xa5, 0xd3, 0x28, 0x90, 0xa4]"

definition cFWPM_CONDITION_IP_REMOTE_ADDRESS :: GUID where
  "cFWPM_CONDITION_IP_REMOTE_ADDRESS =
     GUID 0xb235ae9a 0x1d64 0x49b8 [0xa4, 0x4c, 0x5f, 0xf3, 0xd9, 0x09, 0x50, 0x45]"

definition cFWPM_CONDITION_IP_PROTOCOL :: GUID where
  "cFWPM_CONDITION_IP_PROTOCOL =
     GUID 0x3971ef2b 0x623e 0x4f9a [0x8c, 0xb1, 0x6e, 0x79, 0xb8, 0x06, 0xb9, 0xa7]"

definition cFWPM_CONDITION_IP_LOCAL_PORT :: GUID where
  "cFWPM_CONDITION_IP_LOCAL_PORT =
     GUID 0x0c1ba1af 0x5765 0x453f [0xaf, 0x22, 0xa8, 0xf7, 0x91, 0xac, 0x77, 0x5b]"

definition cFWPM_CONDITION_IP_REMOTE_PORT :: GUID where
  "cFWPM_CONDITION_IP_REMOTE_PORT =
     GUID 0xc35a604d 0xd22b 0x4e1a [0x91, 0xb4, 0x68, 0xf6, 0x74, 0xee, 0x67, 0x4b]"

definition cFWPM_CONDITION_ALE_APP_ID :: GUID where
  "cFWPM_CONDITION_ALE_APP_ID =
     GUID 0xd78e1e87 0x8644 0x4ea5 [0x94, 0x37, 0xd8, 0x09, 0xec, 0xef, 0xc9, 0x71]"

definition cFWPM_CONDITION_ALE_USER_ID :: GUID where
  "cFWPM_CONDITION_ALE_USER_ID =
     GUID 0xaf043a0a 0xb34d 0x4f86 [0x97, 0x9c, 0xc9, 0x03, 0x71, 0xaf, 0x6e, 0x66]"

definition cFWPM_CONDITION_IP_LOCAL_ADDRESS :: GUID where
  "cFWPM_CONDITION_IP_LOCAL_ADDRESS =
     GUID 0xd9ee00de 0xc1ef 0x4617 [0xbf, 0xe3, 0xff, 0xd8, 0xf5, 0xa0, 0x89, 0x57]"

text \<open>WFP has no keys of its own for the ICMP type and code: they are the port keys.\<close>

definition cFWPM_CONDITION_ICMP_TYPE :: GUID where
  "cFWPM_CONDITION_ICMP_TYPE = cFWPM_CONDITION_IP_LOCAL_PORT"

definition cFWPM_CONDITION_ICMP_CODE :: GUID where
  "cFWPM_CONDITION_ICMP_CODE = cFWPM_CONDITION_IP_REMOTE_PORT"

definition cFWPM_CONDITION_L2_FLAGS :: GUID where
  "cFWPM_CONDITION_L2_FLAGS =
     GUID 0x7bc43cbf 0x37ba 0x45f1 [0xb7, 0x4a, 0x82, 0xff, 0x51, 0x8e, 0xeb, 0x10]"

definition cFWPM_CONDITION_FLAGS :: GUID where
  "cFWPM_CONDITION_FLAGS =
     GUID 0x632ce23b 0x5167 0x435c [0x86, 0xd7, 0xe9, 0x03, 0x68, 0x4a, 0xa8, 0x0c]"

definition cFWPM_LAYER_ALE_AUTH_CONNECT_V4 :: GUID where
  "cFWPM_LAYER_ALE_AUTH_CONNECT_V4 =
     GUID 0xc38d57d1 0x05a7 0x4c33 [0x90, 0x4f, 0x7f, 0xbc, 0xee, 0xe6, 0x0e, 0x82]"

definition cFWPM_LAYER_ALE_AUTH_RECV_ACCEPT_V4 :: GUID where
  "cFWPM_LAYER_ALE_AUTH_RECV_ACCEPT_V4 =
     GUID 0xe1cd9fe7 0xf4b5 0x4273 [0x96, 0xc0, 0x59, 0x2e, 0x48, 0x7b, 0x86, 0x50]"

definition cFWPM_LAYER_ALE_AUTH_CONNECT_V6 :: GUID where
  "cFWPM_LAYER_ALE_AUTH_CONNECT_V6 =
     GUID 0x4a72393b 0x319f 0x44bc [0x84, 0xc3, 0xba, 0x54, 0xdc, 0xb3, 0xb6, 0xb4]"

definition cFWPM_LAYER_ALE_AUTH_RECV_ACCEPT_V6 :: GUID where
  "cFWPM_LAYER_ALE_AUTH_RECV_ACCEPT_V6 =
     GUID 0xa3b42c97 0x9f04 0x4672 [0xb8, 0x7e, 0xce, 0xe9, 0xc4, 0x83, 0x25, 0x7f]"

definition cFWPM_LAYER_OUTBOUND_MAC_FRAME_NATIVE :: GUID where
  "cFWPM_LAYER_OUTBOUND_MAC_FRAME_NATIVE =
     GUID 0x94c44912 0x9d6f 0x4ebf [0xb9, 0x95, 0x05, 0xab, 0x8a, 0x08, 0x8d, 0x1b]"

definition cFWPM_LAYER_INBOUND_MAC_FRAME_NATIVE :: GUID where
  "cFWPM_LAYER_INBOUND_MAC_FRAME_NATIVE =
     GUID 0xd4220bd3 0x62ce 0x4f08 [0xae, 0x88, 0xb5, 0x6e, 0x85, 0x26, 0xdf, 0x50]"

definition cFWP_ACTION_BLOCK :: uint32 where "cFWP_ACTION_BLOCK = 0x00000001 OR 0x00001000"
definition cFWP_ACTION_PERMIT :: uint32 where "cFWP_ACTION_PERMIT = 0x00000002 OR 0x00001000"

definition cFWP_MATCH_EQUAL :: uint32 where "cFWP_MATCH_EQUAL = 0"
definition cFWP_MATCH_FLAGS_ALL_SET :: uint32 where "cFWP_MATCH_FLAGS_ALL_SET = 6"

definition cFWP_CONDITION_L2_IS_VM2VM :: uint32 where "cFWP_CONDITION_L2_IS_VM2VM = 0x00000010"
definition cFWP_CONDITION_FLAG_IS_LOOPBACK :: uint32 where "cFWP_CONDITION_FLAG_IS_LOOPBACK = 1"

definition cFWPM_FILTER_FLAG_NONE :: uint32 where "cFWPM_FILTER_FLAG_NONE = 0"
definition cFWPM_FILTER_FLAG_PERSISTENT :: uint32 where "cFWPM_FILTER_FLAG_PERSISTENT = 1"
definition cFWPM_FILTER_FLAG_CLEAR_ACTION_RIGHT :: uint32 where
  "cFWPM_FILTER_FLAG_CLEAR_ACTION_RIGHT = 8"

definition cFWPM_SESSION_FLAG_DYNAMIC :: uint32 where "cFWPM_SESSION_FLAG_DYNAMIC = 1"
definition cFWPM_SUBLAYER_FLAG_PERSISTENT :: uint32 where "cFWPM_SUBLAYER_FLAG_PERSISTENT = 1"

definition cIPPROTO_ICMPV6 :: uint8 where "cIPPROTO_ICMPV6 = 58"
definition cIPPROTO_TCP :: uint8 where "cIPPROTO_TCP = 6"
definition cIPPROTO_UDP :: uint8 where "cIPPROTO_UDP = 17"

lemmas condition_key_defs =
  cFWPM_CONDITION_IP_LOCAL_INTERFACE_def cFWPM_CONDITION_IP_REMOTE_ADDRESS_def
  cFWPM_CONDITION_IP_PROTOCOL_def cFWPM_CONDITION_IP_LOCAL_PORT_def
  cFWPM_CONDITION_IP_REMOTE_PORT_def cFWPM_CONDITION_ALE_APP_ID_def
  cFWPM_CONDITION_ALE_USER_ID_def cFWPM_CONDITION_IP_LOCAL_ADDRESS_def
  cFWPM_CONDITION_L2_FLAGS_def cFWPM_CONDITION_FLAGS_def

lemmas layer_key_defs =
  cFWPM_LAYER_ALE_AUTH_CONNECT_V4_def cFWPM_LAYER_ALE_AUTH_RECV_ACCEPT_V4_def
  cFWPM_LAYER_ALE_AUTH_CONNECT_V6_def cFWPM_LAYER_ALE_AUTH_RECV_ACCEPT_V6_def
  cFWPM_LAYER_OUTBOUND_MAC_FRAME_NATIVE_def cFWPM_LAYER_INBOUND_MAC_FRAME_NATIVE_def

subsection \<open>Structures\<close>

text \<open>\<^verbatim>\<open>wtFwpValue0\<close> is a type tag and a word or pointer; here the tag with the value it points to.\<close>

datatype wtFwpValue0 =
    FWP_EMPTY
  | FWP_UINT8 uint8
  | FWP_UINT16 uint16
  | FWP_UINT32 uint32
  | FWP_UINT64 uint64
  | FWP_BYTE_ARRAY16 "byte list"
  | FWP_BYTE_BLOB "byte list"
  | FWP_SECURITY_DESCRIPTOR "byte list"
  | FWP_V6_ADDR_MASK "byte list" uint8

datatype wtFwpmFilterCondition0 =
  Condition (fieldKey: GUID) (matchType: uint32) (conditionValue: wtFwpValue0)

datatype wtFwpmDisplayData0 = DisplayData (name: string) (description: string)

record wtFwpmFilter0 =
  filterKey :: GUID
  displayData :: wtFwpmDisplayData0
  flags :: uint32
  providerKey :: "GUID option"
  layerKey :: GUID
  subLayerKey :: GUID
  weight :: wtFwpValue0
  filterCondition :: "wtFwpmFilterCondition0 list"
  action :: uint32

record wtFwpmProvider0 =
  provider_providerKey :: GUID
  provider_displayData :: wtFwpmDisplayData0
  provider_flags :: uint32

record wtFwpmSublayer0 =
  sublayer_subLayerKey :: GUID
  sublayer_displayData :: wtFwpmDisplayData0
  sublayer_flags :: uint32
  sublayer_providerKey :: "GUID option"
  sublayer_weight :: uint16

record wtFwpmSession0 =
  session_displayData :: wtFwpmDisplayData0
  session_flags :: uint32
  txnWaitTimeoutInMSec :: uint32

subsection \<open>The calls and the answers of the operating system\<close>

datatype wfp_call =
    EngineOpen wtFwpmSession0
  | EngineClose uint64
  | TransactionBegin uint64
  | TransactionCommit uint64
  | TransactionAbort uint64
  | ProviderAdd uint64 wtFwpmProvider0
  | SubLayerAdd uint64 wtFwpmSublayer0
  | FilterAdd uint64 wtFwpmFilter0
  | EnumCreate uint64
  | EnumNext uint64
  | EnumDestroy uint64
  | FilterDeleteByKey uint64 GUID

text \<open>
  \<^verbatim>\<open>syscall.Errno\<close>: a Windows status, or the \<^verbatim>\<open>EINVAL\<close> of Go's own string conversion.
  \<open>FirewallError\<close> is an \<^verbatim>\<open>Errno\<close> after \<^verbatim>\<open>wrapErr\<close>; the source position in its text is left out.
  \<open>OutOfPages\<close> stands for an enumeration that has not ended within the fuel of the model.
\<close>

datatype errno = Status uint32 | EINVAL

datatype fw_error =
    Errno errno
  | FirewallError errno
  | AlreadyEnabled
  | AllowWeightTooSmall
  | InvalidEnumeration
  | OutOfPages

record token_group =
  group_attributes :: uint32
  sid_valid :: bool
  sid_authority :: "byte list"
  sid_subauthorities :: "uint32 list"

record os =
  status :: "wfp_call list \<Rightarrow> wfp_call \<Rightarrow> uint32"
  openedHandle :: "wfp_call list \<Rightarrow> uint64"
  enumPage :: "wfp_call list \<Rightarrow> uint32 \<times> wtFwpmFilter0 option list option"
  generateGUID :: "nat \<Rightarrow> errno + GUID"
  osExecutable :: "fw_error + string"
  appIdFromFileName :: "string \<Rightarrow> errno + byte list"
  securityDescriptorFromString :: "string \<Rightarrow> errno + byte list"
  tokenGroups :: "errno + token_group list"
  grantingDescriptor :: "token_group \<Rightarrow> errno + byte list"

subsection \<open>Computations\<close>

record fw_state =
  wfpSession :: uint64
  calls :: "wfp_call list"

type_synonym 'a fw = "fw_state \<Rightarrow> (fw_error + 'a) \<times> fw_state"

definition fw_return :: "'a \<Rightarrow> 'a fw" where
  "fw_return x = (\<lambda>s. (Inr x, s))"

definition fw_lift :: "fw_error + 'a \<Rightarrow> 'a fw" where
  "fw_lift r = (\<lambda>s. (r, s))"

definition fw_bind :: "'a fw \<Rightarrow> ('a \<Rightarrow> 'b fw) \<Rightarrow> 'b fw" where
  "fw_bind m f = (\<lambda>s. case m s of (Inl e, s') \<Rightarrow> (Inl e, s') | (Inr x, s') \<Rightarrow> f x s')"

definition fw_then :: "unit fw \<Rightarrow> 'b fw \<Rightarrow> 'b fw" where
  "fw_then m n = fw_bind m (\<lambda>_. n)"

fun fw_fold :: "('a \<Rightarrow> 'b \<Rightarrow> 'b fw) \<Rightarrow> 'a list \<Rightarrow> 'b \<Rightarrow> 'b fw" where
  "fw_fold f [] b = fw_return b"
| "fw_fold f (x # xs) b = fw_bind (f x b) (fw_fold f xs)"

text \<open>A call that reports only a status: the call is made, and a nonzero status is the error.\<close>

definition fw_call :: "os \<Rightarrow> wfp_call \<Rightarrow> unit fw" where
  "fw_call os c = (\<lambda>s.
     let r = status os (calls s) c in
     (if r = 0 then Inr () else Inl (Errno (Status r)), s\<lparr>calls := calls s @ [c]\<rparr>))"

text \<open>A deferred call: its status is dropped.\<close>

definition fw_ignore :: "os \<Rightarrow> wfp_call \<Rightarrow> fw_state \<Rightarrow> fw_state" where
  "fw_ignore os c s = snd (fw_call os c s)"

definition fw_map_error :: "(fw_error \<Rightarrow> fw_error) \<Rightarrow> 'a fw \<Rightarrow> 'a fw" where
  "fw_map_error g m = (\<lambda>s. case m s of (Inl e, s') \<Rightarrow> (Inl (g e), s') | (Inr x, s') \<Rightarrow> (Inr x, s'))"

lemma fw_bind_return [simp]: "fw_bind (fw_return x) f = f x"
  by (simp add: fw_bind_def fw_return_def)

lemma fw_bind_lift_Inl [simp]: "fw_bind (fw_lift (Inl e)) f = fw_lift (Inl e)"
  and fw_bind_lift_Inr [simp]: "fw_bind (fw_lift (Inr x)) f = f x"
  by (simp_all add: fw_bind_def fw_lift_def)

lemma fw_ignore_eq [simp]: "fw_ignore os c s = s\<lparr>calls := calls s @ [c]\<rparr>"
  by (simp add: fw_ignore_def fw_call_def Let_def)

subsection \<open>The keys are different\<close>

lemma distinct_condition_keys:
  "distinct [cFWPM_CONDITION_IP_LOCAL_INTERFACE, cFWPM_CONDITION_IP_REMOTE_ADDRESS,
     cFWPM_CONDITION_IP_PROTOCOL, cFWPM_CONDITION_IP_LOCAL_PORT, cFWPM_CONDITION_IP_REMOTE_PORT,
     cFWPM_CONDITION_ALE_APP_ID, cFWPM_CONDITION_ALE_USER_ID, cFWPM_CONDITION_IP_LOCAL_ADDRESS,
     cFWPM_CONDITION_L2_FLAGS, cFWPM_CONDITION_FLAGS]"
  by (simp add: condition_key_defs)

lemma distinct_layer_keys:
  "distinct [cFWPM_LAYER_ALE_AUTH_CONNECT_V4, cFWPM_LAYER_ALE_AUTH_RECV_ACCEPT_V4,
     cFWPM_LAYER_ALE_AUTH_CONNECT_V6, cFWPM_LAYER_ALE_AUTH_RECV_ACCEPT_V6,
     cFWPM_LAYER_OUTBOUND_MAC_FRAME_NATIVE, cFWPM_LAYER_INBOUND_MAC_FRAME_NATIVE]"
  by (simp add: layer_key_defs)

lemma distinct_rev: "distinct xs \<Longrightarrow> distinct (rev xs)"
  by simp

lemmas wfp_keys_distinct [simp] =
  distinct_condition_keys [simplified] distinct_condition_keys [THEN distinct_rev, simplified]
  distinct_layer_keys [simplified] distinct_layer_keys [THEN distinct_rev, simplified]

lemma action_distinct [simp]:
  "cFWP_ACTION_BLOCK \<noteq> cFWP_ACTION_PERMIT" "cFWP_ACTION_PERMIT \<noteq> cFWP_ACTION_BLOCK"
  by (simp_all add: cFWP_ACTION_BLOCK_def cFWP_ACTION_PERMIT_def)

end
