(* ===== verification/Firewall.thy ===== *)
theory Firewall
  imports WfpTypes
begin

unbundle bit_operations_syntax

text \<open>
  The firewall of \<^verbatim>\<open>core/tunnel/firewall\<close>: the rule functions of \<^verbatim>\<open>rules.go\<close>, the session of
  \<^verbatim>\<open>blocker.go\<close> that restricts a machine to its tunnel, and the persistent guard of
  \<^verbatim>\<open>preview_guard.go\<close>.

  A rule function builds one filter structure and submits it once per layer, changing its name
  and layer (and for some rules its conditions) in between. \<^verbatim>\<open>guardFilterAdd\<close> may set a flag of
  that shared structure, so \<open>guardFilterAdd\<close> returns the structure it leaves behind.
\<close>

subsection \<open>helpers.go\<close>

fun wrapErr :: "fw_error \<Rightarrow> fw_error" where
  "wrapErr (Errno n) = FirewallError n"
| "wrapErr e = e"

definition UTF16PtrFromString :: "string \<Rightarrow> fw_error + string" where
  "UTF16PtrFromString s = (if CHR 0x00 \<in> set s then Inl (Errno EINVAL) else Inr s)"

definition wrapped :: "fw_error + 'a \<Rightarrow> fw_error + 'a" where
  "wrapped r = (case r of Inl e \<Rightarrow> Inl (wrapErr e) | Inr x \<Rightarrow> Inr x)"

definition from_errno :: "errno + 'a \<Rightarrow> fw_error + 'a" where
  "from_errno r = (case r of Inl n \<Rightarrow> Inl (Errno n) | Inr x \<Rightarrow> Inr x)"

definition createWtFwpmDisplayData0 :: "string \<Rightarrow> string \<Rightarrow> fw_error + wtFwpmDisplayData0" where
  "createWtFwpmDisplayData0 nm desc =
     rbind (wrapped (UTF16PtrFromString nm)) (\<lambda>namePtr.
     rbind (wrapped (UTF16PtrFromString desc)) (\<lambda>descriptionPtr.
     Inr (DisplayData namePtr descriptionPtr)))"

definition filterWeight :: "uint8 \<Rightarrow> wtFwpValue0" where
  "filterWeight w = FWP_UINT8 w"

text \<open>
  The service SID of the process: the first group with exactly the three attributes whose SID is
  a valid NT authority SID of at least six subauthorities starting with 80. The access control
  list and the descriptor built from it are operating system calls.
\<close>

definition serviceGroup :: "token_group \<Rightarrow> bool" where
  "serviceGroup g \<longleftrightarrow>
     group_attributes g = 0x4 OR 0x2 OR 0x8 \<and>
     sid_valid g \<and> sid_authority g = [0, 0, 0, 0, 0, 5] \<and>
     \<not> length (sid_subauthorities g) < 6 \<and> sid_subauthorities g ! 0 = 80"

definition ERROR_NO_SUCH_GROUP :: errno where
  "ERROR_NO_SUCH_GROUP = Status 1319"

definition getCurrentProcessSecurityDescriptor :: "os \<Rightarrow> fw_error + byte list" where
  "getCurrentProcessSecurityDescriptor os =
     rbind (wrapped (from_errno (tokenGroups os))) (\<lambda>gs.
     case find serviceGroup gs of
       None \<Rightarrow> Inl (wrapErr (Errno ERROR_NO_SUCH_GROUP))
     | Some g \<Rightarrow> wrapped (from_errno (grantingDescriptor os g)))"

definition getCurrentProcessAppID :: "os \<Rightarrow> fw_error + byte list" where
  "getCurrentProcessAppID os =
     rbind (wrapped (osExecutable os)) (\<lambda>currentFile.
     rbind (wrapped (UTF16PtrFromString currentFile)) (\<lambda>curFilePtr.
     wrapped (from_errno (appIdFromFileName os curFilePtr))))"

text \<open>\<^verbatim>\<open>runTransaction\<close>: abort after a failed operation and after a failed commit.\<close>

definition runTransaction :: "os \<Rightarrow> uint64 \<Rightarrow> (uint64 \<Rightarrow> unit fw) \<Rightarrow> unit fw" where
  "runTransaction os session operation = (\<lambda>s.
     case fw_call os (TransactionBegin session) s of
       (Inl e, s1) \<Rightarrow> (Inl (wrapErr e), s1)
     | (Inr _, s1) \<Rightarrow>
       (case operation session s1 of
          (Inl e, s2) \<Rightarrow> (Inl (wrapErr e), fw_ignore os (TransactionAbort session) s2)
        | (Inr _, s2) \<Rightarrow>
          (case fw_call os (TransactionCommit session) s2 of
             (Inl e, s3) \<Rightarrow> (Inl (wrapErr e), fw_ignore os (TransactionAbort session) s3)
           | (Inr _, s3) \<Rightarrow> (Inr (), s3))))"

subsection \<open>Adding filters\<close>

definition previewGuardProvider :: GUID where
  "previewGuardProvider =
     GUID 0x358f11b2 0x2c6e 0x4dad [0x98, 0x63, 0xd4, 0xd9, 0x2e, 0x59, 0xca, 0x40]"

definition previewGuardSublayer :: GUID where
  "previewGuardSublayer =
     GUID 0x9b3a2aa9 0x058b 0x46bd [0x88, 0x03, 0x0b, 0x92, 0x64, 0x0b, 0x75, 0x36]"

text \<open>A nil filter pointer, which an enumeration may hold, is \<open>None\<close>.\<close>

definition guardOwned :: "wtFwpmFilter0 option \<Rightarrow> bool" where
  "guardOwned f = (case f of
     None \<Rightarrow> False
   | Some g \<Rightarrow> providerKey g = Some previewGuardProvider \<and> subLayerKey g = previewGuardSublayer)"

definition binds_interface :: "wtFwpmFilterCondition0 list \<Rightarrow> bool" where
  "binds_interface cs = list_ex (\<lambda>c. fieldKey c = cFWPM_CONDITION_IP_LOCAL_INTERFACE) cs"

definition guard_flags :: "wtFwpmFilter0 \<Rightarrow> wtFwpmFilter0" where
  "guard_flags f =
     (if guardOwned (Some f) then
        let persistent = \<not> binds_interface (filterCondition f) in
        if persistent then f\<lparr>flags := flags f OR cFWPM_FILTER_FLAG_PERSISTENT\<rparr> else f
      else f)"

definition guardFilterAdd :: "os \<Rightarrow> uint64 \<Rightarrow> wtFwpmFilter0 \<Rightarrow> wtFwpmFilter0 fw" where
  "guardFilterAdd os session f =
     (let f' = guard_flags f in fw_then (fw_call os (FilterAdd session f')) (fw_return f'))"

definition blank_filter :: wtFwpmFilter0 where
  "blank_filter = \<lparr>filterKey = zero_GUID, displayData = DisplayData '''' '''',
     flags = cFWPM_FILTER_FLAG_NONE, providerKey = None, layerKey = zero_GUID,
     subLayerKey = zero_GUID, weight = FWP_EMPTY, filterCondition = [], action = 0\<rparr>"

record baseObjects =
  provider :: GUID
  filters :: GUID

definition base_filter ::
  "baseObjects \<Rightarrow> uint8 \<Rightarrow> wtFwpmFilterCondition0 list \<Rightarrow> uint32 \<Rightarrow> wtFwpmFilter0" where
  "base_filter bo w conds act =
     blank_filter\<lparr>providerKey := Some (provider bo), subLayerKey := filters bo,
       weight := filterWeight w, filterCondition := conds, action := act\<rparr>"

text \<open>One numbered block of a rule function: name the shared filter, place it on a layer, add it.\<close>

definition add_block :: "os \<Rightarrow> uint64 \<Rightarrow> string \<times> GUID \<Rightarrow> wtFwpmFilter0 \<Rightarrow> wtFwpmFilter0 fw" where
  "add_block os session b f =
     fw_bind (fw_lift (wrapped (createWtFwpmDisplayData0 (fst b) ''''))) (\<lambda>d.
     fw_map_error wrapErr (guardFilterAdd os session (f\<lparr>displayData := d, layerKey := snd b\<rparr>)))"

definition add_blocks :: "os \<Rightarrow> uint64 \<Rightarrow> (string \<times> GUID) list \<Rightarrow> wtFwpmFilter0 \<Rightarrow> wtFwpmFilter0 fw"
where
  "add_blocks os session bs f = fw_fold (add_block os session) bs f"

definition discard :: "'a fw \<Rightarrow> unit fw" where
  "discard m = fw_bind m (\<lambda>_. fw_return ())"

abbreviation equals :: "GUID \<Rightarrow> wtFwpValue0 \<Rightarrow> wtFwpmFilterCondition0" where
  "equals key v \<equiv> Condition key cFWP_MATCH_EQUAL v"

subsection \<open>rules.go: permits\<close>

definition linkLocal :: wtFwpValue0 where
  "linkLocal = FWP_V6_ADDR_MASK [0xfe, 0x80, 0, 0, 0, 0, 0, 0, 0, 0, 0, 0, 0, 0, 0, 0] 10"

definition linkLocalDHCPMulticast :: "byte list" where
  "linkLocalDHCPMulticast = [0xff, 0x02, 0, 0, 0, 0, 0, 0, 0, 0, 0, 0, 0, 0x1, 0, 0x2]"

definition siteLocalDHCPMulticast :: "byte list" where
  "siteLocalDHCPMulticast = [0xff, 0x05, 0, 0, 0, 0, 0, 0, 0, 0, 0, 0, 0, 0x1, 0, 0x3]"

definition linkLocalRouterMulticast :: "byte list" where
  "linkLocalRouterMulticast = [0xff, 0x02, 0, 0, 0, 0, 0, 0, 0, 0, 0, 0, 0, 0, 0, 0x2]"

definition tun_filter :: "baseObjects \<Rightarrow> uint8 \<Rightarrow> uint64 \<Rightarrow> wtFwpmFilter0" where
  "tun_filter bo w ifLUID =
     base_filter bo w [equals cFWPM_CONDITION_IP_LOCAL_INTERFACE (FWP_UINT64 ifLUID)]
       cFWP_ACTION_PERMIT"

definition tun_blocks :: "(string \<times> GUID) list" where
  "tun_blocks =
     [(''Permit outbound IPv4 traffic on TUN'', cFWPM_LAYER_ALE_AUTH_CONNECT_V4),
      (''Permit inbound IPv4 traffic on TUN'', cFWPM_LAYER_ALE_AUTH_RECV_ACCEPT_V4),
      (''Permit outbound IPv6 traffic on TUN'', cFWPM_LAYER_ALE_AUTH_CONNECT_V6),
      (''Permit inbound IPv6 traffic on TUN'', cFWPM_LAYER_ALE_AUTH_RECV_ACCEPT_V6)]"

definition permitTunInterface :: "os \<Rightarrow> uint64 \<Rightarrow> baseObjects \<Rightarrow> uint8 \<Rightarrow> uint64 \<Rightarrow> unit fw" where
  "permitTunInterface os session bo w ifLUID =
     discard (add_blocks os session tun_blocks (tun_filter bo w ifLUID))"

text \<open>
  The conditions of \<^verbatim>\<open>permitExecutable\<close>: the application id of the file (of the current process
  when the path is empty) and a security descriptor, which for the guard grants the system
  account and otherwise the service of the current process.
\<close>

definition executable_app :: "os \<Rightarrow> string \<Rightarrow> fw_error + byte list" where
  "executable_app os path =
     (if path = '''' then getCurrentProcessAppID os
      else rbind (UTF16PtrFromString path) (\<lambda>pathPtr. from_errno (appIdFromFileName os pathPtr)))"

definition executable_sd :: "os \<Rightarrow> baseObjects \<Rightarrow> fw_error + byte list" where
  "executable_sd os bo =
     (if provider bo = previewGuardProvider
      then from_errno (securityDescriptorFromString os ''D:(A;;CC;;;SY)'')
      else getCurrentProcessSecurityDescriptor os)"

definition executable_filter :: "baseObjects \<Rightarrow> uint8 \<Rightarrow> byte list \<Rightarrow> byte list \<Rightarrow> wtFwpmFilter0" where
  "executable_filter bo w appID sd =
     (base_filter bo w
       [equals cFWPM_CONDITION_ALE_APP_ID (FWP_BYTE_BLOB appID),
        equals cFWPM_CONDITION_ALE_USER_ID (FWP_SECURITY_DESCRIPTOR sd)]
       cFWP_ACTION_PERMIT)\<lparr>flags := cFWPM_FILTER_FLAG_CLEAR_ACTION_RIGHT\<rparr>"

definition executable_blocks :: "(string \<times> GUID) list" where
  "executable_blocks =
     [(''Permit unrestricted outbound traffic for WireGuard service (IPv4)'',
       cFWPM_LAYER_ALE_AUTH_CONNECT_V4),
      (''Permit unrestricted inbound traffic for WireGuard service (IPv4)'',
       cFWPM_LAYER_ALE_AUTH_RECV_ACCEPT_V4),
      (''Permit unrestricted outbound traffic for WireGuard service (IPv6)'',
       cFWPM_LAYER_ALE_AUTH_CONNECT_V6),
      (''Permit unrestricted inbound traffic for WireGuard service (IPv6)'',
       cFWPM_LAYER_ALE_AUTH_RECV_ACCEPT_V6)]"

definition permitExecutable :: "os \<Rightarrow> uint64 \<Rightarrow> baseObjects \<Rightarrow> uint8 \<Rightarrow> string \<Rightarrow> unit fw" where
  "permitExecutable os session bo w path =
     fw_bind (fw_lift (wrapped (executable_app os path))) (\<lambda>appID.
     fw_bind (fw_lift (wrapped (executable_sd os bo))) (\<lambda>sd.
     discard (add_blocks os session executable_blocks (executable_filter bo w appID sd))))"

definition permitWireGuardService :: "os \<Rightarrow> uint64 \<Rightarrow> baseObjects \<Rightarrow> uint8 \<Rightarrow> unit fw" where
  "permitWireGuardService os session bo w = permitExecutable os session bo w ''''"

definition loopback_filter :: "baseObjects \<Rightarrow> uint8 \<Rightarrow> wtFwpmFilter0" where
  "loopback_filter bo w =
     base_filter bo w
       [Condition cFWPM_CONDITION_FLAGS cFWP_MATCH_FLAGS_ALL_SET
          (FWP_UINT32 cFWP_CONDITION_FLAG_IS_LOOPBACK)]
       cFWP_ACTION_PERMIT"

definition loopback_blocks :: "(string \<times> GUID) list" where
  "loopback_blocks =
     [(''Permit outbound on loopback (IPv4)'', cFWPM_LAYER_ALE_AUTH_CONNECT_V4),
      (''Permit inbound on loopback (IPv4)'', cFWPM_LAYER_ALE_AUTH_RECV_ACCEPT_V4),
      (''Permit outbound on loopback (IPv6)'', cFWPM_LAYER_ALE_AUTH_CONNECT_V6),
      (''Permit inbound on loopback (IPv6)'', cFWPM_LAYER_ALE_AUTH_RECV_ACCEPT_V6)]"

definition permitLoopback :: "os \<Rightarrow> uint64 \<Rightarrow> baseObjects \<Rightarrow> uint8 \<Rightarrow> unit fw" where
  "permitLoopback os session bo w =
     discard (add_blocks os session loopback_blocks (loopback_filter bo w))"

definition dhcp4_request :: "wtFwpmFilterCondition0 list" where
  "dhcp4_request =
     [equals cFWPM_CONDITION_IP_PROTOCOL (FWP_UINT8 cIPPROTO_UDP),
      equals cFWPM_CONDITION_IP_LOCAL_PORT (FWP_UINT16 68),
      equals cFWPM_CONDITION_IP_REMOTE_PORT (FWP_UINT16 67),
      equals cFWPM_CONDITION_IP_REMOTE_ADDRESS (FWP_UINT32 0xffffffff)]"

definition dhcp4_response :: "wtFwpmFilterCondition0 list" where
  "dhcp4_response =
     [equals cFWPM_CONDITION_IP_PROTOCOL (FWP_UINT8 cIPPROTO_UDP),
      equals cFWPM_CONDITION_IP_LOCAL_PORT (FWP_UINT16 68),
      equals cFWPM_CONDITION_IP_REMOTE_PORT (FWP_UINT16 67)]"

definition permitDHCPIPv4 :: "os \<Rightarrow> uint64 \<Rightarrow> baseObjects \<Rightarrow> uint8 \<Rightarrow> unit fw" where
  "permitDHCPIPv4 os session bo w =
     fw_then (discard (add_blocks os session
        [(''Permit outbound DHCP request (IPv4)'', cFWPM_LAYER_ALE_AUTH_CONNECT_V4)]
        (base_filter bo w dhcp4_request cFWP_ACTION_PERMIT)))
     (discard (add_blocks os session
        [(''Permit inbound DHCP response (IPv4)'', cFWPM_LAYER_ALE_AUTH_RECV_ACCEPT_V4)]
        (base_filter bo w dhcp4_response cFWP_ACTION_PERMIT)))"

definition dhcp6_request :: "wtFwpmFilterCondition0 list" where
  "dhcp6_request =
     [equals cFWPM_CONDITION_IP_PROTOCOL (FWP_UINT8 cIPPROTO_UDP),
      equals cFWPM_CONDITION_IP_REMOTE_ADDRESS (FWP_BYTE_ARRAY16 linkLocalDHCPMulticast),
      equals cFWPM_CONDITION_IP_REMOTE_ADDRESS (FWP_BYTE_ARRAY16 siteLocalDHCPMulticast),
      equals cFWPM_CONDITION_IP_REMOTE_PORT (FWP_UINT16 547),
      equals cFWPM_CONDITION_IP_LOCAL_ADDRESS linkLocal,
      equals cFWPM_CONDITION_IP_LOCAL_PORT (FWP_UINT16 546)]"

definition dhcp6_response :: "wtFwpmFilterCondition0 list" where
  "dhcp6_response =
     [equals cFWPM_CONDITION_IP_PROTOCOL (FWP_UINT8 cIPPROTO_UDP),
      equals cFWPM_CONDITION_IP_REMOTE_ADDRESS linkLocal,
      equals cFWPM_CONDITION_IP_REMOTE_PORT (FWP_UINT16 547),
      equals cFWPM_CONDITION_IP_LOCAL_ADDRESS linkLocal,
      equals cFWPM_CONDITION_IP_LOCAL_PORT (FWP_UINT16 546)]"

definition permitDHCPIPv6 :: "os \<Rightarrow> uint64 \<Rightarrow> baseObjects \<Rightarrow> uint8 \<Rightarrow> unit fw" where
  "permitDHCPIPv6 os session bo w =
     fw_then (discard (add_blocks os session
        [(''Permit outbound DHCP request (IPv6)'', cFWPM_LAYER_ALE_AUTH_CONNECT_V6)]
        (base_filter bo w dhcp6_request cFWP_ACTION_PERMIT)))
     (discard (add_blocks os session
        [(''Permit inbound DHCP response (IPv6)'', cFWPM_LAYER_ALE_AUTH_RECV_ACCEPT_V6)]
        (base_filter bo w dhcp6_response cFWP_ACTION_PERMIT)))"

text \<open>\<^verbatim>\<open>filterDefinition\<close> of \<^verbatim>\<open>permitNdp\<close>, and its five messages.\<close>

record filterDefinition =
  def_name :: string
  conditions :: "wtFwpmFilterCondition0 list"
  layer :: GUID

definition ndp_conditions :: "uint16 \<Rightarrow> wtFwpmFilterCondition0 list" where
  "ndp_conditions icmpType =
     [equals cFWPM_CONDITION_IP_PROTOCOL (FWP_UINT8 cIPPROTO_ICMPV6),
      equals cFWPM_CONDITION_ICMP_TYPE (FWP_UINT16 icmpType),
      equals cFWPM_CONDITION_ICMP_CODE (FWP_UINT16 0)]"

definition ndp_router_solicitation :: "filterDefinition list" where
  "ndp_router_solicitation =
     [\<lparr>def_name = ''Permit NDP type 133'',
       conditions = ndp_conditions 133 @
         [equals cFWPM_CONDITION_IP_REMOTE_ADDRESS (FWP_BYTE_ARRAY16 linkLocalRouterMulticast)],
       layer = cFWPM_LAYER_ALE_AUTH_CONNECT_V6\<rparr>]"

definition ndp_router_advertisement :: "filterDefinition list" where
  "ndp_router_advertisement =
     [\<lparr>def_name = ''Permit NDP type 134'',
       conditions = ndp_conditions 134 @ [equals cFWPM_CONDITION_IP_REMOTE_ADDRESS linkLocal],
       layer = cFWPM_LAYER_ALE_AUTH_RECV_ACCEPT_V6\<rparr>]"

definition ndp_neighbor_solicitation :: "filterDefinition list" where
  "ndp_neighbor_solicitation =
     [\<lparr>def_name = ''Permit NDP type 135'', conditions = ndp_conditions 135,
       layer = cFWPM_LAYER_ALE_AUTH_CONNECT_V6\<rparr>,
      \<lparr>def_name = ''Permit NDP type 135'', conditions = ndp_conditions 135,
       layer = cFWPM_LAYER_ALE_AUTH_RECV_ACCEPT_V6\<rparr>]"

definition ndp_neighbor_advertisement :: "filterDefinition list" where
  "ndp_neighbor_advertisement =
     [\<lparr>def_name = ''Permit NDP type 136'', conditions = ndp_conditions 136,
       layer = cFWPM_LAYER_ALE_AUTH_CONNECT_V6\<rparr>,
      \<lparr>def_name = ''Permit NDP type 136'', conditions = ndp_conditions 136,
       layer = cFWPM_LAYER_ALE_AUTH_RECV_ACCEPT_V6\<rparr>]"

definition ndp_redirect :: "filterDefinition list" where
  "ndp_redirect =
     [\<lparr>def_name = ''Permit NDP type 137'',
       conditions = ndp_conditions 137 @ [equals cFWPM_CONDITION_IP_REMOTE_ADDRESS linkLocal],
       layer = cFWPM_LAYER_ALE_AUTH_RECV_ACCEPT_V6\<rparr>]"

definition ndp_defs :: "filterDefinition list" where
  "ndp_defs = ndp_router_solicitation @ ndp_router_advertisement @ ndp_neighbor_solicitation
     @ ndp_neighbor_advertisement @ ndp_redirect"

text \<open>
  The names are constants without a NUL, so the errors of \<^verbatim>\<open>createWtFwpmDisplayData0\<close> at the five
  messages never occur; here they are raised where the name is used.
\<close>

definition add_definition ::
  "os \<Rightarrow> uint64 \<Rightarrow> filterDefinition \<Rightarrow> wtFwpmFilter0 \<Rightarrow> wtFwpmFilter0 fw" where
  "add_definition os session d f =
     add_block os session (def_name d, layer d) (f\<lparr>filterCondition := conditions d\<rparr>)"

definition permitNdp :: "os \<Rightarrow> uint64 \<Rightarrow> baseObjects \<Rightarrow> uint8 \<Rightarrow> unit fw" where
  "permitNdp os session bo w =
     discard (fw_fold (add_definition os session) ndp_defs (base_filter bo w [] cFWP_ACTION_PERMIT))"

text \<open>\<^verbatim>\<open>permitHyperV\<close> has no caller. The version numbers come from the operating system.\<close>

definition win8plus :: "uint32 \<Rightarrow> uint32 \<Rightarrow> bool" where
  "win8plus major minor \<longleftrightarrow> 6 < major \<or> (major = 6 \<and> 3 \<le> minor)"

definition permitHyperV :: "os \<Rightarrow> uint32 \<times> uint32 \<Rightarrow> uint64 \<Rightarrow> baseObjects \<Rightarrow> uint8 \<Rightarrow> unit fw" where
  "permitHyperV os version session bo w =
     (if \<not> win8plus (fst version) (snd version) then fw_return ()
      else discard (add_blocks os session
        [(''Permit Hyper-V => Hyper-V outbound'', cFWPM_LAYER_OUTBOUND_MAC_FRAME_NATIVE),
         (''Permit Hyper-V => Hyper-V inbound'', cFWPM_LAYER_INBOUND_MAC_FRAME_NATIVE)]
        (base_filter bo w [equals cFWPM_CONDITION_L2_FLAGS (FWP_UINT32 cFWP_CONDITION_L2_IS_VM2VM)]
          cFWP_ACTION_PERMIT)))"

subsection \<open>rules.go: blocks\<close>

definition block_blocks :: "(string \<times> GUID) list" where
  "block_blocks =
     [(''Block all outbound (IPv4)'', cFWPM_LAYER_ALE_AUTH_CONNECT_V4),
      (''Block all inbound (IPv4)'', cFWPM_LAYER_ALE_AUTH_RECV_ACCEPT_V4),
      (''Block all outbound (IPv6)'', cFWPM_LAYER_ALE_AUTH_CONNECT_V6),
      (''Block all inbound (IPv6)'', cFWPM_LAYER_ALE_AUTH_RECV_ACCEPT_V6)]"

definition blockAll :: "os \<Rightarrow> uint64 \<Rightarrow> baseObjects \<Rightarrow> uint8 \<Rightarrow> unit fw" where
  "blockAll os session bo w =
     discard (add_blocks os session block_blocks (base_filter bo w [] cFWP_ACTION_BLOCK))"

definition denyConditions :: "wtFwpmFilterCondition0 list" where
  "denyConditions =
     [equals cFWPM_CONDITION_IP_REMOTE_PORT (FWP_UINT16 53),
      equals cFWPM_CONDITION_IP_PROTOCOL (FWP_UINT8 cIPPROTO_UDP),
      equals cFWPM_CONDITION_IP_PROTOCOL (FWP_UINT8 cIPPROTO_TCP)]"

definition deny_blocks :: "(string \<times> GUID) list" where
  "deny_blocks =
     [(''Block DNS outbound (IPv4)'', cFWPM_LAYER_ALE_AUTH_CONNECT_V4),
      (''Block DNS inbound (IPv4)'', cFWPM_LAYER_ALE_AUTH_RECV_ACCEPT_V4),
      (''Block DNS outbound (IPv6)'', cFWPM_LAYER_ALE_AUTH_CONNECT_V6),
      (''Block DNS inbound (IPv6)'', cFWPM_LAYER_ALE_AUTH_RECV_ACCEPT_V6)]"

text \<open>\<^verbatim>\<open>binary.BigEndian.Uint32\<close> and \<^verbatim>\<open>copy\<close> into an array of sixteen zero bytes.\<close>

definition BigEndian_Uint32 :: "byte list \<Rightarrow> uint32" where
  "BigEndian_Uint32 b = word_of_nat (foldl (\<lambda>n x. 256 * n + unat x) 0 (take 4 b))"

definition copy16 :: "byte list \<Rightarrow> byte list" where
  "copy16 ip = take 16 (ip @ replicate 16 0)"

definition allowConditionsV4 :: "IP list \<Rightarrow> wtFwpmFilterCondition0 list" where
  "allowConditionsV4 except = denyConditions @
     List.map_filter (\<lambda>ip. case To4 ip of
        None \<Rightarrow> None
      | Some ip4 \<Rightarrow> Some (equals cFWPM_CONDITION_IP_REMOTE_ADDRESS (FWP_UINT32 (BigEndian_Uint32 ip4))))
       except"

definition allowConditionsV6 :: "IP list \<Rightarrow> wtFwpmFilterCondition0 list" where
  "allowConditionsV6 except = denyConditions @
     List.map_filter (\<lambda>ip. case To4 ip of
        Some ip4 \<Rightarrow> None
      | None \<Rightarrow> Some (equals cFWPM_CONDITION_IP_REMOTE_ADDRESS (FWP_BYTE_ARRAY16 (copy16 ip))))
       except"

definition allow_blocks_v4 :: "(string \<times> GUID) list" where
  "allow_blocks_v4 =
     [(''Allow DNS outbound (IPv4)'', cFWPM_LAYER_ALE_AUTH_CONNECT_V4),
      (''Allow DNS inbound (IPv4)'', cFWPM_LAYER_ALE_AUTH_RECV_ACCEPT_V4)]"

definition allow_blocks_v6 :: "(string \<times> GUID) list" where
  "allow_blocks_v6 =
     [(''Allow DNS outbound (IPv6)'', cFWPM_LAYER_ALE_AUTH_CONNECT_V6),
      (''Allow DNS inbound (IPv6)'', cFWPM_LAYER_ALE_AUTH_RECV_ACCEPT_V6)]"

definition allow_dns ::
  "os \<Rightarrow> uint64 \<Rightarrow> wtFwpmFilterCondition0 list \<Rightarrow> (string \<times> GUID) list \<Rightarrow> wtFwpmFilter0 \<Rightarrow> wtFwpmFilter0 fw"
where
  "allow_dns os session conds bs f =
     (let f = f\<lparr>filterCondition := conds\<rparr> in
      if length denyConditions < length conds then add_blocks os session bs f else fw_return f)"

definition blockDNS :: "os \<Rightarrow> IP list \<Rightarrow> uint64 \<Rightarrow> baseObjects \<Rightarrow> uint8 \<Rightarrow> uint8 \<Rightarrow> unit fw" where
  "blockDNS os except session bo weightAllow weightDeny =
     (if weightDeny \<ge> weightAllow then fw_lift (Inl AllowWeightTooSmall)
      else fw_then (discard (add_blocks os session deny_blocks
                      (base_filter bo weightDeny denyConditions cFWP_ACTION_BLOCK)))
        (discard (fw_bind
          (allow_dns os session (allowConditionsV4 except) allow_blocks_v4
             (base_filter bo weightAllow [] cFWP_ACTION_PERMIT))
          (allow_dns os session (allowConditionsV6 except) allow_blocks_v6))))"

subsection \<open>blocker.go\<close>

text \<open>\<^verbatim>\<open>fwpmEngineOpen0\<close> stores the handle when it succeeds.\<close>

definition engineOpen :: "os \<Rightarrow> wtFwpmSession0 \<Rightarrow> uint64 fw" where
  "engineOpen os ses = (\<lambda>s.
     case fw_call os (EngineOpen ses) s of
       (Inl e, s') \<Rightarrow> (Inl e, s')
     | (Inr _, s') \<Rightarrow> (Inr (openedHandle os (calls s)), s'))"

definition createWfpSession :: "os \<Rightarrow> uint64 fw" where
  "createWfpSession os =
     fw_bind (fw_lift (wrapped (createWtFwpmDisplayData0 ''WireGuard'' ''WireGuard dynamic session''))) (\<lambda>d.
     fw_map_error wrapErr (engineOpen os
       \<lparr>session_displayData = d, session_flags = cFWPM_SESSION_FLAG_DYNAMIC,
        txnWaitTimeoutInMSec = 0xffffffff\<rparr>))"

definition registerBaseObjects :: "os \<Rightarrow> uint64 \<Rightarrow> baseObjects fw" where
  "registerBaseObjects os session =
     fw_bind (fw_lift (wrapped (from_errno (generateGUID os 0)))) (\<lambda>prov.
     fw_bind (fw_lift (wrapped (from_errno (generateGUID os 1)))) (\<lambda>filt.
     fw_bind (fw_lift (wrapped (createWtFwpmDisplayData0 ''WireGuard'' ''WireGuard provider''))) (\<lambda>d.
     fw_bind (fw_map_error wrapErr (fw_call os (ProviderAdd session
        \<lparr>provider_providerKey = prov, provider_displayData = d, provider_flags = 0\<rparr>))) (\<lambda>_.
     fw_bind (fw_lift (wrapped (createWtFwpmDisplayData0 ''WireGuard filters'' ''Permissive and blocking filters''))) (\<lambda>d2.
     fw_bind (fw_map_error wrapErr (fw_call os (SubLayerAdd session
        \<lparr>sublayer_subLayerKey = filt, sublayer_displayData = d2, sublayer_flags = 0,
         sublayer_providerKey = Some prov, sublayer_weight = 0xffff\<rparr>))) (\<lambda>_.
     fw_return \<lparr>provider = prov, filters = filt\<rparr>))))))"

definition restriction :: "os \<Rightarrow> uint64 \<Rightarrow> IP list \<Rightarrow> uint64 \<Rightarrow> baseObjects \<Rightarrow> unit fw" where
  "restriction os luid dnsServers session bo =
     fw_then (if length dnsServers > 0 then blockDNS os dnsServers session bo 15 14 else fw_return ())
     (fw_then (permitLoopback os session bo 13)
     (fw_then (permitTunInterface os session bo 12 luid)
     (fw_then (permitDHCPIPv4 os session bo 12)
     (fw_then (permitDHCPIPv6 os session bo 12)
     (fw_then (permitNdp os session bo 12)
       (blockAll os session bo 0))))))"

definition objectInstaller :: "os \<Rightarrow> uint64 \<Rightarrow> bool \<Rightarrow> IP list \<Rightarrow> uint64 \<Rightarrow> unit fw" where
  "objectInstaller os luid doNotRestrict dnsServers session =
     fw_map_error wrapErr (fw_bind (registerBaseObjects os session) (\<lambda>bo.
     fw_then (permitWireGuardService os session bo 15)
       (if \<not> doNotRestrict then restriction os luid dnsServers session bo else fw_return ())))"

definition EnableFirewall :: "os \<Rightarrow> uint64 \<Rightarrow> bool \<Rightarrow> IP list \<Rightarrow> unit fw" where
  "EnableFirewall os luid doNotRestrict dnsServers = (\<lambda>s.
     if wfpSession s \<noteq> 0 then (Inl AlreadyEnabled, s)
     else case createWfpSession os s of
       (Inl e, s1) \<Rightarrow> (Inl (wrapErr e), s1)
     | (Inr session, s1) \<Rightarrow>
       (case runTransaction os session (objectInstaller os luid doNotRestrict dnsServers) s1 of
          (Inl e, s2) \<Rightarrow> (Inl (wrapErr e), fw_ignore os (EngineClose session) s2)
        | (Inr _, s2) \<Rightarrow> (Inr (), s2\<lparr>wfpSession := session\<rparr>)))"

definition DisableFirewall :: "os \<Rightarrow> fw_state \<Rightarrow> fw_state" where
  "DisableFirewall os s =
     (if wfpSession s \<noteq> 0
      then (fw_ignore os (EngineClose (wfpSession s)) s)\<lparr>wfpSession := 0\<rparr> else s)"

subsection \<open>preview_guard.go\<close>

definition guardOpen :: "os \<Rightarrow> uint64 fw" where
  "guardOpen os = engineOpen os
     \<lparr>session_displayData = DisplayData '''' '''', session_flags = 0, txnWaitTimeoutInMSec = 5000\<rparr>"

text \<open>
  One round of the enumeration: a page of at most 128 entries is read, the keys of the owned
  filters are appended, and a short page ends the loop. The slice over the returned array is
  its first \<open>count\<close> entries. The fuel bounds the number of pages.
\<close>

definition page_keys :: "wtFwpmFilter0 option list \<Rightarrow> GUID list" where
  "page_keys es = map (\<lambda>e. filterKey (the e)) (filter guardOwned es)"

fun guard_pages :: "os \<Rightarrow> uint64 \<Rightarrow> nat \<Rightarrow> GUID list \<Rightarrow> GUID list fw" where
  "guard_pages os session 0 keys = fw_lift (Inl OutOfPages)"
| "guard_pages os session (Suc fuel) keys = (\<lambda>s.
     case fw_call os (EnumNext session) s of
       (Inl e, s') \<Rightarrow> (Inl e, s')
     | (Inr _, s') \<Rightarrow>
       (let (count, entries) = enumPage os (calls s) in
        if 128 < count \<or> (0 < count \<and> entries = None) then (Inl InvalidEnumeration, s')
        else
          let es = (case entries of None \<Rightarrow> [] | Some es \<Rightarrow> take (unat count) es);
              keys' = keys @ page_keys es in
          if count < 128 then (Inr keys', s') else guard_pages os session fuel keys' s'))"

fun delete_keys :: "os \<Rightarrow> uint64 \<Rightarrow> GUID list \<Rightarrow> unit fw" where
  "delete_keys os session [] = fw_return ()"
| "delete_keys os session (k # ks) =
     fw_then (fw_call os (FilterDeleteByKey session k)) (delete_keys os session ks)"

text \<open>The enumeration handle is destroyed on every path after it was created.\<close>

definition clearGuardFilters :: "os \<Rightarrow> nat \<Rightarrow> uint64 \<Rightarrow> unit fw" where
  "clearGuardFilters os fuel session = (\<lambda>s.
     case fw_call os (EnumCreate session) s of
       (Inl e, s1) \<Rightarrow> (Inl e, s1)
     | (Inr _, s1) \<Rightarrow>
       (case fw_bind (guard_pages os session fuel []) (delete_keys os session) s1 of
          (r, s2) \<Rightarrow> (r, fw_ignore os (EnumDestroy session) s2)))"

definition FWP_E_ALREADY_EXISTS :: uint32 where
  "FWP_E_ALREADY_EXISTS = 0x80320009"

definition tolerate_existing :: "unit fw \<Rightarrow> unit fw" where
  "tolerate_existing m = (\<lambda>s. case m s of
     (Inl e, s') \<Rightarrow> (if e = Errno (Status FWP_E_ALREADY_EXISTS) then Inr () else Inl e, s')
   | (Inr _, s') \<Rightarrow> (Inr (), s'))"

definition guard_base :: baseObjects where
  "guard_base = \<lparr>provider = previewGuardProvider, filters = previewGuardSublayer\<rparr>"

definition guard_rules :: "os \<Rightarrow> string \<Rightarrow> uint64 \<Rightarrow> uint64 \<Rightarrow> unit fw" where
  "guard_rules os enginePath luid session =
     fw_then (permitExecutable os session guard_base 15 enginePath)
     (fw_then (permitWireGuardService os session guard_base 15)
     (fw_then (permitLoopback os session guard_base 13)
     (fw_then (if luid \<noteq> 0 then permitTunInterface os session guard_base 12 luid else fw_return ())
     (fw_then (permitDHCPIPv4 os session guard_base 12)
     (fw_then (permitDHCPIPv6 os session guard_base 12)
     (fw_then (permitNdp os session guard_base 12)
       (blockAll os session guard_base 0)))))))"

definition guard_objects :: "os \<Rightarrow> uint64 \<Rightarrow> unit fw" where
  "guard_objects os session =
     fw_bind (fw_lift (createWtFwpmDisplayData0 ''Pinus Preview protection''
        ''Explicit persistent connection protection'')) (\<lambda>d.
     fw_then (tolerate_existing (fw_call os (ProviderAdd session
        \<lparr>provider_providerKey = previewGuardProvider, provider_displayData = d,
         provider_flags = 1\<rparr>)))
     (tolerate_existing (fw_call os (SubLayerAdd session
        \<lparr>sublayer_subLayerKey = previewGuardSublayer, sublayer_displayData = d,
         sublayer_flags = cFWPM_SUBLAYER_FLAG_PERSISTENT,
         sublayer_providerKey = Some previewGuardProvider, sublayer_weight = 0xffff\<rparr>))))"

definition guard_session :: "os \<Rightarrow> (uint64 \<Rightarrow> unit fw) \<Rightarrow> unit fw" where
  "guard_session os operation = (\<lambda>s.
     case guardOpen os s of
       (Inl e, s1) \<Rightarrow> (Inl e, s1)
     | (Inr session, s1) \<Rightarrow>
       (case runTransaction os session operation s1 of
          (r, s2) \<Rightarrow> (r, fw_ignore os (EngineClose session) s2)))"

definition SetPreviewGuard :: "os \<Rightarrow> nat \<Rightarrow> string \<Rightarrow> uint64 \<Rightarrow> unit fw" where
  "SetPreviewGuard os fuel enginePath luid =
     guard_session os (\<lambda>session.
       fw_then (guard_objects os session)
       (fw_then (clearGuardFilters os fuel session)
         (guard_rules os enginePath luid session)))"

definition ClearPreviewGuard :: "os \<Rightarrow> nat \<Rightarrow> unit fw" where
  "ClearPreviewGuard os fuel = guard_session os (clearGuardFilters os fuel)"

end
