(* ===== verification/FirewallRules.thy ===== *)
theory FirewallRules
  imports Firewall
begin

unbundle bit_operations_syntax

text \<open>
  What the rule functions do to the engine: each one submits a fixed list of filters in order and
  stops at the first refused one. \<open>submit\<close> is that reference behaviour, and the locale \<open>rule_set\<close>
  is the contract between a rule function and the code that installs it.
\<close>

named_theorems fw_simps \<open>rule functions as submissions\<close>

subsection \<open>Computations\<close>

lemma fw_bind_assoc: "fw_bind (fw_bind m f) g = fw_bind m (\<lambda>x. fw_bind (f x) g)"
  by (rule ext) (simp add: fw_bind_def split: prod.split sum.split)

lemma fw_then_assoc: "fw_then (fw_then m n) k = fw_then m (fw_then n k)"
  by (simp add: fw_then_def fw_bind_assoc)

lemma fw_bind_then: "fw_bind (fw_then m n) f = fw_then m (fw_bind n f)"
  by (simp add: fw_then_def fw_bind_assoc)

lemma fw_then_return [simp]: "fw_then m (fw_return ()) = m" "fw_then (fw_return ()) m = m"
  by (rule ext, simp add: fw_then_def fw_bind_def fw_return_def split: prod.split sum.split)
    (simp add: fw_then_def)

lemma wrapErr_idem [simp]: "wrapErr (wrapErr e) = wrapErr e"
  by (cases e) simp_all

lemma wrapped_simps [simp]: "wrapped (Inl e) = Inl (wrapErr e)" "wrapped (Inr x) = Inr x"
  by (simp_all add: wrapped_def)

lemma fw_map_error_then:
  "fw_map_error wrapErr (fw_then m n) = fw_then (fw_map_error wrapErr m) (fw_map_error wrapErr n)"
  by (rule ext) (simp add: fw_map_error_def fw_then_def fw_bind_def split: prod.split sum.split)

lemma fw_map_error_bind:
  "fw_map_error wrapErr (fw_bind m f) = fw_bind (fw_map_error wrapErr m) (\<lambda>x. fw_map_error wrapErr (f x))"
  by (rule ext) (simp add: fw_map_error_def fw_bind_def split: prod.split sum.split)

lemma fw_map_error_return [simp]: "fw_map_error g (fw_return x) = fw_return x"
  by (simp add: fw_map_error_def fw_return_def)

lemma fw_map_error_idem [simp]: "fw_map_error wrapErr (fw_map_error wrapErr m) = fw_map_error wrapErr m"
  by (rule ext) (simp add: fw_map_error_def split: prod.split sum.split)

lemma display_ok:
  "CHR 0x00 \<notin> set nm \<Longrightarrow> CHR 0x00 \<notin> set d \<Longrightarrow> createWtFwpmDisplayData0 nm d = Inr (DisplayData nm d)"
  by (simp add: createWtFwpmDisplayData0_def UTF16PtrFromString_def)

subsection \<open>Submitting a list of filters\<close>

fun submit :: "os \<Rightarrow> uint64 \<Rightarrow> wtFwpmFilter0 list \<Rightarrow> unit fw" where
  "submit os h [] = fw_return ()"
| "submit os h (f # fs) = fw_then (fw_map_error wrapErr (fw_call os (FilterAdd h f))) (submit os h fs)"

lemma submit_append: "submit os h (fs @ gs) = fw_then (submit os h fs) (submit os h gs)"
  by (induction fs) (simp_all add: fw_then_assoc)

lemma submit_wrapped [simp]: "fw_map_error wrapErr (submit os h fs) = submit os h fs"
  by (induction fs) (simp_all add: fw_map_error_then)

lemma fw_call_eq:
  "fw_call os c s =
     (if status os (calls s) c = 0 then Inr () else Inl (Errno (Status (status os (calls s) c))),
      s\<lparr>calls := calls s @ [c]\<rparr>)"
  by (simp add: fw_call_def Let_def)

lemma submit_Cons_eq:
  "submit os h (f # fs) s =
     (let s' = s\<lparr>calls := calls s @ [FilterAdd h f]\<rparr>; r = status os (calls s) (FilterAdd h f) in
      if r = 0 then submit os h fs s' else (Inl (FirewallError (Status r)), s'))"
  by (simp add: fw_then_def fw_bind_def fw_map_error_def fw_call_eq Let_def)

text \<open>Either everything was submitted, or the submission stopped at the first refused filter.\<close>

lemma submit_cases:
  obtains (accepted) "submit os h fs s = (Inr (), s\<lparr>calls := calls s @ map (FilterAdd h) fs\<rparr>)"
      "\<forall>k<length fs. status os (calls s @ map (FilterAdd h) (take k fs)) (FilterAdd h (fs ! k)) = 0"
  | (refused) k r where "k < length fs"
      "status os (calls s @ map (FilterAdd h) (take k fs)) (FilterAdd h (fs ! k)) = r" "r \<noteq> 0"
      "submit os h fs s = (Inl (FirewallError (Status r)),
         s\<lparr>calls := calls s @ map (FilterAdd h) (take (Suc k) fs)\<rparr>)"
proof (induction fs arbitrary: s thesis)
  case Nil
  show ?case by (rule Nil.prems(1)) (simp_all add: fw_return_def)
next
  case (Cons f fs)
  let ?s = "s\<lparr>calls := calls s @ [FilterAdd h f]\<rparr>"
  let ?r = "status os (calls s) (FilterAdd h f)"
  show ?case
  proof (cases "?r = 0")
    case False
    show ?thesis
      by (rule Cons.prems(2) [of 0 ?r]) (use False in \<open>simp_all add: submit_Cons_eq Let_def del: submit.simps\<close>)
  next
    case True
    show ?thesis
    proof (rule Cons.IH [of ?s])
      assume *: "submit os h fs ?s = (Inr (), ?s\<lparr>calls := calls ?s @ map (FilterAdd h) fs\<rparr>)"
        and **: "\<forall>k<length fs. status os (calls ?s @ map (FilterAdd h) (take k fs)) (FilterAdd h (fs ! k)) = 0"
      show ?thesis
      proof (rule Cons.prems(1))
        show "submit os h (f # fs) s = (Inr (), s\<lparr>calls := calls s @ map (FilterAdd h) (f # fs)\<rparr>)"
          using * True by (simp add: submit_Cons_eq Let_def del: submit.simps)
        show "\<forall>k<length (f # fs). status os (calls s @ map (FilterAdd h) (take k (f # fs)))
                (FilterAdd h ((f # fs) ! k)) = 0"
          using ** True by (auto simp: less_Suc_eq_0_disj)
      qed
    next
      fix k r
      assume "k < length fs" "r \<noteq> 0"
        "status os (calls ?s @ map (FilterAdd h) (take k fs)) (FilterAdd h (fs ! k)) = r"
        "submit os h fs ?s = (Inl (FirewallError (Status r)),
           ?s\<lparr>calls := calls ?s @ map (FilterAdd h) (take (Suc k) fs)\<rparr>)"
      then show ?thesis
        using True
        by (intro Cons.prems(2) [of "Suc k" r]) (simp_all add: submit_Cons_eq Let_def del: submit.simps)
    qed
  qed
qed

lemma submit_success:
  "submit os h fs s = (Inr x, s') \<Longrightarrow> s' = s\<lparr>calls := calls s @ map (FilterAdd h) fs\<rparr>"
  by (rule submit_cases [of os h fs s]) auto

lemma submit_accepted:
  "(\<And>t c. status os t c = 0) \<Longrightarrow>
   submit os h fs s = (Inr (), s\<lparr>calls := calls s @ map (FilterAdd h) fs\<rparr>)"
  by (rule submit_cases [of os h fs s]) auto

lemma submit_session [simp]: "wfpSession (snd (submit os h fs s)) = wfpSession s"
  by (rule submit_cases [of os h fs s]) auto

subsection \<open>The contract of a rule function\<close>

locale rule_set =
  fixes install :: "os \<Rightarrow> uint64 \<Rightarrow> unit fw" and rules :: "wtFwpmFilter0 list"
  assumes install_eq: "install os h = submit os h rules"
begin

lemma install_success:
  "install os h s = (Inr x, s') \<Longrightarrow> s' = s\<lparr>calls := calls s @ map (FilterAdd h) rules\<rparr>"
  unfolding install_eq by (rule submit_success)

lemma install_accepted:
  "(\<And>t c. status os t c = 0) \<Longrightarrow>
   install os h s = (Inr (), s\<lparr>calls := calls s @ map (FilterAdd h) rules\<rparr>)"
  unfolding install_eq by (rule submit_accepted)

lemma install_prefix:
  "\<exists>k. snd (install os h s) = s\<lparr>calls := calls s @ map (FilterAdd h) (take k rules)\<rparr>"
  unfolding install_eq by (rule submit_cases [of os h rules s]) (auto intro: exI [of _ "length rules"])

end

locale rule_sequence = first: rule_set m fs + second: rule_set n gs for m fs n gs
begin

lemma sequence_eq: "fw_then (m os h) (n os h) = submit os h (fs @ gs)"
  by (simp add: first.install_eq second.install_eq submit_append)

end

sublocale rule_sequence \<subseteq> both: rule_set "\<lambda>os h. fw_then (m os h) (n os h)" "fs @ gs"
  by unfold_locales (rule sequence_eq)

subsection \<open>The filters of a definition list\<close>

definition place :: "wtFwpmFilter0 \<Rightarrow> filterDefinition \<Rightarrow> wtFwpmFilter0" where
  "place f d = guard_flags (f\<lparr>filterCondition := conditions d,
     displayData := DisplayData (def_name d) '''', layerKey := layer d\<rparr>)"

definition place_all :: "wtFwpmFilter0 \<Rightarrow> filterDefinition list \<Rightarrow> wtFwpmFilter0 list" where
  "place_all f ds = map (place f) ds"

definition block_defs :: "wtFwpmFilterCondition0 list \<Rightarrow> (string \<times> GUID) list \<Rightarrow> filterDefinition list" where
  "block_defs cs bs = map (\<lambda>(n, l). \<lparr>def_name = n, conditions = cs, layer = l\<rparr>) bs"

definition plain_names :: "filterDefinition list \<Rightarrow> bool" where
  "plain_names ds = list_all (\<lambda>d. CHR 0x00 \<notin> set (def_name d)) ds"

lemma guard_flags_select [simp]:
  "filterCondition (guard_flags f) = filterCondition f" "layerKey (guard_flags f) = layerKey f"
  "weight (guard_flags f) = weight f" "action (guard_flags f) = action f"
  "providerKey (guard_flags f) = providerKey f" "subLayerKey (guard_flags f) = subLayerKey f"
  "displayData (guard_flags f) = displayData f" "filterKey (guard_flags f) = filterKey f"
  by (simp_all add: guard_flags_def Let_def)

lemma place_select [simp]:
  "filterCondition (place f d) = conditions d" "layerKey (place f d) = layer d"
  "weight (place f d) = weight f" "action (place f d) = action f"
  "providerKey (place f d) = providerKey f" "subLayerKey (place f d) = subLayerKey f"
  by (simp_all add: place_def)

lemma flags_place:
  "flags (place f d) =
     (if guardOwned (Some f) \<and> \<not> binds_interface (conditions d)
      then flags f OR cFWPM_FILTER_FLAG_PERSISTENT else flags f)"
  by (simp add: place_def guard_flags_def guardOwned_def)

lemma filter_eqI:
  "filterKey f = filterKey g \<Longrightarrow> displayData f = displayData g \<Longrightarrow> flags f = flags g \<Longrightarrow>
   providerKey f = providerKey g \<Longrightarrow> layerKey f = layerKey g \<Longrightarrow> subLayerKey f = subLayerKey g \<Longrightarrow>
   weight f = weight g \<Longrightarrow> filterCondition f = filterCondition g \<Longrightarrow> action f = action g \<Longrightarrow>
   f = (g :: wtFwpmFilter0)"
  by (cases f; cases g) simp

text \<open>
  The flag that \<^verbatim>\<open>guardFilterAdd\<close> leaves in the shared structure does not leak into the next
  filter, as long as the two agree on binding an interface.
\<close>

lemma place_place:
  assumes "binds_interface (conditions d) = binds_interface (conditions e)"
  shows "place (place f d) e = place f e"
proof -
  have owned: "guardOwned (Some (place f d)) = guardOwned (Some f)" by (simp add: guardOwned_def)
  show ?thesis
    by (rule filter_eqI) (simp_all add: flags_place owned assms, simp_all add: place_def or.assoc)
qed

lemma add_definition_eq:
  "CHR 0x00 \<notin> set (def_name d) \<Longrightarrow>
   add_definition os h d f =
     fw_then (fw_map_error wrapErr (fw_call os (FilterAdd h (place f d)))) (fw_return (place f d))"
  by (simp add: add_definition_def add_block_def display_ok guardFilterAdd_def Let_def place_def
      fw_map_error_then)

definition last_place :: "wtFwpmFilter0 \<Rightarrow> filterDefinition list \<Rightarrow> wtFwpmFilter0" where
  "last_place f ds = (if ds = [] then f else place f (last ds))"

lemma fold_definitions:
  assumes "plain_names ds" and "\<forall>d\<in>set ds. binds_interface (conditions d) = b"
  shows "fw_fold (add_definition os h) ds f =
         fw_then (submit os h (place_all f ds)) (fw_return (last_place f ds))"
  using assms
proof (induction ds arbitrary: f)
  case Nil
  then show ?case by (simp add: place_all_def last_place_def fw_then_def)
next
  case (Cons d ds)
  have all: "map (place (place f d)) ds = map (place f) ds"
    using Cons.prems(2) by (auto intro!: place_place)
  have last: "last_place (place f d) ds = last_place f (d # ds)"
  proof (cases "ds = []")
    case False
    then have "binds_interface (conditions d) = binds_interface (conditions (last ds))"
      using Cons.prems(2) by simp
    then show ?thesis using False by (simp add: last_place_def place_place)
  qed (simp add: last_place_def)
  have "fw_fold (add_definition os h) ds (place f d) =
      fw_then (submit os h (place_all f ds)) (fw_return (last_place f (d # ds)))"
    using Cons by (simp add: plain_names_def place_all_def all last)
  then show ?case
    using Cons.prems(1)
    by (simp add: add_definition_eq plain_names_def fw_bind_then fw_then_assoc place_all_def)
qed

lemma discard_then_return [simp]: "discard (fw_then m (fw_return x)) = m"
  by (simp add: discard_def fw_bind_then)

lemma add_blocks_definitions:
  "add_blocks os h bs f = fw_fold (add_definition os h) (block_defs (filterCondition f) bs) f"
proof (induction bs arbitrary: f)
  case (Cons b bs)
  have same: "add_block os h b f = add_definition os h \<lparr>def_name = fst b, conditions = filterCondition f, layer = snd b\<rparr> f"
    by (simp add: add_definition_def)
  have keep: "fw_bind (add_block os h b f) (\<lambda>g. k (filterCondition g) g) =
      fw_bind (add_block os h b f) (k (filterCondition f))" for k :: "_ \<Rightarrow> _ \<Rightarrow> wtFwpmFilter0 fw"
  proof (cases "wrapped (createWtFwpmDisplayData0 (fst b) '''')")
    case (Inr d)
    then show ?thesis
      by (simp add: add_block_def guardFilterAdd_def Let_def fw_map_error_then fw_bind_then)
  qed (simp add: add_block_def)
  have rest: "fw_fold (add_block os h) bs =
      (\<lambda>g. fw_fold (add_definition os h) (block_defs (filterCondition g) bs) g)"
    using Cons by (intro ext) (simp add: add_blocks_def)
  have "add_blocks os h (b # bs) f =
      fw_bind (add_block os h b f) (fw_fold (add_definition os h) (block_defs (filterCondition f) bs))"
    using keep [of "\<lambda>c. fw_fold (add_definition os h) (block_defs c bs)"]
    by (simp add: add_blocks_def rest)
  then show ?case
    by (simp add: block_defs_def same [symmetric] case_prod_beta)
qed (simp add: add_blocks_def block_defs_def)

lemma binds_block_defs: "d \<in> set (block_defs cs bs) \<Longrightarrow> conditions d = cs"
  by (auto simp: block_defs_def)

lemma add_blocks_submit:
  "plain_names (block_defs (filterCondition f) bs) \<Longrightarrow>
   add_blocks os h bs f =
     fw_then (submit os h (place_all f (block_defs (filterCondition f) bs)))
       (fw_return (last_place f (block_defs (filterCondition f) bs)))"
  unfolding add_blocks_definitions
  by (rule fold_definitions [where b = "binds_interface (filterCondition f)"])
    (simp_all add: binds_block_defs)

subsection \<open>The rule functions\<close>

text \<open>The definition list of each rule function; the shared structure supplies the rest.\<close>

definition tun_defs :: "uint64 \<Rightarrow> filterDefinition list" where
  "tun_defs luid =
     block_defs [equals cFWPM_CONDITION_IP_LOCAL_INTERFACE (FWP_UINT64 luid)] tun_blocks"

definition executable_defs :: "byte list \<Rightarrow> byte list \<Rightarrow> filterDefinition list" where
  "executable_defs appID sd =
     block_defs [equals cFWPM_CONDITION_ALE_APP_ID (FWP_BYTE_BLOB appID),
       equals cFWPM_CONDITION_ALE_USER_ID (FWP_SECURITY_DESCRIPTOR sd)] executable_blocks"

definition loopback_defs :: "filterDefinition list" where
  "loopback_defs =
     block_defs [Condition cFWPM_CONDITION_FLAGS cFWP_MATCH_FLAGS_ALL_SET
       (FWP_UINT32 cFWP_CONDITION_FLAG_IS_LOOPBACK)] loopback_blocks"

definition dhcp4_defs :: "filterDefinition list" where
  "dhcp4_defs =
     [\<lparr>def_name = ''Permit outbound DHCP request (IPv4)'', conditions = dhcp4_request,
       layer = cFWPM_LAYER_ALE_AUTH_CONNECT_V4\<rparr>,
      \<lparr>def_name = ''Permit inbound DHCP response (IPv4)'', conditions = dhcp4_response,
       layer = cFWPM_LAYER_ALE_AUTH_RECV_ACCEPT_V4\<rparr>]"

definition dhcp6_defs :: "filterDefinition list" where
  "dhcp6_defs =
     [\<lparr>def_name = ''Permit outbound DHCP request (IPv6)'', conditions = dhcp6_request,
       layer = cFWPM_LAYER_ALE_AUTH_CONNECT_V6\<rparr>,
      \<lparr>def_name = ''Permit inbound DHCP response (IPv6)'', conditions = dhcp6_response,
       layer = cFWPM_LAYER_ALE_AUTH_RECV_ACCEPT_V6\<rparr>]"

definition all_defs :: "filterDefinition list" where
  "all_defs = block_defs [] block_blocks"

definition deny_defs :: "filterDefinition list" where
  "deny_defs = block_defs denyConditions deny_blocks"

definition allow_defs :: "IP list \<Rightarrow> filterDefinition list" where
  "allow_defs except =
     (if length denyConditions < length (allowConditionsV4 except)
      then block_defs (allowConditionsV4 except) allow_blocks_v4 else []) @
     (if length denyConditions < length (allowConditionsV6 except)
      then block_defs (allowConditionsV6 except) allow_blocks_v6 else [])"

lemma plain_names_block_defs:
  "plain_names (block_defs cs bs) = list_all (\<lambda>b. CHR 0x00 \<notin> set (fst b)) bs"
  by (simp add: plain_names_def block_defs_def list.pred_map comp_def case_prod_beta)

lemma plain_blocks [simp]:
  "list_all (\<lambda>b. CHR 0x00 \<notin> set (fst b)) tun_blocks"
  "list_all (\<lambda>b. CHR 0x00 \<notin> set (fst b)) executable_blocks"
  "list_all (\<lambda>b. CHR 0x00 \<notin> set (fst b)) loopback_blocks"
  "list_all (\<lambda>b. CHR 0x00 \<notin> set (fst b)) block_blocks"
  "list_all (\<lambda>b. CHR 0x00 \<notin> set (fst b)) deny_blocks"
  "list_all (\<lambda>b. CHR 0x00 \<notin> set (fst b)) allow_blocks_v4"
  "list_all (\<lambda>b. CHR 0x00 \<notin> set (fst b)) allow_blocks_v6"
  by (simp_all add: tun_blocks_def executable_blocks_def loopback_blocks_def block_blocks_def
      deny_blocks_def allow_blocks_v4_def allow_blocks_v6_def)

lemma base_filter_select [simp]:
  "filterCondition (base_filter bo w cs a) = cs" "weight (base_filter bo w cs a) = FWP_UINT8 w"
  "action (base_filter bo w cs a) = a" "flags (base_filter bo w cs a) = 0"
  "providerKey (base_filter bo w cs a) = Some (provider bo)"
  "subLayerKey (base_filter bo w cs a) = filters bo"
  by (simp_all add: base_filter_def blank_filter_def filterWeight_def cFWPM_FILTER_FLAG_NONE_def)

lemma place_base: "place (base_filter bo w cs a) d = place (base_filter bo w [] a) d"
  by (simp add: place_def base_filter_def)

lemma place_all_base: "place_all (base_filter bo w cs a) ds = place_all (base_filter bo w [] a) ds"
  unfolding place_all_def by (rule map_cong [OF refl]) (rule place_base)

lemma place_all_Nil [simp]: "place_all f [] = []"
  by (simp add: place_all_def)

lemma place_all_append: "place_all f (ds @ es) = place_all f ds @ place_all f es"
  by (simp add: place_all_def)

lemma blocks_of_base:
  "list_all (\<lambda>b. CHR 0x00 \<notin> set (fst b)) bs \<Longrightarrow>
   discard (add_blocks os h bs (base_filter bo w cs a)) =
     submit os h (place_all (base_filter bo w [] a) (block_defs cs bs))"
  by (subst add_blocks_submit) (simp_all add: plain_names_block_defs place_all_base [of bo w cs])

definition permit_base :: "baseObjects \<Rightarrow> uint8 \<Rightarrow> wtFwpmFilter0" where
  "permit_base bo w = base_filter bo w [] cFWP_ACTION_PERMIT"

definition block_base :: "baseObjects \<Rightarrow> uint8 \<Rightarrow> wtFwpmFilter0" where
  "block_base bo w = base_filter bo w [] cFWP_ACTION_BLOCK"

definition executable_base :: "baseObjects \<Rightarrow> uint8 \<Rightarrow> wtFwpmFilter0" where
  "executable_base bo w = (permit_base bo w)\<lparr>flags := cFWPM_FILTER_FLAG_CLEAR_ACTION_RIGHT\<rparr>"

interpretation tun: rule_set "\<lambda>os h. permitTunInterface os h bo w luid"
  "place_all (permit_base bo w) (tun_defs luid)" for bo w luid
  by unfold_locales
    (simp add: permitTunInterface_def tun_filter_def blocks_of_base tun_defs_def permit_base_def)

interpretation loopback: rule_set "\<lambda>os h. permitLoopback os h bo w"
  "place_all (permit_base bo w) loopback_defs" for bo w
  by unfold_locales
    (simp add: permitLoopback_def loopback_filter_def blocks_of_base loopback_defs_def permit_base_def)

interpretation dhcp4: rule_set "\<lambda>os h. permitDHCPIPv4 os h bo w"
  "place_all (permit_base bo w) dhcp4_defs" for bo w
proof unfold_locales
  fix os h
  have defs: "dhcp4_defs = block_defs dhcp4_request [(''Permit outbound DHCP request (IPv4)'', cFWPM_LAYER_ALE_AUTH_CONNECT_V4)]
      @ block_defs dhcp4_response [(''Permit inbound DHCP response (IPv4)'', cFWPM_LAYER_ALE_AUTH_RECV_ACCEPT_V4)]"
    by (simp add: dhcp4_defs_def block_defs_def)
  show "permitDHCPIPv4 os h bo w = submit os h (place_all (permit_base bo w) dhcp4_defs)"
    unfolding defs
    by (simp add: permitDHCPIPv4_def blocks_of_base permit_base_def submit_append place_all_append)
qed

interpretation dhcp6: rule_set "\<lambda>os h. permitDHCPIPv6 os h bo w"
  "place_all (permit_base bo w) dhcp6_defs" for bo w
proof unfold_locales
  fix os h
  have defs: "dhcp6_defs = block_defs dhcp6_request [(''Permit outbound DHCP request (IPv6)'', cFWPM_LAYER_ALE_AUTH_CONNECT_V6)]
      @ block_defs dhcp6_response [(''Permit inbound DHCP response (IPv6)'', cFWPM_LAYER_ALE_AUTH_RECV_ACCEPT_V6)]"
    by (simp add: dhcp6_defs_def block_defs_def)
  show "permitDHCPIPv6 os h bo w = submit os h (place_all (permit_base bo w) dhcp6_defs)"
    unfolding defs
    by (simp add: permitDHCPIPv6_def blocks_of_base permit_base_def submit_append place_all_append)
qed

interpretation block_all: rule_set "\<lambda>os h. blockAll os h bo w"
  "place_all (block_base bo w) all_defs" for bo w
  by unfold_locales (simp add: blockAll_def blocks_of_base all_defs_def block_base_def)

lemma binds_interface_simps [simp]:
  "binds_interface [] = False"
  "binds_interface (c # cs) = (fieldKey c = cFWPM_CONDITION_IP_LOCAL_INTERFACE \<or> binds_interface cs)"
  "binds_interface (cs @ ds) = (binds_interface cs \<or> binds_interface ds)"
  by (simp_all add: binds_interface_def)

lemmas ndp_message_defs =
  ndp_router_solicitation_def ndp_router_advertisement_def ndp_neighbor_solicitation_def
  ndp_neighbor_advertisement_def ndp_redirect_def

lemma ndp_not_bound: "d \<in> set ndp_defs \<Longrightarrow> \<not> binds_interface (conditions d)"
  by (auto simp: ndp_defs_def ndp_message_defs ndp_conditions_def cFWPM_CONDITION_ICMP_TYPE_def
      cFWPM_CONDITION_ICMP_CODE_def)

interpretation ndp: rule_set "\<lambda>os h. permitNdp os h bo w"
  "place_all (permit_base bo w) ndp_defs" for bo w
proof unfold_locales
  fix os h
  have "plain_names ndp_defs"
    by (simp add: plain_names_def ndp_defs_def ndp_message_defs)
  then show "permitNdp os h bo w = submit os h (place_all (permit_base bo w) ndp_defs)"
    by (simp add: permitNdp_def permit_base_def fold_definitions [where b = False] ndp_not_bound)
qed

text \<open>The rule of an executable depends on what the system says about the file and the process.\<close>

lemma executable_blocks_submit:
  "discard (add_blocks os h executable_blocks (executable_filter bo w appID sd)) =
     submit os h (place_all (executable_base bo w) (executable_defs appID sd))"
proof -
  have f: "place_all (executable_filter bo w appID sd) ds = place_all (executable_base bo w) ds" for ds
    by (simp add: place_all_def executable_filter_def executable_base_def permit_base_def place_def
        base_filter_def)
  have c: "block_defs (filterCondition (executable_filter bo w appID sd)) executable_blocks =
      executable_defs appID sd"
    by (simp add: executable_filter_def executable_defs_def)
  show ?thesis
    by (subst add_blocks_submit) (simp_all add: f c, simp add: executable_defs_def plain_names_block_defs)
qed

interpretation executable: rule_set
  "\<lambda>os h. discard (add_blocks os h executable_blocks (executable_filter bo w appID sd))"
  "place_all (executable_base bo w) (executable_defs appID sd)" for bo w appID sd
  by unfold_locales (rule executable_blocks_submit)

lemma permitExecutable_cases:
  obtains (app) e where "wrapped (executable_app os path) = Inl e"
      "permitExecutable os h bo w path = fw_lift (Inl e)"
  | (sd) appID e where "wrapped (executable_app os path) = Inr appID"
      "wrapped (executable_sd os bo) = Inl e" "permitExecutable os h bo w path = fw_lift (Inl e)"
  | (rules) appID sd where "wrapped (executable_app os path) = Inr appID"
      "wrapped (executable_sd os bo) = Inr sd"
      "permitExecutable os h bo w path =
         submit os h (place_all (executable_base bo w) (executable_defs appID sd))"
proof (cases "wrapped (executable_app os path)")
  case (Inl e)
  then show ?thesis by (intro app) (simp_all add: permitExecutable_def)
next
  case a: (Inr appID)
  show ?thesis
  proof (cases "wrapped (executable_sd os bo)")
    case (Inl e)
    with a show ?thesis by (intro sd) (simp_all add: permitExecutable_def)
  next
    case (Inr d)
    with a show ?thesis by (intro rules) (simp_all add: permitExecutable_def executable.install_eq)
  qed
qed

text \<open>The two halves of \<^verbatim>\<open>blockDNS\<close>.\<close>

lemma deny_not_bound [simp]: "\<not> binds_interface denyConditions"
  by (simp add: denyConditions_def)

lemma allow_not_bound [simp]:
  "\<not> binds_interface (allowConditionsV4 ips)" "\<not> binds_interface (allowConditionsV6 ips)"
  by (auto simp: allowConditionsV4_def allowConditionsV6_def binds_interface_def list_ex_iff
      denyConditions_def map_filter_def split: option.splits)

definition allow_part :: "os \<Rightarrow> IP list \<Rightarrow> uint64 \<Rightarrow> baseObjects \<Rightarrow> uint8 \<Rightarrow> unit fw" where
  "allow_part os except h bo w =
     discard (fw_bind (allow_dns os h (allowConditionsV4 except) allow_blocks_v4 (permit_base bo w))
       (allow_dns os h (allowConditionsV6 except) allow_blocks_v6))"

lemma allow_dns_definitions:
  assumes "list_all (\<lambda>b. CHR 0x00 \<notin> set (fst b)) bs"
  shows "allow_dns os h cs bs f =
    (if length denyConditions < length cs
     then fw_then (submit os h (place_all f (block_defs cs bs)))
       (fw_return (last_place (f\<lparr>filterCondition := cs\<rparr>) (block_defs cs bs)))
     else fw_return (f\<lparr>filterCondition := cs\<rparr>))"
proof -
  have "place_all (f\<lparr>filterCondition := cs\<rparr>) ds = place_all f ds" for ds
    by (simp add: place_all_def place_def)
  then show ?thesis
    using assms by (simp add: allow_dns_def Let_def add_blocks_submit plain_names_block_defs)
qed

lemma last_place_again:
  assumes "bs \<noteq> []" "binds_interface cs = binds_interface ds"
  shows "place_all (last_place (f\<lparr>filterCondition := cs\<rparr>) (block_defs cs bs)) (block_defs ds es) =
         place_all f (block_defs ds es)"
proof -
  let ?l = "last (block_defs cs bs)"
  have ne: "block_defs cs bs \<noteq> []" using assms(1) by (simp add: block_defs_def)
  have l: "conditions ?l = cs" by (rule binds_block_defs) (rule last_in_set [OF ne])
  have "place (f\<lparr>filterCondition := cs\<rparr>) ?l = place f ?l" by (simp add: place_def)
  moreover have "place (place f ?l) e = place f e" if "e \<in> set (block_defs ds es)" for e
    by (rule place_place) (simp add: l assms(2) binds_block_defs [OF that])
  ultimately show ?thesis
    using ne by (auto simp: place_all_def last_place_def)
qed

lemma place_all_conditions [simp]: "place_all (f\<lparr>filterCondition := cs\<rparr>) ds = place_all f ds"
  by (simp add: place_all_def place_def)

lemma allow_blocks_nonempty [simp]: "allow_blocks_v4 \<noteq> []"
  by (simp add: allow_blocks_v4_def)

lemma allow_part_submit:
  "allow_part os except h bo w = submit os h (place_all (permit_base bo w) (allow_defs except))"
  by (simp add: allow_part_def allow_dns_definitions fw_bind_then last_place_again
      allow_defs_def place_all_append submit_append discard_def)

interpretation dns: rule_sequence
  "\<lambda>os h. discard (add_blocks os h deny_blocks (base_filter bo wd denyConditions cFWP_ACTION_BLOCK))"
  "place_all (block_base bo wd) deny_defs"
  "\<lambda>os h. allow_part os except h bo wa" "place_all (permit_base bo wa) (allow_defs except)"
  for bo wd wa except
  by unfold_locales (simp_all add: blocks_of_base block_base_def deny_defs_def allow_part_submit)

lemma blockDNS_eq:
  "blockDNS os except h bo wa wd =
     (if wa \<le> wd then fw_lift (Inl AllowWeightTooSmall)
      else submit os h (place_all (block_base bo wd) deny_defs @
             place_all (permit_base bo wa) (allow_defs except)))"
  by (simp add: blockDNS_def allow_part_def [symmetric] permit_base_def [symmetric] dns.sequence_eq)

lemmas rule_eqs =
  tun.install_eq loopback.install_eq dhcp4.install_eq dhcp6.install_eq ndp.install_eq
  block_all.install_eq blockDNS_eq

end
