(* ===== verification/FirewallPolicy.thy ===== *)
theory FirewallPolicy
  imports FirewallRules
begin

unbundle bit_operations_syntax

text \<open>
  What the installed filters mean. The filtering engine is outside the sources, so its verdict is
  an argument \<open>decide\<close>, with the documented arbitration inside one sublayer as a hypothesis
  (\<open>arbitrates\<close>): the verdict is the action of a matching filter that no matching filter
  outweighs. A filter matches a classified packet when it is on the packet's layer and, for
  every field it mentions, one of its conditions on that field holds. How a security
  descriptor applies to a user is a second argument, \<open>access\<close>.

  Against this the filters of a rule list are characterised, and the two rule sets, that of a
  tunnel session and that of the persistent guard, are shown to implement a policy written
  without any filter, weight or layer.
\<close>

subsection \<open>Classification\<close>

record packet =
  p_layer :: GUID
  p_interface :: uint64
  p_app :: "byte list"
  p_user :: string
  p_flags :: uint32
  p_proto :: uint8
  p_local_port :: uint16
  p_remote_port :: uint16
  p_local_addr :: "byte list"
  p_remote_addr :: "byte list"

definition address_bit :: "byte list \<Rightarrow> nat \<Rightarrow> bool" where
  "address_bit a i = bit (a ! (i div 8)) (7 - i mod 8)"

definition in_prefix :: "byte list \<Rightarrow> nat \<Rightarrow> byte list \<Rightarrow> bool" where
  "in_prefix net n a \<longleftrightarrow> length a = length net \<and> list_all (\<lambda>i. address_bit a i = address_bit net i) [0..<n]"

definition cond_holds ::
  "(byte list \<Rightarrow> string \<Rightarrow> bool) \<Rightarrow> packet \<Rightarrow> wtFwpmFilterCondition0 \<Rightarrow> bool" where
  "cond_holds access p c = (case conditionValue c of
     FWP_UINT64 v \<Rightarrow> fieldKey c = cFWPM_CONDITION_IP_LOCAL_INTERFACE \<and> p_interface p = v
   | FWP_BYTE_BLOB b \<Rightarrow> fieldKey c = cFWPM_CONDITION_ALE_APP_ID \<and> p_app p = b
   | FWP_SECURITY_DESCRIPTOR d \<Rightarrow> fieldKey c = cFWPM_CONDITION_ALE_USER_ID \<and> access d (p_user p)
   | FWP_UINT8 v \<Rightarrow> fieldKey c = cFWPM_CONDITION_IP_PROTOCOL \<and> p_proto p = v
   | FWP_UINT16 v \<Rightarrow> (fieldKey c = cFWPM_CONDITION_IP_LOCAL_PORT \<and> p_local_port p = v)
                  \<or> (fieldKey c = cFWPM_CONDITION_IP_REMOTE_PORT \<and> p_remote_port p = v)
   | FWP_UINT32 v \<Rightarrow> (fieldKey c = cFWPM_CONDITION_FLAGS \<and> matchType c = cFWP_MATCH_FLAGS_ALL_SET
                        \<and> p_flags p AND v = v)
                  \<or> (fieldKey c = cFWPM_CONDITION_IP_REMOTE_ADDRESS \<and> length (p_remote_addr p) = 4
                        \<and> BigEndian_Uint32 (p_remote_addr p) = v)
   | FWP_BYTE_ARRAY16 a \<Rightarrow> fieldKey c = cFWPM_CONDITION_IP_REMOTE_ADDRESS \<and> p_remote_addr p = a
   | FWP_V6_ADDR_MASK net n \<Rightarrow>
       (fieldKey c = cFWPM_CONDITION_IP_REMOTE_ADDRESS \<and> in_prefix net (unat n) (p_remote_addr p))
     \<or> (fieldKey c = cFWPM_CONDITION_IP_LOCAL_ADDRESS \<and> in_prefix net (unat n) (p_local_addr p))
   | FWP_EMPTY \<Rightarrow> False)"

definition conds_hold ::
  "(byte list \<Rightarrow> string \<Rightarrow> bool) \<Rightarrow> packet \<Rightarrow> wtFwpmFilterCondition0 list \<Rightarrow> bool" where
  "conds_hold access p cs =
     list_all (\<lambda>c. list_ex (\<lambda>c'. fieldKey c' = fieldKey c \<and> cond_holds access p c') cs) cs"

definition filter_matches :: "(byte list \<Rightarrow> string \<Rightarrow> bool) \<Rightarrow> packet \<Rightarrow> wtFwpmFilter0 \<Rightarrow> bool" where
  "filter_matches access p f \<longleftrightarrow> layerKey f = p_layer p \<and> conds_hold access p (filterCondition f)"

fun weight_range :: "wtFwpValue0 \<Rightarrow> uint8" where
  "weight_range (FWP_UINT8 w) = w"
| "weight_range _ = 0"

definition arbitrates ::
  "(byte list \<Rightarrow> string \<Rightarrow> bool) \<Rightarrow> (wtFwpmFilter0 list \<Rightarrow> packet \<Rightarrow> uint32) \<Rightarrow> bool" where
  "arbitrates access decide \<longleftrightarrow>
     (\<forall>fs p. list_ex (filter_matches access p) fs \<longrightarrow>
        (\<exists>f \<in> set fs. filter_matches access p f \<and> decide fs p = action f \<and>
          (\<forall>g \<in> set fs. filter_matches access p g \<longrightarrow>
             weight_range (weight g) \<le> weight_range (weight f))))"

text \<open>An engine that arbitrates this way: the first of the heaviest matching filters.\<close>

definition heaviest :: "wtFwpmFilter0 list \<Rightarrow> wtFwpmFilter0" where
  "heaviest fs = foldr (\<lambda>f g. if weight_range (weight g) \<le> weight_range (weight f) then f else g)
     (butlast fs) (last fs)"

definition decide_heaviest ::
  "(byte list \<Rightarrow> string \<Rightarrow> bool) \<Rightarrow> wtFwpmFilter0 list \<Rightarrow> packet \<Rightarrow> uint32" where
  "decide_heaviest access fs p = action (heaviest (filter (filter_matches access p) fs))"

lemma heaviest_correct:
  "fs \<noteq> [] \<Longrightarrow> heaviest fs \<in> set fs \<and>
     (\<forall>g \<in> set fs. weight_range (weight g) \<le> weight_range (weight (heaviest fs)))"
proof (induction fs rule: list_nonempty_induct)
  case (cons f fs)
  have "heaviest (f # fs) =
      (if weight_range (weight (heaviest fs)) \<le> weight_range (weight f) then f else heaviest fs)"
    using cons(1) by (simp add: heaviest_def)
  with cons show ?case by auto
qed (simp add: heaviest_def)

lemma decide_heaviest_arbitrates: "arbitrates access (decide_heaviest access)"
  unfolding arbitrates_def
proof (intro allI impI)
  fix fs p
  assume "list_ex (filter_matches access p) fs"
  then have "filter (filter_matches access p) fs \<noteq> []" by (auto simp: list_ex_iff filter_empty_conv)
  from heaviest_correct [OF this]
  show "\<exists>f \<in> set fs. filter_matches access p f \<and> decide_heaviest access fs p = action f \<and>
      (\<forall>g \<in> set fs. filter_matches access p g \<longrightarrow> weight_range (weight g) \<le> weight_range (weight f))"
    by (intro bexI [of _ "heaviest (filter (filter_matches access p) fs)"])
      (auto simp: decide_heaviest_def)
qed

text \<open>
  The rule of the proofs below: a matching filter fixes the verdict when every matching filter
  of at least its weight has the same action.
\<close>

lemma decide_top:
  assumes "arbitrates access decide" "f \<in> set fs" "filter_matches access p f"
    and top: "\<And>g. g \<in> set fs \<Longrightarrow> filter_matches access p g \<Longrightarrow>
      weight_range (weight f) \<le> weight_range (weight g) \<Longrightarrow> action g = a"
  shows "decide fs p = a"
proof -
  have "list_ex (filter_matches access p) fs" using assms(2,3) by (auto simp: list_ex_iff)
  then obtain g where g: "g \<in> set fs" "filter_matches access p g" "decide fs p = action g"
    and max: "\<forall>k \<in> set fs. filter_matches access p k \<longrightarrow> weight_range (weight k) \<le> weight_range (weight g)"
    using assms(1) unfolding arbitrates_def by blast
  have "weight_range (weight f) \<le> weight_range (weight g)" using max assms(2,3) by blast
  with top g show ?thesis by simp
qed

subsection \<open>Rule groups\<close>

text \<open>A group: a shared structure on a list of definitions.\<close>

definition defs_match :: "(byte list \<Rightarrow> string \<Rightarrow> bool) \<Rightarrow> packet \<Rightarrow> filterDefinition list \<Rightarrow> bool" where
  "defs_match access p ds = list_ex (\<lambda>d. layer d = p_layer p \<and> conds_hold access p (conditions d)) ds"

lemma place_all_matches:
  "(\<exists>f \<in> set (place_all b ds). filter_matches access p f) \<longleftrightarrow> defs_match access p ds"
  by (auto simp: place_all_def filter_matches_def defs_match_def list_ex_iff)

lemma place_all_member:
  "f \<in> set (place_all b ds) \<Longrightarrow> weight f = weight b \<and> action f = action b"
  by (auto simp: place_all_def)

lemma base_select [simp]:
  "weight (permit_base bo w) = FWP_UINT8 w" "action (permit_base bo w) = cFWP_ACTION_PERMIT"
  "weight (block_base bo w) = FWP_UINT8 w" "action (block_base bo w) = cFWP_ACTION_BLOCK"
  "weight (executable_base bo w) = FWP_UINT8 w" "action (executable_base bo w) = cFWP_ACTION_PERMIT"
  by (simp_all add: permit_base_def block_base_def executable_base_def)

text \<open>Prioritised groups decide like a chain of guarded actions.\<close>

definition group :: "(uint8 \<times> uint32 \<times> filterDefinition list) \<Rightarrow> wtFwpmFilter0 list \<Rightarrow> bool" where
  "group = (\<lambda>(w, a, ds) fs. \<exists>b. fs = place_all b ds \<and> weight b = FWP_UINT8 w \<and> action b = a)"

lemma group_decides:
  assumes arb: "arbitrates access decide"
    and gs: "list_all2 group gs fss"
    and sel: "(w, a, ds) \<in> set gs" "defs_match access p ds"
    and top: "\<And>w' a' ds'. (w', a', ds') \<in> set gs \<Longrightarrow> defs_match access p ds' \<Longrightarrow> w \<le> w' \<Longrightarrow> a' = a"
  shows "decide (concat fss) p = a"
proof -
  have group_of: "\<exists>g \<in> set gs. group g fs" if "fs \<in> set fss" for fs
    using gs that by (auto simp: list_all2_conv_all_nth in_set_conv_nth) (metis nth_mem)
  obtain fs where fs: "fs \<in> set fss" "group (w, a, ds) fs"
    using gs sel(1) by (auto simp: list_all2_conv_all_nth in_set_conv_nth) metis
  then obtain b where b: "fs = place_all b ds" "weight b = FWP_UINT8 w" "action b = a"
    by (auto simp: group_def)
  from sel(2) obtain f where f: "f \<in> set fs" "filter_matches access p f"
    unfolding b(1) using place_all_matches by blast
  show ?thesis
  proof (rule decide_top [OF arb _ f(2)])
    show "f \<in> set (concat fss)" using f fs by auto
  next
    fix g assume g: "g \<in> set (concat fss)" "filter_matches access p g"
      and le: "weight_range (weight f) \<le> weight_range (weight g)"
    from g(1) obtain fs' where fs': "fs' \<in> set fss" "g \<in> set fs'" by auto
    obtain w' a' ds' where gr: "(w', a', ds') \<in> set gs" "group (w', a', ds') fs'"
      using group_of [OF fs'(1)] by auto
    then obtain b' where b': "fs' = place_all b' ds'" "weight b' = FWP_UINT8 w'" "action b' = a'"
      by (auto simp: group_def)
    have m: "defs_match access p ds'" using fs'(2) g(2) unfolding b'(1) using place_all_matches by blast
    have "weight g = FWP_UINT8 w'" "action g = a'" "weight f = FWP_UINT8 w"
      using place_all_member fs'(2) f(1) unfolding b(1) b'(1) b b' by (metis b b')+
    with top [OF gr(1) m] le show "action g = a" by simp
  qed
qed

subsection \<open>Kinds of traffic\<close>

definition ale_layer :: "packet \<Rightarrow> bool" where
  "ale_layer p \<longleftrightarrow> p_layer p \<in> {cFWPM_LAYER_ALE_AUTH_CONNECT_V4, cFWPM_LAYER_ALE_AUTH_RECV_ACCEPT_V4,
     cFWPM_LAYER_ALE_AUTH_CONNECT_V6, cFWPM_LAYER_ALE_AUTH_RECV_ACCEPT_V6}"

definition v4_layer :: "packet \<Rightarrow> bool" where
  "v4_layer p \<longleftrightarrow> p_layer p \<in> {cFWPM_LAYER_ALE_AUTH_CONNECT_V4, cFWPM_LAYER_ALE_AUTH_RECV_ACCEPT_V4}"

definition v6_layer :: "packet \<Rightarrow> bool" where
  "v6_layer p \<longleftrightarrow> p_layer p \<in> {cFWPM_LAYER_ALE_AUTH_CONNECT_V6, cFWPM_LAYER_ALE_AUTH_RECV_ACCEPT_V6}"

definition link_local :: "byte list \<Rightarrow> bool" where
  "link_local a \<longleftrightarrow> length a = 16 \<and> a ! 0 = 0xfe \<and> (a ! 1) AND 0xc0 = 0x80"

definition of_executable :: "(byte list \<Rightarrow> string \<Rightarrow> bool) \<Rightarrow> byte list \<Rightarrow> byte list \<Rightarrow> packet \<Rightarrow> bool" where
  "of_executable access appID sd p \<longleftrightarrow> p_app p = appID \<and> access sd (p_user p)"

definition loopback_traffic :: "packet \<Rightarrow> bool" where
  "loopback_traffic p \<longleftrightarrow> bit (p_flags p) 0"

definition dhcp4_traffic :: "packet \<Rightarrow> bool" where
  "dhcp4_traffic p \<longleftrightarrow> p_proto p = 17 \<and> p_local_port p = 68 \<and> p_remote_port p = 67 \<and>
     (p_layer p = cFWPM_LAYER_ALE_AUTH_CONNECT_V4 \<and> p_remote_addr p = [255, 255, 255, 255]
      \<or> p_layer p = cFWPM_LAYER_ALE_AUTH_RECV_ACCEPT_V4)"

definition dhcp6_traffic :: "packet \<Rightarrow> bool" where
  "dhcp6_traffic p \<longleftrightarrow> p_proto p = 17 \<and> p_local_port p = 546 \<and> p_remote_port p = 547 \<and>
     link_local (p_local_addr p) \<and>
     (p_layer p = cFWPM_LAYER_ALE_AUTH_CONNECT_V6 \<and>
        p_remote_addr p \<in> {linkLocalDHCPMulticast, siteLocalDHCPMulticast}
      \<or> p_layer p = cFWPM_LAYER_ALE_AUTH_RECV_ACCEPT_V6 \<and> link_local (p_remote_addr p))"

text \<open>At these layers the ports of an ICMP packet are its type and code.\<close>

definition ndp_traffic :: "packet \<Rightarrow> bool" where
  "ndp_traffic p \<longleftrightarrow> p_proto p = 58 \<and> p_remote_port p = 0 \<and>
     (p_local_port p = 133 \<and> p_layer p = cFWPM_LAYER_ALE_AUTH_CONNECT_V6 \<and>
        p_remote_addr p = linkLocalRouterMulticast
      \<or> p_local_port p \<in> {134, 137} \<and> p_layer p = cFWPM_LAYER_ALE_AUTH_RECV_ACCEPT_V6 \<and>
        link_local (p_remote_addr p)
      \<or> p_local_port p \<in> {135, 136} \<and> v6_layer p)"

definition dns_traffic :: "packet \<Rightarrow> bool" where
  "dns_traffic p \<longleftrightarrow> p_remote_port p = 53 \<and> p_proto p \<in> {17, 6}"

definition to_server :: "IP list \<Rightarrow> packet \<Rightarrow> bool" where
  "to_server servers p \<longleftrightarrow>
     (v4_layer p \<and> Some (p_remote_addr p) \<in> To4 ` set servers)
   \<or> (v6_layer p \<and> (\<exists>ip \<in> set servers. To4 ip = None \<and> p_remote_addr p = copy16 ip))"

subsection \<open>The conditions of the rules\<close>

lemma byte_eq_bits:
  "x = y \<longleftrightarrow> (bit x 0 = bit y 0 \<and> bit x 1 = bit y 1 \<and> bit x 2 = bit y 2 \<and> bit x 3 = bit y 3 \<and>
     bit x 4 = bit y 4 \<and> bit x 5 = bit y 5 \<and> bit x 6 = bit y 6 \<and> bit x 7 = bit y 7)" for x y :: byte
proof
  assume *: "bit x 0 = bit y 0 \<and> bit x 1 = bit y 1 \<and> bit x 2 = bit y 2 \<and> bit x 3 = bit y 3 \<and>
     bit x 4 = bit y 4 \<and> bit x 5 = bit y 5 \<and> bit x 6 = bit y 6 \<and> bit x 7 = bit y 7"
  show "x = y"
  proof (rule bit_word_eqI)
    fix n assume "n < LENGTH(8)"
    then have "n \<in> {0, 1, 2, 3, 4, 5, 6, 7}" by auto
    with * show "bit x n = bit y n" by auto
  qed
qed simp

lemma linkLocal_prefix:
  "in_prefix [0xfe, 0x80, 0, 0, 0, 0, 0, 0, 0, 0, 0, 0, 0, 0, 0, 0] 10 a \<longleftrightarrow> link_local a"
proof -
  have bits: "[0..<10] = [0, 1, 2, 3, 4, 5, 6, 7, 8, 9::nat]" by (simp add: upt_rec)
  show ?thesis
    unfolding in_prefix_def link_local_def bits byte_eq_bits [of "a ! 0"] byte_eq_bits [of "a ! 1 AND 0xc0"]
    by (auto simp: address_bit_def bit_simps)
qed

lemma conds_hold_Nil [simp]: "conds_hold access p []"
  by (simp add: conds_hold_def)

lemma defs_match_block_defs:
  "defs_match access p (block_defs cs bs) \<longleftrightarrow> p_layer p \<in> set (map snd bs) \<and> conds_hold access p cs"
  by (induction bs) (auto simp: defs_match_def block_defs_def)

lemma tun_match:
  "defs_match access p (tun_defs luid) \<longleftrightarrow> ale_layer p \<and> p_interface p = luid"
  by (auto simp: tun_defs_def defs_match_block_defs tun_blocks_def ale_layer_def conds_hold_def
      cond_holds_def)

lemma executable_match:
  "defs_match access p (executable_defs appID sd) \<longleftrightarrow> ale_layer p \<and> of_executable access appID sd p"
  by (auto simp: executable_defs_def defs_match_block_defs executable_blocks_def ale_layer_def
      conds_hold_def cond_holds_def of_executable_def)

lemma loopback_match:
  "defs_match access p loopback_defs \<longleftrightarrow> ale_layer p \<and> loopback_traffic p"
  by (auto simp: loopback_defs_def defs_match_block_defs loopback_blocks_def ale_layer_def
      conds_hold_def cond_holds_def loopback_traffic_def cFWP_CONDITION_FLAG_IS_LOOPBACK_def
      and_one_eq odd_iff_mod_2_eq_one bit_0)

lemma all_match: "defs_match access p all_defs \<longleftrightarrow> ale_layer p"
  by (auto simp: all_defs_def defs_match_block_defs block_blocks_def ale_layer_def)

lemma deny_match: "defs_match access p deny_defs \<longleftrightarrow> ale_layer p \<and> dns_traffic p"
  by (auto simp: deny_defs_def defs_match_block_defs deny_blocks_def ale_layer_def conds_hold_def
      cond_holds_def denyConditions_def dns_traffic_def cIPPROTO_UDP_def cIPPROTO_TCP_def)

lemma digits_inj: "a < n \<Longrightarrow> b < n \<Longrightarrow> n * x + a = n * y + b \<longleftrightarrow> x = y \<and> a = b" for a b n :: nat
  by (metis add_left_cancel div_mult_self4 div_less add_0 mod_mult_self4 mod_less
      less_nat_zero_code mult.commute add.commute)

lemma BigEndian_inj:
  assumes "length a = 4" "length b = 4"
  shows "BigEndian_Uint32 a = BigEndian_Uint32 b \<longleftrightarrow> a = b"
proof -
  obtain a0 a1 a2 a3 where a: "a = [a0, a1, a2, a3]"
    using assms(1) by (auto simp: numeral_eq_Suc length_Suc_conv)
  obtain b0 b1 b2 b3 where b: "b = [b0, b1, b2, b3]"
    using assms(2) by (auto simp: numeral_eq_Suc length_Suc_conv)
  let ?n = "\<lambda>x0 x1 x2 x3. 256 * (256 * (256 * unat x0 + unat x1) + unat x2) + unat (x3 :: byte)"
  have less: "unat x < 256" for x :: byte using unsigned_less [of x, where ?'a = nat] by simp
  have bound: "?n x0 x1 x2 x3 < 2 ^ 32" for x0 x1 x2 x3 :: byte
    using less [of x0] less [of x1] less [of x2] less [of x3] by simp
  have inj: "(word_of_nat m :: uint32) = word_of_nat n \<longleftrightarrow> m = n" if "m < 2 ^ 32" "n < 2 ^ 32" for m n
    using that by (simp add: word_of_nat_eq_iff take_bit_nat_eq_self)
  have val: "BigEndian_Uint32 [x0, x1, x2, x3] = word_of_nat (?n x0 x1 x2 x3)" for x0 x1 x2 x3
    by (simp add: BigEndian_Uint32_def)
  have "BigEndian_Uint32 a = BigEndian_Uint32 b \<longleftrightarrow> ?n a0 a1 a2 a3 = ?n b0 b1 b2 b3"
    unfolding a b val by (rule inj [OF bound bound])
  also have "\<dots> \<longleftrightarrow> a = b"
    unfolding a b by (simp only: digits_inj [OF less less] word_unat_eq_iff list.inject conj_assoc simp_thms)
  finally show ?thesis .
qed

lemma broadcast_address:
  "length a = 4 \<and> BigEndian_Uint32 a = 0xffffffff \<longleftrightarrow> a = [255, 255, 255, 255]"
proof -
  have "BigEndian_Uint32 [255, 255, 255, 255] = 0xffffffff"
    by (simp add: BigEndian_Uint32_def)
  then show ?thesis using BigEndian_inj [of a "[255, 255, 255, 255]"] by auto
qed

lemma dhcp4_match: "defs_match access p dhcp4_defs \<longleftrightarrow> dhcp4_traffic p"
  using broadcast_address [of "p_remote_addr p"]
  by (auto simp: dhcp4_defs_def defs_match_def dhcp4_request_def dhcp4_response_def conds_hold_def
      cond_holds_def dhcp4_traffic_def cIPPROTO_UDP_def)

lemma dhcp6_match: "defs_match access p dhcp6_defs \<longleftrightarrow> dhcp6_traffic p"
  by (auto simp: dhcp6_defs_def defs_match_def dhcp6_request_def dhcp6_response_def conds_hold_def
      cond_holds_def dhcp6_traffic_def cIPPROTO_UDP_def linkLocal_def linkLocal_prefix)

lemma ndp_conditions_hold:
  "conds_hold access p (ndp_conditions t) \<longleftrightarrow> p_proto p = 58 \<and> p_local_port p = t \<and> p_remote_port p = 0"
  "conds_hold access p (ndp_conditions t @ [equals cFWPM_CONDITION_IP_REMOTE_ADDRESS v]) \<longleftrightarrow>
     p_proto p = 58 \<and> p_local_port p = t \<and> p_remote_port p = 0 \<and>
     cond_holds access p (equals cFWPM_CONDITION_IP_REMOTE_ADDRESS v)"
  by (simp_all add: ndp_conditions_def conds_hold_def cond_holds_def cIPPROTO_ICMPV6_def
      cFWPM_CONDITION_ICMP_TYPE_def cFWPM_CONDITION_ICMP_CODE_def)

lemma remote_holds:
  "cond_holds access p (equals cFWPM_CONDITION_IP_REMOTE_ADDRESS linkLocal) \<longleftrightarrow> link_local (p_remote_addr p)"
  "cond_holds access p (equals cFWPM_CONDITION_IP_REMOTE_ADDRESS (FWP_BYTE_ARRAY16 a)) \<longleftrightarrow> p_remote_addr p = a"
  by (simp_all add: cond_holds_def linkLocal_def linkLocal_prefix)

lemma ndp_match: "defs_match access p ndp_defs \<longleftrightarrow> ndp_traffic p"
  unfolding ndp_defs_def ndp_message_defs defs_match_def ndp_traffic_def v6_layer_def
  by (simp add: ndp_conditions_hold remote_holds eq_commute [of _ "p_layer p"]) argo

lemma dns_conds [simp]:
  "cond_holds access p (equals cFWPM_CONDITION_IP_REMOTE_PORT (FWP_UINT16 v)) \<longleftrightarrow> p_remote_port p = v"
  "cond_holds access p (equals cFWPM_CONDITION_IP_PROTOCOL (FWP_UINT8 w)) \<longleftrightarrow> p_proto p = w"
  by (simp_all add: cond_holds_def)

lemma conds_hold_allow:
  assumes "set as \<noteq> {}" "\<forall>c \<in> set as. fieldKey c = cFWPM_CONDITION_IP_REMOTE_ADDRESS"
  shows "conds_hold access p (denyConditions @ as) \<longleftrightarrow>
         dns_traffic p \<and> (\<exists>c \<in> set as. cond_holds access p c)"
proof -
  obtain a where a: "a \<in> set as" using assms(1) by (cases as) auto
  have other: "\<not> list_ex (\<lambda>c'. fieldKey c' = k \<and> cond_holds access p c') as"
    if "k \<noteq> cFWPM_CONDITION_IP_REMOTE_ADDRESS" for k
    using assms(2) that by (auto simp: list_ex_iff)
  have here: "list_all (\<lambda>c. list_ex (\<lambda>c'. fieldKey c' = fieldKey c \<and> cond_holds access p c') as) as
      \<longleftrightarrow> (\<exists>c \<in> set as. cond_holds access p c)"
    using assms(2) a by (auto simp: list_ex_iff list_all_iff)
  have deny: "list_all (\<lambda>c. \<not> list_ex (\<lambda>c'. fieldKey c' = fieldKey c \<and> cond_holds access p c') denyConditions) as"
    using assms(2) by (auto simp: list_all_iff denyConditions_def)
  have *: "list_all (\<lambda>c. list_ex (\<lambda>c'. fieldKey c' = fieldKey c \<and> cond_holds access p c') (denyConditions @ as)) as
      \<longleftrightarrow> (\<exists>c \<in> set as. cond_holds access p c)"
    using here deny by (auto simp: list_all_iff)
  have "list_all (\<lambda>c. list_ex (\<lambda>c'. fieldKey c' = fieldKey c \<and> cond_holds access p c') (denyConditions @ as)) denyConditions
      \<longleftrightarrow> dns_traffic p"
    by (auto simp: denyConditions_def other dns_traffic_def cIPPROTO_UDP_def cIPPROTO_TCP_def)
  with * show ?thesis by (simp add: conds_hold_def)
qed

definition addressesV4 :: "IP list \<Rightarrow> wtFwpmFilterCondition0 list" where
  "addressesV4 servers = drop (length denyConditions) (allowConditionsV4 servers)"

definition addressesV6 :: "IP list \<Rightarrow> wtFwpmFilterCondition0 list" where
  "addressesV6 servers = drop (length denyConditions) (allowConditionsV6 servers)"

lemma allow_split:
  "allowConditionsV4 servers = denyConditions @ addressesV4 servers"
  "allowConditionsV6 servers = denyConditions @ addressesV6 servers"
  by (simp_all add: addressesV4_def addressesV6_def allowConditionsV4_def allowConditionsV6_def)

lemma set_addressesV4:
  "set (addressesV4 servers) =
     {equals cFWPM_CONDITION_IP_REMOTE_ADDRESS (FWP_UINT32 (BigEndian_Uint32 a)) | a. Some a \<in> To4 ` set servers}"
proof (induction servers)
  case (Cons ip ips)
  then show ?case
    by (cases "To4 ip") (auto simp: addressesV4_def allowConditionsV4_def map_filter_simps)
qed (simp add: addressesV4_def allowConditionsV4_def map_filter_simps)

lemma set_addressesV6:
  "set (addressesV6 servers) =
     {equals cFWPM_CONDITION_IP_REMOTE_ADDRESS (FWP_BYTE_ARRAY16 (copy16 ip)) | ip. ip \<in> set servers \<and> To4 ip = None}"
proof (induction servers)
  case (Cons ip ips)
  then show ?case
    by (cases "To4 ip") (auto simp: addressesV6_def allowConditionsV6_def map_filter_simps)
qed (simp add: addressesV6_def allowConditionsV6_def map_filter_simps)

lemma To4_length: "To4 ip = Some a \<Longrightarrow> length a = 4"
  by (auto simp: To4_def split: if_splits)

lemma addressesV4_hold:
  "(\<exists>c \<in> set (addressesV4 servers). cond_holds access p c) \<longleftrightarrow> Some (p_remote_addr p) \<in> To4 ` set servers"
proof
  assume "\<exists>c \<in> set (addressesV4 servers). cond_holds access p c"
  then obtain a where a: "Some a \<in> To4 ` set servers" "length (p_remote_addr p) = 4"
    "BigEndian_Uint32 (p_remote_addr p) = BigEndian_Uint32 a"
    unfolding set_addressesV4 by (force simp: cond_holds_def)
  then have "p_remote_addr p = a" using To4_length BigEndian_inj by fastforce
  with a(1) show "Some (p_remote_addr p) \<in> To4 ` set servers" by simp
next
  assume *: "Some (p_remote_addr p) \<in> To4 ` set servers"
  then have "length (p_remote_addr p) = 4" using To4_length by fastforce
  with * show "\<exists>c \<in> set (addressesV4 servers). cond_holds access p c"
    unfolding set_addressesV4
    by (intro bexI [of _ "equals cFWPM_CONDITION_IP_REMOTE_ADDRESS (FWP_UINT32 (BigEndian_Uint32 (p_remote_addr p)))"])
      (auto simp: cond_holds_def)
qed

lemma addressesV6_hold:
  "(\<exists>c \<in> set (addressesV6 servers). cond_holds access p c) \<longleftrightarrow>
   (\<exists>ip \<in> set servers. To4 ip = None \<and> p_remote_addr p = copy16 ip)"
  by (auto simp: set_addressesV6 cond_holds_def)

lemma allow_conditions_hold:
  assumes "as \<noteq> []" "\<forall>c \<in> set as. fieldKey c = cFWPM_CONDITION_IP_REMOTE_ADDRESS"
  shows "defs_match access p (block_defs (denyConditions @ as) bs) \<longleftrightarrow>
         p_layer p \<in> set (map snd bs) \<and> dns_traffic p \<and> (\<exists>c \<in> set as. cond_holds access p c)"
  using assms by (simp add: defs_match_block_defs conds_hold_allow)

lemma allow_part_match:
  assumes "\<forall>c \<in> set as. fieldKey c = cFWPM_CONDITION_IP_REMOTE_ADDRESS"
  shows "defs_match access p (if length denyConditions < length (denyConditions @ as)
           then block_defs (denyConditions @ as) bs else []) \<longleftrightarrow>
         p_layer p \<in> set (map snd bs) \<and> dns_traffic p \<and> (\<exists>c \<in> set as. cond_holds access p c)"
proof (cases "as = []")
  case False
  then show ?thesis using allow_conditions_hold [OF False assms] by simp
qed (simp add: defs_match_def)

lemma defs_match_append:
  "defs_match access p (ds @ es) \<longleftrightarrow> defs_match access p ds \<or> defs_match access p es"
  by (simp add: defs_match_def)

lemma allow_match:
  "defs_match access p (allow_defs servers) \<longleftrightarrow> dns_traffic p \<and> to_server servers p"
proof -
  have "\<forall>c \<in> set (addressesV4 servers). fieldKey c = cFWPM_CONDITION_IP_REMOTE_ADDRESS"
    "\<forall>c \<in> set (addressesV6 servers). fieldKey c = cFWPM_CONDITION_IP_REMOTE_ADDRESS"
    by (auto simp: set_addressesV4 set_addressesV6)
  note parts = this [THEN allow_part_match]
  show ?thesis
    unfolding allow_defs_def allow_split defs_match_append parts addressesV4_hold addressesV6_hold
    by (auto simp: to_server_def v4_layer_def v6_layer_def allow_blocks_v4_def allow_blocks_v6_def)
qed

lemma layer_kinds:
  "dhcp4_traffic p \<Longrightarrow> ale_layer p" "dhcp6_traffic p \<Longrightarrow> ale_layer p" "ndp_traffic p \<Longrightarrow> ale_layer p"
  "to_server servers p \<Longrightarrow> ale_layer p"
  by (auto simp: dhcp4_traffic_def dhcp6_traffic_def ndp_traffic_def to_server_def ale_layer_def
      v4_layer_def v6_layer_def)

lemmas match_simps =
  tun_match executable_match loopback_match all_match deny_match allow_match dhcp4_match dhcp6_match
  ndp_match

subsection \<open>The policies\<close>

definition link_maintenance :: "packet \<Rightarrow> bool" where
  "link_maintenance p \<longleftrightarrow> dhcp4_traffic p \<or> dhcp6_traffic p \<or> ndp_traffic p"

text \<open>
  A restricting tunnel session: the service itself is free; with name servers configured, name
  resolution goes to them and nowhere else; the tunnel, the loopback and the maintenance of
  the links are open; everything else is blocked.
\<close>

definition session_policy ::
  "(byte list \<Rightarrow> string \<Rightarrow> bool) \<Rightarrow> byte list \<Rightarrow> byte list \<Rightarrow> IP list \<Rightarrow> uint64 \<Rightarrow> packet \<Rightarrow> uint32" where
  "session_policy access appID sd servers luid p =
     (if of_executable access appID sd p then cFWP_ACTION_PERMIT
      else if servers \<noteq> [] \<and> dns_traffic p
        then (if to_server servers p then cFWP_ACTION_PERMIT else cFWP_ACTION_BLOCK)
      else if loopback_traffic p \<or> p_interface p = luid \<or> link_maintenance p
        then cFWP_ACTION_PERMIT else cFWP_ACTION_BLOCK)"

definition guard_policy ::
  "(byte list \<Rightarrow> string \<Rightarrow> bool) \<Rightarrow> byte list \<Rightarrow> byte list \<Rightarrow> byte list \<Rightarrow> uint64 option \<Rightarrow> packet \<Rightarrow> uint32" where
  "guard_policy access engineID appID sd tun p =
     (if of_executable access engineID sd p \<or> of_executable access appID sd p \<or> loopback_traffic p
         \<or> Some (p_interface p) = tun \<or> link_maintenance p
      then cFWP_ACTION_PERMIT else cFWP_ACTION_BLOCK)"

definition session_groups ::
  "byte list \<Rightarrow> byte list \<Rightarrow> IP list \<Rightarrow> uint64 \<Rightarrow> (uint8 \<times> uint32 \<times> filterDefinition list) list" where
  "session_groups appID sd servers luid =
     [(15, cFWP_ACTION_PERMIT, executable_defs appID sd)] @
     (if servers \<noteq> [] then [(14, cFWP_ACTION_BLOCK, deny_defs),
        (15, cFWP_ACTION_PERMIT, allow_defs servers)] else []) @
     [(13, cFWP_ACTION_PERMIT, loopback_defs), (12, cFWP_ACTION_PERMIT, tun_defs luid),
      (12, cFWP_ACTION_PERMIT, dhcp4_defs), (12, cFWP_ACTION_PERMIT, dhcp6_defs),
      (12, cFWP_ACTION_PERMIT, ndp_defs), (0, cFWP_ACTION_BLOCK, all_defs)]"

definition guard_groups ::
  "byte list \<Rightarrow> byte list \<Rightarrow> byte list \<Rightarrow> uint64 option \<Rightarrow> (uint8 \<times> uint32 \<times> filterDefinition list) list" where
  "guard_groups engineID appID sd tun =
     [(15, cFWP_ACTION_PERMIT, executable_defs engineID sd),
      (15, cFWP_ACTION_PERMIT, executable_defs appID sd), (13, cFWP_ACTION_PERMIT, loopback_defs)] @
     (case tun of None \<Rightarrow> [] | Some luid \<Rightarrow> [(12, cFWP_ACTION_PERMIT, tun_defs luid)]) @
     [(12, cFWP_ACTION_PERMIT, dhcp4_defs), (12, cFWP_ACTION_PERMIT, dhcp6_defs),
      (12, cFWP_ACTION_PERMIT, ndp_defs), (0, cFWP_ACTION_BLOCK, all_defs)]"

text \<open>Permit groups above a final block decide by whether one of them matches.\<close>

lemma permits_decide:
  assumes arb: "arbitrates access decide" and gs: "list_all2 group (gs @ [(0, cFWP_ACTION_BLOCK, all_defs)]) fss"
    and permits: "\<And>w a ds. (w, a, ds) \<in> set gs \<Longrightarrow> 0 < w \<and> a = cFWP_ACTION_PERMIT" and "ale_layer p"
  shows "decide (concat fss) p =
    (if list_ex (\<lambda>(w, a, ds). defs_match access p ds) gs then cFWP_ACTION_PERMIT else cFWP_ACTION_BLOCK)"
proof (cases "list_ex (\<lambda>(w, a, ds). defs_match access p ds) gs")
  case True
  then obtain w a ds where g: "(w, a, ds) \<in> set gs" "defs_match access p ds" by (auto simp: list_ex_iff)
  have "decide (concat fss) p = cFWP_ACTION_PERMIT"
  proof (rule group_decides [OF arb gs, where w = w and ds = ds])
    show "(w, cFWP_ACTION_PERMIT, ds) \<in> set (gs @ [(0, cFWP_ACTION_BLOCK, all_defs)])"
      using g permits by auto
    show "defs_match access p ds" by (rule g(2))
    fix w' a' ds'
    assume "(w', a', ds') \<in> set (gs @ [(0, cFWP_ACTION_BLOCK, all_defs)])" "w \<le> w'"
    then show "a' = cFWP_ACTION_PERMIT" using permits g(1) by (auto simp: not_less [symmetric])
  qed
  with True show ?thesis by simp
next
  case False
  have "decide (concat fss) p = cFWP_ACTION_BLOCK"
  proof (rule group_decides [OF arb gs, where w = 0 and ds = all_defs])
    fix w' a' ds'
    assume "(w', a', ds') \<in> set (gs @ [(0, cFWP_ACTION_BLOCK, all_defs)])" "defs_match access p ds'"
    then show "a' = cFWP_ACTION_BLOCK" using False by (auto simp: list_ex_iff)
  qed (use \<open>ale_layer p\<close> in \<open>simp_all add: all_match\<close>)
  with False show ?thesis by auto
qed

lemma guard_decides:
  assumes "arbitrates access decide" "list_all2 group (guard_groups engineID appID sd tun) fss"
    and "ale_layer p"
  shows "decide (concat fss) p = guard_policy access engineID appID sd tun p"
proof -
  let ?gs = "butlast (guard_groups engineID appID sd tun)"
  have split: "guard_groups engineID appID sd tun = ?gs @ [(0, cFWP_ACTION_BLOCK, all_defs)]"
    by (simp add: guard_groups_def butlast_append)
  have "list_ex (\<lambda>(w, a, ds). defs_match access p ds) ?gs \<longleftrightarrow>
      of_executable access engineID sd p \<or> of_executable access appID sd p \<or> loopback_traffic p
      \<or> Some (p_interface p) = tun \<or> link_maintenance p"
    using \<open>ale_layer p\<close>
    by (auto simp: guard_groups_def butlast_append match_simps link_maintenance_def split: option.splits)
  moreover have "0 < w \<and> a = cFWP_ACTION_PERMIT" if "(w, a, ds) \<in> set ?gs" for w a ds
    using that by (auto simp: guard_groups_def butlast_append split: option.splits)
  moreover have "list_all2 group (?gs @ [(0, cFWP_ACTION_BLOCK, all_defs)]) fss"
    using assms(2) by (subst split [symmetric])
  ultimately show ?thesis
    using permits_decide [OF assms(1) _ _ assms(3)] by (simp add: guard_policy_def)
qed

lemma session_decides_dns:
  assumes arb: "arbitrates access decide"
    and gs: "list_all2 group (session_groups appID sd servers luid) fss"
    and p: "ale_layer p" "servers \<noteq> []" "dns_traffic p" "\<not> of_executable access appID sd p"
  shows "decide (concat fss) p = (if to_server servers p then cFWP_ACTION_PERMIT else cFWP_ACTION_BLOCK)"
proof (cases "to_server servers p")
  case True
  have "decide (concat fss) p = cFWP_ACTION_PERMIT"
    by (rule group_decides [OF arb gs, where w = 15 and ds = "allow_defs servers"])
      (use p True in \<open>auto simp: session_groups_def match_simps\<close>)
  with True show ?thesis by simp
next
  case False
  have "decide (concat fss) p = cFWP_ACTION_BLOCK"
    by (rule group_decides [OF arb gs, where w = 14 and ds = deny_defs])
      (use p False in \<open>auto simp: session_groups_def match_simps\<close>)
  with False show ?thesis by simp
qed

lemma session_decides:
  assumes arb: "arbitrates access decide"
    and gs: "list_all2 group (session_groups appID sd servers luid) fss"
    and p: "ale_layer p"
  shows "decide (concat fss) p = session_policy access appID sd servers luid p"
proof -
  consider (exe) "of_executable access appID sd p"
    | (dns) "\<not> of_executable access appID sd p" "servers \<noteq> []" "dns_traffic p"
    | (loop) "\<not> of_executable access appID sd p" "\<not> (servers \<noteq> [] \<and> dns_traffic p)" "loopback_traffic p"
    | (tun) "\<not> of_executable access appID sd p" "\<not> (servers \<noteq> [] \<and> dns_traffic p)" "\<not> loopback_traffic p"
        "p_interface p = luid \<or> link_maintenance p"
    | (rest) "\<not> of_executable access appID sd p" "\<not> (servers \<noteq> [] \<and> dns_traffic p)" "\<not> loopback_traffic p"
        "p_interface p \<noteq> luid" "\<not> link_maintenance p"
    by blast
  then show ?thesis
  proof cases
    case exe
    have "decide (concat fss) p = cFWP_ACTION_PERMIT"
      by (rule group_decides [OF arb gs, where w = 15 and ds = "executable_defs appID sd"])
        (use p exe in \<open>auto simp: session_groups_def match_simps split: if_splits\<close>)
    with exe show ?thesis by (simp add: session_policy_def)
  next
    case dns
    with session_decides_dns [OF arb gs p] show ?thesis by (simp add: session_policy_def)
  next
    case loop
    have "decide (concat fss) p = cFWP_ACTION_PERMIT"
      by (rule group_decides [OF arb gs, where w = 13 and ds = loopback_defs])
        (use p loop in \<open>auto simp: session_groups_def match_simps split: if_splits\<close>)
    with loop show ?thesis by (simp add: session_policy_def)
  next
    case tun
    obtain ds where ds: "ds \<in> {tun_defs luid, dhcp4_defs, dhcp6_defs, ndp_defs}" "defs_match access p ds"
      using tun(4) p unfolding link_maintenance_def
      by (metis insertCI tun_match dhcp4_match dhcp6_match ndp_match)
    have "decide (concat fss) p = cFWP_ACTION_PERMIT"
      by (rule group_decides [OF arb gs, where w = 12 and ds = ds])
        (use p tun ds in \<open>auto simp: session_groups_def match_simps split: if_splits\<close>)
    with tun show ?thesis by (simp add: session_policy_def)
  next
    case rest
    have "decide (concat fss) p = cFWP_ACTION_BLOCK"
      by (rule group_decides [OF arb gs, where w = 0 and ds = all_defs])
        (use p rest in \<open>auto simp: session_groups_def match_simps link_maintenance_def split: if_splits\<close>)
    with rest show ?thesis by (simp add: session_policy_def)
  qed
qed

end
