(* ===== verification/FirewallFacts.thy ===== *)
theory FirewallFacts
  imports FirewallPolicy
begin

unbundle bit_operations_syntax

text \<open>
  The session of \<^verbatim>\<open>blocker.go\<close> from end to end: which calls a successful and a failed
  \<^verbatim>\<open>EnableFirewall\<close> make, and that the committed filters enforce \<open>session_policy\<close>.
\<close>

subsection \<open>Success and failure of computations\<close>

named_theorems fw_success \<open>inversion of successful computations\<close>

lemma fw_bind_success [fw_success]:
  "fw_bind m f s = (Inr y, s') \<longleftrightarrow> (\<exists>x t. m s = (Inr x, t) \<and> f x t = (Inr y, s'))"
  by (auto simp: fw_bind_def split: prod.splits sum.splits)

lemma fw_then_success [fw_success]:
  "fw_then m n s = (Inr y, s') \<longleftrightarrow> (\<exists>t. m s = (Inr (), t) \<and> n t = (Inr y, s'))"
  by (auto simp: fw_then_def fw_bind_success)

lemma fw_lift_success [fw_success]: "fw_lift r s = (Inr y, s') \<longleftrightarrow> r = Inr y \<and> s' = s"
  by (auto simp: fw_lift_def)

lemma fw_return_success [fw_success]: "fw_return x s = (Inr y, s') \<longleftrightarrow> x = y \<and> s' = s"
  by (auto simp: fw_return_def)

lemma fw_map_error_success [fw_success]: "fw_map_error g m s = (Inr y, s') \<longleftrightarrow> m s = (Inr y, s')"
  by (auto simp: fw_map_error_def split: prod.splits sum.splits)

lemma fw_call_success [fw_success]:
  "fw_call os c s = (Inr y, s') \<longleftrightarrow> status os (calls s) c = 0 \<and> s' = s\<lparr>calls := calls s @ [c]\<rparr>"
  by (auto simp: fw_call_eq)

lemma tolerate_success: "tolerate_existing m s = (Inr y, s') \<Longrightarrow> s' = snd (m s)"
  by (auto simp: tolerate_existing_def split: prod.splits sum.splits if_splits)

lemma wrapped_success [fw_success]: "wrapped r = Inr x \<longleftrightarrow> r = Inr x"
  by (cases r) simp_all

lemma from_errno_success [fw_success]: "from_errno r = Inr x \<longleftrightarrow> r = Inr x"
  by (cases r) (simp_all add: from_errno_def)

lemma runTransaction_success:
  "runTransaction os h m s = (Inr y, s') \<longleftrightarrow>
     (\<exists>s1 s2. fw_call os (TransactionBegin h) s = (Inr (), s1) \<and> m h s1 = (Inr (), s2) \<and>
        fw_call os (TransactionCommit h) s2 = (Inr (), s'))"
  by (auto simp: runTransaction_def split: prod.splits sum.splits)

subsection \<open>The calls of the operations\<close>

definition new_calls :: "fw_state \<Rightarrow> fw_state \<Rightarrow> wfp_call list" where
  "new_calls s s' = drop (length (calls s)) (calls s')"

fun added :: "wfp_call \<Rightarrow> wtFwpmFilter0 option" where
  "added (FilterAdd h f) = Some f"
| "added _ = None"

definition added_filters :: "wfp_call list \<Rightarrow> wtFwpmFilter0 list" where
  "added_filters t = List.map_filter added t"

lemma added_filters_append: "added_filters (t @ u) = added_filters t @ added_filters u"
  by (simp add: added_filters_def List.map_filter_def)

lemma added_filters_map: "added_filters (map (FilterAdd h) fs) = fs"
  by (induction fs) (simp_all add: added_filters_def map_filter_simps)

lemma added_filters_Cons:
  "added_filters (c # t) = (case added c of None \<Rightarrow> added_filters t | Some f \<Rightarrow> f # added_filters t)"
  by (simp add: added_filters_def map_filter_simps split: option.split)

lemma added_filters_Nil: "added_filters [] = []"
  by (simp add: added_filters_def map_filter_simps)

lemmas added_simps = added_filters_append added_filters_map added_filters_Cons added_filters_Nil

text \<open>The filters of a restricting session, group by group.\<close>

definition session_filters ::
  "baseObjects \<Rightarrow> byte list \<Rightarrow> byte list \<Rightarrow> IP list \<Rightarrow> uint64 \<Rightarrow> wtFwpmFilter0 list list" where
  "session_filters bo appID sd servers luid =
     [place_all (executable_base bo 15) (executable_defs appID sd)] @
     (if servers \<noteq> [] then [place_all (block_base bo 14) deny_defs,
        place_all (permit_base bo 15) (allow_defs servers)] else []) @
     [place_all (permit_base bo 13) loopback_defs, place_all (permit_base bo 12) (tun_defs luid),
      place_all (permit_base bo 12) dhcp4_defs, place_all (permit_base bo 12) dhcp6_defs,
      place_all (permit_base bo 12) ndp_defs, place_all (block_base bo 0) all_defs]"

lemma group_place_all:
  "weight b = FWP_UINT8 w \<Longrightarrow> action b = a \<Longrightarrow> group (w, a, ds) (place_all b ds)"
  by (auto simp: group_def)

lemma session_groups_filters:
  "list_all2 group (session_groups appID sd servers luid) (session_filters bo appID sd servers luid)"
  by (simp add: session_groups_def session_filters_def group_place_all)

lemma restriction_submit:
  "restriction os luid servers h bo = submit os h (concat (tl (session_filters bo appID sd servers luid)))"
  by (simp add: restriction_def rule_eqs session_filters_def submit_append)

lemma permitExecutable_success:
  assumes "permitExecutable os h bo w path s = (Inr y, s')"
  obtains appID sd where "executable_app os path = Inr appID" "executable_sd os bo = Inr sd"
    "s' = s\<lparr>calls := calls s @ map (FilterAdd h) (place_all (executable_base bo w) (executable_defs appID sd))\<rparr>"
  using assms
proof (cases rule: permitExecutable_cases [of os path h bo w])
  case (rules appID sd)
  with assms show ?thesis
    by (intro that [of appID sd]) (auto simp: fw_success dest: submit_success)
qed (auto simp: fw_lift_def)

lemma registerBaseObjects_success:
  assumes "registerBaseObjects os h s = (Inr bo, s')"
  obtains prov sub where "calls s' = calls s @ [ProviderAdd h prov, SubLayerAdd h sub]"
    "wfpSession s' = wfpSession s" "generateGUID os 0 = Inr (provider bo)" "generateGUID os 1 = Inr (filters bo)"
  using assms by (auto simp: registerBaseObjects_def fw_success)

lemma objectInstaller_success:
  assumes "objectInstaller os luid False servers h s = (Inr y, s')"
  obtains bo appID sd prov sub where
    "calls s' = calls s @ [ProviderAdd h prov, SubLayerAdd h sub] @
       map (FilterAdd h) (concat (session_filters bo appID sd servers luid))"
    "generateGUID os 0 = Inr (provider bo)" "executable_app os '''' = Inr appID" "executable_sd os bo = Inr sd"
proof -
  from assms obtain bo t1 t2 where t1: "registerBaseObjects os h s = (Inr bo, t1)"
    and t2: "permitExecutable os h bo 15 '''' t1 = (Inr (), t2)"
    and t3: "restriction os luid servers h bo t2 = (Inr (), s')"
    by (auto simp: objectInstaller_def permitWireGuardService_def fw_success)
  obtain prov sub where 1: "calls t1 = calls s @ [ProviderAdd h prov, SubLayerAdd h sub]"
    "generateGUID os 0 = Inr (provider bo)"
    using registerBaseObjects_success [OF t1] by metis
  obtain appID sd where 2: "executable_app os '''' = Inr appID" "executable_sd os bo = Inr sd"
    "calls t2 = calls t1 @ map (FilterAdd h) (place_all (executable_base bo 15) (executable_defs appID sd))"
    using permitExecutable_success [OF t2] by (metis fw_state.select_convs(2) fw_state.surjective fw_state.update_convs(2))
  have 3: "calls s' = calls t2 @ map (FilterAdd h) (concat (tl (session_filters bo appID sd servers luid)))"
    using submit_success [OF t3 [unfolded restriction_submit [of os luid servers h bo appID sd]]] by simp
  show ?thesis
    by (rule that [of prov sub bo appID sd]) (use 1 2 3 in \<open>simp_all add: session_filters_def\<close>)
qed

lemma createWfpSession_eq:
  "createWfpSession os = fw_map_error wrapErr (engineOpen os
     \<lparr>session_displayData = DisplayData ''WireGuard'' ''WireGuard dynamic session'',
      session_flags = cFWPM_SESSION_FLAG_DYNAMIC, txnWaitTimeoutInMSec = 0xffffffff\<rparr>)"
  by (simp add: createWfpSession_def display_ok)

lemma engineOpen_success [fw_success]:
  "engineOpen os ses s = (Inr h, s') \<longleftrightarrow>
     status os (calls s) (EngineOpen ses) = 0 \<and> h = openedHandle os (calls s) \<and>
     s' = s\<lparr>calls := calls s @ [EngineOpen ses]\<rparr>"
  by (auto simp: engineOpen_def fw_call_eq)

lemma EnableFirewall_success:
  assumes "EnableFirewall os luid r servers s = (Inr y, s')"
  obtains h ses s1 s2 where "wfpSession s = 0" "session_flags ses = cFWPM_SESSION_FLAG_DYNAMIC"
    "h = openedHandle os (calls s)"
    "s1 = s\<lparr>calls := calls s @ [EngineOpen ses, TransactionBegin h]\<rparr>"
    "objectInstaller os luid r servers h s1 = (Inr (), s2)"
    "s' = s2\<lparr>calls := calls s2 @ [TransactionCommit h], wfpSession := h\<rparr>"
    "status os (calls s) (EngineOpen ses) = 0" "status os (calls s2) (TransactionCommit h) = 0"
proof -
  let ?ses = "\<lparr>session_displayData = DisplayData ''WireGuard'' ''WireGuard dynamic session'',
      session_flags = cFWPM_SESSION_FLAG_DYNAMIC, txnWaitTimeoutInMSec = 0xffffffff\<rparr>"
  have idle: "wfpSession s = 0"
    using assms by (auto simp: EnableFirewall_def split: if_splits)
  with assms obtain h s0 t where s0: "createWfpSession os s = (Inr h, s0)"
    and t: "runTransaction os h (objectInstaller os luid r servers) s0 = (Inr (), t)"
    and s': "s' = t\<lparr>wfpSession := h\<rparr>"
    by (auto simp: EnableFirewall_def split: prod.splits sum.splits)
  from s0 have h: "h = openedHandle os (calls s)" "status os (calls s) (EngineOpen ?ses) = 0"
    "s0 = s\<lparr>calls := calls s @ [EngineOpen ?ses]\<rparr>"
    unfolding createWfpSession_eq fw_success by simp_all
  from t obtain s2 where s2: "objectInstaller os luid r servers h
      (s0\<lparr>calls := calls s0 @ [TransactionBegin h]\<rparr>) = (Inr (), s2)"
    "status os (calls s2) (TransactionCommit h) = 0" "t = s2\<lparr>calls := calls s2 @ [TransactionCommit h]\<rparr>"
    unfolding runTransaction_success fw_success by auto
  show ?thesis
    by (rule that [OF idle _ h(1) refl, of ?ses s2]) (use s2 h s' in simp_all)
qed

text \<open>C15: a restricting session that was enabled enforces its policy. For every
classification of the four layers, the filters the session committed decide like
\<open>session_policy\<close>: the tunnel service is free, name resolution of everybody else reaches only
the configured servers (even over the tunnel and the loopback), and apart from loopback, tunnel,
DHCP and neighbour discovery everything is blocked.\<close>

theorem EnableFirewall_enforces:
  assumes "EnableFirewall os luid False servers s = (Inr (), s')"
    and "generateGUID os 0 \<noteq> Inr previewGuardProvider"
    and "arbitrates access decide" and "ale_layer p"
  shows "\<exists>appID sd. getCurrentProcessAppID os = Inr appID \<and>
    getCurrentProcessSecurityDescriptor os = Inr sd \<and>
    decide (added_filters (new_calls s s')) p = session_policy access appID sd servers luid p"
proof -
  from assms(1) obtain h ses s1 s2 where
    s1: "s1 = s\<lparr>calls := calls s @ [EngineOpen ses, TransactionBegin h]\<rparr>" and
    s2: "objectInstaller os luid False servers h s1 = (Inr (), s2)" and
    s': "s' = s2\<lparr>calls := calls s2 @ [TransactionCommit h], wfpSession := h\<rparr>"
    by (rule EnableFirewall_success)
  obtain bo appID sd prov sub where c: "calls s2 = calls s1 @ [ProviderAdd h prov, SubLayerAdd h sub] @
       map (FilterAdd h) (concat (session_filters bo appID sd servers luid))"
    and os: "generateGUID os 0 = Inr (provider bo)" "executable_app os '''' = Inr appID"
      "executable_sd os bo = Inr sd"
    using objectInstaller_success [OF s2] by metis
  have "added_filters (new_calls s s') = concat (session_filters bo appID sd servers luid)"
    by (simp add: new_calls_def s' s1 c added_simps)
  then have "decide (added_filters (new_calls s s')) p = session_policy access appID sd servers luid p"
    using session_decides [OF assms(3) session_groups_filters assms(4)] by simp
  moreover have "getCurrentProcessAppID os = Inr appID" "getCurrentProcessSecurityDescriptor os = Inr sd"
    using os assms(2) by (simp_all add: executable_app_def executable_sd_def)
  ultimately show ?thesis by blast
qed

subsection \<open>Failed operations\<close>

text \<open>The calls between the beginning of a transaction and its end.\<close>

fun object_call :: "wfp_call \<Rightarrow> bool" where
  "object_call (ProviderAdd _ _) = True"
| "object_call (SubLayerAdd _ _) = True"
| "object_call (FilterAdd _ _) = True"
| "object_call (EnumCreate _) = True"
| "object_call (EnumNext _) = True"
| "object_call (EnumDestroy _) = True"
| "object_call (FilterDeleteByKey _ _) = True"
| "object_call _ = False"

definition extends :: "'a fw \<Rightarrow> bool" where
  "extends m \<longleftrightarrow> (\<forall>s. \<exists>t. snd (m s) = s\<lparr>calls := calls s @ t\<rparr> \<and> list_all object_call t)"

lemma extendsI:
  "(\<And>s. \<exists>t. snd (m s) = s\<lparr>calls := calls s @ t\<rparr> \<and> list_all object_call t) \<Longrightarrow> extends m"
  by (simp add: extends_def)

lemma extends_return [simp, intro]: "extends (fw_return x)"
  by (rule extendsI, rule exI [of _ "[]"]) (simp add: fw_return_def)

lemma extends_lift [simp, intro]: "extends (fw_lift r)"
  by (rule extendsI, rule exI [of _ "[]"]) (simp add: fw_lift_def)

lemma extends_call [simp, intro]: "object_call c \<Longrightarrow> extends (fw_call os c)"
  by (rule extendsI, rule exI [of _ "[c]"]) (simp add: fw_call_eq)

lemma extends_bind [intro]:
  assumes "extends m" "\<And>x. extends (f x)"
  shows "extends (fw_bind m f)"
proof (rule extendsI)
  fix s
  obtain r s1 where m: "m s = (r, s1)" by fastforce
  obtain t where t: "s1 = s\<lparr>calls := calls s @ t\<rparr>" "list_all object_call t"
    using assms(1) m unfolding extends_def by (metis snd_conv)
  show "\<exists>t. snd (fw_bind m f s) = s\<lparr>calls := calls s @ t\<rparr> \<and> list_all object_call t"
  proof (cases r)
    case (Inl e)
    with m t show ?thesis by (auto simp: fw_bind_def)
  next
    case (Inr x)
    obtain u where "snd (f x s1) = s1\<lparr>calls := calls s1 @ u\<rparr>" "list_all object_call u"
      using assms(2) unfolding extends_def by metis
    with m t Inr show ?thesis by (intro exI [of _ "t @ u"]) (simp add: fw_bind_def)
  qed
qed

lemma extends_then [intro]: "extends m \<Longrightarrow> extends n \<Longrightarrow> extends (fw_then m n)"
  by (simp add: fw_then_def extends_bind)

lemma extends_map_error [intro]: "extends m \<Longrightarrow> extends (fw_map_error g m)"
  unfolding extends_def fw_map_error_def by (auto split: prod.split sum.split) (metis snd_conv)+

lemmas extends_intros =
  extends_return extends_lift extends_bind extends_then extends_map_error extends_call

lemma extends_submit [intro]: "extends (submit os h fs)"
  by (induction fs) (simp_all, intro extends_intros, simp_all)

lemma extends_permitExecutable [intro]: "extends (permitExecutable os h bo w path)"
  by (rule permitExecutable_cases [of os path h bo w]) (auto simp only: extends_submit extends_lift)

lemma extends_restriction: "extends (restriction os luid servers h bo)"
  unfolding restriction_submit [of os luid servers h bo "[]" "[]"] by (rule extends_submit)

lemma extends_objectInstaller: "extends (objectInstaller os luid r servers h)"
  unfolding objectInstaller_def registerBaseObjects_def permitWireGuardService_def
  by (cases r) (simp_all, (intro extends_intros extends_permitExecutable extends_restriction; simp)+)

text \<open>What a transaction leaves behind: committed objects, or an abort, or nothing begun.\<close>

lemma runTransaction_cases:
  assumes "extends (m h)"
  obtains (not_begun) e where
      "runTransaction os h m s = (Inl e, s\<lparr>calls := calls s @ [TransactionBegin h]\<rparr>)"
  | (failed) e t where "list_all object_call t"
      "runTransaction os h m s = (Inl e, s\<lparr>calls := calls s @ TransactionBegin h # t @ [TransactionAbort h]\<rparr>)"
  | (not_committed) e t where "list_all object_call t"
      "status os (calls s @ TransactionBegin h # t) (TransactionCommit h) \<noteq> 0"
      "runTransaction os h m s =
         (Inl e, s\<lparr>calls := calls s @ TransactionBegin h # t @ [TransactionCommit h, TransactionAbort h]\<rparr>)"
  | (committed) t where "list_all object_call t"
      "status os (calls s @ TransactionBegin h # t) (TransactionCommit h) = 0"
      "runTransaction os h m s =
         (Inr (), s\<lparr>calls := calls s @ TransactionBegin h # t @ [TransactionCommit h]\<rparr>)"
proof (cases "status os (calls s) (TransactionBegin h) = 0")
  case False
  then show ?thesis by (intro not_begun) (simp add: runTransaction_def fw_call_eq)
next
  case True
  let ?s = "s\<lparr>calls := calls s @ [TransactionBegin h]\<rparr>"
  obtain r s2 where m: "m h ?s = (r, s2)" by fastforce
  obtain t where t: "s2 = ?s\<lparr>calls := calls ?s @ t\<rparr>" "list_all object_call t"
    using assms m unfolding extends_def by (metis snd_conv)
  show ?thesis
  proof (cases r)
    case (Inl e)
    with True m t show ?thesis
      by (intro failed [of t]) (simp_all add: runTransaction_def fw_call_eq)
  next
    case (Inr x)
    show ?thesis
    proof (cases "status os (calls s @ TransactionBegin h # t) (TransactionCommit h) = 0")
      case False
      with True m t Inr show ?thesis
        by (intro not_committed [of t]) (simp_all add: runTransaction_def fw_call_eq)
    next
      case c: True
      with True m t Inr show ?thesis
        by (intro committed [of t]) (simp_all add: runTransaction_def fw_call_eq)
    qed
  qed
qed

text \<open>C18: an attempt to enable the firewall that fails leaves nothing behind. The session
handle is unchanged; an engine session that was opened is closed again by the last call; a
transaction that was begun is aborted, and none was committed.\<close>

theorem EnableFirewall_failure:
  assumes "EnableFirewall os luid r servers s = (Inl e, s')"
  shows "wfpSession s' = wfpSession s \<and>
    (let t = new_calls s s'; h = openedHandle os (calls s) in
     if wfpSession s \<noteq> 0 then e = AlreadyEnabled \<and> t = []
     else (\<exists>ses. t = [EngineOpen ses] \<and> status os (calls s) (EngineOpen ses) \<noteq> 0)
       \<or> (\<exists>ses. t = [EngineOpen ses, TransactionBegin h, EngineClose h])
       \<or> (\<exists>ses us. list_all object_call us \<and>
            t = EngineOpen ses # TransactionBegin h # us @ [TransactionAbort h, EngineClose h])
       \<or> (\<exists>ses us. list_all object_call us \<and>
            status os (calls s @ EngineOpen ses # TransactionBegin h # us) (TransactionCommit h) \<noteq> 0 \<and>
            t = EngineOpen ses # TransactionBegin h # us @
                  [TransactionCommit h, TransactionAbort h, EngineClose h]))"
proof (cases "wfpSession s = 0")
  case False
  with assms show ?thesis by (auto simp: EnableFirewall_def new_calls_def Let_def)
next
  case True
  let ?ses = "\<lparr>session_displayData = DisplayData ''WireGuard'' ''WireGuard dynamic session'',
      session_flags = cFWPM_SESSION_FLAG_DYNAMIC, txnWaitTimeoutInMSec = 0xffffffff\<rparr>"
  let ?s = "s\<lparr>calls := calls s @ [EngineOpen ?ses]\<rparr>" and ?h = "openedHandle os (calls s)"
  show ?thesis
  proof (cases "status os (calls s) (EngineOpen ?ses) = 0")
    case False
    then have "createWfpSession os s = (Inl (FirewallError (Status (status os (calls s) (EngineOpen ?ses)))), ?s)"
      by (simp add: createWfpSession_eq fw_map_error_def engineOpen_def fw_call_eq)
    with assms True have "s' = ?s" by (simp add: EnableFirewall_def)
    with True False show ?thesis by (simp add: new_calls_def Let_def)
  next
    case opened: True
    from opened have ses: "createWfpSession os s = (Inr ?h, ?s)"
      unfolding createWfpSession_eq fw_success by simp
    have body: "extends (objectInstaller os luid r servers ?h)" by (rule extends_objectInstaller)
    show ?thesis
      by (rule runTransaction_cases [where os = os and s = ?s and h = ?h and m = "objectInstaller os luid r servers", OF body])
        (use assms True ses in \<open>auto simp: EnableFirewall_def new_calls_def Let_def\<close>)
  qed
qed

subsection \<open>An engine that accepts everything\<close>

definition accepting :: "os \<Rightarrow> bool" where
  "accepting os \<longleftrightarrow> (\<forall>t c. status os t c = 0)"

definition progress :: "'a fw \<Rightarrow> bool" where
  "progress m \<longleftrightarrow> (\<forall>s. \<exists>x s'. m s = (Inr x, s'))"

lemma progress_bind: "progress m \<Longrightarrow> (\<And>x. progress (f x)) \<Longrightarrow> progress (fw_bind m f)"
  unfolding progress_def fw_bind_success [symmetric] fw_bind_def by (metis (no_types, lifting) case_prod_conv sum.simps(6))

lemma progress_then: "progress m \<Longrightarrow> progress n \<Longrightarrow> progress (fw_then m n)"
  unfolding fw_then_def by (rule progress_bind)

lemma progress_return: "progress (fw_return x)" and progress_lift: "progress (fw_lift (Inr x))"
  by (simp_all add: progress_def fw_return_def fw_lift_def)

lemma progress_map_error: "progress m \<Longrightarrow> progress (fw_map_error g m)"
  unfolding progress_def fw_map_error_success by blast

lemma progress_call: "accepting os \<Longrightarrow> progress (fw_call os c)"
  by (simp add: progress_def accepting_def fw_call_eq)

lemma progress_submit: "accepting os \<Longrightarrow> progress (submit os h fs)"
  unfolding progress_def accepting_def using submit_accepted by blast

lemmas progress_intros =
  progress_bind progress_then progress_return progress_lift progress_map_error progress_call progress_submit

lemma progress_permitExecutable:
  assumes "accepting os" "executable_app os path = Inr appID" "executable_sd os bo = Inr sd"
  shows "progress (permitExecutable os h bo w path)"
  using assms by (simp add: permitExecutable_def executable.install_eq progress_submit)

lemma EnableFirewall_accepted:
  assumes "accepting os" "generateGUID os 0 = Inr prov" "prov \<noteq> previewGuardProvider"
    "generateGUID os 1 = Inr sub" "getCurrentProcessAppID os = Inr appID"
    "getCurrentProcessSecurityDescriptor os = Inr sd" "wfpSession s = 0"
  shows "fst (EnableFirewall os luid r servers s) = Inr ()"
proof -
  let ?bo = "\<lparr>provider = prov, filters = sub\<rparr>"
  have exe: "progress (permitExecutable os h ?bo w '''')" for h w
    by (rule progress_permitExecutable) (use assms in \<open>simp_all add: executable_app_def executable_sd_def\<close>)
  have res: "progress (restriction os luid servers h bo)" for h bo
    unfolding restriction_submit [of os luid servers h bo "[]" "[]"]
    by (rule progress_submit) (rule assms(1))
  have inst: "progress (objectInstaller os luid r servers h)" for h
    using assms(2,4)
    by (cases r)
      (simp_all add: objectInstaller_def registerBaseObjects_def permitWireGuardService_def display_ok from_errno_def
        fw_bind_assoc progress_map_error progress_bind progress_then progress_call assms(1) exe res)
have acc: "status os t c = 0" for t c using assms(1) by (simp add: accepting_def)
  show ?thesis
  proof -
    obtain h s1 where s1: "createWfpSession os s = (Inr h, s1)"
      by (simp add: createWfpSession_eq fw_map_error_def engineOpen_def fw_call_eq acc)
    obtain s2 where "objectInstaller os luid r servers h (s1\<lparr>calls := calls s1 @ [TransactionBegin h]\<rparr>) = (Inr (), s2)"
      using inst [of h] unfolding progress_def by (metis old.unit.exhaust)
    then have "fst (runTransaction os h (objectInstaller os luid r servers) s1) = Inr ()"
      by (simp add: runTransaction_def fw_call_eq acc)
    with s1 assms(7) show ?thesis
      by (cases "runTransaction os h (objectInstaller os luid r servers) s1") (simp add: EnableFirewall_def)
  qed
qed

text \<open>A concrete system.\<close>

definition sample_os :: os where
  "sample_os = \<lparr>status = (\<lambda>t c. 0), openedHandle = (\<lambda>t. 1), enumPage = (\<lambda>t. (0, None)),
     generateGUID = (\<lambda>n. Inr (GUID (word_of_nat n) 1 2 [])), osExecutable = Inr ''manager.exe'',
     appIdFromFileName = (\<lambda>path. Inr (map (word_of_nat \<circ> of_char) path)),
     securityDescriptorFromString = (\<lambda>s. Inr [1]),
     tokenGroups = Inr [\<lparr>group_attributes = 14, sid_valid = True, sid_authority = [0, 0, 0, 0, 0, 5],
       sid_subauthorities = [80, 1, 2, 3, 4, 5]\<rparr>],
     grantingDescriptor = (\<lambda>g. Inr [2])\<rparr>"

definition idle_state :: fw_state where
  "idle_state = \<lparr>wfpSession = 0, calls = []\<rparr>"

lemma sample_ids:
  "getCurrentProcessAppID sample_os = Inr (map (word_of_nat \<circ> of_char) ''manager.exe'')"
  "getCurrentProcessSecurityDescriptor sample_os = Inr [2]"
  "executable_app sample_os ''engine.exe'' = Inr (map (word_of_nat \<circ> of_char) ''engine.exe'')"
  by (simp_all add: getCurrentProcessAppID_def getCurrentProcessSecurityDescriptor_def sample_os_def
      UTF16PtrFromString_def from_errno_def serviceGroup_def executable_app_def)

lemma sample_session:
  "EnableFirewall sample_os 7 r servers idle_state = (Inr (), snd (EnableFirewall sample_os 7 r servers idle_state))"
proof -
  have "fst (EnableFirewall sample_os 7 r servers idle_state) = Inr ()"
    by (rule EnableFirewall_accepted [where prov = "GUID 0 1 2 []" and sub = "GUID 1 1 2 []",
          OF _ _ _ _ sample_ids(1,2)])
      (simp_all add: accepting_def sample_os_def idle_state_def previewGuardProvider_def)
  then show ?thesis by (metis prod.collapse)
qed

definition dns_leak :: packet where
  "dns_leak = \<lparr>p_layer = cFWPM_LAYER_ALE_AUTH_CONNECT_V4, p_interface = 7, p_app = [], p_user = ''user'',
     p_flags = 0, p_proto = 17, p_local_port = 40000, p_remote_port = 53, p_local_addr = [10, 0, 0, 2],
     p_remote_addr = [8, 8, 8, 8]\<rparr>"

theorem EnableFirewall_enforces_witness:
  "decide_heaviest (\<lambda>d u. u = ''service'')
     (added_filters (new_calls idle_state (snd (EnableFirewall sample_os 7 False [[1, 1, 1, 1]] idle_state))))
     dns_leak = cFWP_ACTION_BLOCK"
proof -
  have "generateGUID sample_os 0 \<noteq> Inr previewGuardProvider"
    by (simp add: sample_os_def previewGuardProvider_def)
  moreover have "ale_layer dns_leak" by (simp add: ale_layer_def dns_leak_def)
  ultimately obtain appID sd where
    "decide_heaviest (\<lambda>d u. u = ''service'')
       (added_filters (new_calls idle_state (snd (EnableFirewall sample_os 7 False [[1, 1, 1, 1]] idle_state))))
       dns_leak = session_policy (\<lambda>d u. u = ''service'') appID sd [[1, 1, 1, 1]] 7 dns_leak"
    using EnableFirewall_enforces [OF sample_session _ decide_heaviest_arbitrates] by blast
  then show ?thesis
    by (simp add: session_policy_def of_executable_def dns_traffic_def to_server_def v4_layer_def v6_layer_def
        dns_leak_def To4_def)
qed

definition busy_os :: os where
  "busy_os = sample_os\<lparr>status := \<lambda>t c. case c of TransactionBegin h \<Rightarrow> 5 | _ \<Rightarrow> 0\<rparr>"

lemma busy_run:
  "EnableFirewall busy_os 9 False [] idle_state = (Inl (FirewallError (Status 5)), idle_state\<lparr>calls :=
     [EngineOpen \<lparr>session_displayData = DisplayData ''WireGuard'' ''WireGuard dynamic session'',
        session_flags = cFWPM_SESSION_FLAG_DYNAMIC, txnWaitTimeoutInMSec = 0xffffffff\<rparr>,
      TransactionBegin 1, EngineClose 1]\<rparr>)"
  by (simp add: EnableFirewall_def createWfpSession_eq runTransaction_def busy_os_def sample_os_def fw_call_eq
      idle_state_def fw_map_error_def engineOpen_def)

theorem EnableFirewall_failure_witness:
  "wfpSession (snd (EnableFirewall busy_os 9 False [] idle_state)) = 0 \<and>
   last (calls (snd (EnableFirewall busy_os 9 False [] idle_state))) = EngineClose 1"
  using EnableFirewall_failure [OF busy_run] unfolding busy_run by (simp add: idle_state_def)

end
