(* ===== verification/FirewallGuard.thy ===== *)
theory FirewallGuard
  imports FirewallFacts
begin

unbundle bit_operations_syntax

text \<open>
  The persistent guard of \<^verbatim>\<open>preview_guard.go\<close>: the filters it commits and their policy, the
  enumeration that clears them, and the life of the engine sessions over any sequence of
  operations.
\<close>

subsection \<open>The guard\<close>

definition guard_filters ::
  "byte list \<Rightarrow> byte list \<Rightarrow> byte list \<Rightarrow> uint64 option \<Rightarrow> wtFwpmFilter0 list list" where
  "guard_filters engineID appID sd tun =
     [place_all (executable_base guard_base 15) (executable_defs engineID sd),
      place_all (executable_base guard_base 15) (executable_defs appID sd),
      place_all (permit_base guard_base 13) loopback_defs] @
     (case tun of None \<Rightarrow> [] | Some luid \<Rightarrow> [place_all (permit_base guard_base 12) (tun_defs luid)]) @
     [place_all (permit_base guard_base 12) dhcp4_defs, place_all (permit_base guard_base 12) dhcp6_defs,
      place_all (permit_base guard_base 12) ndp_defs, place_all (block_base guard_base 0) all_defs]"

definition persistent :: "wtFwpmFilter0 \<Rightarrow> bool" where
  "persistent f \<longleftrightarrow> flags f AND cFWPM_FILTER_FLAG_PERSISTENT \<noteq> 0"

lemma guard_groups_filters:
  "list_all2 group (guard_groups engineID appID sd tun) (guard_filters engineID appID sd tun)"
  by (cases tun) (simp_all add: guard_groups_def guard_filters_def group_place_all)

lemma persistent_or: "persistent f \<longleftrightarrow> bit (flags f) 0"
  by (simp add: persistent_def cFWPM_FILTER_FLAG_PERSISTENT_def and_one_eq bit_0 odd_iff_mod_2_eq_one)

lemma guard_base_owned [simp]:
  "guardOwned (Some (permit_base guard_base w))" "guardOwned (Some (block_base guard_base w))"
  "guardOwned (Some (executable_base guard_base w))"
  by (simp_all add: guardOwned_def permit_base_def block_base_def executable_base_def guard_base_def)

lemma persistent_place_all:
  assumes "guardOwned (Some b)" "\<forall>d \<in> set ds. \<not> binds_interface (conditions d)"
  shows "filter persistent (place_all b ds) = place_all b ds"
  using assms
  by (auto simp: place_all_def persistent_or flags_place bit_or_iff cFWPM_FILTER_FLAG_PERSISTENT_def
      intro!: filter_True)

lemma volatile_place_all:
  assumes "\<not> bit (flags b) 0" "\<forall>d \<in> set ds. binds_interface (conditions d)"
  shows "filter persistent (place_all b ds) = []"
  using assms by (auto simp: place_all_def persistent_or flags_place intro!: filter_False)

lemma defs_not_bound:
  "\<forall>d \<in> set (executable_defs a sd). \<not> binds_interface (conditions d)"
  "\<forall>d \<in> set loopback_defs. \<not> binds_interface (conditions d)"
  "\<forall>d \<in> set dhcp4_defs. \<not> binds_interface (conditions d)"
  "\<forall>d \<in> set dhcp6_defs. \<not> binds_interface (conditions d)"
  "\<forall>d \<in> set ndp_defs. \<not> binds_interface (conditions d)"
  "\<forall>d \<in> set all_defs. \<not> binds_interface (conditions d)"
  "\<forall>d \<in> set (tun_defs luid). binds_interface (conditions d)"
  using ndp_not_bound
  by (auto simp: executable_defs_def loopback_defs_def all_defs_def tun_defs_def dhcp4_defs_def
      dhcp6_defs_def dhcp4_request_def dhcp4_response_def dhcp6_request_def dhcp6_response_def
      dest: binds_block_defs)

lemma persistent_guard_filters:
  "filter persistent (concat (guard_filters engineID appID sd tun)) =
   concat (guard_filters engineID appID sd None)"
proof -
  have "\<not> bit (flags (permit_base guard_base 12)) 0" by (simp add: permit_base_def)
  then show ?thesis
    by (cases tun) (simp_all add: guard_filters_def persistent_place_all volatile_place_all defs_not_bound)
qed

lemma guard_rules_eq:
  "guard_rules os enginePath luid h =
     fw_then (permitExecutable os h guard_base 15 enginePath)
     (fw_then (permitExecutable os h guard_base 15 '''')
       (submit os h (concat (drop 2 (guard_filters [] [] [] (if luid = 0 then None else Some luid))))))"
  by (simp add: guard_rules_def permitWireGuardService_def guard_filters_def rule_eqs submit_append)

lemma guard_rules_success:
  assumes "guard_rules os enginePath luid h s = (Inr y, s')"
  obtains engineID appID sd where "executable_app os enginePath = Inr engineID"
    "executable_app os '''' = Inr appID" "executable_sd os guard_base = Inr sd"
    "s' = s\<lparr>calls := calls s @ map (FilterAdd h)
       (concat (guard_filters engineID appID sd (if luid = 0 then None else Some luid)))\<rparr>"
proof -
  let ?tun = "if luid = 0 then None else Some luid"
  from assms obtain s1 s2 where s1: "permitExecutable os h guard_base 15 enginePath s = (Inr (), s1)"
    and s2: "permitExecutable os h guard_base 15 '''' s1 = (Inr (), s2)"
    and s3: "submit os h (concat (drop 2 (guard_filters [] [] [] ?tun))) s2 = (Inr y, s')"
    unfolding guard_rules_eq fw_then_success by blast
  obtain engineID sd where 1: "executable_app os enginePath = Inr engineID" "executable_sd os guard_base = Inr sd"
    "s1 = s\<lparr>calls := calls s @ map (FilterAdd h) (place_all (executable_base guard_base 15) (executable_defs engineID sd))\<rparr>"
    using permitExecutable_success [OF s1] by metis
  obtain appID where 2: "executable_app os '''' = Inr appID"
    "s2 = s1\<lparr>calls := calls s1 @ map (FilterAdd h) (place_all (executable_base guard_base 15) (executable_defs appID sd))\<rparr>"
    using permitExecutable_success [OF s2] 1(2) by (metis sum.inject(2))
  show ?thesis
    by (rule that [OF 1(1) 2(1) 1(2)])
      (use submit_success [OF s3] 1(3) 2(2) in \<open>simp add: guard_filters_def\<close>)
qed

lemma guard_pages_calls:
  "\<exists>n. snd (guard_pages os h fuel keys s) = s\<lparr>calls := calls s @ replicate n (EnumNext h)\<rparr>"
proof (induction fuel arbitrary: keys s)
  case 0
  show ?case by (rule exI [of _ 0]) (simp add: fw_lift_def)
next
  case (Suc fuel)
  let ?s = "s\<lparr>calls := calls s @ [EnumNext h]\<rparr>"
  have one: "\<exists>n. ?s = s\<lparr>calls := calls s @ replicate n (EnumNext h)\<rparr>"
    by (rule exI [of _ 1]) simp
  have more: "\<exists>n. snd (guard_pages os h fuel keys' ?s) = s\<lparr>calls := calls s @ replicate n (EnumNext h)\<rparr>" for keys'
  proof -
    obtain n where "snd (guard_pages os h fuel keys' ?s) = ?s\<lparr>calls := calls ?s @ replicate n (EnumNext h)\<rparr>"
      using Suc.IH by blast
    then show ?thesis by (intro exI [of _ "Suc n"]) simp
  qed
  show ?case
    using one more by (auto simp: fw_call_eq Let_def split: prod.split)
qed

lemma delete_keys_calls:
  "\<exists>n. snd (delete_keys os h ks s) = s\<lparr>calls := calls s @ map (FilterDeleteByKey h) (take n ks)\<rparr>"
proof (induction ks arbitrary: s)
  case Nil
  show ?case by (simp add: fw_return_def)
next
  case (Cons k ks)
  let ?s = "s\<lparr>calls := calls s @ [FilterDeleteByKey h k]\<rparr>"
  obtain n where n: "snd (delete_keys os h ks ?s) = ?s\<lparr>calls := calls ?s @ map (FilterDeleteByKey h) (take n ks)\<rparr>"
    using Cons.IH by blast
  show ?case
  proof (cases "status os (calls s) (FilterDeleteByKey h k) = 0")
    case True
    with n show ?thesis by (intro exI [of _ "Suc n"]) (simp add: fw_then_def fw_bind_def fw_call_eq)
  next
    case False
    then show ?thesis by (intro exI [of _ 1]) (simp add: fw_then_def fw_bind_def fw_call_eq)
  qed
qed

lemma delete_keys_success:
  "delete_keys os h ks s = (Inr y, s') \<Longrightarrow> s' = s\<lparr>calls := calls s @ map (FilterDeleteByKey h) ks\<rparr>"
proof (induction ks arbitrary: s)
  case (Cons k ks)
  from Cons.prems have "delete_keys os h ks (s\<lparr>calls := calls s @ [FilterDeleteByKey h k]\<rparr>) = (Inr y, s')"
    by (simp add: fw_success)
  from Cons.IH [OF this] show ?case by simp
qed (simp add: fw_success)

text \<open>Clearing adds nothing: it enumerates, deletes and closes the enumeration.\<close>

lemma clearGuardFilters_calls:
  "\<exists>t. snd (clearGuardFilters os fuel h s) = s\<lparr>calls := calls s @ t\<rparr> \<and> list_all object_call t \<and>
     added_filters t = []"
proof (cases "status os (calls s) (EnumCreate h) = 0")
  case False
  then show ?thesis
    by (intro exI [of _ "[EnumCreate h]"]) (simp add: clearGuardFilters_def fw_call_eq added_simps)
next
  case True
  let ?s = "s\<lparr>calls := calls s @ [EnumCreate h]\<rparr>"
  obtain r s1 where p: "guard_pages os h fuel [] ?s = (r, s1)" by fastforce
  obtain n where n: "s1 = ?s\<lparr>calls := calls ?s @ replicate n (EnumNext h)\<rparr>"
    using guard_pages_calls [of os h fuel "[]" ?s] p by auto
  have quiet: "added_filters (replicate n (EnumNext h)) = []" for n
    by (induction n) (simp_all add: added_simps)
  have quiet': "added_filters (map (FilterDeleteByKey h) ks) = []" for ks
    by (induction ks) (simp_all add: added_simps)
  show ?thesis
  proof (cases r)
    case (Inl e)
    with True p n quiet show ?thesis
      by (intro exI [of _ "EnumCreate h # replicate n (EnumNext h) @ [EnumDestroy h]"])
        (simp add: clearGuardFilters_def fw_call_eq fw_bind_def added_simps list_all_iff)
  next
    case (Inr ks)
    obtain k where k: "snd (delete_keys os h ks s1) = s1\<lparr>calls := calls s1 @ map (FilterDeleteByKey h) (take k ks)\<rparr>"
      using delete_keys_calls by blast
    obtain r' s2 where d: "delete_keys os h ks s1 = (r', s2)" by fastforce
    with True p n quiet quiet' Inr k show ?thesis
      by (intro exI [of _ "EnumCreate h # replicate n (EnumNext h) @ map (FilterDeleteByKey h) (take k ks) @ [EnumDestroy h]"])
        (auto simp: clearGuardFilters_def fw_call_eq fw_bind_def added_simps list_all_iff)
  qed
qed

lemma tolerate_calls [simp]: "snd (tolerate_existing (fw_call os c) s) = s\<lparr>calls := calls s @ [c]\<rparr>"
  by (simp add: tolerate_existing_def fw_call_eq)

lemma tolerate_two:
  "\<exists>t. snd (fw_then (tolerate_existing (fw_call os c)) (tolerate_existing (fw_call os d)) s) =
      s\<lparr>calls := calls s @ t\<rparr> \<and> (t = [c] \<or> t = [c, d])"
proof (cases "tolerate_existing (fw_call os c) s")
  case (Pair r s1)
  then have s1: "s1 = s\<lparr>calls := calls s @ [c]\<rparr>" using tolerate_calls [of os c s] by simp
  show ?thesis
  proof (cases r)
    case (Inl e)
    with Pair s1 show ?thesis by (intro exI [of _ "[c]"]) (simp add: fw_then_def fw_bind_def)
  next
    case (Inr x)
    with Pair s1 show ?thesis by (intro exI [of _ "[c, d]"]) (simp add: fw_then_def fw_bind_def)
  qed
qed

lemma guard_objects_calls:
  "\<exists>t. snd (guard_objects os h s) = s\<lparr>calls := calls s @ t\<rparr> \<and> list_all object_call t \<and> added_filters t = []"
proof -
  obtain p q where eq: "guard_objects os h = fw_then (tolerate_existing (fw_call os (ProviderAdd h p)))
      (tolerate_existing (fw_call os (SubLayerAdd h q)))"
    by (simp add: guard_objects_def display_ok)
  obtain t where "snd (guard_objects os h s) = s\<lparr>calls := calls s @ t\<rparr>"
    "t = [ProviderAdd h p] \<or> t = [ProviderAdd h p, SubLayerAdd h q]"
    using tolerate_two [of os "ProviderAdd h p" "SubLayerAdd h q" s] unfolding eq by blast
  then show ?thesis by (intro exI [of _ t]) (auto simp: added_simps)
qed

lemma extends_of_calls:
  "(\<And>s. \<exists>t. snd (m s) = s\<lparr>calls := calls s @ t\<rparr> \<and> list_all object_call t \<and> added_filters t = []) \<Longrightarrow> extends m"
  by (rule extendsI) blast

lemma extends_guard_parts:
  "extends (guard_objects os h)" "extends (clearGuardFilters os fuel h)" "extends (guard_rules os path luid h)"
proof -
  show "extends (guard_objects os h)" by (rule extends_of_calls) (rule guard_objects_calls)
  show "extends (clearGuardFilters os fuel h)" by (rule extends_of_calls) (rule clearGuardFilters_calls)
  show "extends (guard_rules os path luid h)"
    unfolding guard_rules_eq by (intro extends_intros extends_permitExecutable extends_submit)
qed

lemma guard_session_success:
  assumes "guard_session os m s = (Inr y, s')"
  obtains h ses s2 where "h = openedHandle os (calls s)" "session_flags ses = 0"
    "status os (calls s) (EngineOpen ses) = 0"
    "m h (s\<lparr>calls := calls s @ [EngineOpen ses, TransactionBegin h]\<rparr>) = (Inr (), s2)"
    "status os (calls s2) (TransactionCommit h) = 0"
    "s' = s2\<lparr>calls := calls s2 @ [TransactionCommit h, EngineClose h]\<rparr>"
proof -
  let ?ses = "\<lparr>session_displayData = DisplayData '''' '''', session_flags = 0, txnWaitTimeoutInMSec = 5000\<rparr>"
  from assms obtain h s1 t where s1: "guardOpen os s = (Inr h, s1)"
    and t: "runTransaction os h m s1 = (Inr (), t)" and s': "s' = t\<lparr>calls := calls t @ [EngineClose h]\<rparr>"
    by (auto simp: guard_session_def split: prod.splits sum.splits)
  from s1 have h: "h = openedHandle os (calls s)" "status os (calls s) (EngineOpen ?ses) = 0"
    "s1 = s\<lparr>calls := calls s @ [EngineOpen ?ses]\<rparr>"
    unfolding guardOpen_def fw_success by simp_all
  from t obtain s2 where s2: "m h (s1\<lparr>calls := calls s1 @ [TransactionBegin h]\<rparr>) = (Inr (), s2)"
    "status os (calls s2) (TransactionCommit h) = 0" "t = s2\<lparr>calls := calls s2 @ [TransactionCommit h]\<rparr>"
    unfolding runTransaction_success fw_success by auto
  show ?thesis
    by (rule that [OF h(1), of ?ses s2]) (use s2 h s' in simp_all)
qed

text \<open>C16: an established guard blocks everything but the engine, the manager, loopback, link
maintenance and, while its interface is known, the tunnel; and exactly its tunnel permits are
not persistent, so what survives a restart of the filtering service is the same guard without
the tunnel.\<close>

theorem SetPreviewGuard_enforces:
  assumes "SetPreviewGuard os fuel enginePath luid s = (Inr (), s')"
    and "arbitrates access decide" and "ale_layer p"
  shows "\<exists>engineID appID sd. executable_app os enginePath = Inr engineID \<and>
    getCurrentProcessAppID os = Inr appID \<and> securityDescriptorFromString os ''D:(A;;CC;;;SY)'' = Inr sd \<and>
    (let fs = added_filters (new_calls s s') in
      decide fs p = guard_policy access engineID appID sd (if luid = 0 then None else Some luid) p \<and>
      decide (filter persistent fs) p = guard_policy access engineID appID sd None p)"
proof -
  from assms(1) obtain h ses t where t: "fw_then (guard_objects os h) (fw_then (clearGuardFilters os fuel h)
      (guard_rules os enginePath luid h)) (s\<lparr>calls := calls s @ [EngineOpen ses, TransactionBegin h]\<rparr>) = (Inr (), t)"
    and s': "s' = t\<lparr>calls := calls t @ [TransactionCommit h, EngineClose h]\<rparr>"
    unfolding SetPreviewGuard_def by (rule guard_session_success)
  let ?s = "s\<lparr>calls := calls s @ [EngineOpen ses, TransactionBegin h]\<rparr>"
  from t obtain t1 t2 where t1: "guard_objects os h ?s = (Inr (), t1)"
    and t2: "clearGuardFilters os fuel h t1 = (Inr (), t2)" and t3: "guard_rules os enginePath luid h t2 = (Inr (), t)"
    unfolding fw_then_success by blast
  obtain u1 where u1: "calls t1 = calls ?s @ u1" "added_filters u1 = []"
    using guard_objects_calls [of os h ?s] t1 by auto
  obtain u2 where u2: "calls t2 = calls t1 @ u2" "added_filters u2 = []"
    using clearGuardFilters_calls [of os fuel h t1] t2 by auto
  obtain engineID appID sd where ids: "executable_app os enginePath = Inr engineID"
    "executable_app os '''' = Inr appID" "executable_sd os guard_base = Inr sd"
    and t: "t = t2\<lparr>calls := calls t2 @ map (FilterAdd h)
       (concat (guard_filters engineID appID sd (if luid = 0 then None else Some luid)))\<rparr>"
    by (rule guard_rules_success [OF t3])
  have fs: "added_filters (new_calls s s') =
      concat (guard_filters engineID appID sd (if luid = 0 then None else Some luid))"
    by (simp add: new_calls_def s' t u1 u2 added_simps)
  note verdict = guard_decides [OF assms(2) guard_groups_filters assms(3)]
  show ?thesis
    using ids
    by (intro exI [of _ engineID] exI [of _ appID] exI [of _ sd])
      (simp add: fs verdict persistent_guard_filters executable_app_def executable_sd_def guard_base_def
        from_errno_success Let_def del: concat.simps)
qed

subsection \<open>Clearing the guard\<close>

text \<open>
  The documented enumeration: the pages of 128 of a fixed list of installed filters. The
  position is the number of pages fetched since the enumeration was created.
\<close>

definition enum_position :: "wfp_call list \<Rightarrow> nat" where
  "enum_position t = length (takeWhile (\<lambda>c. case c of EnumNext _ \<Rightarrow> True | _ \<Rightarrow> False) (rev t))"

definition page :: "wtFwpmFilter0 list \<Rightarrow> nat \<Rightarrow> uint32 \<times> wtFwpmFilter0 option list option" where
  "page fs k = (let es = take 128 (drop (128 * k) fs) in (word_of_nat (length es), Some (map Some es)))"

definition enumerates :: "os \<Rightarrow> wtFwpmFilter0 list \<Rightarrow> bool" where
  "enumerates os fs \<longleftrightarrow> (\<forall>t. enumPage os t = page fs (enum_position t))"

definition owned_keys :: "wtFwpmFilter0 list \<Rightarrow> GUID list" where
  "owned_keys fs = map filterKey (filter (\<lambda>f. guardOwned (Some f)) fs)"

lemma page_keys_Some: "page_keys (map Some es) = owned_keys es"
  by (induction es) (simp_all add: page_keys_def owned_keys_def)

lemma enum_position_replicate:
  "enum_position (t @ EnumCreate h # replicate k (EnumNext h)) = k"
  by (simp add: enum_position_def takeWhile_append)

lemma guard_pages_step:
  assumes "status os (calls s) (EnumNext h) = 0" "length es \<le> 128"
    and "enumPage os (calls s) = (word_of_nat (length es), Some (map Some es))"
  shows "guard_pages os h (Suc fuel) keys s =
    (let s' = s\<lparr>calls := calls s @ [EnumNext h]\<rparr>; keys' = keys @ owned_keys es in
     if length es < 128 then (Inr keys', s') else guard_pages os h fuel keys' s')"
proof -
  have u: "unat (word_of_nat (length es) :: uint32) = length es"
    using assms(2) by (simp add: unsigned_of_nat take_bit_nat_eq_self)
  then have "\<not> (128 :: uint32) < word_of_nat (length es)"
    "(word_of_nat (length es) :: uint32) < 128 \<longleftrightarrow> length es < 128"
    using assms(2) by (simp_all add: word_less_nat_alt)
  with u assms show ?thesis by (simp add: fw_call_eq Let_def page_keys_Some)
qed

text \<open>The loop from page \<open>k\<close> on: with enough fuel it collects the owned keys of the rest.\<close>

lemma guard_pages_enumerates:
  assumes "enumerates os fs" and "length fs - 128 * k < 128 * fuel"
    and "calls s = t @ EnumCreate h # replicate k (EnumNext h)"
  shows "(\<exists>r. r \<noteq> 0 \<and> fst (guard_pages os h fuel keys s) = Inl (Errno (Status r))) \<or>
    (\<exists>n. guard_pages os h fuel keys s = (Inr (keys @ owned_keys (drop (128 * k) fs)),
        s\<lparr>calls := t @ EnumCreate h # replicate n (EnumNext h)\<rparr>))"
  using assms(2,3)
proof (induction fuel arbitrary: k keys s)
  case (Suc fuel)
  let ?rest = "drop (128 * k) fs" and ?s = "s\<lparr>calls := calls s @ [EnumNext h]\<rparr>"
  have page: "enumPage os (calls s) = (word_of_nat (length (take 128 ?rest)), Some (map Some (take 128 ?rest)))"
    using assms(1) Suc.prems(2) by (simp add: enumerates_def enum_position_replicate page_def Let_def)
  have next_calls: "calls ?s = t @ EnumCreate h # replicate (Suc k) (EnumNext h)"
    using Suc.prems(2) by (simp add: replicate_append_same)
  show ?case
  proof (cases "status os (calls s) (EnumNext h) = 0")
    case False
    then show ?thesis by (auto simp: fw_call_eq)
  next
    case True
    note step = guard_pages_step [OF True _ page, of fuel keys]
    show ?thesis
    proof (cases "length ?rest < 128")
      case short: True
      then have "guard_pages os h (Suc fuel) keys s = (Inr (keys @ owned_keys ?rest), ?s)"
        using step by (simp del: guard_pages.simps)
      with next_calls show ?thesis
        by (intro disjI2 exI [of _ "Suc k"]) (simp del: guard_pages.simps)
    next
      case long: False
      let ?keys = "keys @ owned_keys (take 128 ?rest)"
      have step': "guard_pages os h (Suc fuel) keys s = guard_pages os h fuel ?keys ?s"
        using step long by (simp del: guard_pages.simps)
      have keys: "?keys @ owned_keys (drop (128 * Suc k) fs) = keys @ owned_keys ?rest"
        using append_take_drop_id [of 128 ?rest]
        by (simp add: owned_keys_def add.commute flip: map_append filter_append)
      show ?thesis
        using Suc.IH [of "Suc k" ?s ?keys] Suc.prems(1) long next_calls
        unfolding step' keys by simp
    qed
  qed
qed simp

lemma guard_pages_status:
  "fst (guard_pages os h fuel keys s) = Inl (Errno (Status r)) \<Longrightarrow> r \<noteq> 0 \<Longrightarrow> \<exists>t c. status os t c \<noteq> 0"
proof (induction fuel arbitrary: keys s)
  case (Suc fuel)
  show ?case
  proof (cases "status os (calls s) (EnumNext h) = 0")
    case True
    then show ?thesis
      using Suc by (auto simp: fw_call_eq Let_def split: prod.splits if_splits)
  qed blast
qed (simp add: fw_lift_def)

lemma delete_keys_result:
  "fst (delete_keys os h ks s) = Inr () \<or> (\<exists>t c r. status os t c = r \<and> r \<noteq> 0 \<and> fst (delete_keys os h ks s) = Inl (Errno (Status r)))"
  by (induction ks arbitrary: s) (auto simp: fw_return_def fw_then_def fw_bind_def fw_call_eq)

text \<open>C19: clearing the guard ends and deletes exactly the filters of the guard: with the
engine enumerating the installed filters in pages, and fuel for their number, the loop over the
pages comes to its end, and a clear that returns success has deleted every owned filter, in
order, and no other.\<close>

theorem clearGuardFilters_exact:
  assumes "enumerates os fs" and "length fs < 128 * fuel"
  shows "fst (clearGuardFilters os fuel h s) \<noteq> Inl OutOfPages \<and>
    ((\<forall>t c. status os t c = 0) \<longrightarrow> fst (clearGuardFilters os fuel h s) = Inr ()) \<and>
    (fst (clearGuardFilters os fuel h s) = Inr () \<longrightarrow>
      (\<exists>n. new_calls s (snd (clearGuardFilters os fuel h s)) =
         EnumCreate h # replicate n (EnumNext h) @ map (FilterDeleteByKey h) (owned_keys fs) @ [EnumDestroy h]))"
proof (cases "status os (calls s) (EnumCreate h) = 0")
  case False
  then show ?thesis by (auto simp: clearGuardFilters_def fw_call_eq)
next
  case True
  let ?s = "s\<lparr>calls := calls s @ [EnumCreate h]\<rparr>"
  have run: "clearGuardFilters os fuel h s =
      (case fw_bind (guard_pages os h fuel []) (delete_keys os h) ?s of (r, s2) \<Rightarrow> (r, s2\<lparr>calls := calls s2 @ [EnumDestroy h]\<rparr>))"
    using True by (simp add: clearGuardFilters_def fw_call_eq)
  consider (failed) r where "r \<noteq> 0" "fst (guard_pages os h fuel [] ?s) = Inl (Errno (Status r))"
      "\<exists>t c. status os t c \<noteq> 0"
    | (pages) n where "guard_pages os h fuel [] ?s =
        (Inr (owned_keys fs), ?s\<lparr>calls := calls s @ EnumCreate h # replicate n (EnumNext h)\<rparr>)"
    using guard_pages_enumerates [OF assms(1), of 0 fuel ?s "calls s" h "[]"] assms(2) guard_pages_status
    by fastforce
  then show ?thesis
  proof cases
    case failed
    then show ?thesis
      unfolding run by (cases "guard_pages os h fuel [] ?s") (auto simp: fw_bind_def)
  next
    case (pages n)
    obtain r s2 where d: "delete_keys os h (owned_keys fs) (?s\<lparr>calls := calls s @ EnumCreate h # replicate n (EnumNext h)\<rparr>) = (r, s2)"
      by fastforce
    have "r = Inr () \<or> (\<exists>t c k. status os t c = k \<and> k \<noteq> 0 \<and> r = Inl (Errno (Status k)))"
      using delete_keys_result [of os h "owned_keys fs"] d by (metis fst_conv)
    moreover have "r = Inr () \<Longrightarrow> calls s2 = calls s @ EnumCreate h # replicate n (EnumNext h) @ map (FilterDeleteByKey h) (owned_keys fs)"
      using delete_keys_success d by fastforce
    moreover have "clearGuardFilters os fuel h s = (r, s2\<lparr>calls := calls s2 @ [EnumDestroy h]\<rparr>)"
      using run pages d by (simp add: fw_bind_def)
    ultimately show ?thesis by (auto simp: new_calls_def)
  qed
qed

subsection \<open>The life of the firewall\<close>

text \<open>The engine sessions a sequence of calls has opened and not closed.\<close>

fun sessions :: "os \<Rightarrow> wfp_call list \<Rightarrow> wfp_call list \<Rightarrow> uint64 list \<Rightarrow> uint64 list" where
  "sessions os pre [] hs = hs"
| "sessions os pre (c # cs) hs = sessions os (pre @ [c]) cs
     (case c of
        EngineOpen ses \<Rightarrow> (if status os pre c = 0 then openedHandle os pre # hs else hs)
      | EngineClose h \<Rightarrow> remove1 h hs
      | _ \<Rightarrow> hs)"

definition open_sessions :: "os \<Rightarrow> fw_state \<Rightarrow> uint64 list" where
  "open_sessions os s = sessions os [] (calls s) []"

text \<open>Any sequence of the four operations, whatever the engine answers.\<close>

inductive firewall_step :: "os \<Rightarrow> fw_state \<Rightarrow> fw_state \<Rightarrow> bool" for os where
  enable: "firewall_step os s (snd (EnableFirewall os luid r servers s))"
| disable: "firewall_step os s (DisableFirewall os s)"
| guard: "firewall_step os s (snd (SetPreviewGuard os fuel path luid s))"
| clear: "firewall_step os s (snd (ClearPreviewGuard os fuel s))"

inductive firewall_reachable :: "os \<Rightarrow> fw_state \<Rightarrow> bool" for os where
  start: "firewall_reachable os \<lparr>wfpSession = 0, calls = []\<rparr>"
| step: "firewall_reachable os s \<Longrightarrow> firewall_step os s s' \<Longrightarrow> firewall_reachable os s'"

fun inner_call :: "wfp_call \<Rightarrow> bool" where
  "inner_call (EngineOpen _) = False"
| "inner_call (EngineClose _) = False"
| "inner_call _ = True"

lemma object_inner: "object_call c \<Longrightarrow> inner_call c"
  by (cases c) simp_all

lemma sessions_append: "sessions os pre (t @ u) hs = sessions os (pre @ t) u (sessions os pre t hs)"
  by (induction t arbitrary: pre hs) simp_all

lemma sessions_inner: "list_all inner_call t \<Longrightarrow> sessions os pre t hs = hs"
proof (induction t arbitrary: pre)
  case (Cons c t)
  then show ?case by (cases c) simp_all
qed simp

lemma open_sessions_calls:
  "open_sessions os (s\<lparr>calls := calls s @ t\<rparr>) = sessions os (calls s) t (open_sessions os s)"
  by (simp add: open_sessions_def sessions_append)

lemma runTransaction_inner:
  assumes "extends (m h)"
  obtains r t where "runTransaction os h m s = (r, s\<lparr>calls := calls s @ t\<rparr>)" "list_all inner_call t"
proof -
  have inner: "list_all inner_call t" if "list_all object_call t" for t
    using that object_inner by (auto simp: list_all_iff)
  from assms show ?thesis
  proof (cases rule: runTransaction_cases [where os = os and s = s and h = h and m = m, consumes 1])
    case (not_begun e)
    then show ?thesis by (intro that [OF not_begun]) simp
  next
    case (failed e t)
    then show ?thesis by (intro that [OF failed(2)]) (simp add: inner)
  next
    case (not_committed e t)
    then show ?thesis by (intro that [OF not_committed(3)]) (simp add: inner)
  next
    case (committed t)
    then show ?thesis by (intro that [OF committed(3)]) (simp add: inner)
  qed
qed

text \<open>A session that is opened, used and closed leaves the open sessions as they were.\<close>

lemma sessions_bracket:
  assumes "list_all inner_call t"
  shows "sessions os pre (EngineOpen ses # t @ [EngineClose (openedHandle os pre)]) hs =
    (if status os pre (EngineOpen ses) = 0 then hs else remove1 (openedHandle os pre) hs)"
  using assms by (simp add: sessions_append sessions_inner)

lemma guard_session_sessions:
  assumes "\<And>h. extends (m h)"
  shows "open_sessions os (snd (guard_session os m s)) = open_sessions os s \<and>
    wfpSession (snd (guard_session os m s)) = wfpSession s"
proof -
  let ?ses = "\<lparr>session_displayData = DisplayData '''' '''', session_flags = 0, txnWaitTimeoutInMSec = 5000\<rparr>"
  let ?s = "s\<lparr>calls := calls s @ [EngineOpen ?ses]\<rparr>" and ?h = "openedHandle os (calls s)"
  show ?thesis
  proof (cases "status os (calls s) (EngineOpen ?ses) = 0")
    case False
    then have "snd (guard_session os m s) = ?s"
      by (simp add: guard_session_def guardOpen_def engineOpen_def fw_call_eq)
    with False show ?thesis by (simp add: open_sessions_calls)
  next
    case True
    obtain r t where t: "runTransaction os ?h m ?s = (r, ?s\<lparr>calls := calls ?s @ t\<rparr>)" "list_all inner_call t"
      by (rule runTransaction_inner [where os = os and s = ?s and h = ?h and m = m, OF assms])
    have "snd (guard_session os m s) = s\<lparr>calls := calls s @ EngineOpen ?ses # t @ [EngineClose ?h]\<rparr>"
      using True t by (simp add: guard_session_def guardOpen_def engineOpen_def fw_call_eq)
    with True t(2) show ?thesis by (simp add: open_sessions_calls sessions_bracket del: sessions.simps)
  qed
qed

lemma EnableFirewall_sessions:
  assumes "wfpSession s = 0" and idle: "open_sessions os s = []" and "openedHandle os (calls s) \<noteq> 0"
  shows "let s' = snd (EnableFirewall os luid r servers s) in
    open_sessions os s' = (if wfpSession s' = 0 then [] else [wfpSession s'])"
proof -
  let ?ses = "\<lparr>session_displayData = DisplayData ''WireGuard'' ''WireGuard dynamic session'',
      session_flags = cFWPM_SESSION_FLAG_DYNAMIC, txnWaitTimeoutInMSec = 0xffffffff\<rparr>"
  let ?s = "s\<lparr>calls := calls s @ [EngineOpen ?ses]\<rparr>" and ?h = "openedHandle os (calls s)"
  have body: "extends (objectInstaller os luid r servers ?h)" by (rule extends_objectInstaller)
  show ?thesis
  proof (cases "status os (calls s) (EngineOpen ?ses) = 0")
    case False
    then have "snd (EnableFirewall os luid r servers s) = ?s"
      using assms(1)
      by (simp add: EnableFirewall_def createWfpSession_eq fw_map_error_def engineOpen_def fw_call_eq)
    with False assms show ?thesis by (simp add: open_sessions_calls)
  next
    case True
    obtain x t where t: "runTransaction os ?h (objectInstaller os luid r servers) ?s = (x, ?s\<lparr>calls := calls ?s @ t\<rparr>)"
      "list_all inner_call t"
      by (rule runTransaction_inner [where os = os and s = ?s and h = ?h and m = "objectInstaller os luid r servers", OF body])
    have ses: "createWfpSession os s = (Inr ?h, ?s)"
      using True unfolding createWfpSession_eq fw_success by simp
    have keep: "open_sessions os (u\<lparr>wfpSession := h\<rparr>) = open_sessions os u" for u h
      by (simp add: open_sessions_def)
    show ?thesis
    proof (cases x)
      case (Inl e)
      then have "snd (EnableFirewall os luid r servers s) = s\<lparr>calls := calls s @ EngineOpen ?ses # t @ [EngineClose ?h]\<rparr>"
        using assms(1) ses t by (simp add: EnableFirewall_def)
      with True t(2) assms show ?thesis by (simp add: open_sessions_calls sessions_bracket del: sessions.simps)
    next
      case (Inr y)
      then have "snd (EnableFirewall os luid r servers s) = s\<lparr>calls := calls s @ EngineOpen ?ses # t, wfpSession := ?h\<rparr>"
        using assms(1) ses t by (simp add: EnableFirewall_def)
      then have s': "snd (EnableFirewall os luid r servers s) = s\<lparr>calls := calls s @ EngineOpen ?ses # t\<rparr>\<lparr>wfpSession := ?h\<rparr>"
        by simp
      show ?thesis
        unfolding s' Let_def keep open_sessions_calls using True t(2) assms by (simp add: sessions_inner)
    qed
  qed
qed

text \<open>C17: no engine session is leaked. Whatever sequence of enabling, disabling, setting and
clearing the guard happened, and however the engine answered, the sessions still open are none
when the firewall is off and its one session when it is on; disabling therefore closes the
session that holds the filters.\<close>

theorem firewall_sessions_invariant:
  assumes "firewall_reachable os s" and "\<And>t. openedHandle os t \<noteq> 0"
  shows "open_sessions os s = (if wfpSession s = 0 then [] else [wfpSession s]) \<and>
    open_sessions os (DisableFirewall os s) = []"
proof -
  have "open_sessions os s = (if wfpSession s = 0 then [] else [wfpSession s])"
    using assms(1)
  proof induction
    case start
    show ?case by (simp add: open_sessions_def)
  next
    case (step s s')
    from step.hyps(2) show ?case
    proof cases
      case (enable luid r servers)
      show ?thesis
      proof (cases "wfpSession s = 0")
        case True
        then show ?thesis
          using EnableFirewall_sessions [OF True _ assms(2)] step.IH unfolding enable Let_def by simp
      next
        case False
        then show ?thesis using step.IH unfolding enable by (simp add: EnableFirewall_def)
      qed
    next
      case disable
      then show ?thesis
        using step.IH by (simp add: DisableFirewall_def open_sessions_def sessions_append)
    next
      case (guard fuel path luid)
      have "extends (\<lambda>s. fw_then (guard_objects os h) (fw_then (clearGuardFilters os fuel h) (guard_rules os path luid h)) s)" for h
        by (intro extends_intros extends_guard_parts)
      from guard_session_sessions [OF this] step.IH show ?thesis
        unfolding guard SetPreviewGuard_def by simp
    next
      case (clear fuel)
      from guard_session_sessions [OF extends_guard_parts(2)] step.IH show ?thesis
        unfolding clear ClearPreviewGuard_def by simp
    qed
  qed
  then show ?thesis
    by (simp add: DisableFirewall_def open_sessions_def sessions_append)
qed

lemma SetPreviewGuard_accepted:
  assumes "accepting os" "executable_app os path = Inr engineID" "getCurrentProcessAppID os = Inr appID"
    "securityDescriptorFromString os ''D:(A;;CC;;;SY)'' = Inr sd" "\<And>t. enumPage os t = (0, None)"
  shows "fst (SetPreviewGuard os (Suc fuel) path luid s) = Inr ()"
proof -
  have acc: "status os t c = 0" for t c using assms(1) by (simp add: accepting_def)
  have exe: "progress (permitExecutable os h guard_base w p)" if "executable_app os p = Inr a" for h w p a
    by (rule progress_permitExecutable [OF assms(1) that, where sd = sd])
      (simp add: executable_sd_def guard_base_def assms(4) from_errno_def)
  have rules: "progress (guard_rules os path luid h)" for h
    unfolding guard_rules_eq
    by (intro progress_then exe [OF assms(2)] exe [where a = appID] progress_submit assms(1))
      (simp add: executable_app_def assms(3))
  have clear: "progress (clearGuardFilters os (Suc fuel) h)" for h
    by (simp add: progress_def clearGuardFilters_def fw_call_eq acc fw_bind_def assms(5) Let_def page_keys_def
        fw_return_def)
  have objects: "progress (guard_objects os h)" for h
    by (simp add: guard_objects_def display_ok progress_def fw_then_def fw_bind_def tolerate_existing_def fw_call_eq acc
        fw_lift_def)
  have step: "\<exists>s2. fw_then (guard_objects os h) (fw_then (clearGuardFilters os (Suc fuel) h) (guard_rules os path luid h)) t = (Inr (), s2)" for h t
    using progress_then [OF objects progress_then [OF clear rules]] unfolding progress_def
    by (metis old.unit.exhaust)
  show ?thesis
    using step [of "openedHandle os (calls s)" "s\<lparr>calls := calls s @ [EngineOpen
      \<lparr>session_displayData = DisplayData '''' '''', session_flags = 0, txnWaitTimeoutInMSec = 5000\<rparr>,
      TransactionBegin (openedHandle os (calls s))]\<rparr>"]
    by (auto simp: SetPreviewGuard_def guard_session_def guardOpen_def engineOpen_def runTransaction_def fw_call_eq acc)
qed

theorem SetPreviewGuard_enforces_witness:
  "decide_heaviest (\<lambda>d u. False)
     (filter persistent (added_filters (new_calls idle_state
        (snd (SetPreviewGuard sample_os 1 ''engine.exe'' 7 idle_state))))) dns_leak = cFWP_ACTION_BLOCK"
proof -
  have "fst (SetPreviewGuard sample_os (Suc 0) ''engine.exe'' 7 idle_state) = Inr ()"
    by (rule SetPreviewGuard_accepted [OF _ sample_ids(3,1)])
      (simp_all add: accepting_def sample_os_def)
  then have run: "SetPreviewGuard sample_os 1 ''engine.exe'' 7 idle_state =
      (Inr (), snd (SetPreviewGuard sample_os 1 ''engine.exe'' 7 idle_state))"
    by (metis One_nat_def prod.collapse)
  have "ale_layer dns_leak" by (simp add: ale_layer_def dns_leak_def)
  from SetPreviewGuard_enforces [OF run decide_heaviest_arbitrates this] obtain engineID appID sd where
    "decide_heaviest (\<lambda>d u. False)
       (filter persistent (added_filters (new_calls idle_state
          (snd (SetPreviewGuard sample_os 1 ''engine.exe'' 7 idle_state))))) dns_leak =
     guard_policy (\<lambda>d u. False) engineID appID sd None dns_leak"
    unfolding Let_def by blast
  then show ?thesis
    by (simp add: guard_policy_def of_executable_def loopback_traffic_def link_maintenance_def dhcp4_traffic_def
        dhcp6_traffic_def ndp_traffic_def dns_leak_def)
qed

definition owned_filter :: wtFwpmFilter0 where
  "owned_filter = block_base guard_base 0"

definition enumerating_os :: os where
  "enumerating_os = sample_os\<lparr>enumPage := \<lambda>t. page [blank_filter, owned_filter, blank_filter] (enum_position t)\<rparr>"

theorem clearGuardFilters_exact_witness:
  "\<exists>n. new_calls idle_state (snd (clearGuardFilters enumerating_os 1 1 idle_state)) =
     EnumCreate 1 # replicate n (EnumNext 1) @ [FilterDeleteByKey 1 zero_GUID] @ [EnumDestroy 1]"
proof -
  have e: "enumerates enumerating_os [blank_filter, owned_filter, blank_filter]"
    by (simp add: enumerates_def enumerating_os_def)
  have keys: "owned_keys [blank_filter, owned_filter, blank_filter] = [zero_GUID]"
    by (simp add: owned_keys_def owned_filter_def guardOwned_def blank_filter_def block_base_def base_filter_def
        guard_base_def)
  have "status enumerating_os t c = 0" for t c by (simp add: enumerating_os_def sample_os_def)
  with clearGuardFilters_exact [OF e, of 1 1 idle_state] show ?thesis by (simp add: keys)
qed

theorem firewall_sessions_invariant_witness:
  "open_sessions sample_os (snd (EnableFirewall sample_os 7 False [] idle_state)) = [1]"
proof -
  let ?s = "snd (EnableFirewall sample_os 7 False [] idle_state)"
  have "firewall_reachable sample_os ?s"
    by (rule firewall_reachable.step [OF firewall_reachable.start [folded idle_state_def] firewall_step.enable])
  moreover have "openedHandle sample_os t \<noteq> 0" for t by (simp add: sample_os_def)
  moreover have "wfpSession ?s = 1"
    by (rule EnableFirewall_success [OF sample_session, of False "[]"]) (simp add: sample_os_def)
  ultimately show ?thesis using firewall_sessions_invariant [of sample_os ?s] by simp
qed

end
