(* ===== verification/Replay.thy ===== *)
theory Replay
  imports Prelude
begin

unbundle bit_operations_syntax

text \<open>
  The anti-replay window of \<^verbatim>\<open>amneziawg-go-v3/replay/replay.go\<close> (RFC 6479): a ring of 128 blocks
  of 64 bits that remembers the counters of the last 127 blocks. Counters are 64-bit words, so
  shifts, masks and the wrap-around of the source are those of the words.
\<close>

subsection \<open>The filter\<close>

definition blockBitLog :: nat where "blockBitLog = 6"
definition blockBits :: nat where "blockBits = 2 ^ blockBitLog"
definition ringBlocks :: nat where "ringBlocks = 2 ^ 7"
definition windowSize :: uint64 where "windowSize = word_of_nat ((ringBlocks - 1) * blockBits)"
definition blockMask :: uint64 where "blockMask = word_of_nat (ringBlocks - 1)"
definition bitMask :: uint64 where "bitMask = word_of_nat (blockBits - 1)"

record Filter =
  last :: uint64
  ring :: "uint64 list"

definition zero_Filter :: Filter where
  "zero_Filter = \<lparr>last = 0, ring = replicate ringBlocks 0\<rparr>"

definition Reset :: "Filter \<Rightarrow> Filter" where
  "Reset f = f\<lparr>last := 0, ring := (ring f)[0 := 0]\<rparr>"

text \<open>The loop \<^verbatim>\<open>for i := current + 1; i <= current+diff; i++\<close>.\<close>

definition clear_blocks :: "uint64 \<Rightarrow> uint64 \<Rightarrow> uint64 list \<Rightarrow> uint64 list" where
  "clear_blocks current diff r =
     foldl (\<lambda>r k. r[unat ((current + word_of_nat k) AND blockMask) := 0]) r [1..<Suc (unat diff)]"

definition check_and_set :: "uint64 \<Rightarrow> Filter \<Rightarrow> bool \<times> Filter" where
  "check_and_set counter f =
     (let indexBlock = drop_bit blockBitLog counter AND blockMask;
          indexBit = counter AND bitMask;
          old = ring f ! unat indexBlock;
          new = old OR push_bit (unat indexBit) 1 in
      (old \<noteq> new, f\<lparr>ring := (ring f)[unat indexBlock := new]\<rparr>))"

definition ValidateCounter :: "uint64 \<Rightarrow> uint64 \<Rightarrow> Filter \<Rightarrow> bool \<times> Filter" where
  "ValidateCounter counter limit f =
     (if counter \<ge> limit then (False, f)
      else
        let indexBlock = drop_bit blockBitLog counter in
        if counter > last f then
          let current = drop_bit blockBitLog (last f);
              diff = indexBlock - current;
              diff = (if diff > word_of_nat ringBlocks then word_of_nat ringBlocks else diff) in
          check_and_set counter (f\<lparr>ring := clear_blocks current diff (ring f), last := counter\<rparr>)
        else if last f - counter > windowSize then (False, f)
        else check_and_set counter f)"

text \<open>A sequence of messages: the counters that were accepted, in order.\<close>

fun accepted :: "uint64 \<Rightarrow> uint64 list \<Rightarrow> Filter \<Rightarrow> uint64 list" where
  "accepted limit [] f = []"
| "accepted limit (c # cs) f =
     (let (ok, f') = ValidateCounter c limit f in
      (if ok then [c] else []) @ accepted limit cs f')"

subsection \<open>The specification\<close>

text \<open>
  A filter that remembers every accepted counter. It accepts a counter below the limit that is
  not more than the window behind the highest accepted one and was not accepted before.
\<close>

record window =
  highest :: nat
  seen :: "nat set"

definition empty_window :: window where
  "empty_window = \<lparr>highest = 0, seen = {}\<rparr>"

definition admits :: "nat \<Rightarrow> nat \<Rightarrow> window \<Rightarrow> bool" where
  "admits counter limit w \<longleftrightarrow>
     counter < limit \<and> highest w \<le> counter + 8128 \<and> counter \<notin> seen w"

definition admit :: "nat \<Rightarrow> nat \<Rightarrow> window \<Rightarrow> bool \<times> window" where
  "admit counter limit w =
     (if admits counter limit w
      then (True, \<lparr>highest = max (highest w) counter, seen = insert counter (seen w)\<rparr>)
      else (False, w))"

subsection \<open>Refinement\<close>

text \<open>
  The ring represents the seen counters of the blocks it covers, which are the block of the
  highest counter and the 127 before it.
\<close>

definition represents :: "Filter \<Rightarrow> window \<Rightarrow> bool" where
  "represents f w \<longleftrightarrow>
     length (ring f) = 128 \<and> unat (last f) = highest w \<and> (\<forall>c \<in> seen w. c \<le> highest w) \<and>
     (\<forall>c. highest w div 64 < c div 64 + 128 \<and> c div 64 \<le> highest w div 64 \<longrightarrow>
        (bit (ring f ! (c div 64 mod 128)) (c mod 64) \<longleftrightarrow> c \<in> seen w))"

lemmas replay_consts =
  blockBitLog_def blockBits_def ringBlocks_def windowSize_def blockMask_def bitMask_def

lemma unat_and_mask: "unat (x AND mask n) = unat x mod 2 ^ n" for x :: "'a::len word"
  unfolding take_bit_eq_mask [symmetric] unsigned_take_bit_eq by (rule take_bit_eq_mod)

lemma unat_blockMask: "unat (x AND blockMask) = unat x mod 128"
  using unat_and_mask [of x 7] by (simp add: replay_consts mask_eq_decr_exp)

lemma unat_bitMask: "unat (x AND bitMask) = unat x mod 64"
  using unat_and_mask [of x 6] by (simp add: replay_consts mask_eq_decr_exp)

lemma unat_block: "unat (drop_bit blockBitLog x) = unat x div 64" for x :: uint64
  unfolding unat_drop_bit_eq by (simp add: replay_consts drop_bit_eq_div)

lemma block_bound: "unat x div 64 < 2 ^ 58" for x :: uint64
  using unsigned_less [of x, where ?'a = nat] by simp

lemma clear_blocks_nth:
  assumes "length r = 128" "unat current < 2 ^ 58" "unat diff \<le> 128" "j < 128"
  shows "length (clear_blocks current diff r) = 128 \<and>
    clear_blocks current diff r ! j =
      (if \<exists>k. 1 \<le> k \<and> k \<le> unat diff \<and> (unat current + k) mod 128 = j then 0 else r ! j)"
proof -
  have idx: "unat ((current + word_of_nat k) AND blockMask) = (unat current + k) mod 128" if "k \<le> 128" for k
  proof -
    have "unat (word_of_nat k :: uint64) = k"
      using that by (simp add: unsigned_of_nat take_bit_nat_eq_self)
    then have "unat (current + word_of_nat k) = unat current + k"
      using assms(2) that by (simp add: unat_plus_if')
    then show ?thesis by (simp add: unat_blockMask)
  qed
define F where "F n = foldl (\<lambda>r k. r[unat ((current + word_of_nat k) AND blockMask) := 0]) r [1..<Suc n]" for n
  have F_Suc: "F (Suc n) = (F n)[(unat current + Suc n) mod 128 := 0]" if "Suc n \<le> 128" for n
    using idx [OF that] by (simp add: F_def)
  have "n \<le> 128 \<Longrightarrow> length (F n) = 128 \<and>
    F n ! j = (if \<exists>k. 1 \<le> k \<and> k \<le> n \<and> (unat current + k) mod 128 = j then 0 else r ! j)" for n
  proof (induction n)
    case 0
    show ?case using assms(1) by (simp add: F_def)
  next
    case (Suc n)
    have *: "(\<exists>k. 1 \<le> k \<and> k \<le> Suc n \<and> (unat current + k) mod 128 = j) \<longleftrightarrow>
        (\<exists>k. 1 \<le> k \<and> k \<le> n \<and> (unat current + k) mod 128 = j) \<or> (unat current + Suc n) mod 128 = j"
      by (auto simp: le_Suc_eq)
    show ?case
      unfolding F_Suc [OF Suc.prems] * using Suc assms(4) by (auto simp: nth_list_update)
  qed
  then show ?thesis using assms(3) unfolding clear_blocks_def F_def [symmetric] by simp
qed

lemma slot_inj:
  fixes a b h :: nat
  assumes "a mod 128 = b mod 128" "h < a + 128" "a \<le> h" "h < b + 128" "b \<le> h"
  shows "a = b"
proof -
  have "x = y" if "x \<le> y" "x mod 128 = y mod 128" "y < x + 128" for x y :: nat
  proof -
    have "128 dvd y - x" using that(1,2) by (metis mod_eq_dvd_iff_nat)
    moreover have "y - x < 128" using that by simp
    ultimately have "y - x = 0" using nat_dvd_not_less by blast
    with that(1) show ?thesis by simp
  qed
  with assms show ?thesis by (metis nat_le_linear add_less_cancel_right le_less_trans)
qed

lemma check_and_set_represents:
  assumes rep: "represents f w" and c: "unat c \<le> highest w" "highest w div 64 < unat c div 64 + 128"
  shows "fst (check_and_set c f) = (unat c \<notin> seen w) \<and>
    represents (snd (check_and_set c f)) (w\<lparr>seen := insert (unat c) (seen w)\<rparr>)"
proof -
  let ?i = "unat c div 64 mod 128" and ?b = "unat c mod 64"
  have len: "length (ring f) = 128" and i: "?i < 128" using rep by (simp_all add: represents_def)
  have run: "check_and_set c f = (ring f ! ?i \<noteq> ring f ! ?i OR 2 ^ ?b,
      f\<lparr>ring := (ring f)[?i := ring f ! ?i OR 2 ^ ?b]\<rparr>)"
    by (simp add: check_and_set_def Let_def unat_blockMask unat_bitMask unat_block)
  have bit_new: "bit (x OR 2 ^ ?b) n \<longleftrightarrow> bit x n \<or> n = ?b" if "n < 64" for x :: uint64 and n
    using that by (auto simp: bit_or_iff bit_exp_iff)
  have same: "x = x OR 2 ^ ?b \<longleftrightarrow> bit x ?b" for x :: uint64
  proof
    assume "x = x OR 2 ^ ?b"
    then show "bit x ?b" using bit_new [of ?b x] by simp
  next
    assume "bit x ?b"
    then show "x = x OR 2 ^ ?b" by (intro bit_word_eqI) (auto simp: bit_new)
  qed
  have cov: "bit (ring f ! ?i) ?b \<longleftrightarrow> unat c \<in> seen w"
    using rep c by (simp add: represents_def div_le_mono)
  have "(bit ((ring f)[?i := ring f ! ?i OR 2 ^ ?b] ! (d div 64 mod 128)) (d mod 64) \<longleftrightarrow>
      d \<in> insert (unat c) (seen w))"
    if d: "highest w div 64 < d div 64 + 128 \<and> d div 64 \<le> highest w div 64" for d
  proof (cases "d div 64 mod 128 = ?i")
    case True
    then have "d div 64 = unat c div 64"
      using slot_inj [OF True] d c div_le_mono [OF c(1), of 64] by blast
    then have "d mod 64 = ?b \<longleftrightarrow> d = unat c" by (metis div_mult_mod_eq)
    moreover have "bit (ring f ! (d div 64 mod 128)) (d mod 64) \<longleftrightarrow> d \<in> seen w"
      using rep d unfolding represents_def by blast
    ultimately show ?thesis
      using True i len by (auto simp: bit_new)
  next
    case False
    then have "d \<noteq> unat c" by auto
    with False d rep show ?thesis by (simp add: represents_def)
  qed
  then have "represents (snd (check_and_set c f)) (w\<lparr>seen := insert (unat c) (seen w)\<rparr>)"
    using rep c len unfolding run by (simp add: represents_def)
  then show ?thesis unfolding run using same cov by simp
qed

lemma cleared_slots:
  fixes h n b :: nat
  assumes "h \<le> n" "n < b + 128" "b \<le> n"
  shows "(\<exists>k. 1 \<le> k \<and> k \<le> min (n - h) 128 \<and> (h + k) mod 128 = b mod 128) \<longleftrightarrow> h < b"
proof
  assume "\<exists>k. 1 \<le> k \<and> k \<le> min (n - h) 128 \<and> (h + k) mod 128 = b mod 128"
  then obtain k where k: "1 \<le> k" "k \<le> n - h" "k \<le> 128" "(h + k) mod 128 = b mod 128" by auto
  show "h < b"
  proof (rule ccontr)
    assume "\<not> h < b"
    then have "h + k = b" using slot_inj [OF k(4), of n] k assms by linarith
    with \<open>\<not> h < b\<close> k show False by simp
  qed
next
  assume "h < b"
  show "\<exists>k. 1 \<le> k \<and> k \<le> min (n - h) 128 \<and> (h + k) mod 128 = b mod 128"
  proof (cases "n - h \<le> 128")
    case True
    with \<open>h < b\<close> assms show ?thesis by (intro exI [of _ "b - h"]) auto
  next
    case False
    have "(h + ((b - h - 1) mod 128 + 1)) mod 128 = (h + 1 + (b - h - 1)) mod 128"
      using mod_add_right_eq [of "h + 1" "b - h - 1" 128] by (simp only: ac_simps)
    also have "h + 1 + (b - h - 1) = b" using \<open>h < b\<close> by simp
    finally show ?thesis
      using False by (intro exI [of _ "(b - h - 1) mod 128 + 1"]) (simp add: Suc_le_eq)
  qed
qed

text \<open>Moving the window: the blocks that come into the ring are cleared, the others stay.\<close>

lemma move_represents:
  assumes rep: "represents f w" and c: "highest w < unat c"
  defines "current \<equiv> drop_bit blockBitLog (last f)" and "d \<equiv> drop_bit blockBitLog c - drop_bit blockBitLog (last f)"
  defines "diff \<equiv> (if d > word_of_nat ringBlocks then word_of_nat ringBlocks else d)"
  shows "represents (f\<lparr>ring := clear_blocks current diff (ring f), last := c\<rparr>) (w\<lparr>highest := unat c\<rparr>)"
proof -
  let ?h = "highest w div 64" and ?n = "unat c div 64"
  have len: "length (ring f) = 128" and last: "unat (last f) = highest w"
    and old: "\<forall>x \<in> seen w. x \<le> highest w" using rep by (simp_all add: represents_def)
  have cur: "unat current = ?h" by (simp add: current_def unat_block last)
  have le: "?h \<le> ?n" using c by (simp add: div_le_mono)
  then have "drop_bit blockBitLog (last f) \<le> drop_bit blockBitLog c"
    by (simp add: word_le_nat_alt unat_block last)
  then have "unat d = ?n - ?h" by (simp add: d_def unat_sub unat_block last)
  then have diff: "unat diff = min (?n - ?h) 128"
    by (auto simp: diff_def word_less_nat_alt replay_consts)
  have bound: "unat current < 2 ^ 58" unfolding current_def unat_block by (rule block_bound)
  have le128: "unat diff \<le> 128" by (simp add: diff)
  note nth = clear_blocks_nth [OF len bound le128]
  have cleared: "(\<exists>k. 1 \<le> k \<and> k \<le> unat diff \<and> (unat current + k) mod 128 = b mod 128) \<longleftrightarrow> ?h < b"
    if b: "?n < b + 128" "b \<le> ?n" for b
    unfolding cur diff by (rule cleared_slots [OF le b])
  have "bit (clear_blocks current diff (ring f) ! (x div 64 mod 128)) (x mod 64) \<longleftrightarrow> x \<in> seen w"
    if x: "?n < x div 64 + 128" "x div 64 \<le> ?n" for x
  proof -
    have j: "x div 64 mod 128 < 128" by simp
    have slot: "clear_blocks current diff (ring f) ! (x div 64 mod 128) =
        (if ?h < x div 64 then 0 else ring f ! (x div 64 mod 128))"
      using nth [OF j] unfolding cleared [OF x] by simp
    show ?thesis
  proof (cases "?h < x div 64")
    case True
    then have "x \<notin> seen w" using old div_le_mono [of x "highest w" 64] by auto
    moreover have "clear_blocks current diff (ring f) ! (x div 64 mod 128) = 0"
      using slot True by simp
    ultimately show ?thesis by simp
  next
    case False
    then have "clear_blocks current diff (ring f) ! (x div 64 mod 128) = ring f ! (x div 64 mod 128)"
      using slot by simp
    moreover have "?h < x div 64 + 128" "x div 64 \<le> ?h" using False x le by linarith+
    ultimately show ?thesis using rep unfolding represents_def by metis
  qed
  qed
  moreover have "length (clear_blocks current diff (ring f)) = 128" using nth [of 0] by simp
  ultimately show ?thesis using old c unfolding represents_def by fastforce
qed

lemma windowSize_nat: "unat windowSize = 8128"
  by (simp add: replay_consts)

lemma ValidateCounter_refines:
  assumes rep: "represents f w"
  shows "fst (ValidateCounter c limit f) = fst (admit (unat c) (unat limit) w) \<and>
    represents (snd (ValidateCounter c limit f)) (snd (admit (unat c) (unat limit) w))"
proof -
  have last: "unat (last f) = highest w" and old: "\<forall>x \<in> seen w. x \<le> highest w"
    using rep by (simp_all add: represents_def)
  have sub: "unat (last f - c) = highest w - unat c" if "\<not> last f < c"
    using that by (simp add: unat_sub not_less last)
  consider (limit) "limit \<le> c" | (forward) "\<not> limit \<le> c" "last f < c"
    | (behind) "\<not> limit \<le> c" "\<not> last f < c" "last f - c > windowSize"
    | (inside) "\<not> limit \<le> c" "\<not> last f < c" "\<not> last f - c > windowSize"
    by blast
  then show ?thesis
  proof cases
    case limit
    then show ?thesis using rep by (simp add: ValidateCounter_def admit_def admits_def word_le_nat_alt)
  next
  case forward
    then have c: "highest w < unat c" "unat c < unat limit" by (simp_all add: not_le word_less_nat_alt last)
    then have fresh: "unat c \<notin> seen w" using old by auto
    define g where "g = f\<lparr>ring := clear_blocks (drop_bit blockBitLog (last f))
        (let d = drop_bit blockBitLog c - drop_bit blockBitLog (last f) in
          if d > word_of_nat ringBlocks then word_of_nat ringBlocks else d) (ring f), last := c\<rparr>"
    have step: "represents g (w\<lparr>highest := unat c\<rparr>)"
      using move_represents [OF rep c(1)] by (simp add: Let_def g_def)
    have run: "ValidateCounter c limit f = check_and_set c g"
      using forward by (simp add: ValidateCounter_def Let_def g_def)
    have adm: "admit (unat c) (unat limit) w = (True, w\<lparr>highest := unat c, seen := insert (unat c) (seen w)\<rparr>)"
      using c fresh by (simp add: admit_def admits_def)
    show ?thesis
      unfolding run adm using check_and_set_represents [OF step, of c] fresh by simp
  next
    case behind
    then have "\<not> highest w \<le> unat c + 8128"
      using sub by (simp add: word_less_nat_alt last windowSize_nat)
    with behind rep show ?thesis by (simp add: ValidateCounter_def Let_def admit_def admits_def)
  next
    case inside
    then have c: "unat c < unat limit" "unat c \<le> highest w" "highest w - unat c \<le> 8128"
      using sub by (simp_all add: word_less_nat_alt word_le_nat_alt last windowSize_nat)
    then have "highest w div 64 < unat c div 64 + 128"
      using div_le_mono [of "highest w" "unat c + 127 * 64" 64] by simp
    note set = check_and_set_represents [OF rep c(2) this]
    have run: "ValidateCounter c limit f = check_and_set c f"
      using inside by (simp add: ValidateCounter_def Let_def)
    have "snd (admit (unat c) (unat limit) w) = w\<lparr>seen := insert (unat c) (seen w)\<rparr>"
      using c by (cases w) (auto simp: admit_def admits_def insert_absorb max_absorb1)
    moreover have "fst (admit (unat c) (unat limit) w) = (unat c \<notin> seen w)"
      using c by (simp add: admit_def admits_def)
    ultimately show ?thesis unfolding run using set by simp
  qed
qed

lemma zero_represents: "represents zero_Filter empty_window"
  by (simp add: represents_def zero_Filter_def empty_window_def replay_consts)

lemma Reset_represents:
  assumes "length (ring f) = 128"
  shows "represents (Reset f) empty_window"
  using assms by (auto simp: represents_def Reset_def empty_window_def nth_list_update)

text \<open>A whole sequence: the accepted counters are those the specification admits.\<close>

fun admitted :: "nat \<Rightarrow> nat list \<Rightarrow> window \<Rightarrow> nat list" where
  "admitted limit [] w = []"
| "admitted limit (c # cs) w =
     (let (ok, w') = admit c limit w in (if ok then [c] else []) @ admitted limit cs w')"

lemma accepted_refines:
  "represents f w \<Longrightarrow> map unat (accepted limit cs f) = admitted (unat limit) (map unat cs) w"
proof (induction cs arbitrary: f w)
  case (Cons c cs)
  from ValidateCounter_refines [OF Cons.prems, of c limit] Cons.IH show ?case
    by (auto simp: Let_def split: prod.splits)
qed simp

lemma admitted_distinct:
  "distinct (admitted limit cs w) \<and> set (admitted limit cs w) \<inter> seen w = {}"
proof (induction cs arbitrary: w)
  case (Cons c cs)
  show ?case
    using Cons [of w] Cons [of "\<lparr>highest = max (highest w) c, seen = insert c (seen w)\<rparr>"]
    by (auto simp: admit_def admits_def)
qed simp

text \<open>C20: the replay window refines a filter that remembers every counter. From a fresh filter,
and from any filter after \<^verbatim>\<open>Reset\<close> (which clears one block only), a sequence of messages is
accepted exactly as the unbounded memory admits it; in particular no counter is accepted
twice.\<close>

theorem replay_filter_refines:
  assumes "length (ring f) = 128"
  shows "map unat (accepted limit cs (Reset f)) = admitted (unat limit) (map unat cs) empty_window \<and>
    map unat (accepted limit cs zero_Filter) = admitted (unat limit) (map unat cs) empty_window \<and>
    distinct (accepted limit cs (Reset f))"
proof -
  have "map unat (accepted limit cs (Reset f)) = admitted (unat limit) (map unat cs) empty_window"
    by (rule accepted_refines) (rule Reset_represents [OF assms])
  moreover have "map unat (accepted limit cs zero_Filter) = admitted (unat limit) (map unat cs) empty_window"
    by (rule accepted_refines) (rule zero_represents)
  ultimately show ?thesis using admitted_distinct [of "unat limit"] by (metis distinct_map)
qed

theorem replay_filter_refines_witness:
  "map unat (accepted 100000 [5, 20000, 5, 20001, 20000] (Reset (\<lparr>last = 7, ring = replicate 128 1\<rparr>))) =
     [5, 20000, 20001]"
proof -
  have "map unat (accepted 100000 [5, 20000, 5, 20001, 20000] (Reset (\<lparr>last = 7, ring = replicate 128 1\<rparr>))) =
      admitted (unat (100000 :: uint64)) (map unat [5, 20000, 5, 20001, 20000 :: uint64]) empty_window"
    by (rule replay_filter_refines [THEN conjunct1]) simp
  also have "\<dots> = [5, 20000, 20001]"
    by (simp add: admit_def admits_def empty_window_def)
  finally show ?thesis .
qed

end
