(* ===== verification/GoText.thy ===== *)
theory GoText
  imports GoNet
begin

text \<open>
  More of Go's library, as the routing policy uses it: cutting and searching of
  \<^verbatim>\<open>strings\<close>, networks of \<^verbatim>\<open>net\<close>, the file names of \<^verbatim>\<open>path/filepath\<close> on Windows and the
  host of a parsed URL.

  The simple case folding of \<^verbatim>\<open>strings.EqualFold\<close> is a table of the Unicode standard, an
  argument: it maps every rune to a representative of its folding orbit.
\<close>

subsection \<open>Strings\<close>

definition utf8 :: "rune list \<Rightarrow> string" where
  "utf8 rs = concat (map EncodeRune rs)"

fun Contains :: "string \<Rightarrow> string \<Rightarrow> bool" where
  "Contains [] t \<longleftrightarrow> t = []"
| "Contains (c # s) t \<longleftrightarrow> HasPrefix (c # s) t \<or> Contains s t"

text \<open>\<^verbatim>\<open>strings.Trim\<close> with an ASCII cutset.\<close>

definition Trim :: "string \<Rightarrow> string \<Rightarrow> string" where
  "Trim s cutset =
     rev (dropWhile (\<lambda>c. c \<in> set cutset) (rev (dropWhile (\<lambda>c. c \<in> set cutset) s)))"

type_synonym fold_table = "rune \<Rightarrow> rune"

definition EqualFold :: "fold_table \<Rightarrow> string \<Rightarrow> string \<Rightarrow> bool" where
  "EqualFold F s t \<longleftrightarrow> map F (runes s) = map F (runes t)"

text \<open>\<^verbatim>\<open>strings.Map\<close> with a mapping that never drops a rune.\<close>

definition MapRunes :: "(rune \<Rightarrow> rune) \<Rightarrow> string \<Rightarrow> string" where
  "MapRunes f s = concat (map (\<lambda>r. EncodeRune (f r)) (runes s))"

subsection \<open>Networks\<close>

text \<open>
  \<^verbatim>\<open>net.ParseCIDR\<close>: the family of the text decides the number of bits, so an IPv4-mapped
  IPv6 address keeps a prefix of up to 128 bits. The prefix length is decimal digits only.
\<close>

definition text_bits :: "string \<Rightarrow> nat" where
  "text_bits s =
     (case filter (\<lambda>c. c = CHR ''.'' \<or> c = CHR '':'' \<or> c = CHR ''%'') s of
        c # _ \<Rightarrow> (if c = CHR ''.'' then 32 else 128) | [] \<Rightarrow> 128)"

unbundle bit_operations_syntax

definition IPMask :: "IP \<Rightarrow> byte list \<Rightarrow> IP option" where
  "IPMask ip msk =
     (let msk2 = (if length msk = 16 \<and> length ip = 4 \<and> take 12 msk = replicate 12 255
                   then drop 12 msk else msk);
          ip' = (if length msk2 = 4 \<and> length ip = 16 \<and> take 12 ip = v4InV6Prefix
                 then drop 12 ip else ip) in
      if length ip' = length msk2 then Some (map2 (\<lambda>a b. a AND b) ip' msk2) else None)"

record IPNet =
  NetIP :: IP
  Mask :: "byte list"

definition ParseCIDR :: "string \<Rightarrow> (IP \<times> IPNet) option" where
  "ParseCIDR s =
     (case IndexByte s CHR ''/'' of
        None \<Rightarrow> None
      | Some i \<Rightarrow>
        let addr = take i s; msk = drop (i + 1) s in
        case ParseIP addr of
          None \<Rightarrow> None
        | Some ip \<Rightarrow>
          if \<not> all_digits msk \<or> dec_val msk > text_bits addr then None
          else let m = CIDRMask (dec_val msk) (text_bits addr div 8) in
               map_option (\<lambda>n. (ip, \<lparr>NetIP = n, Mask = m\<rparr>)) (IPMask ip m))"

definition networkNumberAndMask :: "IPNet \<Rightarrow> (IP \<times> byte list) option" where
  "networkNumberAndMask n =
     (let ip = (case To4 (NetIP n) of Some v4 \<Rightarrow> v4 | None \<Rightarrow> NetIP n); m = Mask n in
      if length ip \<noteq> 4 \<and> length ip \<noteq> 16 then None
      else if length m = 4 then (if length ip \<noteq> 4 then None else Some (ip, m))
      else if length m = 16 then Some (ip, if length ip = 4 then drop 12 m else m)
      else None)"

definition IPNet_Contains :: "IPNet \<Rightarrow> IP \<Rightarrow> bool" where
  "IPNet_Contains n ip \<longleftrightarrow>
     (case networkNumberAndMask n of
        None \<Rightarrow> ip = []
      | Some (nn, m) \<Rightarrow>
        let ip' = (case To4 ip of Some v4 \<Rightarrow> v4 | None \<Rightarrow> ip) in
        length ip' = length nn \<and> map2 (\<lambda>a b. a AND b) nn m = map2 (\<lambda>a b. a AND b) ip' m)"

text \<open>\<^verbatim>\<open>IPMask.Size\<close>: the number of leading ones of a canonical mask.\<close>

definition simpleMaskLength :: "byte list \<Rightarrow> nat option" where
  "simpleMaskLength m =
     find (\<lambda>k. CIDRMask k (length m) = m) [0..<8 * length m + 1]"

definition IPNet_String :: "IPNet \<Rightarrow> string" where
  "IPNet_String n =
     (case networkNumberAndMask n of
        None \<Rightarrow> ''<nil>''
      | Some (nn, m) \<Rightarrow>
        (case simpleMaskLength m of
           None \<Rightarrow> IPString nn @ ''/'' @ EncodeHex m
         | Some l \<Rightarrow> IPString nn @ ''/'' @ dec l))"

subsection \<open>File names on Windows\<close>

definition IsPathSeparator :: "char \<Rightarrow> bool" where
  "IsPathSeparator c \<longleftrightarrow> c = CHR 0x5C \<or> c = CHR ''/''"

definition last_element :: "string \<Rightarrow> string" where
  "last_element path = rev (takeWhile (\<lambda>c. \<not> IsPathSeparator c) (rev path))"

definition Ext :: "string \<Rightarrow> string" where
  "Ext path =
     (case LastIndexByte (last_element path) CHR ''.'' of
        None \<Rightarrow> [] | Some i \<Rightarrow> drop i (last_element path))"

text \<open>The volume prefix of a path: a drive, a device or a UNC share.\<close>

fun unc_scan :: "nat \<Rightarrow> string \<Rightarrow> nat" where
  "unc_scan count [] = 0"
| "unc_scan count (c # s) =
     (if IsPathSeparator c \<and> count = 1 then 0
      else Suc (unc_scan (if IsPathSeparator c then count + 1 else count) s))"

definition uncLen :: "string \<Rightarrow> nat \<Rightarrow> nat" where
  "uncLen path prefixLen =
     (if length path \<le> prefixLen then length path
      else prefixLen + unc_scan 0 (drop prefixLen path))"

definition pathHasPrefixFold :: "string \<Rightarrow> string \<Rightarrow> bool" where
  "pathHasPrefixFold s prefix \<longleftrightarrow>
     length prefix \<le> length s \<and>
     list_all2 (\<lambda>p c. if IsPathSeparator p then IsPathSeparator c else ascii_upper p = ascii_upper c)
       prefix (take (length prefix) s) \<and>
     (length prefix < length s \<longrightarrow> IsPathSeparator (s ! length prefix))"

definition volumeNameLen :: "string \<Rightarrow> nat" where
  "volumeNameLen path =
     (let bs = CHR 0x5C in
      if 2 \<le> length path \<and> path ! 1 = CHR '':'' then 2
      else if path = [] \<or> \<not> IsPathSeparator (hd path) then 0
      else if pathHasPrefixFold path ([bs, bs, CHR ''.'', bs] @ ''UNC'') then uncLen path 8
      else if pathHasPrefixFold path [bs, bs, CHR ''.''] \<or> pathHasPrefixFold path [bs, bs, CHR ''?'']
              \<or> pathHasPrefixFold path [bs, CHR ''?'', CHR ''?''] then
        (if length path = 3 then 3
         else 4 + length (takeWhile (\<lambda>c. \<not> IsPathSeparator c) (drop 4 path)))
      else if 2 \<le> length path \<and> IsPathSeparator (path ! 1) then uncLen path 2
      else 0)"

definition Base :: "string \<Rightarrow> string" where
  "Base path =
     (if path = [] then ''.''
      else let stripped = rev (dropWhile IsPathSeparator (rev path));
               name = last_element (drop (volumeNameLen stripped) stripped) in
           if name = [] then [CHR 0x5C] else name)"

subsection \<open>URLs\<close>

text \<open>
  The fields of a \<^verbatim>\<open>url.URL\<close> that the sources read. \<open>HasUser\<close> is \<^verbatim>\<open>User != nil\<close>. The parser
  itself is an argument of the functions that call it.
\<close>

record url =
  Scheme :: string
  HasUser :: bool
  UrlHost :: string
  UrlPath :: string
  RawPath :: string
  RawQuery :: string
  Fragment :: string

definition validOptionalPort :: "string \<Rightarrow> bool" where
  "validOptionalPort port \<longleftrightarrow> port = [] \<or> hd port = CHR '':'' \<and> list_all is_digit (tl port)"

definition splitHostPort :: "string \<Rightarrow> string \<times> string" where
  "splitHostPort hostPort =
     (let (host, port) =
        (case LastIndexByte hostPort CHR '':'' of
           None \<Rightarrow> (hostPort, [])
         | Some colon \<Rightarrow>
           if validOptionalPort (drop colon hostPort)
           then (take colon hostPort, drop (colon + 1) hostPort) else (hostPort, [])) in
      (if HasPrefix host ''['' \<and> HasSuffix host '']'' then take (length host - 2) (tl host) else host, port))"

definition Hostname :: "url \<Rightarrow> string" where
  "Hostname u = fst (splitHostPort (UrlHost u))"

definition UrlPort :: "url \<Rightarrow> string" where
  "UrlPort u = snd (splitHostPort (UrlHost u))"

end
