(* ===== verification/SmartCatalog.thy ===== *)
theory SmartCatalog
  imports GoText
begin

text \<open>
  \<^verbatim>\<open>client/smart/catalog.go\<close> and the data of \<^verbatim>\<open>regional.go\<close>: the services that routing can
  select, the built-in catalog, the regional groups, and the catalog a process currently
  uses. The mutex-protected global is the record \<open>catalog_state\<close>, passed explicitly.
  Russian display texts are given by their code points (\<open>utf8\<close>).
\<close>

definition AIServiceID :: string where
  "AIServiceID = ''ai''"

definition VKServiceID :: string where
  "VKServiceID = ''vk''"

definition RussianServiceID :: string where
  "RussianServiceID = ''russian-services''"

definition RegionalCatalogRevision :: string where
  "RegionalCatalogRevision = ''2026-09-08''"

definition builtinCatalogRevision :: uint64 where
  "builtinCatalogRevision = 1"

record Service =
  ServiceID :: string
  ServiceName :: string
  Description :: string
  ProcessNames :: "string list"
  Domains :: "string list"
  DomainSuffixes :: "string list"

subsection \<open>The bundled catalogs\<close>

definition discord_service :: Service where
  "discord_service =
    \<lparr>ServiceID = ''discord'', ServiceName = ''Discord'',
     Description = utf8 [1055, 1088, 1080, 1083, 1086, 1078, 1077, 1085, 1080, 1077, 44, 32, 1079, 1074,
       1086, 1085, 1082, 1080, 32, 1080, 32, 87, 101, 98],
     ProcessNames = [''Discord.exe'', ''DiscordCanary.exe'', ''DiscordPTB.exe''],
     Domains = [''discord.com'', ''discord.gg'', ''dis.gd''],
     DomainSuffixes = [''.discord.com'', ''.discord.gg'', ''.discordapp.com'',
                       ''.discordapp.net'', ''.discordcdn.com'', ''.discord.media'',
                       ''.discordstatus.com'', ''.dis.gd'']\<rparr>"

definition youtube_service :: Service where
  "youtube_service =
    \<lparr>ServiceID = ''youtube'', ServiceName = ''YouTube'',
     Description = utf8 [1042, 1080, 1076, 1077, 1086, 44, 32, 1086, 1073, 1083, 1086, 1078, 1082, 1080,
       32, 1080, 32, 1089, 1083, 1091, 1078, 1077, 1073, 1085, 1099, 1077, 32, 65, 80,
       73],
     ProcessNames = [],
     Domains = [''youtube.com'', ''youtu.be'', ''youtube-nocookie.com''],
     DomainSuffixes = [''.youtube.com'', ''.youtu.be'', ''.youtube-nocookie.com'',
                       ''.googlevideo.com'', ''.ytimg.com'', ''.youtubei.googleapis.com'',
                       ''.youtube.googleapis.com'', ''.ggpht.com'']\<rparr>"

definition telegram_service :: Service where
  "telegram_service =
    \<lparr>ServiceID = ''telegram'', ServiceName = ''Telegram'',
     Description = utf8 [68, 101, 115, 107, 116, 111, 112, 44, 32, 87, 101, 98, 32, 1080, 32, 1079, 1074,
       1086, 1085, 1082, 1080],
     ProcessNames = [''Telegram.exe''],
     Domains = [''t.me'', ''telegram.org'', ''telegram.me'', ''telegram.dog''],
     DomainSuffixes = [''.t.me'', ''.telegram.org'', ''.telegram.me'', ''.telegram.dog'',
                       ''.tdesktop.com'']\<rparr>"

definition instagram_service :: Service where
  "instagram_service =
    \<lparr>ServiceID = ''instagram'', ServiceName = ''Instagram'',
     Description = utf8 [1057, 1072, 1081, 1090, 44, 32, 1084, 1077, 1076, 1080, 1072, 32, 1080, 32, 67,
       68, 78],
     ProcessNames = [],
     Domains = [''instagram.com''],
     DomainSuffixes = [''.instagram.com'', ''.cdninstagram.com'', ''.fbcdn.net'']\<rparr>"

definition ai_service :: Service where
  "ai_service =
    \<lparr>ServiceID = AIServiceID, ServiceName = utf8 [1053, 1077, 1081, 1088, 1086, 1089, 1077, 1090, 1080],
     Description = utf8 [67, 104, 97, 116, 71, 80, 84, 44, 32, 67, 108, 97, 117, 100, 101, 44, 32, 71,
       101, 109, 105, 110, 105, 44, 32, 71, 114, 111, 107, 32, 1080, 32, 1076, 1088,
       1091, 1075, 1080, 1077],
     ProcessNames = [''ChatGPT.exe'', ''Claude.exe'', ''Perplexity.exe'', ''Copilot.exe'',
                     ''Cursor.exe'', ''Windsurf.exe''],
     Domains = [''chatgpt.com'', ''openai.com'', ''claude.ai'', ''anthropic.com'',
                ''gemini.google.com'', ''aistudio.google.com'', ''ai.google.dev'',
                ''generativelanguage.googleapis.com'', ''notebooklm.google.com'', ''grok.com'',
                ''x.ai'', ''perplexity.ai'', ''pplx.ai'', ''deepseek.com'', ''deepseek.ai'',
                ''copilot.microsoft.com'', ''copilot.com'', ''mistral.ai'', ''poe.com'',
                ''character.ai'', ''meta.ai'', ''huggingface.co'', ''midjourney.com'',
                ''suno.com'', ''runwayml.com'', ''leonardo.ai'', ''ideogram.ai'',
                ''cursor.com'', ''windsurf.com'', ''codeium.com'', ''phind.com'', ''kimi.com'',
                ''qwen.ai'', ''manus.im'', ''genspark.ai'', ''stability.ai'',
                ''dreamstudio.ai'', ''replicate.com'', ''fal.ai'', ''together.ai'',
                ''groq.com'', ''cohere.com'', ''openrouter.ai''],
     DomainSuffixes = [''.chatgpt.com'', ''.openai.com'', ''.oaistatic.com'',
                       ''.oaiusercontent.com'', ''.oaistatsig.com'', ''.openaimerge.com'',
                       ''.workos.com'', ''.workoscdn.com'', ''.claude.ai'', ''.anthropic.com'',
                       ''.claudeusercontent.com'', ''.gemini.google.com'',
                       ''.aistudio.google.com'', ''.ai.google.dev'',
                       ''.generativelanguage.googleapis.com'', ''.notebooklm.google.com'',
                       ''.bard.google.com'', ''.grok.com'', ''.x.ai'', ''.perplexity.ai'',
                       ''.pplx.ai'', ''.deepseek.com'', ''.deepseek.ai'',
                       ''.copilot.microsoft.com'', ''.copilot.com'', ''.githubcopilot.com'',
                       ''.individual.githubcopilot.com'', ''.business.githubcopilot.com'',
                       ''.enterprise.githubcopilot.com'',
                       ''.copilot-proxy.githubusercontent.com'',
                       ''.origin-tracker.githubusercontent.com'',
                       ''.copilot-telemetry.githubusercontent.com'', ''.cloud.microsoft'',
                       ''.mistral.ai'', ''.poe.com'', ''.character.ai'', ''.characterai.io'',
                       ''.meta.ai'', ''.huggingface.co'', ''.hf.co'', ''.hf.space'',
                       ''.midjourney.com'', ''.midjourneycdn.com'', ''.suno.com'',
                       ''.suno.ai'', ''.runwayml.com'', ''.leonardo.ai'', ''.ideogram.ai'',
                       ''.cursor.com'', ''.cursor.sh'', ''.windsurf.com'', ''.codeium.com'',
                       ''.phind.com'', ''.kimi.com'', ''.moonshot.ai'', ''.moonshot.cn'',
                       ''.qwen.ai'', ''.dashscope.aliyuncs.com'', ''.manus.im'',
                       ''.genspark.ai'', ''.stability.ai'', ''.dreamstudio.ai'',
                       ''.replicate.com'', ''.fal.ai'', ''.together.ai'', ''.groq.com'',
                       ''.cohere.com'', ''.openrouter.ai'']\<rparr>"

definition vk_service :: Service where
  "vk_service =
    \<lparr>ServiceID = VKServiceID, ServiceName = ''VK'',
     Description = utf8 [1057, 1072, 1081, 1090, 44, 32, 1092, 1086, 1090, 1086, 44, 32, 1084, 1091,
       1079, 1099, 1082, 1072, 44, 32, 1074, 1080, 1076, 1077, 1086, 32, 1080, 32,
       1079, 1074, 1086, 1085, 1082, 1080],
     ProcessNames = [''vk-calls.exe'', ''vk-messenger.exe'', ''vk-messenger-x64.exe'',
                     ''VKMessenger.exe''],
     Domains = [''api.ok.ru'', ''api.mycdn.me'', ''st.mycdn.me'',
                ''vkcalls.production.vklanding.ru'', ''vkcalls-native-ac.vk-apps.com'',
                ''upload.object2.vk-apps.com''],
     DomainSuffixes = [''.vk.ru'', ''.vk.com'', ''.vk.me'', ''.vkvideo.ru'', ''.vkvideo.com'',
                       ''.vk.cc'', ''.vkuserphoto.ru'', ''.vkuserdocs.ru'', ''.userapi.com'',
                       ''.vkuseraudio.net'', ''.vkuseraudio.ru'', ''.vkuseraudio.com'',
                       ''.vkuservideo.net'', ''.vkuservideo.ru'', ''.vkuservideo.com'',
                       ''.vkuserlive.net'', ''.vk-cdn.net'', ''.vk-portal.net'',
                       ''.vkclips.app'', ''.vkcombo.ru'', ''.vkpay.com'', ''.calls.okcdn.ru'',
                       ''.calls-sdk.cdn-vk.ru'']\<rparr>"

definition russian_service :: Service where
  "russian_service =
    \<lparr>ServiceID = RussianServiceID, ServiceName = utf8 [1041, 1077, 1083, 1099, 1077, 32, 1089, 1087, 1080, 1089, 1082, 1080],
     Description = utf8 [1055, 1086, 1087, 1091, 1083, 1103, 1088, 1085, 1099, 1077, 32, 1088, 1086,
       1089, 1089, 1080, 1081, 1089, 1082, 1080, 1077, 32, 1089, 1077, 1088, 1074,
       1080, 1089, 1099],
     ProcessNames = [],
     Domains = [],
     DomainSuffixes = [''.ya.ru'', ''.yandex.ru'', ''.yandex.com'', ''.yandex.net'',
                       ''.yastatic.net'', ''.kinopoisk.ru'', ''.mail.ru'', ''.imgsmail.ru'',
                       ''.ok.ru'', ''.okcdn.ru'', ''.dzen.ru'', ''.dzeninfra.ru'', ''.max.ru'',
                       ''.ozon.ru'', ''.ozon.com'', ''.ozone.ru'', ''.ozonusercontent.com'',
                       ''.wildberries.ru'', ''.wb.ru'', ''.wbbasket.ru'', ''.wbstatic.net'',
                       ''.wbcontent.net'', ''.avito.ru'', ''.avito.st'', ''.gosuslugi.ru'',
                       ''.mos.ru'', ''.nalog.ru'', ''.nalog.gov.ru'', ''.sberbank.ru'',
                       ''.sber.ru'', ''.tbank.ru'', ''.tinkoff.ru'', ''.tinkoffcdn.ru'',
                       ''.cdn-tinkoff.ru'', ''.t-static.ru'', ''.alfabank.ru'', ''.vtb.ru'',
                       ''.gazprombank.ru'', ''.nspk.ru'', ''.rshb.ru'', ''.2gis.ru'',
                       ''.2gis.com'', ''.2gisapis.ru'', ''.rzd.ru'', ''.tutu.ru'',
                       ''.aviasales.ru'', ''.hh.ru'', ''.superjob.ru'', ''.rutube.ru'',
                       ''.rutubelist.ru'', ''.ivi.ru'', ''.ivi.tv'', ''.okko.tv'']\<rparr>"

definition builtinServiceCatalog :: "Service list" where
  "builtinServiceCatalog =
     [discord_service, youtube_service, telegram_service, instagram_service, ai_service]"

definition regionalServices :: "Service list" where
  "regionalServices = [vk_service, russian_service]"

subsection \<open>The catalog in use\<close>

text \<open>A \<^verbatim>\<open>time.Time\<close> counts nanoseconds from its zero value, which is 0.\<close>

type_synonym time = int

record PresetStatus =
  Revision :: uint64
  Source :: string
  Digest :: string
  PublishedAt :: time
  LastChecked :: time
  LastError :: "string option"

record catalog_state =
  services :: "Service list"
  status :: PresetStatus

definition copyStrings :: "string list \<Rightarrow> string list" where
  "copyStrings values = [] @ values"

definition cloneServices :: "Service list \<Rightarrow> Service list" where
  "cloneServices ss =
     map (\<lambda>s. s\<lparr>ProcessNames := copyStrings (ProcessNames s), Domains := copyStrings (Domains s),
                DomainSuffixes := copyStrings (DomainSuffixes s)\<rparr>) ss"

definition initial_catalog :: catalog_state where
  "initial_catalog =
     \<lparr>services = cloneServices builtinServiceCatalog,
      status = \<lparr>Revision = builtinCatalogRevision, Source = ''built-in'', Digest = [],
        PublishedAt = 0, LastChecked = 0, LastError = None\<rparr>\<rparr>"

definition BuiltinServiceCatalog :: "Service list" where
  "BuiltinServiceCatalog = cloneServices builtinServiceCatalog"

definition RegionalServices :: "Service list" where
  "RegionalServices = cloneServices regionalServices"

definition ServiceCatalog :: "catalog_state \<Rightarrow> Service list" where
  "ServiceCatalog c = cloneServices (services c)"

definition ServiceCatalogStatus :: "catalog_state \<Rightarrow> PresetStatus" where
  "ServiceCatalogStatus c = status c"

definition applyServiceCatalog :: "Service list \<Rightarrow> PresetStatus \<Rightarrow> catalog_state \<Rightarrow> catalog_state" where
  "applyServiceCatalog ss st c = c\<lparr>services := cloneServices ss, status := st\<rparr>"

text \<open>The text of an error is what \<^verbatim>\<open>Error()\<close> returns; no error clears the last one.\<close>

definition recordServiceCatalogCheck :: "time \<Rightarrow> string option \<Rightarrow> catalog_state \<Rightarrow> catalog_state" where
  "recordServiceCatalogCheck checked err c =
     c\<lparr>status := (status c)\<lparr>LastChecked := checked, LastError := err\<rparr>\<rparr>"

definition DefaultServiceIDs :: "catalog_state \<Rightarrow> string list" where
  "DefaultServiceIDs c = map ServiceID (ServiceCatalog c)"

definition selectedServices :: "catalog_state \<Rightarrow> string list \<Rightarrow> Service list" where
  "selectedServices c ids = filter (\<lambda>s. ServiceID s \<in> set ids) (ServiceCatalog c)"

definition IsRegionalService :: "string \<Rightarrow> bool" where
  "IsRegionalService i \<longleftrightarrow> i = VKServiceID \<or> i = RussianServiceID"

lemma copyStrings_id [simp]: "copyStrings xs = xs"
  by (simp add: copyStrings_def)

lemma cloneServices_id [simp]: "cloneServices ss = ss"
  by (simp add: cloneServices_def)

lemmas service_defs = discord_service_def youtube_service_def telegram_service_def
  instagram_service_def ai_service_def vk_service_def russian_service_def

lemma builtin_ids:
  "map ServiceID builtinServiceCatalog = [''discord'', ''youtube'', ''telegram'', ''instagram'', ''ai'']"
  by (simp add: builtinServiceCatalog_def service_defs AIServiceID_def)

lemma regional_ids: "map ServiceID regionalServices = [VKServiceID, RussianServiceID]"
  by (simp add: regionalServices_def service_defs)

end
