(* ===== verification/SmartRules.thy ===== *)
theory SmartRules
  imports SmartCatalog ConfName
begin

text \<open>
  The rules of the routing policy: \<^verbatim>\<open>client/smart/settings.go\<close> up to \<^verbatim>\<open>CustomRule.normalized\<close>.

  A Go string type (\<^verbatim>\<open>Mode\<close>, \<^verbatim>\<open>RuleKind\<close>, \<^verbatim>\<open>RouteTarget\<close>) can hold any string, so these are
  strings with named values. What the code takes from outside the repository and from the
  parts of the Go library that are not modelled is the record \<open>smart_env\<close>: the Unicode
  tables, \<^verbatim>\<open>filepath.Clean\<close> and \<^verbatim>\<open>Join\<close>, \<^verbatim>\<open>url.Parse\<close>, the IDNA lookup profile, the JSON decoders, the
  Ed25519 verifier, SHA-256 and the clock. User-facing messages are error constructors.
\<close>

type_synonym Mode = string
type_synonym RuleKind = string
type_synonym RouteTarget = string

definition ModeAll :: Mode where "ModeAll = ''all''"
definition ModeSelected :: Mode where "ModeSelected = ''selected''"
definition ModeBypass :: Mode where "ModeBypass = ''bypass''"
definition ModeNative :: Mode where "ModeNative = ''native''"
definition ModeSocial :: Mode where "ModeSocial = ''social''"

definition RuleApplication :: RuleKind where "RuleApplication = ''application''"
definition RuleDomain :: RuleKind where "RuleDomain = ''domain''"
definition RuleCIDR :: RuleKind where "RuleCIDR = ''cidr''"

definition TargetVPN :: RouteTarget where "TargetVPN = ''vpn''"
definition TargetDirect :: RouteTarget where "TargetDirect = ''direct''"

record CustomRule =
  RuleID :: string
  RuleName :: string
  Kind :: RuleKind
  RuleValue :: string
  Target :: RouteTarget
  Enabled :: bool

record presetEnvelope =
  EnvelopeSchema :: int
  KeyID :: string
  Payload :: string
  Signature :: string

record PresetPayload =
  PayloadSchema :: int
  PayloadRevision :: uint64
  Published :: time
  PayloadServices :: "Service list"

datatype smart_error =
    NeedDomain | UseCIDRKind | NeedNetwork | NeedApplication | OneLineOnly | NotExecutable
  | UnknownKind | UnknownTarget
  | RuleFailed nat smart_error
  | UnsupportedVersion | UnknownProtection | TooManyFallbacks | BadFallbackName
  | InvalidEmbeddedKey | EmbeddedKeyMismatch
  | EnvelopeSize | EnvelopeJSON | EnvelopeMismatch | PayloadEncoding | SignatureEncoding
  | SignatureFailed
  | PayloadSize | PayloadJSON | UnsupportedSchema | RevisionBelowFloor | PublicationTime
  | ServiceCount | ServiceIDError nat | ServiceText string smart_error | NotNormalizedText
  | ControlCharacter | TextLength | TooManyEntries string | EntryCount | UnsafeProcess string
  | ServiceProcesses string smart_error | ServiceDomains string smart_error
  | SuffixWithoutDot string | BadPresetDomain string | MissingBuiltin string
  | SettingsTooLarge | SettingsJSON

record smart_env =
  case_lower :: case_table
  case_fold :: fold_table
  Clean :: "string \<Rightarrow> string"
  JoinPath :: "string list \<Rightarrow> string"
  url_Parse :: "string \<Rightarrow> url option"
  ToASCII :: "string \<Rightarrow> string option"
  decode_envelope :: "string \<Rightarrow> presetEnvelope option"
  unmarshal_envelope :: "string \<Rightarrow> presetEnvelope option"
  decode_payload :: "byte list \<Rightarrow> PresetPayload option"
  ed25519_Verify :: "byte list \<Rightarrow> byte list \<Rightarrow> byte list \<Rightarrow> bool"
  sha256 :: "byte list \<Rightarrow> byte list"
  Now :: time

definition modeValues :: "Mode list" where
  "modeValues = [ModeAll, ModeSelected]"

definition NormalizeMode :: "smart_env \<Rightarrow> string \<Rightarrow> Mode" where
  "NormalizeMode E mode =
     (let m = ToLower (case_lower E) (TrimSpace mode) in
      if m = ModeSelected \<or> m = ModeSocial then ModeSelected
      else if m = ModeBypass then ModeAll
      else if m = ModeNative then ModeSelected
      else ModeAll)"

definition ModeFromIndex :: "int \<Rightarrow> Mode" where
  "ModeFromIndex index =
     (if index < 0 \<or> index \<ge> int (length modeValues) then ModeAll else modeValues ! nat index)"

definition IndexOfMode :: "smart_env \<Rightarrow> Mode \<Rightarrow> nat" where
  "IndexOfMode E mode =
     (case find (\<lambda>i. modeValues ! i = NormalizeMode E mode) [0..<length modeValues] of
        Some i \<Rightarrow> i | None \<Rightarrow> 0)"

text \<open>\<^verbatim>\<open>NewRuleID\<close>; the argument is what \<^verbatim>\<open>rand.Read\<close> delivers.\<close>

definition NewRuleID :: "byte list option \<Rightarrow> string" where
  "NewRuleID random =
     (case random of Some value \<Rightarrow> ''rule-'' @ EncodeHex value | None \<Rightarrow> ''rule-local'')"

definition normalizeDomain :: "smart_env \<Rightarrow> string \<Rightarrow> smart_error + string" where
  "normalizeDomain E value0 =
     (let value = TrimPrefix (TrimSpace value0) ''*.'' in
      if value = [] then Inl NeedDomain
      else
        let parseValue = (if Contains value ''://'' then value else ''//'' @ value) in
        case url_Parse E parseValue of
          None \<Rightarrow> Inl NeedDomain
        | Some parsed \<Rightarrow>
          if Hostname parsed = [] \<or> HasUser parsed then Inl NeedDomain
          else
            let host0 = TrimPrefix (TrimSuffix (ToLower (case_lower E) (Hostname parsed)) ''.'') ''*.'' in
            case ToASCII E host0 of
              None \<Rightarrow> Inl NeedDomain
            | Some host \<Rightarrow>
              if host = [] \<or> length host > 253 \<or> \<not> Contains host ''.'' then Inl NeedDomain
              else if ParseIP host \<noteq> None then Inl UseCIDRKind
              else Inr host)"

definition normalizeCIDR :: "string \<Rightarrow> smart_error + string" where
  "normalizeCIDR value0 =
     (let value = TrimSpace value0 in
      case ParseIP value of
        Some ip \<Rightarrow>
          if To4 ip \<noteq> None then Inr (IPString ip @ ''/32'') else Inr (IPString ip @ ''/128'')
      | None \<Rightarrow>
        (case ParseCIDR value of
           None \<Rightarrow> Inl NeedNetwork
         | Some (ip, network) \<Rightarrow>
           Inr (IPNet_String (network\<lparr>NetIP := (case IPMask ip (Mask network) of Some n \<Rightarrow> n | None \<Rightarrow> [])\<rparr>))))"

text \<open>A backslash, a slash or a colon makes an application a path.\<close>

definition path_chars :: string where
  "path_chars = [CHR 0x5C, CHR ''/'', CHR '':'']"

definition quote :: string where
  "quote = [CHR 0x22]"

definition normalizeApplication :: "smart_env \<Rightarrow> string \<Rightarrow> smart_error + string" where
  "normalizeApplication E value0 =
     (let value = Trim (TrimSpace value0) quote in
      if value = [] then Inl NeedApplication
      else if ContainsAny value [CHR 0x0D, CHR 0x0A] then Inl OneLineOnly
      else if ContainsAny value path_chars then
        (let cleaned = Clean E value in
         if \<not> EqualFoldAscii (Ext cleaned) ''.exe'' then Inl NotExecutable else Inr cleaned)
      else
        let name = Base value in
        if \<not> HasSuffix (ToLower (case_lower E) name) ''.exe'' then Inr (name @ ''.exe'') else Inr name)"

definition rule_value :: "smart_env \<Rightarrow> CustomRule \<Rightarrow> smart_error + string" where
  "rule_value E rule =
     (if Kind rule = RuleApplication then normalizeApplication E (RuleValue rule)
      else if Kind rule = RuleDomain then normalizeDomain E (RuleValue rule)
      else if Kind rule = RuleCIDR then normalizeCIDR (RuleValue rule)
      else Inl UnknownKind)"

definition rule_normalized :: "smart_env \<Rightarrow> nat \<Rightarrow> CustomRule \<Rightarrow> smart_error + CustomRule" where
  "rule_normalized E index rule =
     (let id1 = TrimSpace (RuleID rule);
          id2 = (if id1 = [] then ''rule-'' @ dec (index + 1) else id1);
          name = TrimSpace (RuleName rule) in
      case rule_value E rule of
        Inl e \<Rightarrow> Inl e
      | Inr v \<Rightarrow>
        if Target rule \<noteq> TargetVPN \<and> Target rule \<noteq> TargetDirect then Inl UnknownTarget
        else Inr (rule\<lparr>RuleID := id2, RuleName := (if name = [] then v else name), RuleValue := v\<rparr>))"

lemmas mode_defs = ModeAll_def ModeSelected_def ModeBypass_def ModeNative_def ModeSocial_def

lemma modes_distinct [simp]: "ModeAll \<noteq> ModeSelected" "ModeSelected \<noteq> ModeAll"
  by (simp_all add: mode_defs)

lemma targets_distinct [simp]: "TargetVPN \<noteq> TargetDirect" "TargetDirect \<noteq> TargetVPN"
  by (simp_all add: TargetVPN_def TargetDirect_def)

lemma kinds_distinct [simp]:
  "RuleApplication \<noteq> RuleDomain" "RuleDomain \<noteq> RuleApplication" "RuleApplication \<noteq> RuleCIDR"
  "RuleCIDR \<noteq> RuleApplication" "RuleDomain \<noteq> RuleCIDR" "RuleCIDR \<noteq> RuleDomain"
  by (simp_all add: RuleApplication_def RuleDomain_def RuleCIDR_def)

lemma NormalizeMode_range: "NormalizeMode E m = ModeAll \<or> NormalizeMode E m = ModeSelected"
  by (simp add: NormalizeMode_def Let_def)

end
