(* ===== verification/SmartFiles.thy ===== *)
theory SmartFiles
  imports GoText
begin

text \<open>
  The file operations of \<^verbatim>\<open>client/smart\<close>: \<^verbatim>\<open>bounded_file.go\<close> and the atomic replacement of
  \<^verbatim>\<open>history.go\<close>, on an explicit file store.

  A disk maps paths to contents. What the operating system answers is the argument \<open>files\<close>:
  which operations fail, how much of a failing write reaches the file, and the name that
  \<^verbatim>\<open>os.CreateTemp\<close> draws for a target. Within one call the answers depend on the operation
  and the path.
\<close>

type_synonym path = string
type_synonym disk = "path \<Rightarrow> string option"

datatype io_op =
    MkdirAll path | CreateTemp path | WriteFile path | SyncFile path | CloseFile path
  | RenameTo path | ReadFile path | RemoveFile path

record files =
  fails :: "io_op \<Rightarrow> bool"
  written :: "path \<Rightarrow> string \<Rightarrow> string"
  tempName :: "path \<Rightarrow> path"

datatype file_error = NotExist | OSError io_op | TooLarge

text \<open>\<^verbatim>\<open>readLimitedFile\<close>: at most \<open>limit + 1\<close> bytes are read, and more than \<open>limit\<close> refused.\<close>

definition readLimitedFile :: "files \<Rightarrow> disk \<Rightarrow> path \<Rightarrow> nat \<Rightarrow> file_error + string" where
  "readLimitedFile fl d p limit =
     (case d p of
        None \<Rightarrow> Inl NotExist
      | Some content \<Rightarrow>
        if fails fl (ReadFile p) then Inl (OSError (ReadFile p))
        else let data = take (limit + 1) content in
             if length data > limit then Inl TooLarge else Inr data)"

definition readFile :: "files \<Rightarrow> disk \<Rightarrow> path \<Rightarrow> file_error + string" where
  "readFile fl d p =
     (case d p of
        None \<Rightarrow> Inl NotExist
      | Some content \<Rightarrow>
        if fails fl (ReadFile p) then Inl (OSError (ReadFile p)) else Inr content)"

definition removeFile :: "files \<Rightarrow> disk \<Rightarrow> path \<Rightarrow> file_error option \<times> disk" where
  "removeFile fl d p =
     (if d p = None then (Some NotExist, d)
      else if fails fl (RemoveFile p) then (Some (OSError (RemoveFile p)), d)
      else (None, d(p := None)))"

text \<open>
  Filling and closing a temporary file: a failed write or sync is followed by the close,
  whose own error counts only if there was none before.
\<close>

definition fill_temp :: "files \<Rightarrow> path \<Rightarrow> path \<Rightarrow> string \<Rightarrow> disk \<Rightarrow> file_error option \<times> disk" where
  "fill_temp fl target tmp data d =
     (let wrote = \<not> fails fl (WriteFile target);
          d1 = d(tmp \<mapsto> if wrote then data else written fl target data);
          err = (if \<not> wrote then Some (OSError (WriteFile target))
                 else if fails fl (SyncFile target) then Some (OSError (SyncFile target)) else None) in
      (case err of
         Some e \<Rightarrow> Some e
       | None \<Rightarrow> if fails fl (CloseFile target) then Some (OSError (CloseFile target)) else None, d1))"

text \<open>
  The replacement of a file through a temporary one in the same directory; \<open>before_rename\<close>
  is what the caller does between the complete temporary file and the rename, and \<open>wrap\<close>
  makes an error of the caller's type of a file error. The temporary file is removed on every way out, which does nothing after a rename.
\<close>

definition replace_file ::
    "files \<Rightarrow> (file_error \<Rightarrow> 'e) \<Rightarrow> path \<Rightarrow> string \<Rightarrow> (disk \<Rightarrow> 'e option \<times> disk) \<Rightarrow> disk
      \<Rightarrow> 'e option \<times> disk" where
  "replace_file fl wrap target data before_rename d =
     (if fails fl (CreateTemp target) then (Some (wrap (OSError (CreateTemp target))), d)
      else let tmp = tempName fl target in
      case fill_temp fl target tmp data (d(tmp \<mapsto> [])) of
        (Some e, d1) \<Rightarrow> (Some (wrap e), snd (removeFile fl d1 tmp))
      | (None, d1) \<Rightarrow>
        (case before_rename d1 of
           (Some e, d2) \<Rightarrow> (Some e, snd (removeFile fl d2 tmp))
         | (None, d2) \<Rightarrow>
           if fails fl (RenameTo target) 
           then (Some (wrap (OSError (RenameTo target))), snd (removeFile fl d2 tmp))
           else (None, snd (removeFile fl (d2(target := d2 tmp, tmp := None)) tmp))))"

definition writeAtomic :: "files \<Rightarrow> path \<Rightarrow> string \<Rightarrow> disk \<Rightarrow> file_error option \<times> disk" where
  "writeAtomic fl p data d =
     (if fails fl (MkdirAll p) then (Some (OSError (MkdirAll p)), d)
      else replace_file fl (\<lambda>e. e) p data (\<lambda>d1. (None, d1)) d)"

text \<open>\<^verbatim>\<open>os.CreateTemp\<close> draws a name that does not exist, so not that of a file in use.\<close>

definition fresh_temp :: "files \<Rightarrow> disk \<Rightarrow> path \<Rightarrow> bool" where
  "fresh_temp fl d p \<longleftrightarrow> tempName fl p \<noteq> p \<and> d (tempName fl p) = None"

lemma fill_temp_disk:
  "snd (fill_temp fl target tmp data d) =
     d(tmp \<mapsto> if fails fl (WriteFile target) then written fl target data else data)"
  by (simp add: fill_temp_def Let_def)

lemma fill_temp_ok: "fst (fill_temp fl target tmp data d) = None \<Longrightarrow> \<not> fails fl (WriteFile target)"
  by (auto simp: fill_temp_def Let_def split: if_splits option.splits)

lemma removeFile_other: "p \<noteq> q \<Longrightarrow> snd (removeFile fl d q) p = d p"
  by (simp add: removeFile_def)

text \<open>
  Replacement is all or nothing: after success the target holds the data, after a failure
  it holds what it held, and no other file changes except the temporary one.
\<close>

lemma writeAtomic_target:
  assumes "fresh_temp fl d p" and "writeAtomic fl p data d = (r, d')"
  shows "d' p = (if r = None then Some data else d p)"
proof -
  let ?tmp = "tempName fl p"
  have tmp: "?tmp \<noteq> p" using assms(1) by (simp add: fresh_temp_def)
  then have tmp': "p \<noteq> ?tmp" by simp
  obtain e d1 where f: "fill_temp fl p ?tmp data (d(?tmp \<mapsto> [])) = (e, d1)" by (metis surj_pair)
  have d1: "d1 = d(?tmp \<mapsto> if fails fl (WriteFile p) then written fl p data else data)"
    using fill_temp_disk [of fl p ?tmp data "d(?tmp \<mapsto> [])"] f by simp
  have ok: "e = None \<Longrightarrow> \<not> fails fl (WriteFile p)"
    using fill_temp_ok [of fl p ?tmp data "d(?tmp \<mapsto> [])"] f by simp
  show ?thesis
    using assms(2) tmp ok
    by (auto simp: writeAtomic_def replace_file_def Let_def f d1 removeFile_other [OF tmp']
             split: if_splits option.splits)
qed

lemma writeAtomic_others:
  assumes "writeAtomic fl p data d = (r, d')" and "q \<noteq> p" and "q \<noteq> tempName fl p"
  shows "d' q = d q"
proof -
  let ?tmp = "tempName fl p"
  obtain e d1 where f: "fill_temp fl p ?tmp data (d(?tmp \<mapsto> [])) = (e, d1)" by (metis surj_pair)
  have d1: "d1 = d(?tmp \<mapsto> if fails fl (WriteFile p) then written fl p data else data)"
    using fill_temp_disk [of fl p ?tmp data "d(?tmp \<mapsto> [])"] f by simp
  show ?thesis
    using assms
    by (auto simp: writeAtomic_def replace_file_def Let_def f d1 removeFile_other [OF assms(3)]
             split: if_splits option.splits)
qed

end
