(* ===== verification/SmartPresets.thy ===== *)
theory SmartPresets
  imports SmartRules SmartFiles
begin

text \<open>
  \<^verbatim>\<open>client/smart/presets.go\<close>: the signed catalog of services. An envelope is verified with
  the embedded Ed25519 key before its payload is decoded and checked; a verified payload
  replaces the catalog in use only if it does not go back in revision. \<^verbatim>\<open>policy_snapshot.go\<close>
  uses the same verification for the catalog pinned to a settings file.

  The answers of the HTTP client are an argument: what a GET of a URL delivers.
\<close>

definition presetEnvelopeSchema :: int where "presetEnvelopeSchema = 1"
definition presetPayloadSchema :: int where "presetPayloadSchema = 1"
definition presetMaxEnvelope :: nat where "presetMaxEnvelope = 512 * 1024"
definition presetMaxPayload :: nat where "presetMaxPayload = 384 * 1024"

definition presetPublicKeyB64 :: string where
  "presetPublicKeyB64 = ''s8yyOUUzCEhu17TizaGp9Ml/o9HvT9YM/bsACNF5T4s=''"

definition presetPublicKeyID :: string where
  "presetPublicKeyID = ''434f57314cd1ee6c''"

definition presetUpdateURLs :: "string list" where
  "presetUpdateURLs =
     [''https://raw.githubusercontent.com/average-vibecoding-enjoyer/pinus-smart-awg/main/presets/catalog.signed.json'',
      ''https://github.com/average-vibecoding-enjoyer/pinus-smart-awg/raw/refs/heads/main/presets/catalog.signed.json'']"

text \<open>The regular expression \<^verbatim>\<open>^[a-z0-9][a-z0-9-]{0,31}$\<close>.\<close>

definition preset_id_char :: "char \<Rightarrow> bool" where
  "preset_id_char c \<longleftrightarrow> (97 \<le> code c \<and> code c \<le> 122) \<or> is_digit c"

definition presetIDPattern :: "string \<Rightarrow> bool" where
  "presetIDPattern s \<longleftrightarrow>
     s \<noteq> [] \<and> length s \<le> 32 \<and> preset_id_char (hd s) \<and>
     list_all (\<lambda>c. preset_id_char c \<or> c = CHR ''-'') (tl s)"

definition presetPublicKey :: "smart_env \<Rightarrow> smart_error + byte list" where
  "presetPublicKey E =
     (case DecodeBase64 presetPublicKeyB64 of
        None \<Rightarrow> Inl InvalidEmbeddedKey
      | Some key \<Rightarrow>
        if length key \<noteq> 32 then Inl InvalidEmbeddedKey
        else if EncodeHex (take 8 (sha256 E key)) \<noteq> presetPublicKeyID then Inl EmbeddedKeyMismatch
        else Inr key)"

subsection \<open>The payload\<close>

text \<open>\<^verbatim>\<open>utf8.ValidString\<close>: an ill-formed byte decodes to U+FFFD with width 1.\<close>

function ValidString :: "string \<Rightarrow> bool" where
  "ValidString [] = True"
| "ValidString (c # s) =
     (DecodeRune (c # s) \<noteq> (RuneError, 1) \<and> ValidString (drop (snd (DecodeRune (c # s))) (c # s)))"
  by pat_completeness auto
termination
  by (relation "measure length") (auto intro!: diff_less dest: DecodeRune_width)

declare ValidString.simps(2) [simp del]

definition IsControl :: "rune \<Rightarrow> bool" where
  "IsControl r \<longleftrightarrow> r < 32 \<or> 127 \<le> r \<and> r < 160"

definition validatePresetText :: "string \<Rightarrow> nat \<Rightarrow> nat \<Rightarrow> smart_error option" where
  "validatePresetText value minRunes maxRunes =
     (if value \<noteq> TrimSpace value \<or> \<not> ValidString value then Some NotNormalizedText
      else if list_ex IsControl (runes value) then Some ControlCharacter
      else if length (runes value) < minRunes \<or> length (runes value) > maxRunes then Some TextLength
      else None)"

definition blocked_processes :: "string list" where
  "blocked_processes =
     [''csrss.exe'', ''lsass.exe'', ''services.exe'', ''smss.exe'', ''svchost.exe'', ''wininit.exe'',
      ''winlogon.exe'']"

definition process_forbidden :: string where
  "process_forbidden = [CHR 0x5C] @ ''/:*?'' @ [CHR 0x22] @ ''<>|''"

fun validate_processes :: "smart_env \<Rightarrow> string list \<Rightarrow> string list \<Rightarrow> smart_error option" where
  "validate_processes E seen [] = None"
| "validate_processes E seen (value # values) =
     (let lower = ToLower (case_lower E) value in
      if value \<noteq> TrimSpace value \<or> length value > 128 \<or> ContainsAny value process_forbidden
         \<or> Base value \<noteq> value \<or> \<not> HasSuffix lower ''.exe'' \<or> lower \<in> set blocked_processes
         \<or> lower \<in> set seen
      then Some (UnsafeProcess value)
      else validate_processes E (lower # seen) values)"

definition validatePresetProcesses :: "smart_env \<Rightarrow> string list \<Rightarrow> smart_error option" where
  "validatePresetProcesses E values = validate_processes E [] values"

fun validate_domains :: "smart_env \<Rightarrow> bool \<Rightarrow> string list \<Rightarrow> string list \<Rightarrow> smart_error option" where
  "validate_domains E suffix seen [] = None"
| "validate_domains E suffix seen (value # values) =
     (if suffix \<and> \<not> HasPrefix value ''.'' then Some (SuffixWithoutDot value)
      else
        let normalizedValue = (if suffix then TrimPrefix value ''.'' else value) in
        if normalizeDomain E normalizedValue \<noteq> Inr normalizedValue \<or> value \<in> set seen
        then Some (BadPresetDomain value)
        else validate_domains E suffix (value # seen) values)"

definition validatePresetDomains :: "smart_env \<Rightarrow> string list \<Rightarrow> bool \<Rightarrow> smart_error option" where
  "validatePresetDomains E values suffix = validate_domains E suffix [] values"

text \<open>One service of a payload: the identifiers seen and the entries counted so far.\<close>

definition entry_count :: "Service \<Rightarrow> nat" where
  "entry_count s = length (ProcessNames s) + length (Domains s) + length (DomainSuffixes s)"

definition validate_service ::
    "smart_env \<Rightarrow> nat \<Rightarrow> Service \<Rightarrow> string list \<Rightarrow> nat \<Rightarrow> smart_error option" where
  "validate_service E index s seenIDs totalEntries =
     (if \<not> presetIDPattern (ServiceID s) \<or> ServiceID s \<in> set seenIDs then Some (ServiceIDError (index + 1))
      else case validatePresetText (ServiceName s) 1 64 of
        Some e \<Rightarrow> Some (ServiceText (ServiceID s) e)
      | None \<Rightarrow>
        (case validatePresetText (Description s) 1 160 of
           Some e \<Rightarrow> Some (ServiceText (ServiceID s) e)
         | None \<Rightarrow>
           if length (ProcessNames s) > 64 \<or> length (Domains s) > 256 \<or> length (DomainSuffixes s) > 256
           then Some (TooManyEntries (ServiceID s))
           else if totalEntries + entry_count s > 4096 \<or> entry_count s = 0 then Some EntryCount
           else case validatePresetProcesses E (ProcessNames s) of
             Some e \<Rightarrow> Some (ServiceProcesses (ServiceID s) e)
           | None \<Rightarrow>
             (case validatePresetDomains E (Domains s) False of
                Some e \<Rightarrow> Some (ServiceDomains (ServiceID s) e)
              | None \<Rightarrow>
                map_option (ServiceDomains (ServiceID s))
                  (validatePresetDomains E (DomainSuffixes s) True))))"

fun validate_services ::
    "smart_env \<Rightarrow> nat \<Rightarrow> string list \<Rightarrow> nat \<Rightarrow> Service list \<Rightarrow> smart_error option" where
  "validate_services E index seenIDs totalEntries [] = None"
| "validate_services E index seenIDs totalEntries (s # ss) =
     (case validate_service E index s seenIDs totalEntries of
        Some e \<Rightarrow> Some e
      | None \<Rightarrow> validate_services E (index + 1) (ServiceID s # seenIDs) (totalEntries + entry_count s) ss)"

definition day :: time where
  "day = 24 * 60 * 60 * 1000000000"

definition ValidatePresetPayload :: "smart_env \<Rightarrow> byte list \<Rightarrow> time \<Rightarrow> smart_error + PresetPayload" where
  "ValidatePresetPayload E data now =
     (if length data = 0 \<or> length data > presetMaxPayload then Inl PayloadSize
      else case decode_payload E data of
        None \<Rightarrow> Inl PayloadJSON
      | Some payload \<Rightarrow>
        if PayloadSchema payload \<noteq> presetPayloadSchema then Inl UnsupportedSchema
        else if PayloadRevision payload < builtinCatalogRevision then Inl RevisionBelowFloor
        else if Published payload = 0 \<or> Published payload > now + day then Inl PublicationTime
        else if length (PayloadServices payload) = 0 \<or> length (PayloadServices payload) > 64
        then Inl ServiceCount
        else case validate_services E 0 [] 0 (PayloadServices payload) of
          Some e \<Rightarrow> Inl e
        | None \<Rightarrow>
          (case find (\<lambda>s. ServiceID s \<notin> set (map ServiceID (PayloadServices payload))) builtinServiceCatalog of
             Some s \<Rightarrow> Inl (MissingBuiltin (ServiceID s))
           | None \<Rightarrow> Inr payload))"

definition verifyPresetEnvelope ::
    "smart_env \<Rightarrow> string \<Rightarrow> byte list \<Rightarrow> string \<Rightarrow> time \<Rightarrow> smart_error + PresetPayload" where
  "verifyPresetEnvelope E data publicKey keyID now =
     (if length data = 0 \<or> length data > presetMaxEnvelope then Inl EnvelopeSize
      else case decode_envelope E data of
        None \<Rightarrow> Inl EnvelopeJSON
      | Some envelope \<Rightarrow>
        if EnvelopeSchema envelope \<noteq> presetEnvelopeSchema \<or> KeyID envelope \<noteq> keyID
        then Inl EnvelopeMismatch
        else case DecodeBase64 (Payload envelope) of
          None \<Rightarrow> Inl PayloadEncoding
        | Some payloadBytes \<Rightarrow>
          if length payloadBytes = 0 \<or> length payloadBytes > presetMaxPayload then Inl PayloadEncoding
          else case DecodeBase64 (Signature envelope) of
            None \<Rightarrow> Inl SignatureEncoding
          | Some signature \<Rightarrow>
            if length signature \<noteq> 64 then Inl SignatureEncoding
            else if \<not> ed25519_Verify E publicKey payloadBytes signature then Inl SignatureFailed
            else ValidatePresetPayload E payloadBytes now)"

definition presetEnvelopeDigest :: "smart_env \<Rightarrow> string \<Rightarrow> string" where
  "presetEnvelopeDigest E data =
     (case unmarshal_envelope E data of
        None \<Rightarrow> []
      | Some envelope \<Rightarrow>
        (case DecodeBase64 (Payload envelope) of
           None \<Rightarrow> [] | Some payload \<Rightarrow> EncodeHex (sha256 E payload)))"

subsection \<open>The catalog of a settings file\<close>

definition verifiedSettingsCatalog :: "smart_env \<Rightarrow> string \<Rightarrow> smart_error + Service list" where
  "verifiedSettingsCatalog E envelope =
     (if length envelope = 0 then Inr BuiltinServiceCatalog
      else rbind (presetPublicKey E) (\<lambda>key.
           rbind (verifyPresetEnvelope E envelope key presetPublicKeyID (Now E)) (\<lambda>payload.
           Inr (cloneServices (PayloadServices payload)))))"

subsection \<open>Loading and updating the catalog in use\<close>

datatype response =
    RequestError
  | Response nat string bool

datatype update_error =
    FetchFailed string
  | HTTPStatus string nat
  | ReadFailed string
  | ResponseTooLarge
  | VerifyFailed smart_error
  | Rollback uint64 uint64
  | RevisionReused uint64
  | CacheFailed file_error
  | NoURL
  | CacheReadFailed file_error

record preset_store =
  catalog :: catalog_state
  disk :: disk

text \<open>
  \<^verbatim>\<open>LoadCachedServiceCatalog\<close>: a deferred call records every error on the way out. The text
  of an error is the argument \<open>message\<close>.
\<close>

definition cached_payload ::
    "smart_env \<Rightarrow> files \<Rightarrow> path \<Rightarrow> preset_store \<Rightarrow> update_error + (PresetPayload \<times> string) option" where
  "cached_payload E fl cachePath st =
     (case readFile fl (disk st) cachePath of
        Inl NotExist \<Rightarrow> Inr None
      | Inl e \<Rightarrow> Inl (CacheReadFailed e)
      | Inr data \<Rightarrow>
        (case presetPublicKey E of
           Inl e \<Rightarrow> Inl (VerifyFailed e)
         | Inr publicKey \<Rightarrow>
           (case verifyPresetEnvelope E data publicKey presetPublicKeyID (Now E) of
              Inl e \<Rightarrow> Inl (VerifyFailed e)
            | Inr payload \<Rightarrow>
              let current = ServiceCatalogStatus (catalog st);
                  incomingDigest = presetEnvelopeDigest E data in
              if PayloadRevision payload < Revision current
              then Inl (Rollback (Revision current) (PayloadRevision payload))
              else if PayloadRevision payload = Revision current \<and> Digest current \<noteq> []
                      \<and> incomingDigest \<noteq> Digest current
              then Inl (RevisionReused (PayloadRevision payload))
              else Inr (Some (payload, incomingDigest)))))"

definition LoadCachedServiceCatalog ::
    "smart_env \<Rightarrow> files \<Rightarrow> path \<Rightarrow> (update_error list \<Rightarrow> string) \<Rightarrow> preset_store
      \<Rightarrow> update_error option \<times> preset_store" where
  "LoadCachedServiceCatalog E fl cachePath message st =
     (case cached_payload E fl cachePath st of
        Inl e \<Rightarrow>
          (Some e, st\<lparr>catalog := recordServiceCatalogCheck (Now E) (Some (message [e])) (catalog st)\<rparr>)
      | Inr None \<Rightarrow> (None, st)
      | Inr (Some (payload, incomingDigest)) \<Rightarrow>
          (None, st\<lparr>catalog := applyServiceCatalog (PayloadServices payload)
             \<lparr>Revision = PayloadRevision payload, Source = ''verified cache'', Digest = incomingDigest,
              PublishedAt = Published payload, LastChecked = 0, LastError = None\<rparr> (catalog st)\<rparr>))"

definition writePresetCache :: "files \<Rightarrow> path \<Rightarrow> string \<Rightarrow> disk \<Rightarrow> file_error option \<times> disk" where
  "writePresetCache fl cachePath data d =
     (if fails fl (MkdirAll cachePath) then (Some (OSError (MkdirAll cachePath)), d)
      else replace_file fl (\<lambda>e. e) cachePath data (\<lambda>d1. (None, d1)) d)"

text \<open>
  The body of a response is read up to one byte more than the limit. A status other than
  200 and a failed read are errors of this URL; the loop then tries the next one.
\<close>

definition fetch :: "(string \<Rightarrow> response) \<Rightarrow> string \<Rightarrow> update_error + string" where
  "fetch get u =
     (case get u of
        RequestError \<Rightarrow> Inl (FetchFailed u)
      | Response statusCode body readOK \<Rightarrow>
        if statusCode \<noteq> 200 then Inl (HTTPStatus u statusCode)
        else if \<not> readOK then Inl (ReadFailed u)
        else if length (take (presetMaxEnvelope + 1) body) > presetMaxEnvelope then Inl ResponseTooLarge
        else Inr (take (presetMaxEnvelope + 1) body))"

text \<open>One URL: go on with an error, or end the update (\<open>True\<close>: a new catalog is in use).\<close>

definition try_url ::
    "smart_env \<Rightarrow> files \<Rightarrow> path \<Rightarrow> (string \<Rightarrow> response) \<Rightarrow> byte list \<Rightarrow> string \<Rightarrow> time \<Rightarrow> string \<Rightarrow> preset_store
      \<Rightarrow> (update_error + bool) \<times> preset_store" where
  "try_url E fl cachePath get publicKey keyID now u st =
     (case fetch get u of
        Inl e \<Rightarrow> (Inl e, st)
      | Inr data \<Rightarrow>
        (case verifyPresetEnvelope E data publicKey keyID now of
           Inl e \<Rightarrow> (Inl (VerifyFailed e), st)
         | Inr payload \<Rightarrow>
           let current = ServiceCatalogStatus (catalog st);
               incomingDigest = presetEnvelopeDigest E data in
           if PayloadRevision payload < Revision current
           then (Inl (Rollback (Revision current) (PayloadRevision payload)), st)
           else if PayloadRevision payload = Revision current then
             (if Digest current \<noteq> [] \<and> incomingDigest \<noteq> Digest current
              then (Inl (RevisionReused (PayloadRevision payload)), st)
              else (Inr False, st\<lparr>catalog := recordServiceCatalogCheck now None (catalog st)\<rparr>))
           else case writePresetCache fl cachePath data (disk st) of
             (Some e, d) \<Rightarrow> (Inl (CacheFailed e), st\<lparr>disk := d\<rparr>)
           | (None, d) \<Rightarrow>
             (Inr True, \<lparr>catalog = applyServiceCatalog (PayloadServices payload)
                \<lparr>Revision = PayloadRevision payload, Source = ''signed update'', Digest = incomingDigest,
                 PublishedAt = Published payload, LastChecked = now, LastError = None\<rparr> (catalog st),
               disk = d\<rparr>)))"

fun try_urls ::
    "smart_env \<Rightarrow> files \<Rightarrow> path \<Rightarrow> (string \<Rightarrow> response) \<Rightarrow> byte list \<Rightarrow> string \<Rightarrow> time
      \<Rightarrow> update_error list \<Rightarrow> string list \<Rightarrow> preset_store \<Rightarrow> (update_error list + bool) \<times> preset_store" where
  "try_urls E fl cachePath get publicKey keyID now errs [] st =
     (Inl (if errs = [] then [NoURL] else errs), st)"
| "try_urls E fl cachePath get publicKey keyID now errs (u # urls) st =
     (case try_url E fl cachePath get publicKey keyID now u st of
        (Inl e, st') \<Rightarrow> try_urls E fl cachePath get publicKey keyID now (errs @ [e]) urls st'
      | (Inr updated, st') \<Rightarrow> (Inr updated, st'))"

definition updateServiceCatalog ::
    "smart_env \<Rightarrow> files \<Rightarrow> path \<Rightarrow> (string \<Rightarrow> response) \<Rightarrow> (update_error list \<Rightarrow> string) \<Rightarrow> string list
      \<Rightarrow> byte list \<Rightarrow> string \<Rightarrow> time \<Rightarrow> preset_store \<Rightarrow> (update_error list + bool) \<times> preset_store" where
  "updateServiceCatalog E fl cachePath get message urls publicKey keyID now st =
     (case try_urls E fl cachePath get publicKey keyID now [] urls st of
        (Inl errs, st') \<Rightarrow>
          (Inl errs, st'\<lparr>catalog := recordServiceCatalogCheck now (Some (message errs)) (catalog st')\<rparr>)
      | (Inr updated, st') \<Rightarrow> (Inr updated, st'))"

definition UpdateServiceCatalog ::
    "smart_env \<Rightarrow> files \<Rightarrow> path \<Rightarrow> (string \<Rightarrow> response) \<Rightarrow> (update_error list \<Rightarrow> string) \<Rightarrow> preset_store
      \<Rightarrow> (update_error list + bool) \<times> preset_store" where
  "UpdateServiceCatalog E fl cachePath get message st =
     (case presetPublicKey E of
        Inl e \<Rightarrow>
          (Inl [VerifyFailed e],
           st\<lparr>catalog := recordServiceCatalogCheck (Now E) (Some (message [VerifyFailed e])) (catalog st)\<rparr>)
      | Inr publicKey \<Rightarrow>
          updateServiceCatalog E fl cachePath get message presetUpdateURLs publicKey presetPublicKeyID (Now E) st)"

end
