(* ===== verification/SmartSettings.thy ===== *)
theory SmartSettings
  imports SmartPresets
begin

text \<open>
  \<^verbatim>\<open>client/smart/settings.go\<close> from \<^verbatim>\<open>RoutingSettings\<close> on, the service switches of
  \<^verbatim>\<open>regional.go\<close>, \<^verbatim>\<open>policy_snapshot.go\<close> and \<^verbatim>\<open>history.go\<close>: what a user has chosen, how it is
  normalised, and how it is kept on disk with its history.

  A nil map reads like an empty one, so \<^verbatim>\<open>ServiceRoutes\<close> is a partial map to partial maps; a
  nil \<^verbatim>\<open>SelectedApps\<close> is \<open>None\<close>, because the migration of version 0 asks for it. The JSON
  text of a settings record and of a history, in both directions, is the record
  \<open>settings_json\<close>.
\<close>

definition settingsVersion :: int where "settingsVersion = 5"
definition MaxSettingsSize :: nat where "MaxSettingsSize = 1024 * 1024"

definition legacyDefaultServiceIDs :: "string list" where
  "legacyDefaultServiceIDs = [''discord'', ''youtube'', ''telegram'', ''instagram'']"

record RoutingSettings =
  ServiceRoutes :: "Mode \<Rightarrow> (string \<Rightarrow> bool option) option"
  CatalogEnvelope :: string
  FallbackProfiles :: "string list"
  Protection :: string
  Version :: int
  SettingsMode :: Mode
  SelectedApps :: "string list option"
  CustomRules :: "CustomRule list"

definition HasEnabledCustomRules :: "RoutingSettings \<Rightarrow> bool" where
  "HasEnabledCustomRules s \<longleftrightarrow> list_ex Enabled (CustomRules s)"

definition DefaultSettings :: "catalog_state \<Rightarrow> RoutingSettings" where
  "DefaultSettings c =
     \<lparr>ServiceRoutes = (\<lambda>_. None), CatalogEnvelope = [], FallbackProfiles = [], Protection = [],
      Version = settingsVersion, SettingsMode = ModeAll, SelectedApps = Some (DefaultServiceIDs c),
      CustomRules = []\<rparr>"

definition selectedExactlyMatches :: "smart_env \<Rightarrow> string list \<Rightarrow> string list \<Rightarrow> bool" where
  "selectedExactlyMatches E values expected \<longleftrightarrow>
     (let seen = map (\<lambda>v. ToLower (case_lower E) (TrimSpace v)) values in
      list_all (\<lambda>v. v \<in> set expected) seen \<and> length (remdups seen) = length (remdups expected))"

text \<open>The loops of \<^verbatim>\<open>Normalized\<close> over the selected services and over the rules.\<close>

fun select_known :: "smart_env \<Rightarrow> string list \<Rightarrow> string list \<Rightarrow> string list \<Rightarrow> string list" where
  "select_known E known selected [] = selected"
| "select_known E known selected (i # ids) =
     (let i' = ToLower (case_lower E) (TrimSpace i) in
      select_known E known
        (if i' \<in> set known \<and> i' \<notin> set selected then selected @ [i'] else selected) ids)"

fun normalize_rules :: "smart_env \<Rightarrow> nat \<Rightarrow> string list \<Rightarrow> CustomRule list \<Rightarrow> smart_error + CustomRule list" where
  "normalize_rules E i ids [] = Inr []"
| "normalize_rules E i ids (rule # rules) =
     (case rule_normalized E i rule of
        Inl e \<Rightarrow> Inl (RuleFailed (i + 1) e)
      | Inr n \<Rightarrow>
        let n' = (if RuleID n \<in> set ids then n\<lparr>RuleID := RuleID n @ ''-'' @ dec (i + 1)\<rparr> else n) in
        rbind (normalize_rules E (i + 1) (RuleID n' # ids) rules) (\<lambda>ns. Inr (n' # ns)))"

text \<open>The migration of older versions, before the catalog is consulted.\<close>

definition migrate_selected :: "smart_env \<Rightarrow> catalog_state \<Rightarrow> RoutingSettings \<Rightarrow> string list option" where
  "migrate_selected E c s =
     (let legacyMode = (SettingsMode s = ModeSocial \<or> SettingsMode s = ModeNative);
          apps = (if Version s = 0 \<and> (SelectedApps s = None \<or> legacyMode)
                  then Some (DefaultServiceIDs c) else SelectedApps s);
          values = (case apps of Some xs \<Rightarrow> xs | None \<Rightarrow> []) in
      if Version s > 0 \<and> Version s < settingsVersion
         \<and> selectedExactlyMatches E values legacyDefaultServiceIDs
      then Some (values @ [AIServiceID]) else apps)"

definition Normalized :: "smart_env \<Rightarrow> catalog_state \<Rightarrow> RoutingSettings \<Rightarrow> smart_error + RoutingSettings" where
  "Normalized E c s =
     (if Version s > settingsVersion then Inl UnsupportedVersion
      else if Protection s \<noteq> [] \<and> Protection s \<noteq> ''all'' then Inl UnknownProtection
      else if length (FallbackProfiles s) > 8 then Inl TooManyFallbacks
      else if \<not> list_all TunnelNameIsValid (FallbackProfiles s) then Inl BadFallbackName
      else
        let apps = migrate_selected E c s in
        case verifiedSettingsCatalog E (CatalogEnvelope s) of
          Inl e \<Rightarrow> Inl e
        | Inr cat \<Rightarrow>
          let selected = select_known E (map ServiceID cat) [] (case apps of Some xs \<Rightarrow> xs | None \<Rightarrow> []) in
          rbind (normalize_rules E 0 [] (CustomRules s)) (\<lambda>rules.
          Inr (s\<lparr>SettingsMode := NormalizeMode E (SettingsMode s), Version := settingsVersion,
                 SelectedApps := Some selected, CustomRules := rules\<rparr>)))"

subsection \<open>Switching services\<close>

definition SelectedServices :: "smart_env \<Rightarrow> RoutingSettings \<Rightarrow> Service list" where
  "SelectedServices E s =
     (case verifiedSettingsCatalog E (CatalogEnvelope s) of
        Inl e \<Rightarrow> []
      | Inr cat \<Rightarrow>
        filter (\<lambda>v. ServiceID v \<in> set (case SelectedApps s of Some xs \<Rightarrow> xs | None \<Rightarrow> [])) cat)"

definition VisibleServicesForSettings :: "smart_env \<Rightarrow> RoutingSettings \<Rightarrow> Service list" where
  "VisibleServicesForSettings E s =
     (if NormalizeMode E (SettingsMode s) = ModeAll then RegionalServices
      else case verifiedSettingsCatalog E (CatalogEnvelope s) of
        Inl e \<Rightarrow> RegionalServices | Inr cat \<Rightarrow> cat @ RegionalServices)"

definition VisibleServices :: "smart_env \<Rightarrow> catalog_state \<Rightarrow> Mode \<Rightarrow> Service list" where
  "VisibleServices E c mode =
     (if NormalizeMode E mode = ModeAll then RegionalServices else ServiceCatalog c @ RegionalServices)"

definition ServiceUsesVPN :: "smart_env \<Rightarrow> RoutingSettings \<Rightarrow> string \<Rightarrow> bool" where
  "ServiceUsesVPN E s i =
     (if IsRegionalService i then
        (let mode = NormalizeMode E (SettingsMode s) in
         case Option.bind (ServiceRoutes s mode) (\<lambda>values. values i) of
           Some enabled \<Rightarrow> enabled | None \<Rightarrow> mode = ModeAll)
      else if NormalizeMode E (SettingsMode s) = ModeAll then True
      else i \<in> set (case SelectedApps s of Some xs \<Rightarrow> xs | None \<Rightarrow> []))"

definition WithServiceVPN :: "smart_env \<Rightarrow> RoutingSettings \<Rightarrow> string \<Rightarrow> bool \<Rightarrow> RoutingSettings" where
  "WithServiceVPN E s i enabled =
     (let mode = NormalizeMode E (SettingsMode s);
          values = (case ServiceRoutes s mode of Some v \<Rightarrow> v | None \<Rightarrow> (\<lambda>_. None)) in
      s\<lparr>ServiceRoutes := (ServiceRoutes s)(mode \<mapsto> values(i \<mapsto> enabled))\<rparr>)"

definition HasDirectServiceExceptions :: "smart_env \<Rightarrow> RoutingSettings \<Rightarrow> bool" where
  "HasDirectServiceExceptions E s =
     (if NormalizeMode E (SettingsMode s) \<noteq> ModeAll then False
      else \<not> ServiceUsesVPN E s VKServiceID \<or> \<not> ServiceUsesVPN E s RussianServiceID)"

text \<open>\<^verbatim>\<open>CaptureCatalog\<close> pins the cached envelope, once verified, to the settings.\<close>

datatype capture_error = CaptureRead file_error | CaptureVerify smart_error

definition CaptureCatalog ::
    "smart_env \<Rightarrow> files \<Rightarrow> path \<Rightarrow> disk \<Rightarrow> RoutingSettings \<Rightarrow> capture_error + RoutingSettings" where
  "CaptureCatalog E fl cachePath d s =
     (case readFile fl d cachePath of
        Inl NotExist \<Rightarrow> Inr (s\<lparr>CatalogEnvelope := []\<rparr>)
      | Inl e \<Rightarrow> Inl (CaptureRead e)
      | Inr data \<Rightarrow>
        (case verifiedSettingsCatalog E data of
           Inl e \<Rightarrow> Inl (CaptureVerify e)
         | Inr _ \<Rightarrow> Inr (s\<lparr>CatalogEnvelope := data\<rparr>)))"

subsection \<open>File names\<close>

definition stem_rune :: "rune \<Rightarrow> rune" where
  "stem_rune r =
     (if 97 \<le> r \<and> r \<le> 122 \<or> 65 \<le> r \<and> r \<le> 90 \<or> 48 \<le> r \<and> r \<le> 57 \<or> r = 95 \<or> r = 45 \<or> r = 46
      then r else 95)"

definition legacyTunnelFileStem :: "string \<Rightarrow> string" where
  "legacyTunnelFileStem tunnelName = MapRunes stem_rune tunnelName"

definition SafeTunnelFileStem :: "smart_env \<Rightarrow> string \<Rightarrow> string" where
  "SafeTunnelFileStem E tunnelName =
     (let safe1 = Trim (legacyTunnelFileStem (TrimSpace tunnelName)) ''._-'';
          safe2 = (if safe1 = [] then ''profile'' else safe1);
          safe = (if length safe2 > 48 then take 48 safe2 else safe2) in
      safe @ ''-'' @ EncodeHex (take 6 (sha256 E (map (\<lambda>c. to_byte (code c)) tunnelName))))"

text \<open>The directory of the user's settings is the argument \<open>dir\<close>.\<close>

definition settingsPath :: "smart_env \<Rightarrow> path \<Rightarrow> string \<Rightarrow> path" where
  "settingsPath E dir tunnelName =
     JoinPath E [dir, ''tunnels'', SafeTunnelFileStem E tunnelName @ ''.json'']"

definition legacySettingsPath :: "smart_env \<Rightarrow> path \<Rightarrow> string \<Rightarrow> path" where
  "legacySettingsPath E dir tunnelName =
     JoinPath E [dir, ''tunnels'', legacyTunnelFileStem tunnelName @ ''.json'']"

definition historyPath :: "smart_env \<Rightarrow> path \<Rightarrow> string \<Rightarrow> path" where
  "historyPath E dir name = settingsPath E dir name @ ''.history.json''"

subsection \<open>Settings on disk\<close>

record SettingsRevision =
  At :: time
  Reason :: string
  Settings :: RoutingSettings

definition beforeChange :: string where
  "beforeChange = utf8 [1044, 1086, 32, 1080, 1079, 1084, 1077, 1085, 1077, 1085, 1080, 1103, 32, 1085,
     1072, 1089, 1090, 1088, 1086, 1077, 1082]"

record settings_json =
  unmarshal_settings :: "string \<Rightarrow> RoutingSettings option"
  unmarshal_version :: "string \<Rightarrow> int option"
  marshal_settings :: "RoutingSettings \<Rightarrow> string option"
  marshal_indent :: "RoutingSettings \<Rightarrow> string option"
  unmarshal_history :: "string \<Rightarrow> SettingsRevision list option"
  marshal_history :: "SettingsRevision list \<Rightarrow> string option"

datatype settings_error =
    SettingsFile file_error
  | SettingsInvalid smart_error
  | HistoryTooLarge
  | HistoryJSON
  | MarshalFailed
  | RevisionNotFound

definition ParseSettingsPayload ::
    "smart_env \<Rightarrow> settings_json \<Rightarrow> catalog_state \<Rightarrow> string \<Rightarrow> smart_error + RoutingSettings" where
  "ParseSettingsPayload E J c raw0 =
     (if length raw0 > MaxSettingsSize then Inl SettingsTooLarge
      else
        let raw = TrimSpace raw0 in
        if raw = [] \<or> \<not> HasPrefix raw ''{'' then
          Normalized E c ((DefaultSettings c)\<lparr>SettingsMode := NormalizeMode E raw\<rparr>)
        else case unmarshal_settings J raw of
          None \<Rightarrow> Inl SettingsJSON
        | Some s \<Rightarrow> Normalized E c s)"

definition SettingsPayload ::
    "smart_env \<Rightarrow> settings_json \<Rightarrow> catalog_state \<Rightarrow> RoutingSettings \<Rightarrow> settings_error + string" where
  "SettingsPayload E J c s =
     (case Normalized E c s of
        Inl e \<Rightarrow> Inl (SettingsInvalid e)
      | Inr normalized \<Rightarrow>
        (case marshal_settings J normalized of
           None \<Rightarrow> Inl MarshalFailed
         | Some data \<Rightarrow>
           if length data > MaxSettingsSize then Inl (SettingsInvalid SettingsTooLarge) else Inr data))"

definition historyLimit :: nat where "historyLimit = 13 * 1024 * 1024"

definition LoadSettingsHistory ::
    "smart_env \<Rightarrow> settings_json \<Rightarrow> files \<Rightarrow> path \<Rightarrow> disk \<Rightarrow> string \<Rightarrow> settings_error + SettingsRevision list" where
  "LoadSettingsHistory E J fl dir d name =
     (case readLimitedFile fl d (historyPath E dir name) historyLimit of
        Inl NotExist \<Rightarrow> Inr []
      | Inl e \<Rightarrow> Inl (SettingsFile e)
      | Inr data \<Rightarrow>
        if length data > historyLimit then Inl HistoryTooLarge
        else case unmarshal_history J data of None \<Rightarrow> Inl HistoryJSON | Some h \<Rightarrow> Inr h)"

text \<open>The last twelve elements, \<^verbatim>\<open>history[len(history)-12:]\<close>.\<close>

definition keep_last :: "nat \<Rightarrow> 'a list \<Rightarrow> 'a list" where
  "keep_last n xs = (if length xs > n then drop (length xs - n) xs else xs)"

definition recordPreviousSettings ::
    "smart_env \<Rightarrow> settings_json \<Rightarrow> files \<Rightarrow> path \<Rightarrow> catalog_state \<Rightarrow> string \<Rightarrow> disk
      \<Rightarrow> settings_error option \<times> disk" where
  "recordPreviousSettings E J fl dir c name d =
     (case readLimitedFile fl d (settingsPath E dir name) MaxSettingsSize of
        Inl NotExist \<Rightarrow> (None, d)
      | Inl e \<Rightarrow> (Some (SettingsFile e), d)
      | Inr data \<Rightarrow>
        (case ParseSettingsPayload E J c data of
           Inl e \<Rightarrow> (Some (SettingsInvalid e), d)
         | Inr previous \<Rightarrow>
           (case LoadSettingsHistory E J fl dir d name of
              Inl e \<Rightarrow> (Some e, d)
            | Inr history \<Rightarrow>
              (case marshal_history J (keep_last 12 (history @ [\<lparr>At = Now E, Reason = beforeChange, Settings = previous\<rparr>])) of
                 None \<Rightarrow> (Some MarshalFailed, d)
               | Some out \<Rightarrow>
                 (case writeAtomic fl (historyPath E dir name) out d of
                    (r, d') \<Rightarrow> (map_option SettingsFile r, d'))))))"

definition newline :: string where "newline = [CHR 0x0A]"

definition SaveSettings ::
    "smart_env \<Rightarrow> settings_json \<Rightarrow> files \<Rightarrow> path \<Rightarrow> catalog_state \<Rightarrow> string \<Rightarrow> RoutingSettings \<Rightarrow> disk
      \<Rightarrow> settings_error option \<times> disk" where
  "SaveSettings E J fl dir c tunnelName s d =
     (case Normalized E c s of
        Inl e \<Rightarrow> (Some (SettingsInvalid e), d)
      | Inr normalized \<Rightarrow>
        let p = settingsPath E dir tunnelName in
        if fails fl (MkdirAll p) then (Some (SettingsFile (OSError (MkdirAll p))), d)
        else case marshal_indent J normalized of
          None \<Rightarrow> (Some MarshalFailed, d)
        | Some data \<Rightarrow>
          if length data \<ge> MaxSettingsSize then (Some (SettingsInvalid SettingsTooLarge), d)
          else replace_file fl SettingsFile p (data @ newline)
                 (recordPreviousSettings E J fl dir c tunnelName) d)"

definition LoadSettings ::
    "smart_env \<Rightarrow> settings_json \<Rightarrow> files \<Rightarrow> path \<Rightarrow> catalog_state \<Rightarrow> string \<Rightarrow> disk
      \<Rightarrow> (settings_error + RoutingSettings) \<times> disk" where
  "LoadSettings E J fl dir c tunnelName d =
     (let p = settingsPath E dir tunnelName;
          legacy = legacySettingsPath E dir tunnelName;
          first = readLimitedFile fl d p MaxSettingsSize;
          tryLegacy = (first = Inl NotExist \<and> legacy \<noteq> p);
          result = (if tryLegacy then readLimitedFile fl d legacy MaxSettingsSize else first);
          loadedLegacy = (tryLegacy \<and> (case result of Inr _ \<Rightarrow> True | Inl _ \<Rightarrow> False)) in
      case result of
        Inl NotExist \<Rightarrow> (Inr (DefaultSettings c), d)
      | Inl e \<Rightarrow> (Inl (SettingsFile e), d)
      | Inr data \<Rightarrow>
        let storedVersion = (case unmarshal_version J data of Some v \<Rightarrow> v | None \<Rightarrow> 0) in
        case ParseSettingsPayload E J c data of
          Inl e \<Rightarrow> (Inl (SettingsInvalid e), d)
        | Inr s \<Rightarrow>
          if loadedLegacy \<or> storedVersion \<noteq> Version s then
            (case SaveSettings E J fl dir c tunnelName s d of
               (None, d1) \<Rightarrow> (Inr s, if loadedLegacy then snd (removeFile fl d1 legacy) else d1)
             | (Some e, d1) \<Rightarrow> (Inr s, d1))
          else (Inr s, d))"

definition RestoreSettingsRevision ::
    "smart_env \<Rightarrow> settings_json \<Rightarrow> files \<Rightarrow> path \<Rightarrow> catalog_state \<Rightarrow> string \<Rightarrow> int \<Rightarrow> disk
      \<Rightarrow> settings_error option \<times> disk" where
  "RestoreSettingsRevision E J fl dir c name index d =
     (case LoadSettingsHistory E J fl dir d name of
        Inl e \<Rightarrow> (Some e, d)
      | Inr history \<Rightarrow>
        if index < 0 \<or> index \<ge> int (length history) then (Some RevisionNotFound, d)
        else SaveSettings E J fl dir c name (Settings (history ! nat index)) d)"

text \<open>\<^verbatim>\<open>DeleteSettings\<close> removes both files and joins the errors other than absence.\<close>

definition remove_present :: "files \<Rightarrow> path \<Rightarrow> file_error list \<times> disk \<Rightarrow> file_error list \<times> disk" where
  "remove_present fl p acc =
     (case removeFile fl (snd acc) p of
        (None, d) \<Rightarrow> (fst acc, d)
      | (Some e, d) \<Rightarrow> (if e = NotExist then fst acc else fst acc @ [e], d))"

definition DeleteSettings ::
    "smart_env \<Rightarrow> files \<Rightarrow> path \<Rightarrow> string \<Rightarrow> disk \<Rightarrow> file_error list \<times> disk" where
  "DeleteSettings E fl dir tunnelName d =
     fold (remove_present fl) (remdups [settingsPath E dir tunnelName, legacySettingsPath E dir tunnelName]) ([], d)"

definition LoadMode ::
    "smart_env \<Rightarrow> settings_json \<Rightarrow> files \<Rightarrow> path \<Rightarrow> catalog_state \<Rightarrow> string \<Rightarrow> disk \<Rightarrow> Mode \<times> disk" where
  "LoadMode E J fl dir c tunnelName d =
     (case LoadSettings E J fl dir c tunnelName d of
        (Inl e, d') \<Rightarrow> (ModeAll, d') | (Inr s, d') \<Rightarrow> (SettingsMode s, d'))"

definition SaveMode ::
    "smart_env \<Rightarrow> settings_json \<Rightarrow> files \<Rightarrow> path \<Rightarrow> catalog_state \<Rightarrow> string \<Rightarrow> Mode \<Rightarrow> disk
      \<Rightarrow> settings_error option \<times> disk" where
  "SaveMode E J fl dir c tunnelName mode d =
     (case LoadSettings E J fl dir c tunnelName d of
        (r, d') \<Rightarrow>
          let s = (case r of Inl e \<Rightarrow> DefaultSettings c | Inr s \<Rightarrow> s) in
          SaveSettings E J fl dir c tunnelName (s\<lparr>SettingsMode := NormalizeMode E mode\<rparr>) d')"

end
