(* ===== verification/SmartBuild.thy ===== *)
theory SmartBuild
  imports SmartSettings ConfValidation
begin

text \<open>
  \<^verbatim>\<open>client/smart/smart.go\<close> from \<^verbatim>\<open>ipcidrs\<close> on, with \<^verbatim>\<open>dns_policy.go\<close>, \<^verbatim>\<open>regionalRuleObjects\<close> and
  \<^verbatim>\<open>probe.go\<close>: a profile and the routing settings become the configuration of the routing
  engine.

  The configuration is a JSON value; a Go \<^verbatim>\<open>map[string]any\<close> is an association list with
  distinct keys, updated with \<^const>\<open>AList.update\<close>. \<open>BuildConfig\<close> returns the value that the
  source hands to \<^verbatim>\<open>json.MarshalIndent\<close>.
\<close>

datatype json =
    JStr string
  | JNum int
  | JBool bool
  | JArr "json list"
  | JObj "(string \<times> json) list"

type_synonym object = "(string \<times> json) list"

definition strings :: "string list \<Rightarrow> json" where
  "strings xs = JArr (map JStr xs)"

datatype build_error =
    BadSettings smart_error
  | BadProfile conf_error
  | NoAddress
  | NoPeer
  | NoEndpoint
  | NoDefaultRoute
  | IndexOutOfRange
  | InvalidListener
  | MissingInbounds
  | MissingRoutes
  | MissingRules
  | NotAnObject

subsection \<open>The AWG endpoint\<close>

definition TunInterfaceName :: string where "TunInterfaceName = ''pinus-smart-preview''"

definition tunAddresses :: "string list" where
  "tunAddresses = [''172.19.77.1/30'', ''fdfe:dcba:9876::1/126'']"

definition ipcidrs :: "IPCidr list \<Rightarrow> string list" where
  "ipcidrs values = map IPCidr_String values"

definition firstNonZeroMTU :: "Config \<Rightarrow> int" where
  "firstNonZeroMTU c = (if MTU (InterfaceOf c) > 0 then uint (MTU (InterfaceOf c)) else 1408)"

definition addUint16 :: "string \<Rightarrow> uint16 \<Rightarrow> object \<Rightarrow> object" where
  "addUint16 key v target = (if v > 0 then AList.update key (JNum (uint v)) target else target)"

definition addString :: "string \<Rightarrow> string \<Rightarrow> object \<Rightarrow> object" where
  "addString key v target = (if v \<noteq> [] then AList.update key (JStr v) target else target)"

definition addIPackets :: "case_table \<Rightarrow> (string \<times> string) list \<Rightarrow> object \<Rightarrow> object" where
  "addIPackets T values target =
     fold (\<lambda>(key, v) t. if v \<noteq> [] then AList.update (ToLower T key) (JStr v) t else t) values target"

definition addBool :: "case_table \<Rightarrow> string \<Rightarrow> string \<Rightarrow> object \<Rightarrow> object" where
  "addBool T key v target =
     (if v \<noteq> []
      then AList.update key (JBool (case ParseAWGBool T v of Inr b \<Rightarrow> b | Inl e \<Rightarrow> False)) target
      else target)"

definition peerObject :: "Peer \<Rightarrow> object" where
  "peerObject peer =
     (let allowed = ipcidrs (AllowedIPs peer);
          allowedIPs = (if length allowed = 0 then [''0.0.0.0/0'', ''::/0''] else allowed);
          obj = [(''address'', JStr (Host (EndpointOf peer))),
                 (''port'', JNum (uint (Port (EndpointOf peer)))),
                 (''public_key'', JStr (Key_String (PublicKey peer))),
                 (''allowed_ips'', strings allowedIPs),
                 (''persistent_keepalive_interval'', JStr (PersistentKeepalive peer))] in
      if \<not> Key_IsZero (PresharedKey peer)
      then AList.update ''preshared_key'' (JStr (Key_String (PresharedKey peer))) obj else obj)"

fun peer_objects :: "Peer list \<Rightarrow> build_error + object list" where
  "peer_objects [] = Inr []"
| "peer_objects (peer # peers) =
     (if Endpoint_IsEmpty (EndpointOf peer) then Inl NoEndpoint
      else rbind (peer_objects peers) (\<lambda>os. Inr (peerObject peer # os)))"

definition endpoint_base :: "Config \<Rightarrow> object list \<Rightarrow> object" where
  "endpoint_base c peers =
     [(''type'', JStr ''awg''), (''tag'', JStr ''awg-out''), (''useIntegratedTun'', JBool False),
      (''private_key'', JStr (Key_String (PrivateKey (InterfaceOf c)))),
      (''address'', strings (ipcidrs (Addresses (InterfaceOf c)))),
      (''mtu'', JNum (firstNonZeroMTU c)), (''peers'', JArr (map JObj peers))]"

definition endpoint_object :: "case_table \<Rightarrow> Config \<Rightarrow> object list \<Rightarrow> object" where
  "endpoint_object T c peers =
     (let i = InterfaceOf c;
          e1 = endpoint_base c peers;
          e2 = addUint16 ''s4'' (TransportPacketJunkSize i)
                (addUint16 ''s3'' (CookieReplyPacketJunkSize i)
                (addUint16 ''s2'' (ResponsePacketJunkSize i)
                (addUint16 ''s1'' (InitPacketJunkSize i)
                (addUint16 ''jmax'' (JunkPacketMaxSize i)
                (addUint16 ''jmin'' (JunkPacketMinSize i)
                (addUint16 ''jc'' (JunkPacketCount i) e1))))));
          e3 = addString ''h4'' (TransportPacketMagicHeader i)
                (addString ''h3'' (UnderloadPacketMagicHeader i)
                (addString ''h2'' (ResponsePacketMagicHeader i)
                (addString ''h1'' (InitPacketMagicHeader i) e2)));
          e4 = (if \<not> Key_IsZero (HeaderProtectionKey i)
                then AList.update ''header_protection_key'' (JStr (Key_String (HeaderProtectionKey i))) e3
                else e3);
          e5 = addString ''max_handshake_attempts'' (MaxHandshakeAttempts i)
                (addString ''keepalive_timeout'' (KeepaliveTimeout i)
                (addString ''reject_after_time'' (RejectAfterTime i)
                (addString ''rekey_timeout'' (RekeyTimeout i)
                (addString ''rekey_after_time'' (RekeyAfterTime i)
                (addString ''content_padding_addition'' (ContentPaddingAddition i) e4)))));
          e6 = addBool T ''disable_cookies'' (DisableCookies i)
                (addBool T ''random_trailers'' (RandomTrailers i) e5) in
      addIPackets T (IPackets i) e6)"

definition awgEndpoint :: "case_table \<Rightarrow> Config \<Rightarrow> build_error + object" where
  "awgEndpoint T c =
     (case ValidateAWG T c of
        Inl e \<Rightarrow> Inl (BadProfile e)
      | Inr _ \<Rightarrow>
        if length (Addresses (InterfaceOf c)) = 0 then Inl NoAddress
        else if length (Peers c) = 0 then Inl NoPeer
        else rbind (peer_objects (Peers c)) (\<lambda>peers. Inr (endpoint_object T c peers)))"

subsection \<open>Families and name servers\<close>

definition localCIDRs :: "string list" where
  "localCIDRs =
     [''10.0.0.0/8'', ''172.16.0.0/12'', ''192.168.0.0/16'', ''169.254.0.0/16'', ''127.0.0.0/8'',
      ''224.0.0.0/4'', ''255.255.255.255/32'', ''::1/128'', ''fc00::/7'', ''fe80::/10'', ''ff00::/8'']"

record profileFamilies =
  ipv4 :: bool
  ipv6 :: bool

definition is_v4 :: "IP \<Rightarrow> bool" where
  "is_v4 ip \<longleftrightarrow> To4 ip \<noteq> None"

definition is_v6 :: "IP \<Rightarrow> bool" where
  "is_v6 ip \<longleftrightarrow> To4 ip = None \<and> To16 ip \<noteq> None"

definition detectProfileFamilies :: "Config \<Rightarrow> profileFamilies" where
  "detectProfileFamilies c =
     (let addresses = map IP (Addresses (InterfaceOf c));
          defaults = map IP (filter (\<lambda>a. Cidr a = 0) (concat (map AllowedIPs (Peers c)))) in
      \<lparr>ipv4 = list_ex is_v4 addresses \<and> list_ex is_v4 defaults,
       ipv6 = list_ex is_v6 addresses \<and> list_ex is_v6 defaults\<rparr>)"

definition dnsStrategy :: "profileFamilies \<Rightarrow> string" where
  "dnsStrategy families =
     (if ipv4 families \<and> ipv6 families then ''prefer_ipv4''
      else if ipv4 families then ''ipv4_only'' else ''ipv6_only'')"

definition accepts :: "profileFamilies \<Rightarrow> IP \<Rightarrow> bool" where
  "accepts families ip =
     (if To4 ip \<noteq> None then ipv4 families else To16 ip \<noteq> None \<and> ipv6 families)"

definition server_object :: "string \<Rightarrow> string \<Rightarrow> string \<Rightarrow> object" where
  "server_object tag address detour =
     [(''type'', JStr ''udp''), (''tag'', JStr tag), (''server'', JStr address),
      (''server_port'', JNum 53), (''detour'', JStr detour)]"

text \<open>\<^verbatim>\<open>addServer\<close>: the servers so far and the addresses already seen.\<close>

definition addServer :: "string \<Rightarrow> string \<Rightarrow> string \<Rightarrow> object list \<times> string list \<Rightarrow> object list \<times> string list" where
  "addServer detour tag address acc =
     (let (servers, seen) = acc in
      if address = [] \<or> address \<in> set seen then acc
      else (servers @ [server_object tag address detour], address # seen))"

definition profile_server :: "string \<Rightarrow> profileFamilies \<Rightarrow> IP \<Rightarrow> object list \<times> string list \<Rightarrow> object list \<times> string list" where
  "profile_server detour families dns acc =
     (if dns = [] \<or> \<not> accepts families dns then acc
      else addServer detour (''profile-dns-'' @ dec (length (fst acc))) (IPString dns) acc)"

definition dnsServers :: "Config \<Rightarrow> string \<Rightarrow> profileFamilies \<Rightarrow> object list" where
  "dnsServers c detour families =
     (let acc1 = fold (profile_server detour families) (DNS (InterfaceOf c)) ([], []) in
      if length (fst acc1) = 0 then
        (let acc2 = (if ipv4 families then addServer detour ''cloudflare-ipv4'' ''1.1.1.1'' acc1 else acc1);
             acc3 = (if ipv6 families then addServer detour ''cloudflare-ipv6'' ''2606:4700:4700::1111'' acc2
                     else acc2) in
         fst acc3)
      else fst acc1)"

subsection \<open>Rules\<close>

definition customRuleObject :: "CustomRule \<Rightarrow> object" where
  "customRuleObject rule =
     (let base = [(''action'', JStr ''route''), (''outbound'', JStr (Target rule))];
          routed = AList.update ''outbound''
                     (JStr (if Target rule = TargetVPN then ''awg-out'' else ''direct'')) base in
      if Kind rule = RuleApplication then
        (if ContainsAny (RuleValue rule) path_chars
         then AList.update ''process_path'' (strings [RuleValue rule]) routed
         else AList.update ''process_name'' (strings [RuleValue rule]) routed)
      else if Kind rule = RuleDomain then
        AList.update ''domain_suffix'' (strings [''.'' @ RuleValue rule])
          (AList.update ''domain'' (strings [RuleValue rule]) routed)
      else if Kind rule = RuleCIDR then AList.update ''ip_cidr'' (strings [RuleValue rule]) routed
      else routed)"

text \<open>The three deduplicated lists of \<^verbatim>\<open>serviceRuleObjects\<close>.\<close>

definition add_new :: "string \<Rightarrow> string list \<Rightarrow> string list" where
  "add_new x xs = (if x \<in> set xs then xs else xs @ [x])"

definition add_suffix :: "string \<Rightarrow> string list \<times> string list \<Rightarrow> string list \<times> string list" where
  "add_suffix suffix acc =
     (let (domains, suffixes) = acc; root = TrimPrefix suffix ''.'' in
      (if root \<noteq> [] then add_new root domains else domains, add_new suffix suffixes))"

definition collect_service ::
    "Service \<Rightarrow> string list \<times> string list \<times> string list \<Rightarrow> string list \<times> string list \<times> string list" where
  "collect_service s acc =
     (let (processes, domains, suffixes) = acc in
      (fold add_new (ProcessNames s) processes,
       fold add_suffix (DomainSuffixes s) (fold add_new (Domains s) domains, suffixes)))"

definition serviceRuleObjects :: "smart_env \<Rightarrow> RoutingSettings \<Rightarrow> string \<Rightarrow> object list" where
  "serviceRuleObjects E s outbound =
     (let (processes, domains, suffixes) = fold collect_service (SelectedServices E s) ([], [], []) in
      (if length processes > 0
       then [[(''process_name'', strings processes), (''action'', JStr ''route''), (''outbound'', JStr outbound)]]
       else []) @
      (if length domains > 0 \<or> length suffixes > 0
       then [[(''domain'', strings domains), (''domain_suffix'', strings suffixes),
              (''action'', JStr ''route''), (''outbound'', JStr outbound)]]
       else []))"

definition regional_objects :: "smart_env \<Rightarrow> RoutingSettings \<Rightarrow> Service \<Rightarrow> object list" where
  "regional_objects E s service =
     (let outbound = (if ServiceUsesVPN E s (ServiceID service) then ''awg-out'' else ''direct'');
          domains = Domains service @ map (\<lambda>suffix. TrimPrefix suffix ''.'') (DomainSuffixes service) in
      (if length (ProcessNames service) > 0
       then [[(''process_name'', strings (ProcessNames service)), (''action'', JStr ''route''),
              (''outbound'', JStr outbound)]]
       else []) @
      [[(''domain'', strings domains), (''domain_suffix'', strings (DomainSuffixes service)),
        (''action'', JStr ''route''), (''outbound'', JStr outbound)]])"

definition regionalRuleObjects :: "smart_env \<Rightarrow> RoutingSettings \<Rightarrow> object list" where
  "regionalRuleObjects E s = concat (map (regional_objects E s) RegionalServices)"

subsection \<open>DNS rules\<close>

definition dns_rule :: "string \<Rightarrow> string \<Rightarrow> object \<Rightarrow> bool \<Rightarrow> object list" where
  "dns_rule vpnServer vpnStrategy rule vpn =
     (case map_of rule ''domain'' of
        None \<Rightarrow> []
      | Some domains \<Rightarrow>
        let copy1 = AList.update ''domain'' domains
              [(''action'', JStr ''route''), (''server'', JStr vpnServer), (''strategy'', JStr vpnStrategy)];
            copy2 = (case map_of rule ''domain_suffix'' of
                       Some suffixes \<Rightarrow> AList.update ''domain_suffix'' suffixes copy1 | None \<Rightarrow> copy1) in
        [if \<not> vpn
         then AList.update ''strategy'' (JStr ''prefer_ipv4'')
                (AList.update ''server'' (JStr ''direct-dns'') copy2)
         else copy2])"

definition policyDNSRules :: "smart_env \<Rightarrow> RoutingSettings \<Rightarrow> string \<Rightarrow> string \<Rightarrow> object list" where
  "policyDNSRules E s vpnServer vpnStrategy =
     concat (map (\<lambda>rule. if Enabled rule \<and> Kind rule = RuleDomain
                         then dns_rule vpnServer vpnStrategy (customRuleObject rule) (Target rule = TargetVPN)
                         else []) (CustomRules s)) @
     concat (map (\<lambda>rule. dns_rule vpnServer vpnStrategy rule (map_of rule ''outbound'' = Some (JStr ''awg-out'')))
               (regionalRuleObjects E s))"

subsection \<open>The configuration\<close>

definition text_of :: "json option \<Rightarrow> string option" where
  "text_of j = (case j of Some (JStr s) \<Rightarrow> Some s | _ \<Rightarrow> None)"

definition is_v4_server :: "object \<Rightarrow> bool" where
  "is_v4_server server =
     (case ParseIP (case text_of (map_of server ''server'') of Some a \<Rightarrow> a | None \<Rightarrow> []) of
        Some ip \<Rightarrow> To4 ip \<noteq> None | None \<Rightarrow> False)"

definition fallback_dns :: "string \<Rightarrow> object list \<Rightarrow> string" where
  "fallback_dns finalDNS servers =
     (case find is_v4_server servers of
        Some server \<Rightarrow> (case text_of (map_of server ''tag'') of Some t \<Rightarrow> t | None \<Rightarrow> [])
      | None \<Rightarrow> finalDNS)"

definition policy_rules :: "smart_env \<Rightarrow> RoutingSettings \<Rightarrow> profileFamilies \<Rightarrow> object list" where
  "policy_rules E s families =
     [[(''action'', JStr ''sniff''), (''timeout'', JStr ''300ms'')],
      [(''protocol'', JStr ''dns''), (''action'', JStr ''hijack-dns'')]] @
     map customRuleObject (filter Enabled (CustomRules s)) @
     regionalRuleObjects E s @
     [[(''ip_cidr'', strings localCIDRs), (''action'', JStr ''route''), (''outbound'', JStr ''direct'')]] @
     (if SettingsMode s = ModeSelected then
        serviceRuleObjects E s ''awg-out'' @
        [[(''domain'', strings [''raw.githubusercontent.com'', ''github.com'']),
          (''action'', JStr ''route''), (''outbound'', JStr ''awg-out'')]]
      else
        (if \<not> ipv4 families then [[(''ip_version'', JNum 4), (''action'', JStr ''reject'')]] else []) @
        (if \<not> ipv6 families then [[(''ip_version'', JNum 6), (''action'', JStr ''reject'')]] else []))"

definition final_outbound :: "RoutingSettings \<Rightarrow> string" where
  "final_outbound s = (if SettingsMode s = ModeSelected then ''direct'' else ''awg-out'')"

definition box_config ::
    "object \<Rightarrow> object list \<Rightarrow> object list \<Rightarrow> string \<Rightarrow> string \<Rightarrow> object list \<Rightarrow> string \<Rightarrow> json" where
  "box_config endpoint servers dnsRules finalDNS strategy rules finalOutbound =
     JObj
      [(''log'', JObj [(''level'', JStr ''info''), (''timestamp'', JBool True)]),
       (''dns'', JObj
         [(''servers'', JArr (map JObj servers)), (''rules'', JArr (map JObj dnsRules)),
          (''independent_cache'', JBool True), (''final'', JStr finalDNS), (''strategy'', JStr strategy),
          (''reverse_mapping'', JBool True), (''cache_capacity'', JNum 4096)]),
       (''endpoints'', JArr [JObj endpoint]),
       (''inbounds'', JArr [JObj
         [(''type'', JStr ''tun''), (''tag'', JStr ''tun-in''), (''interface_name'', JStr TunInterfaceName),
          (''address'', strings tunAddresses), (''mtu'', JNum 1400), (''auto_route'', JBool True),
          (''strict_route'', JBool True), (''stack'', JStr ''mixed''),
          (''endpoint_independent_nat'', JBool True)]]),
       (''outbounds'', JArr [JObj
         [(''type'', JStr ''direct''), (''tag'', JStr ''direct''),
          (''domain_resolver'', JObj [(''server'', JStr ''direct-dns''), (''strategy'', JStr ''prefer_ipv4'')])]]),
       (''route'', JObj
         [(''default_domain_resolver'', JStr finalDNS), (''rules'', JArr (map JObj rules)),
          (''final'', JStr finalOutbound), (''auto_detect_interface'', JBool True)])]"

definition direct_dns_server :: object where
  "direct_dns_server =
     [(''type'', JStr ''local''), (''tag'', JStr ''direct-dns''), (''detour'', JStr ''direct''),
      (''prefer_go'', JBool True)]"

definition BuildConfig :: "smart_env \<Rightarrow> catalog_state \<Rightarrow> Config \<Rightarrow> RoutingSettings \<Rightarrow> build_error + json" where
  "BuildConfig E cs c settings0 =
     (case Normalized E cs settings0 of
        Inl e \<Rightarrow> Inl (BadSettings e)
      | Inr settings \<Rightarrow>
        rbind (awgEndpoint (case_lower E) c) (\<lambda>endpoint.
        let families = detectProfileFamilies c in
        if \<not> ipv4 families \<and> \<not> ipv6 families then Inl NoDefaultRoute
        else
          case dnsServers c ''awg-out'' families of
            [] \<Rightarrow> Inl IndexOutOfRange
          | server # servers \<Rightarrow>
            let finalDNS = (case text_of (map_of server ''tag'') of Some tag \<Rightarrow> tag | None \<Rightarrow> ''cloudflare'');
                endpoint2 = (if ipv4 families
                  then AList.update ''tcp_ipv4_fallback_resolver''
                         (JStr (fallback_dns finalDNS (server # servers))) endpoint
                  else endpoint);
                dnsRules = policyDNSRules E settings finalDNS (dnsStrategy families) in
            Inr (box_config endpoint2 ((server # servers) @ [direct_dns_server]) dnsRules finalDNS
                   (dnsStrategy families) (policy_rules E settings families) (final_outbound settings))))"

subsection \<open>The diagnostic listener\<close>

text \<open>
  \<^verbatim>\<open>AddDiagnosticInbound\<close> on the decoded configuration: a SOCKS listener whose traffic goes to
  the AWG endpoint before any other rule.
\<close>

definition probe_inbound :: "int \<Rightarrow> string \<Rightarrow> json" where
  "probe_inbound port password =
     JObj [(''type'', JStr ''socks''), (''tag'', JStr ''pinus-probe''), (''listen'', JStr ''127.0.0.1''),
           (''listen_port'', JNum port),
           (''users'', JArr [JObj [(''username'', JStr ''pinus-probe''), (''password'', JStr password)]])]"

definition probe_rule :: json where
  "probe_rule = JObj [(''inbound'', strings [''pinus-probe'']), (''action'', JStr ''route''),
                      (''outbound'', JStr ''awg-out'')]"

definition AddDiagnosticInbound :: "json \<Rightarrow> int \<Rightarrow> string \<Rightarrow> build_error + json" where
  "AddDiagnosticInbound config port password =
     (if port < 1 \<or> port > 65535 \<or> length password < 32 then Inl InvalidListener
      else case config of
        JObj root \<Rightarrow>
          (case map_of root ''inbounds'' of
             Some (JArr inbounds) \<Rightarrow>
               let root1 = AList.update ''inbounds'' (JArr (inbounds @ [probe_inbound port password])) root in
               (case map_of root1 ''route'' of
                  Some (JObj route) \<Rightarrow>
                    (case map_of route ''rules'' of
                       Some (JArr rules) \<Rightarrow>
                         Inr (JObj (AList.update ''route''
                           (JObj (AList.update ''rules'' (JArr (probe_rule # rules)) route)) root1))
                     | _ \<Rightarrow> Inl MissingRules)
                | _ \<Rightarrow> Inl MissingRoutes)
           | _ \<Rightarrow> Inl MissingInbounds)
      | _ \<Rightarrow> Inl NotAnObject)"

end
