(* ===== verification/SmartExplain.thy ===== *)
theory SmartExplain
  imports SmartBuild
begin

text \<open>
  \<^verbatim>\<open>client/smart/explain.go\<close>: the route the settings give to an application, a domain or an
  address, as the user interface explains it.
\<close>

record RouteQuery =
  Application :: string
  QueryDomain :: string
  QueryIP :: string

record RouteExplanation =
  ExplainedTarget :: RouteTarget
  ExplainedRule :: string
  Detail :: string
  MatchedRules :: "string list"

datatype explain_error = ExplainSettings smart_error | ExplainDomain smart_error | InvalidIP | EmptyQuery

definition text_all_vpn :: string where
  "text_all_vpn = utf8 [1042, 1077, 1089, 1100, 32, 1080, 1085, 1090, 1077, 1088, 1085, 1077, 1090, 32,
     1095, 1077, 1088, 1077, 1079] @ '' VPN''"

definition text_not_selected :: string where
  "text_not_selected = utf8 [1053, 1077, 32, 1074, 1093, 1086, 1076, 1080, 1090, 32, 1074, 32, 1074, 1099,
     1073, 1088, 1072, 1085, 1085, 1086, 1077, 32, 1076, 1083, 1103] @ '' VPN''"

definition text_user_rule :: string where
  "text_user_rule = utf8 [1055, 1086, 1083, 1100, 1079, 1086, 1074, 1072, 1090, 1077, 1083, 1100, 1089,
     1082, 1086, 1077, 32, 1087, 1088, 1072, 1074, 1080, 1083, 1086] @ '': ''"

definition text_regional :: string where
  "text_regional = utf8 [1050, 1072, 1090, 1072, 1083, 1086, 1075, 32] @ RegionalCatalogRevision @
     ''; VK '' @ utf8 [1074, 1099, 1096, 1077, 32, 1086, 1073, 1097, 1077, 1081, 32, 1088, 1086, 1089, 1089,
     1080, 1081, 1089, 1082, 1086, 1081, 32, 1075, 1088, 1091, 1087, 1087, 1099]"

definition text_local :: string where
  "text_local = utf8 [1051, 1086, 1082, 1072, 1083, 1100, 1085, 1072, 1103, 32, 1089, 1077, 1090, 1100]"

definition text_catalog :: string where
  "text_catalog = utf8 [1055, 1086, 1076, 1087, 1080, 1089, 1072, 1085, 1085, 1099, 1081, 32, 1080, 1083,
     1080, 32, 1074, 1089, 1090, 1088, 1086, 1077, 1085, 1085, 1099, 1081, 32, 1082, 1072, 1090, 1072, 1083,
     1086, 1075, 32, 1089, 1077, 1088, 1074, 1080, 1089, 1086, 1074]"

definition text_updates :: string where
  "text_updates = utf8 [1054, 1073, 1085, 1086, 1074, 1083, 1077, 1085, 1080, 1103, 32, 1087, 1088, 1077,
     1089, 1077, 1090, 1086, 1074]"

definition text_service_rule :: string where
  "text_service_rule = utf8 [1057, 1083, 1091, 1078, 1077, 1073, 1085, 1086, 1077, 32, 1087, 1088, 1072,
     1074, 1080, 1083, 1086]"

definition domainMatches :: "smart_env \<Rightarrow> string \<Rightarrow> string \<Rightarrow> bool" where
  "domainMatches E domain rule0 \<longleftrightarrow>
     (let rule = TrimPrefix (TrimSuffix (ToLower (case_lower E) rule0) ''.'') ''.'' in
      domain = rule \<or> HasSuffix domain (''.'' @ rule))"

text \<open>The first match decides; the later ones are only listed.\<close>

definition match :: "RouteTarget \<Rightarrow> string \<Rightarrow> string \<Rightarrow> RouteExplanation \<Rightarrow> RouteExplanation" where
  "match target name detail e =
     (let e1 = (if MatchedRules e = []
                then e\<lparr>ExplainedTarget := target, ExplainedRule := name, Detail := detail\<rparr> else e) in
      e1\<lparr>MatchedRules := MatchedRules e1 @ [name]\<rparr>)"

text \<open>A normalised query: the application, the domain and the parsed address.\<close>

type_synonym subject = "string \<times> string \<times> IP option"

definition rule_applies :: "smart_env \<Rightarrow> subject \<Rightarrow> CustomRule \<Rightarrow> bool" where
  "rule_applies E q rule =
     (let (app, domain, ip) = q in
      if Kind rule = RuleApplication then
        (if ContainsAny (RuleValue rule) path_chars
         then EqualFold (case_fold E) (Clean E app) (Clean E (RuleValue rule))
         else EqualFold (case_fold E) (Base app) (RuleValue rule))
      else if Kind rule = RuleDomain then domain \<noteq> [] \<and> domainMatches E domain (RuleValue rule)
      else if Kind rule = RuleCIDR then
        (case (ParseCIDR (RuleValue rule), ip) of
           (Some (_, network), Some a) \<Rightarrow> IPNet_Contains network a | _ \<Rightarrow> False)
      else False)"

definition service_applies :: "smart_env \<Rightarrow> subject \<Rightarrow> Service \<Rightarrow> bool" where
  "service_applies E q s =
     (let (app, domain, ip) = q in
      list_ex (\<lambda>name. EqualFold (case_fold E) (Base app) name) (ProcessNames s) \<or>
      list_ex (\<lambda>d. domain = d) (Domains s) \<or>
      list_ex (\<lambda>suffix. domain \<noteq> [] \<and> domainMatches E domain suffix) (DomainSuffixes s))"

definition explain_rule :: "smart_env \<Rightarrow> subject \<Rightarrow> CustomRule \<Rightarrow> RouteExplanation \<Rightarrow> RouteExplanation" where
  "explain_rule E q rule e =
     (if Enabled rule \<and> rule_applies E q rule
      then match (Target rule) (RuleName rule) (text_user_rule @ RuleValue rule) e else e)"

definition explain_regional ::
    "smart_env \<Rightarrow> RoutingSettings \<Rightarrow> subject \<Rightarrow> Service \<Rightarrow> RouteExplanation \<Rightarrow> RouteExplanation" where
  "explain_regional E s q service e =
     (if service_applies E q service
      then match (if ServiceUsesVPN E s (ServiceID service) then TargetVPN else TargetDirect)
             (ServiceName service) text_regional e
      else e)"

definition cidr_contains :: "IP \<Rightarrow> string \<Rightarrow> bool" where
  "cidr_contains ip cidr =
     (case ParseCIDR cidr of Some (_, network) \<Rightarrow> IPNet_Contains network ip | None \<Rightarrow> False)"

definition explain_local :: "IP option \<Rightarrow> RouteExplanation \<Rightarrow> RouteExplanation" where
  "explain_local ip e =
     (case ip of
        None \<Rightarrow> e
      | Some a \<Rightarrow>
        (case find (cidr_contains a) localCIDRs of
           Some cidr \<Rightarrow> match TargetDirect text_local cidr e | None \<Rightarrow> e))"

definition explain_service :: "smart_env \<Rightarrow> subject \<Rightarrow> Service \<Rightarrow> RouteExplanation \<Rightarrow> RouteExplanation" where
  "explain_service E q service e =
     (if service_applies E q service then match TargetVPN (ServiceName service) text_catalog e else e)"

definition explain_updates :: "subject \<Rightarrow> RouteExplanation \<Rightarrow> RouteExplanation" where
  "explain_updates q e =
     (if fst (snd q) = ''github.com'' \<or> fst (snd q) = ''raw.githubusercontent.com''
      then match TargetVPN text_updates text_service_rule e else e)"

definition query_subject :: "smart_env \<Rightarrow> RouteQuery \<Rightarrow> explain_error + subject" where
  "query_subject E query =
     (let app = Trim (TrimSpace (Application query)) quote in
      case (if QueryDomain query \<noteq> [] then normalizeDomain E (QueryDomain query) else Inr []) of
        Inl e \<Rightarrow> Inl (ExplainDomain e)
      | Inr domain \<Rightarrow>
        let ip = ParseIP (TrimSpace (QueryIP query)) in
        if QueryIP query \<noteq> [] \<and> ip = None then Inl InvalidIP
        else if app = [] \<and> domain = [] \<and> ip = None then Inl EmptyQuery
        else Inr (app, domain, ip))"

definition explain_subject :: "smart_env \<Rightarrow> RoutingSettings \<Rightarrow> subject \<Rightarrow> RouteExplanation" where
  "explain_subject E s q =
     (let e0 = (if SettingsMode s = ModeSelected
                then \<lparr>ExplainedTarget = TargetDirect, ExplainedRule = text_not_selected, Detail = [], MatchedRules = []\<rparr>
                else \<lparr>ExplainedTarget = TargetVPN, ExplainedRule = text_all_vpn, Detail = [], MatchedRules = []\<rparr>);
          e1 = fold (explain_rule E q) (CustomRules s) e0;
          e2 = fold (explain_regional E s q) RegionalServices e1;
          e3 = explain_local (snd (snd q)) e2 in
      if SettingsMode s = ModeSelected
      then explain_updates q (fold (explain_service E q) (SelectedServices E s) e3)
      else e3)"

definition ExplainRoute ::
    "smart_env \<Rightarrow> catalog_state \<Rightarrow> RoutingSettings \<Rightarrow> RouteQuery \<Rightarrow> explain_error + RouteExplanation" where
  "ExplainRoute E cs settings0 query =
     (case Normalized E cs settings0 of
        Inl e \<Rightarrow> Inl (ExplainSettings e)
      | Inr s \<Rightarrow> rbind (query_subject E query) (\<lambda>q. Inr (explain_subject E s q)))"

end
