(* ===== verification/SmartPolicy.thy ===== *)
theory SmartPolicy
  imports SmartExplain GoStringFacts
begin

text \<open>
  The routing policy as the engine applies it. The engine is not part of this repository:
  it is a parameter, the relation \<open>eng\<close> between a rule object and a connection, and
  \<open>documented eng\<close> states the documented meaning of the conditions that the generated rules
  use. All conditions of a rule must hold; the domain, domain suffix and network lists are
  alternatives of one condition; rules are tried in order, and an action other than a route,
  a rejection or the hijacking of a name query does not end the search.

  The lemmas bring the generated rules and the explanation to the same form, the first match
  in a list of targets.
\<close>

subsection \<open>The rules of the routing engine\<close>

record connection =
  ConnInbound :: string
  ConnProtocol :: string
  ConnVersion :: int
  ConnProcess :: string
  ConnDomain :: string
  ConnIP :: "IP option"

datatype decision = Routed string | Rejected | HijackDNS

definition as_string :: "json \<Rightarrow> string" where
  "as_string j = (case j of JStr s \<Rightarrow> s | _ \<Rightarrow> [])"

definition str_list :: "json option \<Rightarrow> string list option" where
  "str_list j = (case j of Some (JArr js) \<Rightarrow> Some (map as_string js) | _ \<Rightarrow> None)"

definition unless_given :: "'a option \<Rightarrow> ('a \<Rightarrow> bool) \<Rightarrow> bool" where
  "unless_given x P \<longleftrightarrow> (case x of None \<Rightarrow> True | Some y \<Rightarrow> P y)"

definition when_given :: "'a option \<Rightarrow> ('a \<Rightarrow> bool) \<Rightarrow> bool" where
  "when_given x P \<longleftrightarrow> (case x of None \<Rightarrow> False | Some y \<Rightarrow> P y)"

definition num_of :: "json option \<Rightarrow> int option" where
  "num_of j = (case j of Some (JNum n) \<Rightarrow> Some n | _ \<Rightarrow> None)"

definition address_holds :: "object \<Rightarrow> connection \<Rightarrow> bool" where
  "address_holds ob conn \<longleftrightarrow>
     when_given (str_list (map_of ob ''domain'')) (\<lambda>ds. ConnDomain conn \<in> set ds) \<or>
     when_given (str_list (map_of ob ''domain_suffix'')) (\<lambda>ss. list_ex (HasSuffix (ConnDomain conn)) ss) \<or>
     when_given (str_list (map_of ob ''ip_cidr''))
       (\<lambda>cs. when_given (ConnIP conn) (\<lambda>ip. list_ex (cidr_contains ip) cs))"

definition rule_holds :: "object \<Rightarrow> connection \<Rightarrow> bool" where
  "rule_holds ob conn \<longleftrightarrow>
     unless_given (str_list (map_of ob ''inbound'')) (\<lambda>xs. ConnInbound conn \<in> set xs) \<and>
     unless_given (text_of (map_of ob ''protocol'')) (\<lambda>p. ConnProtocol conn = p) \<and>
     unless_given (num_of (map_of ob ''ip_version'')) (\<lambda>n. ConnVersion conn = n) \<and>
     unless_given (str_list (map_of ob ''process_name'')) (\<lambda>xs. Base (ConnProcess conn) \<in> set xs) \<and>
     unless_given (str_list (map_of ob ''process_path'')) (\<lambda>xs. ConnProcess conn \<in> set xs) \<and>
     (map_of ob ''domain'' = None \<and> map_of ob ''domain_suffix'' = None \<and> map_of ob ''ip_cidr'' = None
      \<or> address_holds ob conn)"

definition rule_decision :: "object \<Rightarrow> decision option" where
  "rule_decision ob =
     (case text_of (map_of ob ''action'') of
        None \<Rightarrow> None
      | Some a \<Rightarrow>
        if a = ''route'' then map_option Routed (text_of (map_of ob ''outbound''))
        else if a = ''reject'' then Some Rejected
        else if a = ''hijack-dns'' then Some HijackDNS
        else None)"

fun first_some :: "('a \<Rightarrow> 'b option) \<Rightarrow> 'a list \<Rightarrow> 'b option" where
  "first_some f [] = None"
| "first_some f (x # xs) = (case f x of Some y \<Rightarrow> Some y | None \<Rightarrow> first_some f xs)"

type_synonym engine = "object \<Rightarrow> connection \<Rightarrow> bool"

definition verdict :: "engine \<Rightarrow> connection \<Rightarrow> object \<Rightarrow> decision option" where
  "verdict eng conn ob = (if eng ob conn then rule_decision ob else None)"

definition decide :: "engine \<Rightarrow> object list \<Rightarrow> string \<Rightarrow> connection \<Rightarrow> decision" where
  "decide eng rules final conn =
     (case first_some (verdict eng conn) rules of Some d \<Rightarrow> d | None \<Rightarrow> Routed final)"

definition as_object :: "json \<Rightarrow> object" where
  "as_object j = (case j of JObj ob \<Rightarrow> ob | _ \<Rightarrow> [])"

definition objects_of :: "json option \<Rightarrow> object list" where
  "objects_of j = (case j of Some (JArr js) \<Rightarrow> map as_object js | _ \<Rightarrow> [])"

definition section_of :: "json \<Rightarrow> string \<Rightarrow> object" where
  "section_of cfg key = (case map_of (as_object cfg) key of Some j \<Rightarrow> as_object j | None \<Rightarrow> [])"

definition route_decision :: "engine \<Rightarrow> json \<Rightarrow> connection \<Rightarrow> decision" where
  "route_decision eng cfg conn =
     (let route = section_of cfg ''route'' in
      decide eng (objects_of (map_of route ''rules''))
        (case text_of (map_of route ''final'') of Some f \<Rightarrow> f | None \<Rightarrow> []) conn)"

definition documented :: "engine \<Rightarrow> bool" where
  "documented eng \<longleftrightarrow> (\<forall>ob conn. eng ob conn = rule_holds ob conn)"

lemma first_some_append:
  "first_some f (xs @ ys) = (case first_some f xs of Some y \<Rightarrow> Some y | None \<Rightarrow> first_some f ys)"
  by (induction xs) (auto split: option.splits)

lemma first_some_None: "first_some f xs = None \<longleftrightarrow> (\<forall>x \<in> set xs. f x = None)"
  by (induction xs) (auto split: option.splits)

lemma first_some_cong:
  "(\<And>x. x \<in> set xs \<Longrightarrow> f x = g x) \<Longrightarrow> first_some f xs = first_some g xs"
  by (induction xs) (auto split: option.splits)

lemma first_some_map: "first_some f (map g xs) = first_some (\<lambda>x. f (g x)) xs"
  by (induction xs) (auto split: option.splits)

lemma first_some_filter:
  "first_some f (filter P xs) = first_some (\<lambda>x. if P x then f x else None) xs"
  by (induction xs) (auto split: option.splits)

lemma first_some_concat: "first_some f (concat xss) = first_some (first_some f) xss"
  by (induction xss) (auto simp: first_some_append split: option.splits)

lemma first_some_const:
  "first_some (\<lambda>x. if P x then Some y else None) xs = (if list_ex P xs then Some y else None)"
  by (induction xs) auto

named_theorems rule_simps \<open>evaluation of the conditions of a rule object\<close>

lemma str_list_strings [rule_simps, simp]: "str_list (Some (strings xs)) = Some xs"
  by (induction xs) (simp_all add: str_list_def strings_def as_string_def)

lemma given_simps [rule_simps, simp]:
  "unless_given None P" "unless_given (Some x) P \<longleftrightarrow> P x"
  "\<not> when_given None P" "when_given (Some x) P \<longleftrightarrow> P x"
  by (simp_all add: unless_given_def when_given_def)

lemma reader_simps [rule_simps, simp]:
  "str_list None = None" "text_of None = None" "num_of None = None"
  "text_of (Some (JStr s)) = Some s" "num_of (Some (JNum n)) = Some n"
  by (simp_all add: str_list_def text_of_def num_of_def)

lemma objects_of_objects [simp]: "objects_of (Some (JArr (map JObj os))) = os"
  by (induction os) (simp_all add: objects_of_def as_object_def)

lemma text_of_update: "text_of (map_of (AList.update k v ob) k') = (if k = k' then text_of (Some v) else text_of (map_of ob k'))"
  by (simp add: update_conv')

subsection \<open>Queries the engine spells as the settings do\<close>

text \<open>
  The explanation compares process names up to case folding and cleans domains again, the
  engine compares bytes. The two agree on a query whose application, if it folds to a
  listed name, is that name, and on domains in the form that normalisation produces.
\<close>

definition plain_domain :: "smart_env \<Rightarrow> string \<Rightarrow> bool" where
  "plain_domain E v \<longleftrightarrow>
     v \<noteq> [] \<and> ToLower (case_lower E) v = v \<and> \<not> HasSuffix v ''.'' \<and> \<not> HasPrefix v ''.''"

definition plain_suffix :: "smart_env \<Rightarrow> string \<Rightarrow> bool" where
  "plain_suffix E v \<longleftrightarrow> v \<noteq> [] \<and> hd v = CHR ''.'' \<and> plain_domain E (tl v)"

definition rule_spelled :: "smart_env \<Rightarrow> subject \<Rightarrow> CustomRule \<Rightarrow> bool" where
  "rule_spelled E q rule \<longleftrightarrow>
     (if Kind rule = RuleApplication then
        (if ContainsAny (RuleValue rule) path_chars
         then EqualFold (case_fold E) (Clean E (fst q)) (Clean E (RuleValue rule)) \<longrightarrow> fst q = RuleValue rule
         else EqualFold (case_fold E) (Base (fst q)) (RuleValue rule) \<longrightarrow> Base (fst q) = RuleValue rule)
      else if Kind rule = RuleDomain then plain_domain E (RuleValue rule)
      else Kind rule = RuleCIDR)"

definition service_spelled :: "smart_env \<Rightarrow> subject \<Rightarrow> Service \<Rightarrow> bool" where
  "service_spelled E q s \<longleftrightarrow>
     list_all (\<lambda>n. EqualFold (case_fold E) (Base (fst q)) n \<longrightarrow> Base (fst q) = n) (ProcessNames s) \<and>
     list_all (\<lambda>d. d \<noteq> []) (Domains s) \<and> list_all (plain_suffix E) (DomainSuffixes s)"

definition spelled :: "smart_env \<Rightarrow> RoutingSettings \<Rightarrow> subject \<Rightarrow> bool" where
  "spelled E s q \<longleftrightarrow>
     list_all (rule_spelled E q) (filter Enabled (CustomRules s)) \<and>
     list_all (service_spelled E q) RegionalServices \<and>
     list_all (service_spelled E q) (SelectedServices E s)"

definition subject_connection :: "int \<Rightarrow> subject \<Rightarrow> connection" where
  "subject_connection version q =
     \<lparr>ConnInbound = ''tun-in'', ConnProtocol = [], ConnVersion = version, ConnProcess = fst q,
      ConnDomain = fst (snd q), ConnIP = snd (snd q)\<rparr>"

definition outbound_of :: "RouteTarget \<Rightarrow> string" where
  "outbound_of target = (if target = TargetVPN then ''awg-out'' else ''direct'')"

lemma EqualFold_refl [simp]: "EqualFold F s s"
  by (simp add: EqualFold_def)

lemma HasSuffix_iff: "HasSuffix s p \<longleftrightarrow> (\<exists>u. s = u @ p)"
  by (auto simp: HasSuffix_def) (metis append_take_drop_id)

lemma plain_domain_matches:
  assumes "plain_domain E v"
  shows "domainMatches E d v \<longleftrightarrow> d = v \<or> HasSuffix d (''.'' @ v)"
  using assms by (simp add: domainMatches_def plain_domain_def TrimPrefix_def TrimSuffix_def)

lemma plain_suffix_matches:
  assumes "plain_suffix E v"
  shows "domainMatches E d v \<longleftrightarrow> d = TrimPrefix v ''.'' \<or> HasSuffix d v"
proof -
  from assms obtain w where v: "v = CHR ''.'' # w" and w: "plain_domain E w"
    by (cases v) (auto simp: plain_suffix_def)
  have low: "ToLower (case_lower E) v = v"
    using w ToLower_append [of "''.''" "case_lower E" w]
    by (simp add: v plain_domain_def is_ascii_def code_def ascii_lower_def)
  obtain b where b: "w = butlast w @ [b]" "b \<noteq> CHR ''.''"
    using w by (cases w rule: rev_cases) (auto simp: plain_domain_def HasSuffix_def)
  then have nosuf: "\<not> HasSuffix v ''.''"
    by (metis HasSuffix_iff append_Cons last_snoc list.sel(1) v)
  show ?thesis
    using low nosuf by (simp add: domainMatches_def TrimPrefix_def TrimSuffix_def v HasPrefix_def)
qed

lemma plain_suffix_nonempty: "plain_suffix E v \<Longrightarrow> v \<noteq> [] \<and> TrimPrefix v ''.'' \<noteq> []"
  by (cases v) (auto simp: plain_suffix_def plain_domain_def TrimPrefix_def HasPrefix_def)

lemma HasSuffix_Nil: "HasSuffix [] p \<longleftrightarrow> p = []"
  by (auto simp: HasSuffix_def)

lemma custom_rule_holds:
  assumes "rule_spelled E q rule"
  shows "rule_holds (customRuleObject rule) (subject_connection n q) \<longleftrightarrow> rule_applies E q rule"
proof -
  obtain app domain ip where q: "q = (app, domain, ip)" by (cases q) auto
  consider (app) "Kind rule = RuleApplication" | (dom) "Kind rule = RuleDomain" | (cidr) "Kind rule = RuleCIDR"
    using assms by (auto simp: rule_spelled_def split: if_splits)
  then show ?thesis
  proof cases
    case app
    then show ?thesis
      using assms
      by (auto simp: q rule_spelled_def customRuleObject_def rule_applies_def rule_holds_def
          subject_connection_def update_conv' Let_def)
  next
    case dom
    then have pd: "plain_domain E (RuleValue rule)" using assms by (simp add: rule_spelled_def)
    then have ne: "RuleValue rule \<noteq> []" by (simp add: plain_domain_def)
    show ?thesis
      using dom ne
      by (auto simp: q customRuleObject_def rule_applies_def rule_holds_def address_holds_def
          subject_connection_def update_conv' Let_def plain_domain_matches [OF pd] HasSuffix_Nil)
  next
    case cidr
    then show ?thesis
      by (simp add: q customRuleObject_def rule_applies_def rule_holds_def address_holds_def
          subject_connection_def update_conv' Let_def when_given_def cidr_contains_def split: option.splits)
  qed
qed

lemma custom_rule_decision:
  "rule_decision (customRuleObject rule) = Some (Routed (outbound_of (Target rule)))"
  by (simp add: rule_decision_def customRuleObject_def outbound_of_def Let_def update_conv')

text \<open>A rule over process names, and a rule over domains.\<close>

lemma process_rule:
  "verdict rule_holds (subject_connection n q)
     [(''process_name'', strings names), (''action'', JStr ''route''), (''outbound'', JStr out)] =
   (if Base (fst q) \<in> set names then Some (Routed out) else None)"
  by (simp add: verdict_def rule_holds_def rule_decision_def subject_connection_def)

lemma domain_rule:
  "verdict rule_holds (subject_connection n q)
     [(''domain'', strings ds), (''domain_suffix'', strings ss), (''action'', JStr ''route''),
      (''outbound'', JStr out)] =
   (if fst (snd q) \<in> set ds \<or> list_ex (HasSuffix (fst (snd q))) ss then Some (Routed out) else None)"
  by (simp add: verdict_def rule_holds_def rule_decision_def subject_connection_def address_holds_def)

definition process_listed :: "subject \<Rightarrow> Service \<Rightarrow> bool" where
  "process_listed q s \<longleftrightarrow> Base (fst q) \<in> set (ProcessNames s)"

definition domain_listed :: "subject \<Rightarrow> Service \<Rightarrow> bool" where
  "domain_listed q s \<longleftrightarrow>
     fst (snd q) \<in> set (Domains s) \<or>
     list_ex (\<lambda>suffix. fst (snd q) = TrimPrefix suffix ''.'' \<or> HasSuffix (fst (snd q)) suffix) (DomainSuffixes s)"

lemma service_applies_listed:
  assumes "service_spelled E q s"
  shows "service_applies E q s \<longleftrightarrow> process_listed q s \<or> domain_listed q s"
proof -
  obtain app domain ip where q: "q = (app, domain, ip)" by (cases q) auto
  have names: "list_ex (\<lambda>n. EqualFold (case_fold E) (Base app) n) (ProcessNames s) \<longleftrightarrow>
      Base app \<in> set (ProcessNames s)"
    using assms EqualFold_refl [of "case_fold E" "Base app"]
    by (auto simp: service_spelled_def q list_ex_iff list_all_iff simp del: EqualFold_refl)
  have suffixes: "domain \<noteq> [] \<and> domainMatches E domain v \<longleftrightarrow>
      domain = TrimPrefix v ''.'' \<or> HasSuffix domain v" if "v \<in> set (DomainSuffixes s)" for v
  proof -
    have "plain_suffix E v" using assms that by (simp add: service_spelled_def list_all_iff)
    then show ?thesis
      using plain_suffix_matches [of E v domain] plain_suffix_nonempty [of E v] by (auto simp: HasSuffix_Nil)
  qed
  have "list_ex (\<lambda>suffix. domain \<noteq> [] \<and> domainMatches E domain suffix) (DomainSuffixes s) \<longleftrightarrow>
      list_ex (\<lambda>suffix. domain = TrimPrefix suffix ''.'' \<or> HasSuffix domain suffix) (DomainSuffixes s)"
    using suffixes by (auto simp: list_ex_iff)
  then show ?thesis
    using names by (simp add: service_applies_def process_listed_def domain_listed_def q list_ex_iff)
qed

lemma regional_verdict:
  assumes "service_spelled E q v"
  shows "first_some (verdict rule_holds (subject_connection n q)) (regional_objects E s v) =
    (if service_applies E q v
     then Some (Routed (outbound_of (if ServiceUsesVPN E s (ServiceID v) then TargetVPN else TargetDirect)))
     else None)"
proof -
  let ?f = "first_some (verdict rule_holds (subject_connection n q))"
  let ?out = "outbound_of (if ServiceUsesVPN E s (ServiceID v) then TargetVPN else TargetDirect)"
  have out: "(if ServiceUsesVPN E s (ServiceID v) then ''awg-out'' else ''direct'') = ?out"
    by (simp add: outbound_of_def)
  have dom: "fst (snd q) \<in> set (Domains v @ map (\<lambda>suffix. TrimPrefix suffix ''.'') (DomainSuffixes v)) \<or>
      list_ex (HasSuffix (fst (snd q))) (DomainSuffixes v) \<longleftrightarrow> domain_listed q v"
    by (auto simp: domain_listed_def list_ex_iff)
  have pr: "process_listed q v \<Longrightarrow> 0 < length (ProcessNames v)"
    by (auto simp: process_listed_def)
  show ?thesis
    unfolding service_applies_listed [OF assms] regional_objects_def Let_def out
    using pr
    by (auto simp: first_some_append process_rule domain_rule dom process_listed_def
        simp del: list_ex_append set_append split: option.splits)
qed

lemma local_verdict:
  "verdict rule_holds (subject_connection n q)
     [(''ip_cidr'', strings localCIDRs), (''action'', JStr ''route''), (''outbound'', JStr ''direct'')] =
   (if when_given (snd (snd q)) (\<lambda>ip. list_ex (cidr_contains ip) localCIDRs)
    then Some (Routed ''direct'') else None)"
  by (simp add: verdict_def rule_holds_def rule_decision_def subject_connection_def address_holds_def)

text \<open>The lists that \<^verbatim>\<open>serviceRuleObjects\<close> collects.\<close>

lemma set_add_new [simp]: "set (add_new x xs) = insert x (set xs)"
  by (auto simp: add_new_def)

lemma set_fold_add_new: "set (fold add_new xs ys) = set xs \<union> set ys"
  by (induction xs arbitrary: ys) auto

lemma set_fold_add_suffix:
  "set (fst (fold add_suffix xs acc)) = {TrimPrefix x ''.'' | x. x \<in> set xs \<and> TrimPrefix x ''.'' \<noteq> []} \<union> set (fst acc)"
  "set (snd (fold add_suffix xs acc)) = set xs \<union> set (snd acc)"
  by (induction xs arbitrary: acc) (auto simp: add_suffix_def Let_def split: prod.splits)

lemma collect_services:
  fixes acc :: "string list \<times> string list \<times> string list"
  shows
  "set (fst (fold collect_service ss acc)) = (\<Union>s \<in> set ss. set (ProcessNames s)) \<union> set (fst acc)"
  "set (fst (snd (fold collect_service ss acc))) =
     (\<Union>s \<in> set ss. set (Domains s) \<union>
        {TrimPrefix x ''.'' | x. x \<in> set (DomainSuffixes s) \<and> TrimPrefix x ''.'' \<noteq> []}) \<union> set (fst (snd acc))"
  "set (snd (snd (fold collect_service ss acc))) =
     (\<Union>s \<in> set ss. set (DomainSuffixes s)) \<union> set (snd (snd acc))"
  by (induction ss arbitrary: acc)
     (auto simp: collect_service_def set_fold_add_new set_fold_add_suffix split: prod.splits)

lemma service_domain_listed:
  assumes "list_all (service_spelled E q) ss"
    and "fold collect_service ss ([], [], []) = (processes, domains, suffixes)"
  shows "fst (snd q) \<in> set domains \<or> list_ex (HasSuffix (fst (snd q))) suffixes \<longleftrightarrow> list_ex (domain_listed q) ss"
    and "Base (fst q) \<in> set processes \<longleftrightarrow> list_ex (process_listed q) ss"
proof -
  have "set domains = (\<Union>s \<in> set ss. set (Domains s) \<union>
      {TrimPrefix x ''.'' | x. x \<in> set (DomainSuffixes s) \<and> TrimPrefix x ''.'' \<noteq> []})"
    using collect_services(2) [of ss "([], [], [])"] assms(2) by simp
  moreover have "set suffixes = (\<Union>s \<in> set ss. set (DomainSuffixes s))"
    using collect_services(3) [of ss "([], [], [])"] assms(2) by simp
  moreover have "TrimPrefix x ''.'' \<noteq> []" if "s \<in> set ss" "x \<in> set (DomainSuffixes s)" for s x
    using assms(1) that plain_suffix_nonempty [of E x] by (auto simp: list_all_iff service_spelled_def)
  ultimately show "fst (snd q) \<in> set domains \<or> list_ex (HasSuffix (fst (snd q))) suffixes \<longleftrightarrow>
      list_ex (domain_listed q) ss"
    by (auto simp: domain_listed_def list_ex_iff)
  have "set processes = (\<Union>s \<in> set ss. set (ProcessNames s))"
    using collect_services(1) [of ss "([], [], [])"] assms(2) by simp
  then show "Base (fst q) \<in> set processes \<longleftrightarrow> list_ex (process_listed q) ss"
    by (auto simp: process_listed_def list_ex_iff)
qed

lemma services_verdict:
  assumes "list_all (service_spelled E q) (SelectedServices E s)"
  shows "first_some (verdict rule_holds (subject_connection n q)) (serviceRuleObjects E s out) =
    (if list_ex (service_applies E q) (SelectedServices E s) then Some (Routed out) else None)"
proof -
  let ?ss = "SelectedServices E s"
  obtain processes domains suffixes where c: "fold collect_service ?ss ([], [], []) = (processes, domains, suffixes)"
    by (cases "fold collect_service ?ss ([], [], [])") auto
  note listed = service_domain_listed [OF assms c]
  have "service_applies E q v \<longleftrightarrow> process_listed q v \<or> domain_listed q v" if "v \<in> set ?ss" for v
    using assms that by (intro service_applies_listed) (simp add: list_all_iff)
  then have applies: "list_ex (service_applies E q) ?ss \<longleftrightarrow>
      list_ex (process_listed q) ?ss \<or> list_ex (domain_listed q) ?ss"
    unfolding list_ex_iff by blast
  have p: "list_ex (process_listed q) ?ss \<Longrightarrow> processes \<noteq> []"
    using listed(2) by auto
  have d: "list_ex (domain_listed q) ?ss \<Longrightarrow> domains \<noteq> [] \<or> suffixes \<noteq> []"
    using listed(1) by auto
  show ?thesis
    unfolding applies serviceRuleObjects_def c Let_def prod.case
    using p d
    by (auto simp: first_some_append process_rule domain_rule listed split: option.splits)
qed

subsection \<open>The explanation as a first match\<close>

definition decided :: "RouteExplanation \<Rightarrow> RouteTarget option" where
  "decided e = (if MatchedRules e = [] then None else Some (ExplainedTarget e))"

lemma decided_match: "decided (match t n d e) = (case decided e of Some t' \<Rightarrow> Some t' | None \<Rightarrow> Some t)"
  by (simp add: decided_def match_def)

lemma decided_fold:
  fixes xs :: "'a list"
  assumes "\<And>x e. f x e = (if P x then match (t x) (name x) (d x) e else e)"
  shows "decided (fold f xs e) =
      (case decided e of Some t' \<Rightarrow> Some t' | None \<Rightarrow> first_some (\<lambda>x. if P x then Some (t x) else None) xs)"
    and "decided (fold f xs e) = None \<Longrightarrow> fold f xs e = e"
proof (induction xs arbitrary: e)
  case (Cons x xs)
  case 1
  show ?case
    unfolding fold.simps o_apply Cons.IH(1) assms [of x e]
    by (auto simp: decided_match split: option.splits)
  case 2
  then have "\<not> P x"
    unfolding fold.simps o_apply Cons.IH(1) assms [of x e]
    by (auto simp: decided_match split: option.splits)
  then have "f x e = e" using assms [of x e] by simp
  with 2 show ?case using Cons.IH(2) [of e] by simp
qed (auto split: option.splits)

lemma explain_local_match:
  "explain_local ip e =
     (if when_given ip (\<lambda>a. list_ex (cidr_contains a) localCIDRs)
      then match TargetDirect text_local (the (find (cidr_contains (the ip)) localCIDRs)) e else e)"
proof (cases ip)
  case (Some a)
  have "find (cidr_contains a) localCIDRs = None \<longleftrightarrow> \<not> list_ex (cidr_contains a) localCIDRs"
    by (auto simp: find_None_iff list_ex_iff)
  then show ?thesis by (auto simp: explain_local_def Some split: option.splits)
qed (simp add: explain_local_def)

text \<open>The targets of the settings in the order of their priority.\<close>

definition policy_target :: "smart_env \<Rightarrow> RoutingSettings \<Rightarrow> subject \<Rightarrow> RouteTarget option" where
  "policy_target E s q =
     first_some (\<lambda>t. t)
       [first_some (\<lambda>r. if Enabled r \<and> rule_applies E q r then Some (Target r) else None) (CustomRules s),
        first_some (\<lambda>v. if service_applies E q v
                        then Some (if ServiceUsesVPN E s (ServiceID v) then TargetVPN else TargetDirect)
                        else None) RegionalServices,
        if when_given (snd (snd q)) (\<lambda>ip. list_ex (cidr_contains ip) localCIDRs) then Some TargetDirect else None,
        if SettingsMode s = ModeSelected
           \<and> (list_ex (service_applies E q) (SelectedServices E s)
              \<or> fst (snd q) = ''github.com'' \<or> fst (snd q) = ''raw.githubusercontent.com'')
        then Some TargetVPN else None]"

definition mode_target :: "RoutingSettings \<Rightarrow> RouteTarget" where
  "mode_target s = (if SettingsMode s = ModeSelected then TargetDirect else TargetVPN)"

lemma decided_services:
  "decided (explain_updates q (fold (explain_service E q) ss e)) =
     (case decided e of Some t \<Rightarrow> Some t
      | None \<Rightarrow> if list_ex (service_applies E q) ss \<or> fst (snd q) = ''github.com''
                   \<or> fst (snd q) = ''raw.githubusercontent.com'' then Some TargetVPN else None)"
proof -
  have "decided (fold (explain_service E q) ss e) =
      (case decided e of Some t \<Rightarrow> Some t
       | None \<Rightarrow> if list_ex (service_applies E q) ss then Some TargetVPN else None)"
    by (simp only: decided_fold(1) [of "explain_service E q", OF explain_service_def] first_some_const)
  then show ?thesis
    by (auto simp: explain_updates_def decided_match split: option.splits)
qed

lemma services_undecided:
  assumes "decided (explain_updates q (fold (explain_service E q) ss e)) = None"
  shows "explain_updates q (fold (explain_service E q) ss e) = e"
proof -
  have u: "\<not> (fst (snd q) = ''github.com'' \<or> fst (snd q) = ''raw.githubusercontent.com'')"
    using assms by (auto simp: explain_updates_def decided_match split: option.splits)
  then have "decided (fold (explain_service E q) ss e) = None"
    using assms by (simp add: explain_updates_def)
  then show ?thesis
    using u decided_fold(2) [of "explain_service E q", OF explain_service_def]
    by (simp only: explain_updates_def if_False)
qed

lemma explain_subject_target:
  "ExplainedTarget (explain_subject E s q) =
     (case policy_target E s q of Some t \<Rightarrow> t | None \<Rightarrow> mode_target s)"
  "MatchedRules (explain_subject E s q) = [] \<longleftrightarrow> policy_target E s q = None"
proof -
  define e0 where "e0 = (if SettingsMode s = ModeSelected
    then \<lparr>ExplainedTarget = TargetDirect, ExplainedRule = text_not_selected, Detail = [], MatchedRules = []\<rparr>
    else \<lparr>ExplainedTarget = TargetVPN, ExplainedRule = text_all_vpn, Detail = [], MatchedRules = []\<rparr>)"
  define e1 where "e1 = fold (explain_rule E q) (CustomRules s) e0"
  define e2 where "e2 = fold (explain_regional E s q) RegionalServices e1"
  define e3 where "e3 = explain_local (snd (snd q)) e2"
  define e4 where "e4 = (if SettingsMode s = ModeSelected
    then explain_updates q (fold (explain_service E q) (SelectedServices E s) e3) else e3)"
  have ex: "explain_subject E s q = e4"
    by (simp only: explain_subject_def Let_def e0_def e1_def e2_def e3_def e4_def)
  have d0: "decided e0 = None" "ExplainedTarget e0 = mode_target s"
    by (simp_all add: decided_def e0_def mode_target_def)
  have d1: "decided e1 = first_some (\<lambda>r. if Enabled r \<and> rule_applies E q r then Some (Target r) else None) (CustomRules s)"
    and u1: "decided e1 = None \<Longrightarrow> e1 = e0"
    unfolding e1_def using decided_fold(2) [of "explain_rule E q", OF explain_rule_def]
    by (simp_all only: decided_fold(1) [of "explain_rule E q", OF explain_rule_def] d0 option.case)
  have d2: "decided e2 = (case decided e1 of Some t \<Rightarrow> Some t | None \<Rightarrow>
      first_some (\<lambda>v. if service_applies E q v then Some (if ServiceUsesVPN E s (ServiceID v)
        then TargetVPN else TargetDirect) else None) RegionalServices)"
    and u2: "decided e2 = None \<Longrightarrow> e2 = e1"
    unfolding e2_def using decided_fold(2) [of "explain_regional E s q", OF explain_regional_def]
    by (simp_all only: decided_fold(1) [of "explain_regional E s q", OF explain_regional_def])
  have d3: "decided e3 = (case decided e2 of Some t \<Rightarrow> Some t | None \<Rightarrow>
      if when_given (snd (snd q)) (\<lambda>ip. list_ex (cidr_contains ip) localCIDRs) then Some TargetDirect else None)"
    and u3: "decided e3 = None \<Longrightarrow> e3 = e2"
    by (auto simp: e3_def explain_local_match decided_match split: option.splits)
  have target: "policy_target E s q = (case decided e3 of Some t \<Rightarrow> Some t | None \<Rightarrow>
      if SettingsMode s = ModeSelected
           \<and> (list_ex (service_applies E q) (SelectedServices E s)
              \<or> fst (snd q) = ''github.com'' \<or> fst (snd q) = ''raw.githubusercontent.com'')
      then Some TargetVPN else None)"
    unfolding policy_target_def first_some.simps d3 d2 d1 by (auto split: option.split)
  have d4: "decided e4 = policy_target E s q"
    unfolding target e4_def by (auto simp: decided_services split: option.split)
  have u4: "decided e4 = None \<Longrightarrow> e4 = e3"
    unfolding e4_def using services_undecided [of q E "SelectedServices E s" e3]
    by (simp split: if_split_asm)
  have u: "decided e4 = None \<Longrightarrow> e4 = e0"
    using u1 u2 u3 u4 d2 d3 by (metis option.case_eq_if option.distinct(1) option.exhaust)
  show "MatchedRules (explain_subject E s q) = [] \<longleftrightarrow> policy_target E s q = None"
    unfolding ex d4 [symmetric] by (simp add: decided_def)
  show "ExplainedTarget (explain_subject E s q) =
     (case policy_target E s q of Some t \<Rightarrow> t | None \<Rightarrow> mode_target s)"
    unfolding ex d4 [symmetric] using u d0(2) by (cases "MatchedRules e4 = []") (simp_all add: decided_def)
qed

subsection \<open>The rules as a first match\<close>

lemma prologue_verdict:
  "first_some (verdict rule_holds (subject_connection n q))
     [[(''action'', JStr ''sniff''), (''timeout'', JStr ''300ms'')],
      [(''protocol'', JStr ''dns''), (''action'', JStr ''hijack-dns'')]] = None"
  by (simp add: verdict_def rule_holds_def rule_decision_def subject_connection_def)

lemma updates_verdict:
  "verdict rule_holds (subject_connection n q)
     [(''domain'', strings [''raw.githubusercontent.com'', ''github.com'']),
      (''action'', JStr ''route''), (''outbound'', JStr ''awg-out'')] =
   (if fst (snd q) = ''github.com'' \<or> fst (snd q) = ''raw.githubusercontent.com''
    then Some (Routed ''awg-out'') else None)"
  by (simp add: verdict_def rule_holds_def rule_decision_def subject_connection_def address_holds_def)

lemma family_verdict:
  "first_some (verdict rule_holds (subject_connection n q))
     ((if \<not> ipv4 f then [[(''ip_version'', JNum 4), (''action'', JStr ''reject'')]] else []) @
      (if \<not> ipv6 f then [[(''ip_version'', JNum 6), (''action'', JStr ''reject'')]] else [])) =
   (if \<not> ipv4 f \<and> n = 4 \<or> \<not> ipv6 f \<and> n = 6 then Some Rejected else None)"
  by (simp add: verdict_def rule_holds_def rule_decision_def subject_connection_def)

lemma customs_verdict:
  assumes "list_all (rule_spelled E q) (filter Enabled rules)"
  shows "first_some (verdict rule_holds (subject_connection n q)) (map customRuleObject (filter Enabled rules)) =
    map_option (\<lambda>t. Routed (outbound_of t))
      (first_some (\<lambda>r. if Enabled r \<and> rule_applies E q r then Some (Target r) else None) rules)"
  using assms
proof (induction rules)
  case (Cons r rules)
  show ?case
  proof (cases "Enabled r")
    case True
    then have "rule_spelled E q r" using Cons.prems by simp
    note holds = custom_rule_holds [OF this, of n]
    show ?thesis
      using True Cons holds by (simp add: verdict_def custom_rule_decision)
  qed (use Cons in simp)
qed simp

lemma regionals_verdict:
  assumes "list_all (service_spelled E q) vs"
  shows "first_some (verdict rule_holds (subject_connection n q)) (concat (map (regional_objects E s) vs)) =
    map_option (\<lambda>t. Routed (outbound_of t))
      (first_some (\<lambda>v. if service_applies E q v
          then Some (if ServiceUsesVPN E s (ServiceID v) then TargetVPN else TargetDirect) else None) vs)"
  using assms
proof (induction vs)
  case (Cons v vs)
  then have "service_spelled E q v" by simp
  note hd = regional_verdict [OF this, of n s]
  show ?case
    using Cons by (simp add: first_some_append hd)
qed simp

definition refused :: "RoutingSettings \<Rightarrow> profileFamilies \<Rightarrow> int \<Rightarrow> bool" where
  "refused s f n \<longleftrightarrow> SettingsMode s \<noteq> ModeSelected \<and> (\<not> ipv4 f \<and> n = 4 \<or> \<not> ipv6 f \<and> n = 6)"

lemma outbound_of_simps [simp]: "outbound_of TargetVPN = ''awg-out''" "outbound_of TargetDirect = ''direct''"
  by (simp_all add: outbound_of_def)

text \<open>What follows the local networks: the services, or the families that are refused.\<close>

definition policy_tail :: "smart_env \<Rightarrow> RoutingSettings \<Rightarrow> profileFamilies \<Rightarrow> object list" where
  "policy_tail E s f =
     (if SettingsMode s = ModeSelected then
        serviceRuleObjects E s ''awg-out'' @
        [[(''domain'', strings [''raw.githubusercontent.com'', ''github.com'']),
          (''action'', JStr ''route''), (''outbound'', JStr ''awg-out'')]]
      else
        (if \<not> ipv4 f then [[(''ip_version'', JNum 4), (''action'', JStr ''reject'')]] else []) @
        (if \<not> ipv6 f then [[(''ip_version'', JNum 6), (''action'', JStr ''reject'')]] else []))"

lemma policy_tail_verdict:
  assumes "list_all (service_spelled E q) (SelectedServices E s)"
  shows "first_some (verdict rule_holds (subject_connection n q)) (policy_tail E s f) =
    (if SettingsMode s = ModeSelected
        \<and> (list_ex (service_applies E q) (SelectedServices E s)
           \<or> fst (snd q) = ''github.com'' \<or> fst (snd q) = ''raw.githubusercontent.com'')
     then Some (Routed (outbound_of TargetVPN))
     else if refused s f n then Some Rejected else None)"
proof (cases "SettingsMode s = ModeSelected")
  case True
  show ?thesis
    unfolding policy_tail_def True refused_def if_True simp_thms first_some_append services_verdict [OF assms]
    by (simp add: updates_verdict)
next
  case False
  then show ?thesis
    unfolding policy_tail_def refused_def by (simp only: if_False family_verdict simp_thms)
qed

lemma policy_rules_verdict:
  assumes "spelled E s q"
  shows "first_some (verdict rule_holds (subject_connection n q)) (policy_rules E s f) =
    (case policy_target E s q of
       Some t \<Rightarrow> Some (Routed (outbound_of t))
     | None \<Rightarrow> if refused s f n then Some Rejected else None)"
proof -
  have custom: "list_all (rule_spelled E q) (filter Enabled (CustomRules s))"
    and regional: "list_all (service_spelled E q) RegionalServices"
    and selected: "list_all (service_spelled E q) (SelectedServices E s)"
    using assms unfolding spelled_def by blast+
  let ?v = "first_some (verdict rule_holds (subject_connection n q))"
  define A where "A = first_some (\<lambda>r. if Enabled r \<and> rule_applies E q r then Some (Target r) else None) (CustomRules s)"
  define B where "B = first_some (\<lambda>v. if service_applies E q v
      then Some (if ServiceUsesVPN E s (ServiceID v) then TargetVPN else TargetDirect) else None) RegionalServices"
  define L where "L = when_given (snd (snd q)) (\<lambda>ip. list_ex (cidr_contains ip) localCIDRs)"
  define S where "S \<longleftrightarrow> SettingsMode s = ModeSelected
        \<and> (list_ex (service_applies E q) (SelectedServices E s)
           \<or> fst (snd q) = ''github.com'' \<or> fst (snd q) = ''raw.githubusercontent.com'')"
  have cv: "?v (map customRuleObject (filter Enabled (CustomRules s))) = map_option (\<lambda>t. Routed (outbound_of t)) A"
    unfolding A_def by (rule customs_verdict [OF custom])
  have rv: "?v (concat (map (regional_objects E s) RegionalServices)) = map_option (\<lambda>t. Routed (outbound_of t)) B"
    unfolding B_def by (rule regionals_verdict [OF regional])
  have lv: "?v [[(''ip_cidr'', strings localCIDRs), (''action'', JStr ''route''), (''outbound'', JStr ''direct'')]] =
      (if L then Some (Routed (outbound_of TargetDirect)) else None)"
    unfolding first_some.simps local_verdict L_def by simp
  note tv = policy_tail_verdict [OF selected, of n f, folded S_def]
  show ?thesis
    unfolding policy_rules_def regionalRuleObjects_def policy_tail_def [symmetric] first_some_append
      prologue_verdict cv rv lv tv
    unfolding policy_target_def first_some.simps
      A_def [symmetric] B_def [symmetric] L_def [symmetric] S_def [symmetric]
    by (cases A; cases B; cases L; cases S) (simp_all only: option.case option.map if_True if_False)
qed

subsection \<open>The configuration that BuildConfig emits\<close>

lemma BuildConfig_shape:
  assumes "BuildConfig E cs c s0 = Inr cfg" and "Normalized E cs s0 = Inr s"
  obtains endpoint servers finalDNS where
    "cfg = box_config endpoint (servers @ [direct_dns_server])
       (policyDNSRules E s finalDNS (dnsStrategy (detectProfileFamilies c))) finalDNS
       (dnsStrategy (detectProfileFamilies c)) (policy_rules E s (detectProfileFamilies c)) (final_outbound s)"
    and "servers = dnsServers c ''awg-out'' (detectProfileFamilies c)"
    and "servers \<noteq> []"
    and "finalDNS = (case text_of (map_of (hd servers) ''tag'') of Some tag \<Rightarrow> tag | None \<Rightarrow> ''cloudflare'')"
    and "ipv4 (detectProfileFamilies c) \<or> ipv6 (detectProfileFamilies c)"
proof (cases "dnsServers c ''awg-out'' (detectProfileFamilies c)")
  case Nil
  then show ?thesis
    using assms by (auto simp: BuildConfig_def rbind_eq_Inr_iff Let_def split: if_splits)
next
  case (Cons server servers)
  let ?f = "detectProfileFamilies c"
  let ?tag = "case text_of (map_of server ''tag'') of Some tag \<Rightarrow> tag | None \<Rightarrow> ''cloudflare''"
  obtain ep where ep: "awgEndpoint (case_lower E) c = Inr ep"
    using assms by (auto simp: BuildConfig_def rbind_eq_Inr_iff)
  have fam: "ipv4 ?f \<or> ipv6 ?f"
    using assms ep by (auto simp: BuildConfig_def Let_def split: if_splits)
  then have fam': "\<not> (\<not> ipv4 ?f \<and> \<not> ipv6 ?f)" by simp
  have cfg: "cfg = box_config
      (if ipv4 ?f then AList.update ''tcp_ipv4_fallback_resolver'' (JStr (fallback_dns ?tag (server # servers))) ep
       else ep) ((server # servers) @ [direct_dns_server])
      (policyDNSRules E s ?tag (dnsStrategy ?f)) ?tag (dnsStrategy ?f) (policy_rules E s ?f) (final_outbound s)"
    using assms fam' by (simp only: BuildConfig_def ep rbind_Inr sum.case Let_def if_False Cons list.case sum.inject)
  show ?thesis
    by (rule that [OF cfg Cons [symmetric] _ _ fam]) simp_all
qed

lemma route_decision_box:
  "route_decision eng (box_config endpoint servers dnsRules finalDNS strategy rules final) conn =
     decide eng rules final conn"
  by (simp add: route_decision_def box_config_def section_of_def as_object_def)

end
