(* ===== verification/SmartRouting.thy ===== *)
theory SmartRouting
  imports SmartPolicy
begin

text \<open>
  The properties of the routing policy: the explanation agrees with the generated
  configuration, a full tunnel does not leak, and names are resolved where the traffic goes.
\<close>

lemma documented_verdict: "documented eng \<Longrightarrow> verdict eng = verdict rule_holds"
  by (intro ext) (simp add: documented_def verdict_def)

lemma first_some_SomeD: "first_some f xs = Some y \<Longrightarrow> \<exists>x \<in> set xs. f x = Some y"
  by (induction xs) (auto split: option.splits)

lemma route_policy:
  assumes "documented eng" and "BuildConfig E cs c s0 = Inr cfg" and "Normalized E cs s0 = Inr s"
    and "spelled E s q"
  shows "route_decision eng cfg (subject_connection n q) =
    (case policy_target E s q of
       Some t \<Rightarrow> Routed (outbound_of t)
     | None \<Rightarrow> if refused s (detectProfileFamilies c) n then Rejected else Routed (outbound_of (mode_target s)))"
proof -
  obtain endpoint servers finalDNS where cfg: "cfg = box_config endpoint (servers @ [direct_dns_server])
       (policyDNSRules E s finalDNS (dnsStrategy (detectProfileFamilies c))) finalDNS
       (dnsStrategy (detectProfileFamilies c)) (policy_rules E s (detectProfileFamilies c)) (final_outbound s)"
    using BuildConfig_shape [OF assms(2,3)] by metis
  have final: "final_outbound s = outbound_of (mode_target s)"
    by (simp add: final_outbound_def mode_target_def)
  show ?thesis
    unfolding cfg route_decision_box decide_def documented_verdict [OF assms(1)]
      policy_rules_verdict [OF assms(4)] final
    by (cases "policy_target E s q") simp_all
qed

lemma first_some_single: "first_some f [x] = f x"
  by (cases "f x") simp_all

subsection \<open>Name resolution\<close>

definition name_verdict :: "engine \<Rightarrow> connection \<Rightarrow> object \<Rightarrow> string option" where
  "name_verdict eng conn ob = (if eng ob conn then text_of (map_of ob ''server'') else None)"

definition dns_server :: "engine \<Rightarrow> json \<Rightarrow> connection \<Rightarrow> string" where
  "dns_server eng cfg conn =
     (let dns = section_of cfg ''dns'' in
      case first_some (name_verdict eng conn) (objects_of (map_of dns ''rules'')) of
        Some server \<Rightarrow> server
      | None \<Rightarrow> (case text_of (map_of dns ''final'') of Some f \<Rightarrow> f | None \<Rightarrow> []))"

lemma dns_server_box:
  "dns_server eng (box_config endpoint servers dnsRules finalDNS strategy rules final) conn =
     (case first_some (name_verdict eng conn) dnsRules of Some server \<Rightarrow> server | None \<Rightarrow> finalDNS)"
  by (cases "first_some (name_verdict eng conn) dnsRules")
     (simp_all add: dns_server_def box_config_def section_of_def as_object_def)

text \<open>A query for a name carries no process and no address.\<close>

definition name_connection :: "int \<Rightarrow> string \<Rightarrow> connection" where
  "name_connection n domain = subject_connection n ([], domain, None)"

definition server_of :: "string \<Rightarrow> decision \<Rightarrow> string" where
  "server_of vpn d = (if d = Routed ''awg-out'' then vpn else ''direct-dns'')"

lemma Base_Nil: "Base [] = ''.''"
  by (simp add: Base_def)

lemma dot_not_executable: "\<not> EqualFoldAscii (Ext ''.'') ''.exe''"
  by (simp add: Ext_def last_element_def IsPathSeparator_def EqualFoldAscii_def)

lemma normalizeApplication_not_dot: "normalizeApplication E v = Inr w \<Longrightarrow> w \<noteq> ''.'' \<and> w \<noteq> []"
proof (rule ccontr)
  assume w: "normalizeApplication E v = Inr w" and "\<not> (w \<noteq> ''.'' \<and> w \<noteq> [])"
  then have "w = ''.'' \<or> w = []" by auto
  moreover have "\<not> HasSuffix (ToLower (case_lower E) ''.'') ''.exe''"
    by (simp add: ToLower_ascii is_ascii_def code_def HasSuffix_def)
  moreover have "\<not> EqualFoldAscii (Ext []) ''.exe''"
    by (simp add: Ext_def last_element_def EqualFoldAscii_def)
  ultimately show False
    using w dot_not_executable
    by (auto simp: normalizeApplication_def Let_def HasSuffix_Nil split: if_splits)
qed

lemma normalize_rules_values:
  "normalize_rules E i ids rules = Inr ns \<Longrightarrow> r \<in> set ns \<Longrightarrow>
   (Kind r = RuleApplication \<longrightarrow> RuleValue r \<noteq> ''.'' \<and> RuleValue r \<noteq> []) \<and>
   (Kind r = RuleApplication \<or> Kind r = RuleDomain \<or> Kind r = RuleCIDR)"
proof (induction E i ids rules arbitrary: ns rule: normalize_rules.induct)
  case (2 E i ids rule rules)
  then obtain n ns' where n: "rule_normalized E i rule = Inr n"
    and ns: "ns = (if RuleID n \<in> set ids then n\<lparr>RuleID := RuleID n @ ''-'' @ dec (i + 1)\<rparr> else n) # ns'"
    and rest: "normalize_rules E (i + 1) (RuleID (hd ns) # ids) rules = Inr ns'"
    by (auto simp: Let_def rbind_eq_Inr_iff split: sum.splits)
  have "(Kind n = RuleApplication \<longrightarrow> RuleValue n \<noteq> ''.'' \<and> RuleValue n \<noteq> []) \<and>
      (Kind n = RuleApplication \<or> Kind n = RuleDomain \<or> Kind n = RuleCIDR)"
    using n normalizeApplication_not_dot [of E "RuleValue rule"]
    by (auto simp: rule_normalized_def rule_value_def Let_def split: sum.splits if_splits)
  then show ?case
    using 2 rest n ns by (cases "r = hd ns") (auto simp: Let_def split: if_splits)
qed simp

lemma domain_object:
  "Kind r = RuleDomain \<Longrightarrow> customRuleObject r =
     [(''action'', JStr ''route''), (''outbound'', JStr (outbound_of (Target r))),
      (''domain'', strings [RuleValue r]), (''domain_suffix'', strings [''.'' @ RuleValue r])]"
  by (simp add: customRuleObject_def outbound_of_def Let_def)

text \<open>Two objects with the same address lists and no other condition match alike.\<close>

definition only_addresses :: "object \<Rightarrow> bool" where
  "only_addresses ob \<longleftrightarrow>
     map_of ob ''inbound'' = None \<and> map_of ob ''protocol'' = None \<and> map_of ob ''ip_version'' = None \<and>
     map_of ob ''process_name'' = None \<and> map_of ob ''process_path'' = None \<and> map_of ob ''ip_cidr'' = None \<and>
     map_of ob ''domain'' \<noteq> None"

lemma only_addresses_holds:
  "only_addresses ob \<Longrightarrow> rule_holds ob conn \<longleftrightarrow> address_holds ob conn"
  by (auto simp: only_addresses_def rule_holds_def)

lemma dns_rule_verdict:
  assumes "only_addresses ob" and "map_of ob ''action'' = Some (JStr ''route'')"
    and "map_of ob ''outbound'' = Some (JStr (if vpn then ''awg-out'' else ''direct''))"
  shows "first_some (name_verdict rule_holds conn) (dns_rule server strategy ob vpn) =
    map_option (server_of server) (verdict rule_holds conn ob)"
proof -
  obtain domains where d: "map_of ob ''domain'' = Some domains"
    using assms(1) by (auto simp: only_addresses_def)
  have cidr: "map_of ob ''ip_cidr'' = None" using assms(1) by (simp add: only_addresses_def)
  obtain ob' where ob': "dns_rule server strategy ob vpn = [ob']" by (simp add: dns_rule_def d Let_def)
  then have hd: "ob' = hd (dns_rule server strategy ob vpn)" by simp
  have look: "map_of ob' ''inbound'' = None" "map_of ob' ''protocol'' = None" "map_of ob' ''ip_version'' = None"
    "map_of ob' ''process_name'' = None" "map_of ob' ''process_path'' = None" "map_of ob' ''ip_cidr'' = None"
    "map_of ob' ''domain'' = Some domains" "map_of ob' ''domain_suffix'' = map_of ob ''domain_suffix''"
    "map_of ob' ''server'' = Some (JStr (if vpn then server else ''direct-dns''))"
    unfolding hd
    by (cases vpn; cases "map_of ob ''domain_suffix''"; simp add: dns_rule_def d Let_def)+
  have "only_addresses ob'" by (simp add: only_addresses_def look)
  moreover have "address_holds ob' conn = address_holds ob conn"
    by (simp add: address_holds_def look d cidr)
  ultimately have "rule_holds ob' conn = rule_holds ob conn"
    using assms(1) by (simp add: only_addresses_holds)
  then show ?thesis
    by (simp add: ob' name_verdict_def verdict_def rule_decision_def look assms(2,3) server_of_def)
qed

lemma custom_name_verdict:
  assumes "Kind r = RuleDomain"
  shows "first_some (name_verdict rule_holds conn)
      (dns_rule vpn strategy (customRuleObject r) (Target r = TargetVPN)) =
    map_option (server_of vpn) (verdict rule_holds conn (customRuleObject r))"
  by (rule dns_rule_verdict) (simp_all add: domain_object [OF assms] only_addresses_def outbound_of_def)

lemma other_rule_silent:
  assumes "Kind r = RuleApplication \<and> RuleValue r \<noteq> ''.'' \<and> RuleValue r \<noteq> [] \<or> Kind r = RuleCIDR"
  shows "verdict rule_holds (name_connection n d) (customRuleObject r) = None"
proof (cases "Kind r = RuleApplication")
  case True
  with assms have "RuleValue r \<noteq> ''.''" "RuleValue r \<noteq> []" by simp_all
  with True have "\<not> rule_holds (customRuleObject r) (name_connection n d)"
    by (cases "ContainsAny (RuleValue r) path_chars")
       (simp_all add: name_connection_def subject_connection_def customRuleObject_def rule_holds_def Base_Nil
          update_conv' eq_commute [of _ "RuleValue r"])
  then show ?thesis by (simp add: verdict_def)
next
  case False
  with assms have "Kind r = RuleCIDR" by simp
  then have "\<not> rule_holds (customRuleObject r) (name_connection n d)"
    by (simp add: name_connection_def subject_connection_def customRuleObject_def rule_holds_def
        address_holds_def update_conv')
  then show ?thesis by (simp add: verdict_def)
qed

lemma customs_name_verdict:
  assumes "\<forall>r \<in> set rules.
      Kind r = RuleDomain \<or> Kind r = RuleApplication \<and> RuleValue r \<noteq> ''.'' \<and> RuleValue r \<noteq> [] \<or> Kind r = RuleCIDR"
  shows "first_some (name_verdict rule_holds (name_connection n d))
      (concat (map (\<lambda>r. if Enabled r \<and> Kind r = RuleDomain
         then dns_rule vpn strategy (customRuleObject r) (Target r = TargetVPN) else []) rules)) =
    map_option (server_of vpn) (first_some (verdict rule_holds (name_connection n d))
      (map customRuleObject (filter Enabled rules)))"
  using assms
proof (induction rules)
  case (Cons r rules)
  have "\<forall>r \<in> set rules. Kind r = RuleDomain \<or> Kind r = RuleApplication \<and> RuleValue r \<noteq> ''.'' \<and> RuleValue r \<noteq> []
      \<or> Kind r = RuleCIDR"
    using Cons.prems by simp
  note IH = Cons.IH [OF this]
  have silent: "verdict rule_holds (name_connection n d) (customRuleObject r) = None" if "Kind r \<noteq> RuleDomain"
    using Cons.prems that by (intro other_rule_silent) auto
  show ?case
  proof (cases "Enabled r \<and> Kind r = RuleDomain")
    case True
    then show ?thesis
      by (simp add: first_some_append custom_name_verdict IH split: option.split)
  next
    case False
    then show ?thesis
      using silent by (cases "Enabled r") (simp_all add: IH)
  qed
qed simp

lemma regional_name_verdict:
  assumes "''.'' \<notin> set (ProcessNames v)"
  shows "first_some (name_verdict rule_holds (name_connection n d))
      (concat (map (\<lambda>ob. dns_rule vpn strategy ob (map_of ob ''outbound'' = Some (JStr ''awg-out'')))
         (regional_objects E s v))) =
    map_option (server_of vpn) (first_some (verdict rule_holds (name_connection n d)) (regional_objects E s v))"
proof -
  have process: "verdict rule_holds (name_connection n d)
      [(''process_name'', strings (ProcessNames v)), (''action'', JStr ''route''), (''outbound'', JStr out)] = None" for out
    using assms by (simp add: name_connection_def process_rule Base_Nil)
  let ?vpn = "ServiceUsesVPN E s (ServiceID v)"
  have domains: "first_some (name_verdict rule_holds (name_connection n d))
      (dns_rule vpn strategy [(''domain'', strings ds), (''domain_suffix'', strings ss), (''action'', JStr ''route''),
        (''outbound'', JStr (if b then ''awg-out'' else ''direct''))] b) =
    map_option (server_of vpn) (verdict rule_holds (name_connection n d)
      [(''domain'', strings ds), (''domain_suffix'', strings ss), (''action'', JStr ''route''),
        (''outbound'', JStr (if b then ''awg-out'' else ''direct''))])" for b ds ss
    by (rule dns_rule_verdict) (simp_all add: only_addresses_def)
  have silent: "dns_rule vpn strategy [(''process_name'', x), (''action'', y), (''outbound'', z)] b = []" for x y z b
    by (simp add: dns_rule_def)
  show ?thesis
    using domains [where b = ?vpn]
    by (cases ?vpn) (simp_all add: regional_objects_def Let_def process silent first_some_append first_some_single
         del: first_some.simps(2))
qed

lemma regionals_name_verdict:
  assumes "list_all (\<lambda>v. ''.'' \<notin> set (ProcessNames v)) vs"
  shows "first_some (name_verdict rule_holds (name_connection n d))
      (concat (map (\<lambda>ob. dns_rule vpn strategy ob (map_of ob ''outbound'' = Some (JStr ''awg-out'')))
         (concat (map (regional_objects E s) vs)))) =
    map_option (server_of vpn)
      (first_some (verdict rule_holds (name_connection n d)) (concat (map (regional_objects E s) vs)))"
  using assms
proof (induction vs)
  case (Cons v vs)
  then have v: "''.'' \<notin> set (ProcessNames v)" by simp
  show ?case
    using Cons by (simp add: first_some_append regional_name_verdict [OF v] split: option.split)
qed simp

lemma regional_names: "list_all (\<lambda>v. ''.'' \<notin> set (ProcessNames v)) RegionalServices"
  by (simp add: RegionalServices_def regionalServices_def service_defs)

subsection \<open>The name servers of the profile\<close>

definition vpn_server :: "object \<Rightarrow> bool" where
  "vpn_server ob \<longleftrightarrow> (\<exists>tag address. ob = server_object tag address ''awg-out'' \<and> tag \<noteq> ''direct-dns'')"

lemma addServer_vpn:
  "list_all vpn_server (fst acc) \<Longrightarrow> tag \<noteq> ''direct-dns'' \<Longrightarrow>
   list_all vpn_server (fst (addServer ''awg-out'' tag address acc))"
  by (auto simp: addServer_def vpn_server_def split: prod.splits)

lemma dnsServers_vpn: "list_all vpn_server (dnsServers c ''awg-out'' f)"
proof -
  have "list_all vpn_server (fst (fold (profile_server ''awg-out'' f) ips acc))" if "list_all vpn_server (fst acc)" for ips acc
    using that
  proof (induction ips arbitrary: acc)
    case (Cons ip ips)
    have "list_all vpn_server (fst (profile_server ''awg-out'' f ip acc))"
      using Cons.prems by (simp add: profile_server_def addServer_vpn)
    then show ?case using Cons.IH by simp
  qed simp
  then show ?thesis
    by (simp add: dnsServers_def Let_def addServer_vpn)
qed

lemma customs_routed:
  assumes "first_some (verdict eng conn) (map customRuleObject rs) = Some d"
  shows "d = Routed ''awg-out'' \<or> d = Routed ''direct''"
  using first_some_SomeD [OF assms] by (auto simp: verdict_def custom_rule_decision outbound_of_def split: if_splits)

lemma regionals_routed:
  assumes "first_some (verdict eng conn) (regionalRuleObjects E s) = Some d"
  shows "d = Routed ''awg-out'' \<or> d = Routed ''direct''"
  using first_some_SomeD [OF assms]
  by (auto simp: verdict_def regionalRuleObjects_def regional_objects_def rule_decision_def Let_def split: if_splits)

lemma Normalized_rules:
  assumes "Normalized E cs s0 = Inr s"
  shows "normalize_rules E 0 [] (CustomRules s0) = Inr (CustomRules s)"
  using assms by (auto simp: Normalized_def Let_def rbind_eq_Inr_iff split: if_splits sum.splits)

lemma policy_name_verdict:
  assumes "Normalized E cs s0 = Inr s"
  shows "first_some (name_verdict rule_holds (name_connection n d)) (policyDNSRules E s vpn strategy) =
    map_option (server_of vpn)
      (first_some (verdict rule_holds (name_connection n d))
        (map customRuleObject (filter Enabled (CustomRules s)) @ regionalRuleObjects E s))"
proof -
  have vals: "\<forall>r \<in> set (CustomRules s).
      Kind r = RuleDomain \<or> Kind r = RuleApplication \<and> RuleValue r \<noteq> ''.'' \<and> RuleValue r \<noteq> [] \<or> Kind r = RuleCIDR"
    using normalize_rules_values [OF Normalized_rules [OF assms]] by blast
  note custom = customs_name_verdict [of "CustomRules s" n d vpn strategy, OF vals]
  show ?thesis
    unfolding policyDNSRules_def first_some_append custom regionalRuleObjects_def
      regionals_name_verdict [OF regional_names]
    by (cases "first_some (verdict rule_holds (name_connection n d))
          (map customRuleObject (filter Enabled (CustomRules s)))") simp_all
qed

subsection \<open>A profile and settings to evaluate\<close>

definition sample_env :: smart_env where
  "sample_env =
     \<lparr>case_lower = (\<lambda>r. r), case_fold = (\<lambda>r. if 65 \<le> r \<and> r \<le> 90 then r + 32 else r),
      Clean = (\<lambda>p. p), JoinPath = (\<lambda>ps. Join ps [CHR 0x5C]),
      url_Parse = (\<lambda>u. Some \<lparr>Scheme = [], HasUser = False, UrlHost = drop 2 u, UrlPath = [], RawPath = [],
                              RawQuery = [], Fragment = []\<rparr>),
      ToASCII = (\<lambda>h. Some h), decode_envelope = (\<lambda>_. None), unmarshal_envelope = (\<lambda>_. None),
      decode_payload = (\<lambda>_. None), ed25519_Verify = (\<lambda>_ _ _. False),
      sha256 = (\<lambda>bs. take 32 (bs @ replicate 32 0)), Now = 1\<rparr>"

definition sample_profile :: Config where
  "sample_profile =
     \<lparr>Name = ''home'',
      InterfaceOf = zero_Interface\<lparr>Addresses := [\<lparr>IP = [10, 8, 0, 2], Cidr = 32\<rparr>], DNS := [[10, 8, 0, 1]]\<rparr>,
      Peers = [zero_Peer\<lparr>EndpointOf := \<lparr>Host = ''vpn.example'', Port = 51820\<rparr>,
                 AllowedIPs := [\<lparr>IP = [0, 0, 0, 0], Cidr = 0\<rparr>]\<rparr>]\<rparr>"

definition sample_rule :: CustomRule where
  "sample_rule =
     \<lparr>RuleID = ''r1'', RuleName = ''bank'', Kind = RuleDomain, RuleValue = ''bank.example'',
      Target = TargetDirect, Enabled = True\<rparr>"

definition sample_settings :: RoutingSettings where
  "sample_settings = (DefaultSettings initial_catalog)\<lparr>CustomRules := [sample_rule]\<rparr>"

lemma sample_normalized: "Normalized sample_env initial_catalog sample_settings = Inr sample_settings"
proof -
  have rules: "normalize_rules sample_env 0 [] [sample_rule] = Inr [sample_rule]"
    by code_simp
  have selected: "select_known sample_env (map ServiceID builtinServiceCatalog) []
      (map ServiceID builtinServiceCatalog) = map ServiceID builtinServiceCatalog"
    by code_simp
  have mode: "NormalizeMode sample_env ModeAll = ModeAll"
    by code_simp
  show ?thesis
    by (simp add: Normalized_def sample_settings_def DefaultSettings_def settingsVersion_def Let_def
        verifiedSettingsCatalog_def BuiltinServiceCatalog_def migrate_selected_def DefaultServiceIDs_def
        ServiceCatalog_def initial_catalog_def rules selected mode del: normalize_rules.simps)
qed

lemma sample_builds: "\<not> isl (BuildConfig sample_env initial_catalog sample_profile sample_settings)"
  by code_simp

lemma sample_spelled: "spelled sample_env sample_settings ([], ''www.bank.example'', None)"
  by code_simp

definition sample_query :: RouteQuery where
  "sample_query = \<lparr>Application = [], QueryDomain = ''www.bank.example'', QueryIP = []\<rparr>"

lemma sample_subject: "query_subject sample_env sample_query = Inr ([], ''www.bank.example'', None)"
  by code_simp

lemma sample_policy:
  "policy_target sample_env sample_settings ([], ''www.bank.example'', None) = Some TargetDirect"
proof -
  have "rule_applies sample_env ([], ''www.bank.example'', None) sample_rule" by code_simp
  then show ?thesis
    by (simp add: policy_target_def sample_settings_def sample_rule_def)
qed

lemma documented_rule_holds: "documented rule_holds"
  by (simp add: documented_def)

lemma sample_config:
  obtains cfg where "BuildConfig sample_env initial_catalog sample_profile sample_settings = Inr cfg"
  using sample_builds by (cases "BuildConfig sample_env initial_catalog sample_profile sample_settings") auto



text \<open>C22: With the whole internet through the tunnel, a connection leaves directly only where
  the user or the policy said so: an enabled direct rule matches it, a regional group switched to
  direct matches it, or its address is local. Everything else goes to the AWG endpoint, is
  rejected, or is a hijacked name query; in particular no address family falls back to the
  physical interface.\<close>

theorem full_tunnel_no_leak:
  assumes "documented eng"
    and "BuildConfig E cs c s0 = Inr cfg"
    and "Normalized E cs s0 = Inr s"
    and "SettingsMode s = ModeAll"
    and "route_decision eng cfg conn = Routed out"
    and "out \<noteq> ''awg-out''"
  shows "out = ''direct'' \<and>
    ((\<exists>r \<in> set (CustomRules s). Enabled r \<and> Target r \<noteq> TargetVPN \<and> eng (customRuleObject r) conn) \<or>
     (\<exists>v \<in> set RegionalServices. \<not> ServiceUsesVPN E s (ServiceID v) \<and>
        (\<exists>ob \<in> set (regional_objects E s v). eng ob conn)) \<or>
     when_given (ConnIP conn) (\<lambda>ip. list_ex (cidr_contains ip) localCIDRs))"
proof -
  let ?f = "detectProfileFamilies c"
  obtain endpoint servers finalDNS where cfg: "cfg = box_config endpoint (servers @ [direct_dns_server])
       (policyDNSRules E s finalDNS (dnsStrategy ?f)) finalDNS (dnsStrategy ?f) (policy_rules E s ?f) (final_outbound s)"
    using BuildConfig_shape [OF assms(2,3)] by metis
  have "final_outbound s = ''awg-out''" using assms(4) by (simp add: final_outbound_def)
  then have "first_some (verdict eng conn) (policy_rules E s ?f) = Some (Routed out)"
    using assms(5,6) unfolding cfg route_decision_box decide_def by (auto split: option.splits)
  then obtain ob where ob: "ob \<in> set (policy_rules E s ?f)" "verdict eng conn ob = Some (Routed out)"
    using first_some_SomeD by metis
  then have dec: "eng ob conn" "rule_decision ob = Some (Routed out)"
    by (simp_all add: verdict_def split: if_splits)
  from ob(1) assms(4) dec(2) consider
      (custom) r where "r \<in> set (CustomRules s)" "Enabled r" "ob = customRuleObject r"
    | (regional) v where "v \<in> set RegionalServices" "ob \<in> set (regional_objects E s v)"
    | (local) "ob = [(''ip_cidr'', strings localCIDRs), (''action'', JStr ''route''), (''outbound'', JStr ''direct'')]"
    unfolding policy_rules_def regionalRuleObjects_def
    by (auto simp: rule_decision_def split: if_splits)
  then show ?thesis
  proof cases
    case custom
    then have out: "out = outbound_of (Target r)" using dec(2) by (simp add: custom_rule_decision)
    then have "Target r \<noteq> TargetVPN" using assms(6) by auto
    then show ?thesis using custom dec(1) out by (auto simp: outbound_of_def)
  next
    case regional
    then have out: "out = (if ServiceUsesVPN E s (ServiceID v) then ''awg-out'' else ''direct'')"
      using dec(2) by (auto simp: regional_objects_def rule_decision_def Let_def split: if_splits)
    then show ?thesis using regional dec(1) assms(6) by (auto split: if_splits)
  next
    case local
    then have "out = ''direct''" using dec(2) by (simp add: rule_decision_def)
    moreover have "rule_holds ob conn" using assms(1) dec(1) by (simp add: documented_def)
    ultimately show ?thesis by (simp add: local rule_holds_def address_holds_def)
  qed
qed
theorem full_tunnel_no_leak_witness:
  "\<exists>cfg. BuildConfig sample_env initial_catalog sample_profile sample_settings = Inr cfg \<and>
     SettingsMode sample_settings = ModeAll \<and>
     route_decision rule_holds cfg (subject_connection 4 ([], ''www.bank.example'', None)) = Routed ''direct'' \<and>
     ((\<exists>r. r \<in> set (CustomRules sample_settings) \<and> Enabled r \<and> Target r \<noteq> TargetVPN \<and>
        rule_holds (customRuleObject r) (subject_connection 4 ([], ''www.bank.example'', None))) \<or>
      (\<exists>v. v \<in> set RegionalServices \<and> \<not> ServiceUsesVPN sample_env sample_settings (ServiceID v)))"
proof -
  let ?q = "([], ''www.bank.example'', None) :: subject"
  obtain cfg where cfg: "BuildConfig sample_env initial_catalog sample_profile sample_settings = Inr cfg"
    by (rule sample_config)
  have mode: "SettingsMode sample_settings = ModeAll"
    by (simp add: sample_settings_def DefaultSettings_def)
  have route: "route_decision rule_holds cfg (subject_connection 4 ?q) = Routed ''direct''"
    unfolding route_policy [OF documented_rule_holds cfg sample_normalized sample_spelled] sample_policy by simp
  have "\<not> when_given (ConnIP (subject_connection 4 ?q)) (\<lambda>ip. list_ex (cidr_contains ip) localCIDRs)"
    by (simp add: subject_connection_def)
  then show ?thesis
    using full_tunnel_no_leak [OF documented_rule_holds cfg sample_normalized mode route] cfg mode route by auto
qed



end
