(* ===== verification/SmartPresetsFacts.thy ===== *)
theory SmartPresetsFacts
  imports SmartPresets GoStringFacts
begin

text \<open>
  The properties of the signed catalog over whole histories: a process loads the cache and
  updates the catalog any number of times, while anybody may change the files.
\<close>

subsection \<open>What a verified payload is\<close>

definition signed :: "smart_env \<Rightarrow> PresetPayload \<Rightarrow> bool" where
  "signed E payload \<longleftrightarrow>
     (\<exists>key bytes sig. presetPublicKey E = Inr key \<and> ed25519_Verify E key bytes sig \<and>
        decode_payload E bytes = Some payload)"

definition safe_process :: "smart_env \<Rightarrow> string \<Rightarrow> bool" where
  "safe_process E p \<longleftrightarrow>
     ToLower (case_lower E) p \<notin> set blocked_processes \<and> HasSuffix (ToLower (case_lower E) p) ''.exe'' \<and> Base p = p"

definition catalog_ok :: "smart_env \<Rightarrow> Service list \<Rightarrow> bool" where
  "catalog_ok E ss \<longleftrightarrow>
     distinct (map ServiceID ss) \<and> set (map ServiceID builtinServiceCatalog) \<subseteq> set (map ServiceID ss) \<and>
     list_all (\<lambda>s. list_all (safe_process E) (ProcessNames s)) ss"

lemma validate_processes_safe:
  "validate_processes E seen ps = None \<Longrightarrow> list_all (safe_process E) ps"
  by (induction E seen ps rule: validate_processes.induct) (auto simp: Let_def safe_process_def split: if_splits)

lemma validate_services_ok:
  "validate_services E i seen tot ss = None \<Longrightarrow>
   distinct (map ServiceID ss) \<and> set (map ServiceID ss) \<inter> set seen = {} \<and>
   list_all (\<lambda>s. list_all (safe_process E) (ProcessNames s)) ss"
proof (induction E i seen tot ss rule: validate_services.induct)
  case (2 E i seen tot s ss)
  then have v: "validate_service E i s seen tot = None"
    and rest: "validate_services E (i + 1) (ServiceID s # seen) (tot + entry_count s) ss = None"
    by (auto split: option.splits)
  have "ServiceID s \<notin> set seen" and "validatePresetProcesses E (ProcessNames s) = None"
    using v by (auto simp: validate_service_def split: if_splits option.splits)
  then show ?case
    using 2(1) [OF v rest] validate_processes_safe [of E "[]" "ProcessNames s"]
    by (auto simp: validatePresetProcesses_def)
qed simp

lemma ValidatePresetPayload_ok:
  assumes "ValidatePresetPayload E data now = Inr payload"
  shows "decode_payload E data = Some payload" "catalog_ok E (PayloadServices payload)"
    "builtinCatalogRevision \<le> PayloadRevision payload"
proof -
  have v: "validate_services E 0 [] 0 (PayloadServices payload) = None"
    and f: "find (\<lambda>s. ServiceID s \<notin> set (map ServiceID (PayloadServices payload))) builtinServiceCatalog = None"
    and d: "decode_payload E data = Some payload"
    and r: "\<not> PayloadRevision payload < builtinCatalogRevision"
    using assms by (auto simp: ValidatePresetPayload_def split: if_splits option.splits)
  show "decode_payload E data = Some payload" by fact
  show "catalog_ok E (PayloadServices payload)"
    using validate_services_ok [OF v] f by (auto simp: catalog_ok_def find_None_iff)
  show "builtinCatalogRevision \<le> PayloadRevision payload" using r by simp
qed

lemma verifyPresetEnvelope_ok:
  assumes "presetPublicKey E = Inr key" and "verifyPresetEnvelope E data key keyID now = Inr payload"
  shows "signed E payload \<and> catalog_ok E (PayloadServices payload)"
proof -
  obtain bytes sig where "ed25519_Verify E key bytes sig" "ValidatePresetPayload E bytes now = Inr payload"
    using assms(2) by (auto simp: verifyPresetEnvelope_def split: if_splits option.splits)
  then show ?thesis
    using assms(1) ValidatePresetPayload_ok [of E bytes now payload] unfolding signed_def by blast
qed

subsection \<open>Histories of the catalog\<close>

text \<open>
  A step of a process: loading the cache, an update, or any change of the files by somebody
  else. The clock moves between steps, and each step meets its own file system and network.
\<close>

inductive catalog_step :: "smart_env \<Rightarrow> path \<Rightarrow> preset_store \<Rightarrow> preset_store \<Rightarrow> bool" for E cachePath where
  load: "LoadCachedServiceCatalog (E\<lparr>Now := t\<rparr>) fl cachePath message st = (r, st') \<Longrightarrow>
    catalog_step E cachePath st st'"
| update: "UpdateServiceCatalog (E\<lparr>Now := t\<rparr>) fl cachePath get message st = (r', st') \<Longrightarrow>
    catalog_step E cachePath st st'"
| tamper: "catalog_step E cachePath st (st\<lparr>disk := d\<rparr>)"

inductive_cases catalog_stepE: "catalog_step E cachePath st st'"

definition authentic :: "smart_env \<Rightarrow> catalog_state \<Rightarrow> bool" where
  "authentic E c \<longleftrightarrow>
     catalog_ok E (services c) \<and>
     (services c = builtinServiceCatalog \<and> Revision (status c) = builtinCatalogRevision \<or>
      (\<exists>payload. signed E payload \<and> services c = PayloadServices payload \<and>
         Revision (status c) = PayloadRevision payload))"

text \<open>The transitions of the catalog that any step makes: a note of a check, or an advance.\<close>

definition advance :: "smart_env \<Rightarrow> catalog_state \<Rightarrow> catalog_state \<Rightarrow> bool" where
  "advance E c c' \<longleftrightarrow>
     services c' = services c \<and> Revision (status c') = Revision (status c) \<and> Digest (status c') = Digest (status c) \<or>
     authentic E c' \<and> Revision (status c) \<le> Revision (status c') \<and>
     (Revision (status c') = Revision (status c) \<and> Digest (status c) \<noteq> [] \<longrightarrow>
        Digest (status c') = Digest (status c))"

lemma advance_refl [simp]: "advance E c c"
  by (simp add: advance_def)

lemma advance_record [simp]: "advance E c (recordServiceCatalogCheck t err c)"
  by (simp add: advance_def recordServiceCatalogCheck_def)

lemma advance_record_after: "advance E c c' \<Longrightarrow> advance E c (recordServiceCatalogCheck t err c')"
  by (simp add: advance_def recordServiceCatalogCheck_def authentic_def)

lemma advance_apply:
  assumes "presetPublicKey E = Inr key" and "verifyPresetEnvelope E data key keyID now = Inr payload"
    and "Revision (status c) \<le> Revision st" "Revision st = PayloadRevision payload"
    and "Revision st = Revision (status c) \<longrightarrow> Digest (status c) = [] \<or> Digest st = Digest (status c)"
  shows "advance E c (applyServiceCatalog (PayloadServices payload) st c)"
  using assms(3-5) verifyPresetEnvelope_ok [OF assms(1,2)]
  by (auto simp: advance_def authentic_def applyServiceCatalog_def)

lemma load_advance:
  "advance E (catalog st) (catalog (snd (LoadCachedServiceCatalog E fl cachePath message st)))"
proof (cases "cached_payload E fl cachePath st")
  case (Inr x)
  show ?thesis
  proof (cases x)
    case (Some p)
    obtain payload digest where p: "p = (payload, digest)" by (cases p)
    obtain data key where "presetPublicKey E = Inr key"
        "verifyPresetEnvelope E data key presetPublicKeyID (Now E) = Inr payload"
      and "\<not> PayloadRevision payload < Revision (status (catalog st))"
        "\<not> (PayloadRevision payload = Revision (status (catalog st)) \<and> Digest (status (catalog st)) \<noteq> []
            \<and> digest \<noteq> Digest (status (catalog st)))"
      using Inr Some p
      by (auto simp: cached_payload_def Let_def ServiceCatalogStatus_def split: sum.splits if_splits file_error.splits)
    then show ?thesis
      by (simp add: LoadCachedServiceCatalog_def Inr Some p) (rule advance_apply; auto)
  qed (simp add: LoadCachedServiceCatalog_def Inr)
qed (simp add: LoadCachedServiceCatalog_def)

lemma try_url_advance:
  assumes "presetPublicKey E = Inr key"
  shows "advance E (catalog st) (catalog (snd (try_url E fl cachePath get key keyID now u st)))"
    and "isl (fst (try_url E fl cachePath get key keyID now u st)) \<Longrightarrow>
      catalog (snd (try_url E fl cachePath get key keyID now u st)) = catalog st"
proof -
  show "isl (fst (try_url E fl cachePath get key keyID now u st)) \<Longrightarrow>
      catalog (snd (try_url E fl cachePath get key keyID now u st)) = catalog st"
    by (auto simp: try_url_def Let_def split: sum.splits if_splits prod.splits option.splits)
  show "advance E (catalog st) (catalog (snd (try_url E fl cachePath get key keyID now u st)))"
    by (auto simp: try_url_def Let_def ServiceCatalogStatus_def
        intro!: advance_apply [OF assms] split: sum.splits prod.splits option.splits)
qed

lemma try_urls_advance:
  assumes "presetPublicKey E = Inr key"
  shows "advance E (catalog st) (catalog (snd (try_urls E fl cachePath get key keyID now errs urls st)))"
proof (induction urls arbitrary: errs st)
  case (Cons u urls)
  obtain r st' where t: "try_url E fl cachePath get key keyID now u st = (r, st')" by fastforce
  show ?case
    using Cons.IH [where st = st'] try_url_advance [OF assms, where st = st and fl = fl and cachePath = cachePath and get = get and keyID = keyID
        and now = now and u = u] t
    by (cases r) simp_all
qed simp

lemma update_advance:
  "advance E (catalog st) (catalog (snd (UpdateServiceCatalog E fl cachePath get message st)))"
proof (cases "presetPublicKey E")
  case (Inr key)
  show ?thesis
    using try_urls_advance [OF Inr, where st = st and fl = fl and cachePath = cachePath and get = get
        and keyID = presetPublicKeyID and now = "Now E" and errs = "[]" and urls = presetUpdateURLs]
    by (auto simp: UpdateServiceCatalog_def updateServiceCatalog_def Inr advance_record_after
        split: prod.splits sum.splits)
qed (simp add: UpdateServiceCatalog_def)

lemma clock_irrelevant [simp]:
  "presetPublicKey (E\<lparr>Now := t\<rparr>) = presetPublicKey E" "signed (E\<lparr>Now := t\<rparr>) = signed E"
  "catalog_ok (E\<lparr>Now := t\<rparr>) = catalog_ok E" "authentic (E\<lparr>Now := t\<rparr>) = authentic E"
  "advance (E\<lparr>Now := t\<rparr>) = advance E"
proof -
  show key: "presetPublicKey (E\<lparr>Now := t\<rparr>) = presetPublicKey E" by (simp add: presetPublicKey_def split: option.split)
  show sig: "signed (E\<lparr>Now := t\<rparr>) = signed E" by (intro ext) (simp add: signed_def key)
  show ok: "catalog_ok (E\<lparr>Now := t\<rparr>) = catalog_ok E"
    by (intro ext) (simp add: catalog_ok_def safe_process_def [abs_def])
  show au: "authentic (E\<lparr>Now := t\<rparr>) = authentic E" by (intro ext) (simp add: authentic_def sig ok)
  show "advance (E\<lparr>Now := t\<rparr>) = advance E" by (intro ext) (simp add: advance_def au)
qed

lemma catalog_step_advance: "catalog_step E cachePath st st' \<Longrightarrow> advance E (catalog st) (catalog st')"
proof (erule catalog_stepE)
  fix t fl message r
  assume "LoadCachedServiceCatalog (E\<lparr>Now := t\<rparr>) fl cachePath message st = (r, st')"
  then show ?thesis using load_advance [where E = "E\<lparr>Now := t\<rparr>" and st = st and fl = fl and cachePath = cachePath and message = message] by simp
next
  fix t fl get message r'
  assume "UpdateServiceCatalog (E\<lparr>Now := t\<rparr>) fl cachePath get message st = (r', st')"
  then show ?thesis using update_advance [where E = "E\<lparr>Now := t\<rparr>" and st = st and fl = fl and cachePath = cachePath
        and get = get and message = message] by simp
qed simp

lemma initial_authentic: "authentic E initial_catalog"
proof -
  have names: "list_all (list_all is_ascii) (map (\<lambda>p. p) (concat (map ProcessNames builtinServiceCatalog)))"
    by code_simp
  have ascii: "ToLower (case_lower E) p = map ascii_lower p"
    if "p \<in> set (ProcessNames s)" "s \<in> set builtinServiceCatalog" for p s
    using names that by (intro ToLower_ascii) (auto simp: list_all_iff)
  have "list_all (\<lambda>s. list_all (\<lambda>p. map ascii_lower p \<notin> set blocked_processes \<and>
      HasSuffix (map ascii_lower p) ''.exe'' \<and> Base p = p) (ProcessNames s)) builtinServiceCatalog"
    by code_simp
  then have "list_all (\<lambda>s. list_all (safe_process E) (ProcessNames s)) builtinServiceCatalog"
    by (simp add: list_all_iff safe_process_def ascii)
  moreover have "distinct (map ServiceID builtinServiceCatalog)"
    by (simp add: builtin_ids)
  ultimately show ?thesis
    by (simp add: authentic_def catalog_ok_def initial_catalog_def)
qed

lemma advance_authentic: "advance E c c' \<Longrightarrow> authentic E c \<Longrightarrow> authentic E c'"
  by (auto simp: advance_def authentic_def)

lemma advance_trans_revision:
  assumes "Revision (status a) \<le> Revision (status b)"
    and "Revision (status b) = Revision (status a) \<and> Digest (status a) \<noteq> [] \<longrightarrow> Digest (status b) = Digest (status a)"
    and "advance E b c"
  shows "Revision (status a) \<le> Revision (status c) \<and>
    (Revision (status c) = Revision (status a) \<and> Digest (status a) \<noteq> [] \<longrightarrow> Digest (status c) = Digest (status a))"
  using assms by (auto simp: advance_def)

text \<open>C24: Whatever happens to the cache file, the network and the clock, the catalog in use is
  the built-in one or the payload of an envelope signed with the embedded key; it has every
  built-in service exactly once and lists no system process.\<close>

theorem catalog_authentic:
  assumes "(catalog_step E cachePath)\<^sup>*\<^sup>* st st'" and "catalog st = initial_catalog"
  shows "authentic E (catalog st')"
  using assms
  by (induction rule: rtranclp_induct) (auto simp: initial_authentic intro: advance_authentic catalog_step_advance)


subsection \<open>An update reaches a good source\<close>

lemma try_url_no_failure:
  assumes "\<forall>op. \<not> fails fl op" and "try_url E fl cachePath get key keyID now u st = (Inl e, st')"
  shows "st' = st"
proof -
  have "fst (writePresetCache fl cachePath data d) = None" for data d
    using assms(1) by (simp add: writePresetCache_def replace_file_def fill_temp_def Let_def)
  then show ?thesis
    using assms(2)
    by (auto simp: try_url_def Let_def split: sum.splits if_splits prod.splits option.splits)
       (metis fst_conv option.distinct(1))
qed

lemma try_url_good:
  assumes "\<forall>op. \<not> fails fl op" and "fetch get u = Inr data"
    and "verifyPresetEnvelope E data key keyID now = Inr payload"
    and "Revision (status (catalog st)) < PayloadRevision payload"
  shows "\<not> isl (fst (try_url E fl cachePath get key keyID now u st))"
proof -
  have "fst (writePresetCache fl cachePath data (disk st)) = None"
    using assms(1) by (simp add: writePresetCache_def replace_file_def fill_temp_def Let_def)
  then show ?thesis
    using assms(2-4) by (auto simp: try_url_def Let_def ServiceCatalogStatus_def split: prod.splits option.splits)
qed

lemma try_url_done:
  assumes "try_url E fl cachePath get key keyID now u st = (Inr b, st')"
  shows "LastError (status (catalog st')) = None \<and> LastChecked (status (catalog st')) = now \<and>
    (if b then Revision (status (catalog st)) < Revision (status (catalog st'))
     else services (catalog st') = services (catalog st))"
  using assms
  by (auto simp: try_url_def Let_def ServiceCatalogStatus_def recordServiceCatalogCheck_def applyServiceCatalog_def
      split: sum.splits if_splits prod.splits option.splits)

lemma try_urls_reach:
  assumes "\<forall>op. \<not> fails fl op" and "fetch get u = Inr data"
    and "verifyPresetEnvelope E data key keyID now = Inr payload"
    and "Revision (status (catalog st)) < PayloadRevision payload"
    and "u \<in> set urls"
  shows "\<exists>b st' v. try_urls E fl cachePath get key keyID now errs urls st = (Inr b, st') \<and>
    try_url E fl cachePath get key keyID now v st = (Inr b, st')"
  using assms(5)
proof (induction urls arbitrary: errs)
  case (Cons v urls)
  obtain r st' where t: "try_url E fl cachePath get key keyID now v st = (r, st')" by fastforce
  show ?case
  proof (cases r)
    case (Inl e)
    then have "st' = st" using try_url_no_failure [OF assms(1)] t by metis
    moreover have "v \<noteq> u" using try_url_good [OF assms(1-4), of cachePath] t Inl by auto
    ultimately show ?thesis using Cons t Inl by auto
  qed (use t in auto)
qed simp

text \<open>C26: An update does not stop at a bad mirror. If one of the URLs delivers a correctly signed
  catalog newer than the current one and the cache can be written, the update ends without an
  error whatever the other URLs deliver, and if it reports a change the revision has grown.\<close>

theorem update_reaches_good_source:
  assumes "\<forall>op. \<not> fails fl op" and "fetch get u = Inr data" and "u \<in> set urls"
    and "verifyPresetEnvelope E data key keyID now = Inr payload"
    and "Revision (status (catalog st)) < PayloadRevision payload"
  shows "\<exists>b st'. updateServiceCatalog E fl cachePath get message urls key keyID now st = (Inr b, st') \<and>
    LastError (status (catalog st')) = None \<and> LastChecked (status (catalog st')) = now \<and>
    (if b then Revision (status (catalog st)) < Revision (status (catalog st'))
     else services (catalog st') = services (catalog st))"
proof -
  obtain b st' v where "try_urls E fl cachePath get key keyID now [] urls st = (Inr b, st')"
    and "try_url E fl cachePath get key keyID now v st = (Inr b, st')"
    using try_urls_reach [OF assms(1,2,4,5,3)] by blast
  then show ?thesis
    using try_url_done by (fastforce simp: updateServiceCatalog_def)
qed

subsection \<open>A signed catalog to evaluate\<close>

definition tiny_service :: "string \<Rightarrow> Service" where
  "tiny_service i = \<lparr>ServiceID = i, ServiceName = ''S'', Description = ''D'', ProcessNames = [''app.exe''],
     Domains = [], DomainSuffixes = []\<rparr>"

definition tiny_payload :: PresetPayload where
  "tiny_payload = \<lparr>PayloadSchema = 1, PayloadRevision = 2, Published = 1,
     PayloadServices = map tiny_service [''discord'', ''youtube'', ''telegram'', ''instagram'', ''ai'']\<rparr>"

definition tiny_envelope :: presetEnvelope where
  "tiny_envelope = \<lparr>EnvelopeSchema = 1, KeyID = presetPublicKeyID, Payload = ''AAAA'',
     Signature = EncodeBase64 (replicate 64 7)\<rparr>"

definition preset_env :: smart_env where
  "preset_env =
     \<lparr>case_lower = (\<lambda>r. r), case_fold = (\<lambda>r. r), Clean = (\<lambda>p. p), JoinPath = concat,
      url_Parse = (\<lambda>_. None), ToASCII = (\<lambda>h. Some h), decode_envelope = (\<lambda>_. Some tiny_envelope),
      unmarshal_envelope = (\<lambda>_. Some tiny_envelope), decode_payload = (\<lambda>_. Some tiny_payload),
      ed25519_Verify = (\<lambda>_ _ sig. sig = replicate 64 7),
      sha256 = (\<lambda>_. [0x43, 0x4f, 0x57, 0x31, 0x4c, 0xd1, 0xee, 0x6c]), Now = 1\<rparr>"

definition good_files :: files where
  "good_files = \<lparr>fails = (\<lambda>_. False), written = (\<lambda>_ s. s), tempName = (\<lambda>p. p @ ''.tmp'')\<rparr>"

definition tiny_store :: preset_store where
  "tiny_store = \<lparr>catalog = initial_catalog, disk = [''cache'' \<mapsto> ''envelope'']\<rparr>"

definition preset_key :: "byte list" where
  "preset_key = the (DecodeBase64 presetPublicKeyB64)"

lemma tiny_key: "presetPublicKey preset_env = Inr preset_key"
  by code_simp

lemma tiny_verified:
  "verifyPresetEnvelope preset_env ''envelope'' preset_key presetPublicKeyID 1 = Inr tiny_payload"
  by code_simp

lemma tiny_revision: "PayloadRevision tiny_payload = 2"
  by (simp add: tiny_payload_def)

lemma tiny_loads:
  "LoadCachedServiceCatalog (preset_env\<lparr>Now := 1\<rparr>) good_files ''cache'' (\<lambda>_. []) tiny_store =
     (None, tiny_store\<lparr>catalog := \<lparr>services = PayloadServices tiny_payload,
        status = \<lparr>Revision = 2, Source = ''verified cache'', Digest = presetPublicKeyID, PublishedAt = 1,
          LastChecked = 0, LastError = None\<rparr>\<rparr>\<rparr>)"
proof -
  have now: "preset_env\<lparr>Now := 1\<rparr> = preset_env" "Now preset_env = 1" by (simp_all add: preset_env_def)
  have digest: "presetEnvelopeDigest preset_env ''envelope'' = presetPublicKeyID" by code_simp
  have read: "readFile good_files (disk tiny_store) ''cache'' = Inr ''envelope''"
    by (simp add: readFile_def good_files_def tiny_store_def)
  have "cached_payload preset_env good_files ''cache'' tiny_store = Inr (Some (tiny_payload, presetPublicKeyID))"
    unfolding cached_payload_def read
    by (simp add: tiny_key now tiny_verified digest tiny_store_def initial_catalog_def
        ServiceCatalogStatus_def tiny_revision builtinCatalogRevision_def)
  then show ?thesis
    by (simp add: now LoadCachedServiceCatalog_def applyServiceCatalog_def tiny_store_def tiny_payload_def initial_catalog_def)
qed

lemma tiny_history:
  obtains st where "(catalog_step preset_env ''cache'')\<^sup>*\<^sup>* tiny_store st" and "Revision (status (catalog st)) = 2"
  by (rule that [OF r_into_rtranclp [of "catalog_step preset_env ''cache''", OF catalog_step.load [OF tiny_loads]]]) simp

theorem catalog_authentic_witness:
  "\<exists>st. (catalog_step preset_env ''cache'')\<^sup>*\<^sup>* tiny_store st \<and> Revision (status (catalog st)) = 2 \<and>
     catalog tiny_store = initial_catalog \<and> authentic preset_env (catalog st)"
proof -
  obtain st where st: "(catalog_step preset_env ''cache'')\<^sup>*\<^sup>* tiny_store st" "Revision (status (catalog st)) = 2"
    by (rule tiny_history)
  have "catalog tiny_store = initial_catalog" by (simp add: tiny_store_def)
  then show ?thesis using catalog_authentic [OF st(1)] st by blast
qed


theorem update_reaches_good_source_witness:
  "\<exists>b st'. updateServiceCatalog preset_env good_files ''cache''
       (\<lambda>u. if u = ''https://mirror'' then Response 200 ''envelope'' True else RequestError) (\<lambda>_. [])
       [''https://down'', ''https://mirror''] preset_key presetPublicKeyID 1 tiny_store = (Inr b, st') \<and>
     LastError (status (catalog st')) = None"
proof -
  let ?get = "\<lambda>u. if u = ''https://mirror'' then Response 200 ''envelope'' True else RequestError"
  have fl: "\<forall>op. \<not> fails good_files op" by (simp add: good_files_def)
  have get: "fetch ?get ''https://mirror'' = Inr ''envelope''"
    by (simp add: fetch_def presetMaxEnvelope_def)
  have url: "''https://mirror'' \<in> set [''https://down'', ''https://mirror'']" by simp
  have newer: "Revision (status (catalog tiny_store)) < PayloadRevision tiny_payload"
    by (simp add: tiny_store_def tiny_payload_def initial_catalog_def builtinCatalogRevision_def)
  show ?thesis
    using update_reaches_good_source [OF fl get url tiny_verified newer, of "''cache''" "\<lambda>_. []"] by blast
qed

end
