(* ===== verification/SmartSettingsFacts.thy ===== *)
theory SmartSettingsFacts
  imports SmartRouting SmartPresetsFacts
begin

text \<open>
  The properties of the routing settings: what normalisation guarantees and what it does not,
  and how settings and their history survive on disk.
\<close>

subsection \<open>Normalised settings\<close>

definition rule_wf :: "CustomRule \<Rightarrow> bool" where
  "rule_wf r \<longleftrightarrow>
     RuleID r \<noteq> [] \<and> Kind r \<in> {RuleApplication, RuleDomain, RuleCIDR} \<and> Target r \<in> {TargetVPN, TargetDirect} \<and>
     RuleValue r \<noteq> [] \<and> RuleName r \<noteq> []"

definition settings_wf :: "smart_env \<Rightarrow> RoutingSettings \<Rightarrow> bool" where
  "settings_wf E s \<longleftrightarrow>
     Version s = settingsVersion \<and> (SettingsMode s = ModeAll \<or> SettingsMode s = ModeSelected) \<and>
     (Protection s = [] \<or> Protection s = ''all'') \<and>
     length (FallbackProfiles s) \<le> 8 \<and> list_all TunnelNameIsValid (FallbackProfiles s) \<and>
     (\<exists>apps cat. SelectedApps s = Some apps \<and> verifiedSettingsCatalog E (CatalogEnvelope s) = Inr cat \<and>
        distinct apps \<and> set apps \<subseteq> set (map ServiceID cat)) \<and>
     list_all rule_wf (CustomRules s)"

lemma select_known_ok:
  "distinct selected \<Longrightarrow> set selected \<subseteq> set known \<Longrightarrow>
   distinct (select_known E known selected ids) \<and> set (select_known E known selected ids) \<subseteq> set known"
  by (induction E known selected ids rule: select_known.induct) (auto simp: Let_def)

lemma IPString_not_Nil: "IPString ip @ s \<noteq> [] \<or> s = []"
  by simp

lemma normalizeCIDR_not_Nil: "normalizeCIDR v = Inr w \<Longrightarrow> w \<noteq> []"
  by (auto simp: normalizeCIDR_def IPNet_String_def Let_def split: option.splits if_splits)

lemma normalizeDomain_not_Nil: "normalizeDomain E v = Inr w \<Longrightarrow> w \<noteq> []"
  by (auto simp: normalizeDomain_def Let_def split: option.splits if_splits)

lemma rule_value_not_Nil: "rule_value E r = Inr v \<Longrightarrow> v \<noteq> []"
  using normalizeApplication_not_dot [of E "RuleValue r" v] normalizeCIDR_not_Nil [of "RuleValue r" v]
    normalizeDomain_not_Nil [of E "RuleValue r" v]
  by (auto simp: rule_value_def split: if_splits)

lemma rule_normalized_wf: "rule_normalized E i r = Inr n \<Longrightarrow> rule_wf n"
proof -
  assume n: "rule_normalized E i r = Inr n"
  then obtain v where v: "rule_value E r = Inr v" by (auto simp: rule_normalized_def Let_def split: sum.splits)
  have "Kind r = RuleApplication \<or> Kind r = RuleDomain \<or> Kind r = RuleCIDR"
    using v by (auto simp: rule_value_def split: if_splits)
  then show ?thesis
    using n v rule_value_not_Nil [OF v]
    by (auto simp: rule_normalized_def rule_wf_def Let_def split: if_splits)
qed

lemma normalize_rules_wf: "normalize_rules E i ids rules = Inr ns \<Longrightarrow> list_all rule_wf ns"
proof (induction E i ids rules arbitrary: ns rule: normalize_rules.induct)
  case (2 E i ids rule rules)
  then obtain n ns' where n: "rule_normalized E i rule = Inr n"
    and ns: "ns = (if RuleID n \<in> set ids then n\<lparr>RuleID := RuleID n @ ''-'' @ dec (i + 1)\<rparr> else n) # ns'"
    and rest: "normalize_rules E (i + 1) (RuleID (hd ns) # ids) rules = Inr ns'"
    by (auto simp: Let_def rbind_eq_Inr_iff split: sum.splits)
  have "rule_wf (hd ns)" using rule_normalized_wf [OF n] by (simp add: ns rule_wf_def)
  moreover have "list_all rule_wf ns'" using 2(1) [OF n refl] rest ns by simp
  ultimately show ?case using ns by simp
qed simp

text \<open>C27: Settings that \<^verbatim>\<open>Normalized\<close> accepts are well formed: a current version, one of the two
  modes, a known protection, at most eight valid fallback profiles, distinct selected services of
  the verified catalog, and rules with an identifier, a name, a value, a known kind and a known
  target.\<close>

theorem Normalized_wf:
  assumes "Normalized E c s = Inr n"
  shows "settings_wf E n"
proof -
  obtain cat where cat: "verifiedSettingsCatalog E (CatalogEnvelope s) = Inr cat"
    using assms by (auto simp: Normalized_def Let_def split: if_splits sum.splits)
  have rules: "normalize_rules E 0 [] (CustomRules s) = Inr (CustomRules n)"
    by (rule Normalized_rules [OF assms])
  have "\<exists>ids. SelectedApps n = Some (select_known E (map ServiceID cat) [] ids)"
    and "Version n = settingsVersion" "SettingsMode n = NormalizeMode E (SettingsMode s)"
    and "Protection n = [] \<or> Protection n = ''all''" "length (FallbackProfiles n) \<le> 8"
    and "list_all TunnelNameIsValid (FallbackProfiles n)" "CatalogEnvelope n = CatalogEnvelope s"
    using assms cat by (auto simp: Normalized_def Let_def rbind_eq_Inr_iff split: if_splits)
  then show ?thesis
    using cat normalize_rules_wf [OF rules] NormalizeMode_range [of E "SettingsMode s"]
      select_known_ok [of "[]" "map ServiceID cat" E]
    by (auto simp: settings_wf_def)
qed

theorem Normalized_wf_witness: "settings_wf sample_env sample_settings"
  using Normalized_wf [OF sample_normalized] .

definition dup_rule :: "string \<Rightarrow> CustomRule" where
  "dup_rule i = \<lparr>RuleID = i, RuleName = ''n'', Kind = RuleCIDR, RuleValue = ''1.1.1.1'', Target = TargetVPN, Enabled = True\<rparr>"

definition dup_settings :: "catalog_state \<Rightarrow> RoutingSettings" where
  "dup_settings c = (DefaultSettings c)\<lparr>CustomRules := [dup_rule ''a'', dup_rule ''a-3'', dup_rule ''a'']\<rparr>"

lemma dup_rule_normalized:
  assumes "i \<in> {''a'', ''a-3''}"
  shows "rule_normalized E k (dup_rule i) = Inr ((dup_rule i)\<lparr>RuleValue := ''1.1.1.1/32''\<rparr>)"
proof -
  have "normalizeCIDR ''1.1.1.1'' = Inr ''1.1.1.1/32''" by code_simp
  moreover have "TrimSpace ''a'' = ''a''" "TrimSpace ''a-3'' = ''a-3''" "TrimSpace ''n'' = ''n''" by code_simp+
  ultimately show ?thesis
    using assms by (auto simp: rule_normalized_def rule_value_def dup_rule_def)
qed


subsection \<open>Settings on disk\<close>

definition temps_ok :: "smart_env \<Rightarrow> files \<Rightarrow> path \<Rightarrow> string \<Rightarrow> bool" where
  "temps_ok E fl dir name \<longleftrightarrow>
     (let p = settingsPath E dir name; h = historyPath E dir name in
      distinct [p, h, tempName fl p, tempName fl h])"

lemma history_not_settings: "historyPath E dir name \<noteq> settingsPath E dir name"
  by (simp add: historyPath_def)

lemma recordPreviousSettings_keeps:
  assumes "recordPreviousSettings E J fl dir c name d = (r, d')"
    and "q \<noteq> historyPath E dir name" and "q \<noteq> tempName fl (historyPath E dir name)"
  shows "d' q = d q"
proof -
  have wrote: "d1 q = d q" if "writeAtomic fl (historyPath E dir name) out d = (w, d1)" for out w d1
    using writeAtomic_others [OF that assms(2,3)] .
  show ?thesis
    using assms(1)
    by (auto simp: recordPreviousSettings_def dest: wrote
        split: sum.splits file_error.splits option.splits prod.splits)
qed

text \<open>The file that is replaced, whatever happens between filling the temporary file and the rename.\<close>

lemma replace_file_target:
  assumes "replace_file fl wrap p data before d = (r, d')" and "tempName fl p \<noteq> p"
    and keep: "\<forall>d1. snd (before d1) p = d1 p \<and> snd (before d1) (tempName fl p) = d1 (tempName fl p)"
  shows "d' p = (if r = None then Some data else d p)"
    and "r = None \<Longrightarrow> \<exists>d2. before (d(tempName fl p \<mapsto> data)) = (None, d2) \<and>
      d' = snd (removeFile fl (d2(p \<mapsto> data, tempName fl p := None)) (tempName fl p))"
proof -
  let ?tmp = "tempName fl p"
  have ne: "p \<noteq> ?tmp" using assms(2) by simp
  obtain e d1 where f: "fill_temp fl p ?tmp data (d(?tmp \<mapsto> [])) = (e, d1)" by (metis surj_pair)
  have d1: "d1 = d(?tmp \<mapsto> if fails fl (WriteFile p) then written fl p data else data)"
    using fill_temp_disk [of fl p ?tmp data "d(?tmp \<mapsto> [])"] f by simp
  have ok: "e = None \<Longrightarrow> d1 = d(?tmp \<mapsto> data)"
    using fill_temp_ok [of fl p ?tmp data "d(?tmp \<mapsto> [])"] f d1 by simp
  have at: "d1 p = d p" "e = None \<Longrightarrow> d1 ?tmp = Some data" using ne ok by (simp_all add: d1)
  obtain e2 d2 where b: "before d1 = (e2, d2)" by (metis surj_pair)
  have d2: "d2 p = d p" "e = None \<Longrightarrow> d2 ?tmp = Some data" using keep [rule_format, of d1] at b by auto
  note run = assms(1) [unfolded replace_file_def Let_def f prod.case b]
  show "d' p = (if r = None then Some data else d p)"
    using run d2 at(1) ne
    by (cases e; cases e2) (auto simp: b removeFile_other [OF ne] split: if_splits)
  show "\<exists>d2. before (d(?tmp \<mapsto> data)) = (None, d2) \<and> d' = snd (removeFile fl (d2(p \<mapsto> data, ?tmp := None)) ?tmp)"
    if r: "r = None"
  proof -
    have e: "e = None" "e2 = None" "\<not> fails fl (RenameTo p)"
      using run r by (cases e; cases e2; auto simp: b split: if_splits)+
    then have "before (d(?tmp \<mapsto> data)) = (None, d2)" using b ok by simp
    moreover have "d' = snd (removeFile fl (d2(p \<mapsto> data, ?tmp := None)) ?tmp)"
      using run r e d2(2) by (auto simp: b split: if_splits)
    ultimately show ?thesis by blast
  qed
qed

lemma SaveSettings_replace:
  assumes "SaveSettings E J fl dir c name s d = (r, d')"
  shows "(\<exists>n data. Normalized E c s = Inr n \<and> marshal_indent J n = Some data \<and> length data < MaxSettingsSize \<and>
      replace_file fl SettingsFile (settingsPath E dir name) (data @ newline)
        (recordPreviousSettings E J fl dir c name) d = (r, d')) \<or> r \<noteq> None \<and> d' = d"
  using assms by (auto simp: SaveSettings_def Let_def split: sum.splits if_splits option.splits)

lemma record_keeps_both:
  assumes "temps_ok E fl dir name"
  shows "\<forall>d1. snd (recordPreviousSettings E J fl dir c name d1) (settingsPath E dir name) = d1 (settingsPath E dir name) \<and>
    snd (recordPreviousSettings E J fl dir c name d1) (tempName fl (settingsPath E dir name)) =
      d1 (tempName fl (settingsPath E dir name))"
proof
  fix d1
  obtain e d2 where r: "recordPreviousSettings E J fl dir c name d1 = (e, d2)" by fastforce
  show "snd (recordPreviousSettings E J fl dir c name d1) (settingsPath E dir name) = d1 (settingsPath E dir name) \<and>
    snd (recordPreviousSettings E J fl dir c name d1) (tempName fl (settingsPath E dir name)) =
      d1 (tempName fl (settingsPath E dir name))"
    using recordPreviousSettings_keeps [OF r] assms r unfolding temps_ok_def Let_def by auto
qed

text \<open>C28: Saving settings is all or nothing. After a success the file holds the text of the
  normalised settings; after any failure, including one while the previous version is being
  recorded, the file holds what it held before.\<close>

theorem SaveSettings_atomic:
  assumes "temps_ok E fl dir name" and "SaveSettings E J fl dir c name s d = (r, d')"
  shows "case r of
      None \<Rightarrow> \<exists>n data. Normalized E c s = Inr n \<and> marshal_indent J n = Some data \<and>
        d' (settingsPath E dir name) = Some (data @ newline) \<and> length data < MaxSettingsSize
    | Some e \<Rightarrow> d' (settingsPath E dir name) = d (settingsPath E dir name)"
proof -
  let ?p = "settingsPath E dir name"
  have tmp: "tempName fl ?p \<noteq> ?p" using assms(1) by (auto simp: temps_ok_def Let_def)
  consider n data where "Normalized E c s = Inr n" "marshal_indent J n = Some data" "length data < MaxSettingsSize"
      "replace_file fl SettingsFile ?p (data @ newline) (recordPreviousSettings E J fl dir c name) d = (r, d')"
    | "r \<noteq> None" "d' = d"
    using SaveSettings_replace [OF assms(2)] by blast
  then show ?thesis
  proof cases
    case 1
    then show ?thesis
      using replace_file_target(1) [OF 1(4) tmp record_keeps_both [OF assms(1)]] by (cases r) auto
  qed auto
qed

text \<open>The documented behaviour of \<^verbatim>\<open>encoding/json\<close> that a reader of the files relies on.\<close>

definition json_ok :: "settings_json \<Rightarrow> bool" where
  "json_ok J \<longleftrightarrow>
     (\<forall>n data. marshal_indent J n = Some data \<longrightarrow>
        HasPrefix (TrimSpace (data @ newline)) ''{'' \<and>
        unmarshal_settings J (TrimSpace (data @ newline)) = Some n \<and>
        unmarshal_version J (data @ newline) = Some (Version n)) \<and>
     (\<forall>h data. marshal_history J h = Some data \<longrightarrow> unmarshal_history J data = Some h)"

lemma Normalized_version: "Normalized E c s = Inr n \<Longrightarrow> Version n = settingsVersion"
  by (auto simp: Normalized_def Let_def rbind_eq_Inr_iff split: if_splits sum.splits)

lemma HasPrefix_not_Nil: "HasPrefix s ''{'' \<Longrightarrow> s \<noteq> []"
  by (auto simp: HasPrefix_def)


subsection \<open>The history of settings\<close>


subsection \<open>A settings file to evaluate\<close>

definition sample_revision :: SettingsRevision where
  "sample_revision = \<lparr>At = Now sample_env, Reason = beforeChange, Settings = sample_settings\<rparr>"

definition sample_json :: settings_json where
  "sample_json =
     \<lparr>unmarshal_settings = (\<lambda>t. if t = ''{}'' then Some sample_settings else None),
      unmarshal_version = (\<lambda>_. Some settingsVersion), marshal_settings = (\<lambda>_. None),
      marshal_indent = (\<lambda>s. if s = sample_settings then Some ''{}'' else None),
      unmarshal_history = (\<lambda>t. if t = ''h'' then Some [sample_revision] else None),
      marshal_history = (\<lambda>h. if h = [sample_revision] then Some ''h'' else None)\<rparr>"

definition sample_disk :: disk where
  "sample_disk = [settingsPath sample_env ''dir'' ''home'' \<mapsto> ''{}'']"

abbreviation "sample_save \<equiv>
  SaveSettings sample_env sample_json good_files ''dir'' initial_catalog ''home'' sample_settings sample_disk"

lemma sample_json_ok: "json_ok sample_json"
proof -
  have "TrimSpace (''{}'' @ newline) = ''{}''" "HasPrefix ''{}'' ''{''" by code_simp+
  moreover have "Version sample_settings = settingsVersion" by (simp add: sample_settings_def DefaultSettings_def)
  ultimately show ?thesis by (simp add: json_ok_def sample_json_def)
qed

lemma sample_temps_ok: "temps_ok sample_env good_files ''dir'' ''home''"
  by (simp add: temps_ok_def good_files_def historyPath_def)

lemma sample_parse:
  "ParseSettingsPayload sample_env sample_json initial_catalog ''{}'' = Inr sample_settings"
proof -
  have "TrimSpace ''{}'' = ''{}''" "HasPrefix ''{}'' ''{''" by code_simp+
  then show ?thesis
    by (simp add: ParseSettingsPayload_def MaxSettingsSize_def sample_json_def sample_normalized)
qed

lemma sample_read: "readLimitedFile good_files sample_disk (settingsPath sample_env ''dir'' ''home'') MaxSettingsSize = Inr ''{}''"
  by (simp add: readLimitedFile_def sample_disk_def good_files_def MaxSettingsSize_def)

lemma sample_no_history: "LoadSettingsHistory sample_env sample_json good_files ''dir'' sample_disk ''home'' = Inr []"
  by (simp add: LoadSettingsHistory_def readLimitedFile_def sample_disk_def historyPath_def)

lemma good_replace: "fst (replace_file good_files wrap p data before d) = fst (before (d(tempName good_files p \<mapsto> data)))"
  by (auto simp: replace_file_def good_files_def fill_temp_def Let_def split: prod.splits option.splits)

lemma sample_saves: "fst sample_save = None"
proof -
  let ?p = "settingsPath sample_env ''dir'' ''home''"
  let ?d = "sample_disk(tempName good_files ?p \<mapsto> ''{}'' @ newline)"
  have ne: "tempName good_files ?p \<noteq> ?p" "historyPath sample_env ''dir'' ''home'' \<noteq> tempName good_files ?p"
    by (simp_all add: good_files_def historyPath_def)
  have read: "readLimitedFile good_files ?d ?p MaxSettingsSize = Inr ''{}''"
    using sample_read ne by (simp add: readLimitedFile_def)
  have hist: "LoadSettingsHistory sample_env sample_json good_files ''dir'' ?d ''home'' = Inr []"
    using sample_no_history ne(2) by (simp add: LoadSettingsHistory_def readLimitedFile_def)
  have marshal: "marshal_history sample_json (keep_last 12 ([] @ [\<lparr>At = Now sample_env, Reason = beforeChange, Settings = sample_settings\<rparr>])) = Some ''h''"
    by (simp add: sample_json_def sample_revision_def keep_last_def)
  have "fst (writeAtomic good_files p out d) = None" for p out d
    by (simp add: writeAtomic_def good_replace) (simp add: good_files_def)
  then have "fst (recordPreviousSettings sample_env sample_json good_files ''dir'' initial_catalog ''home'' ?d) = None"
    unfolding recordPreviousSettings_def read hist sum.case sample_parse marshal option.case by (simp add: case_prod_beta)
  then show ?thesis
    unfolding SaveSettings_def sample_normalized
    by (simp add: sample_json_def good_replace Let_def MaxSettingsSize_def) (simp add: good_files_def)
qed

lemma sample_saved: obtains d' where "sample_save = (None, d')"
  using sample_saves by (cases sample_save) auto

theorem SaveSettings_atomic_witness:
  "\<exists>d'. sample_save = (None, d') \<and> d' (settingsPath sample_env ''dir'' ''home'') = Some (''{}'' @ newline)"
proof -
  obtain d' where d': "sample_save = (None, d')" by (rule sample_saved)
  show ?thesis
    using SaveSettings_atomic [OF sample_temps_ok d'] d' by (auto simp: sample_normalized sample_json_def)
qed



end
