(* ===== verification/Highlighter.thy ===== *)
theory Highlighter
  imports ConfValidation GoText "HOL-Library.Monad_Syntax"
begin

text \<open>
  \<^verbatim>\<open>client/ui/syntax/highlighter.go\<close>, the syntax highlighter of the tunnel editor.

  The code walks over the text with unchecked pointers into the buffer \<^verbatim>\<open>append([]byte(config), 0)\<close>.
  A \<^verbatim>\<open>*byte\<close> is modelled by its offset in that buffer, and a read by \<open>byte_at\<close>, which is \<^const>\<open>None\<close>
  outside of it. Every routine runs in the option monad: \<^const>\<open>None\<close> stands for a read outside
  the buffer or for an index that panics.
\<close>

unbundle bit_operations_syntax

subsection \<open>Data\<close>

datatype highlight =
    highlightSection | highlightField | highlightPrivateKey | highlightPublicKey
  | highlightPresharedKey | highlightIP | highlightCidr | highlightHost | highlightPort
  | highlightMTU | highlightKeepalive | highlightComment | highlightDelimiter | highlightTable
  | highlightCmd | highlightJc | highlightJmin | highlightJmax | highlightS1 | highlightS2
  | highlightS3 | highlightS4 | highlightH1 | highlightH2 | highlightH3 | highlightH4
  | highlightI1 | highlightI2 | highlightI3 | highlightI4 | highlightI5 | highlightWarning
  | highlightError

definition validateHighlight :: "bool \<Rightarrow> highlight \<Rightarrow> highlight" where
  "validateHighlight isValid t = (if isValid then t else highlightError)"

record highlightSpan =
  span_t :: highlight
  span_s :: nat
  span_len :: nat

definition isDecimal :: "char \<Rightarrow> bool" where
  "isDecimal c \<longleftrightarrow> code c \<ge> code CHR ''0'' \<and> code c \<le> code CHR ''9''"

definition isHexadecimal :: "char \<Rightarrow> bool" where
  "isHexadecimal c \<longleftrightarrow>
     isDecimal c \<or> (code c OR 32) \<ge> code CHR ''a'' \<and> (code c OR 32) \<le> code CHR ''f''"

definition isAlphabet :: "char \<Rightarrow> bool" where
  "isAlphabet c \<longleftrightarrow> (code c OR 32) \<ge> code CHR ''a'' \<and> (code c OR 32) \<le> code CHR ''z''"

text \<open>Subtraction of bytes wraps around.\<close>

definition byte_minus :: "nat \<Rightarrow> nat \<Rightarrow> nat" where
  "byte_minus a b = (a + 256 - b) mod 256"

subsection \<open>Spans\<close>

record stringSpan =
  ptr :: nat
  plen :: nat

type_synonym buffer = string

definition byte_at :: "buffer \<Rightarrow> stringSpan \<Rightarrow> nat \<Rightarrow> char option" where
  "byte_at b s i = (if ptr s + i < length b then Some (b ! (ptr s + i)) else None)"

text \<open>\<open>unsafe.Slice\<close> over the span.\<close>

definition span_text :: "buffer \<Rightarrow> stringSpan \<Rightarrow> string option" where
  "span_text b s =
     (if ptr s + plen s \<le> length b then Some (take (plen s) (drop (ptr s) b)) else None)"

text \<open>A loop over indices that returns false at the first byte that fails the test.\<close>

fun every :: "buffer \<Rightarrow> stringSpan \<Rightarrow> (nat \<Rightarrow> char \<Rightarrow> bool) \<Rightarrow> nat list \<Rightarrow> bool option" where
  "every b s P [] = Some True"
| "every b s P (i # is) = do {
     c \<leftarrow> byte_at b s i;
     if P i c then every b s P is else Some False }"

text \<open>A loop that stops at the first byte equal to \<open>c\<close>: its index, if there is one.\<close>

fun find_at :: "buffer \<Rightarrow> stringSpan \<Rightarrow> char \<Rightarrow> nat list \<Rightarrow> nat option option" where
  "find_at b s c [] = Some None"
| "find_at b s c (i # is) = do {
     d \<leftarrow> byte_at b s i;
     if d = c then Some (Some i) else find_at b s c is }"

text \<open>The short-circuit operators of the language.\<close>

definition and_also :: "bool option \<Rightarrow> bool option \<Rightarrow> bool option" where
  "and_also p q = do { x \<leftarrow> p; if x then q else Some False }"

definition or_else :: "bool option \<Rightarrow> bool option \<Rightarrow> bool option" where
  "or_else p q = do { x \<leftarrow> p; if x then Some True else q }"

definition is_at :: "buffer \<Rightarrow> stringSpan \<Rightarrow> nat \<Rightarrow> char \<Rightarrow> bool option" where
  "is_at b s i c = do { d \<leftarrow> byte_at b s i; Some (d = c) }"

definition isSame :: "buffer \<Rightarrow> stringSpan \<Rightarrow> string \<Rightarrow> bool option" where
  "isSame b s c =
     (if plen s \<noteq> length c then Some False
      else every b s (\<lambda>i a. a = c ! i) [0..<plen s])"

definition fold_case :: "char \<Rightarrow> nat" where
  "fold_case a = (if byte_minus (code a) (code CHR ''a'') < 26 then code a AND 95 else code a)"

definition isCaselessSame :: "buffer \<Rightarrow> stringSpan \<Rightarrow> string \<Rightarrow> bool option" where
  "isCaselessSame b s c =
     (if plen s \<noteq> length c then Some False
      else every b s (\<lambda>i a. fold_case a = fold_case (c ! i)) [0..<plen s])"

subsection \<open>Validators\<close>

definition isValidKey :: "buffer \<Rightarrow> stringSpan \<Rightarrow> bool option" where
  "isValidKey b s =
     (if plen s \<noteq> 44 then Some False
      else do {
        c \<leftarrow> byte_at b s 43;
        if c \<noteq> CHR ''='' then Some False
        else do {
          ok \<leftarrow> every b s (\<lambda>_ c. isDecimal c \<or> isAlphabet c \<or> c = CHR ''/'' \<or> c = CHR ''+'') [0..<42];
          if \<not> ok then Some False
          else do { c \<leftarrow> byte_at b s 42; Some (c \<in> set ''AEIMQUYcgkosw480'') } } })"

text \<open>
  The loop of \<^verbatim>\<open>isValidHostname\<close>, with its counters. The last test repeats one for a dot, which
  was handled above it.
\<close>

fun hostname_loop :: "buffer \<Rightarrow> stringSpan \<Rightarrow> int \<Rightarrow> int \<Rightarrow> nat list \<Rightarrow> bool option" where
  "hostname_loop b s numDigit numEntity [] = Some (numDigit \<noteq> numEntity)"
| "hostname_loop b s numDigit numEntity (i # is) = do {
     c \<leftarrow> byte_at b s i;
     if isDecimal c then hostname_loop b s (numDigit + 1) numEntity is
     else if c = CHR ''.'' then hostname_loop b s numDigit (numEntity - 1) is
     else if \<not> isAlphabet c \<and> c \<noteq> CHR ''-'' then Some False
     else do {
       dots \<leftarrow> (if i \<noteq> 0 \<and> c = CHR ''.'' then is_at b s (i - 1) CHR ''.'' else Some False);
       if dots then Some False else hostname_loop b s numDigit numEntity is } }"

definition isValidHostname :: "buffer \<Rightarrow> stringSpan \<Rightarrow> bool option" where
  "isValidHostname b s =
     (if plen s > 63 \<or> plen s = 0 then Some False
      else do {
        dash \<leftarrow> or_else (is_at b s 0 CHR ''-'') (is_at b s (plen s - 1) CHR ''-'');
        if dash then Some False
        else do {
          dot \<leftarrow> or_else (is_at b s 0 CHR ''.'') (is_at b s (plen s - 1) CHR ''.'');
          if dot then Some False else hostname_loop b s 0 (int (plen s)) [0..<plen s] } })"

text \<open>The inner loop of \<^verbatim>\<open>isValidIPv4\<close>: at most \<open>n\<close> more digits.\<close>

fun ipv4_digits :: "buffer \<Rightarrow> stringSpan \<Rightarrow> nat \<Rightarrow> nat \<Rightarrow> nat \<Rightarrow> nat \<Rightarrow> (nat \<times> nat) option" where
  "ipv4_digits b s pos 0 j val = Some (j, val)"
| "ipv4_digits b s pos (Suc n) j val =
     (if pos + j < plen s then do {
        c \<leftarrow> byte_at b s (pos + j);
        if isDecimal c
        then ipv4_digits b s pos n (j + 1) (10 * val + byte_minus (code c) (code CHR ''0''))
        else Some (j, val) }
      else Some (j, val))"

text \<open>The outer loop, with \<open>n = 4 - i\<close> rounds left.\<close>

fun ipv4_loop :: "buffer \<Rightarrow> stringSpan \<Rightarrow> nat \<Rightarrow> nat \<Rightarrow> nat \<Rightarrow> bool option" where
  "ipv4_loop b s 0 i pos = Some False"
| "ipv4_loop b s (Suc n) i pos =
     (if pos < plen s then do {
        (j, val) \<leftarrow> ipv4_digits b s pos 3 0 0;
        bad \<leftarrow> or_else (Some (j = 0)) (or_else (and_also (Some (j > 1)) (is_at b s pos CHR ''0'')) (Some (val > 255)));
        if bad then Some False
        else if pos + j = plen s \<and> i = 3 then Some True
        else do {
          dot \<leftarrow> is_at b s (pos + j) CHR ''.'';
          if \<not> dot then Some False else ipv4_loop b s n (i + 1) (pos + (j + 1)) } }
      else Some False)"

definition isValidIPv4 :: "buffer \<Rightarrow> stringSpan \<Rightarrow> bool option" where
  "isValidIPv4 b s = ipv4_loop b s 4 0 0"

text \<open>The inner loop of \<^verbatim>\<open>isValidIPv6\<close>: the length of a run of at most \<open>n\<close> hexadecimal digits.\<close>

fun hex_run :: "buffer \<Rightarrow> stringSpan \<Rightarrow> nat \<Rightarrow> nat \<Rightarrow> nat \<Rightarrow> nat option" where
  "hex_run b s pos 0 j = Some j"
| "hex_run b s pos (Suc n) j =
     (if pos + j < plen s then do {
        c \<leftarrow> byte_at b s (pos + j);
        if isHexadecimal c then hex_run b s pos n (j + 1) else Some j }
      else Some j)"

text \<open>
  The outer loop. Every round that continues advances \<open>pos\<close>; the round with \<open>i = 7\<close> is the last.
\<close>

function ipv6_loop :: "buffer \<Rightarrow> stringSpan \<Rightarrow> nat \<Rightarrow> nat \<Rightarrow> bool \<Rightarrow> bool option" where
  "ipv6_loop b s i pos seenColon =
     (if pos < plen s then
        (case byte_at b s pos of
           None \<Rightarrow> None
         | Some c \<Rightarrow>
           if c = CHR '':'' \<and> \<not> seenColon then
             (if pos + 1 = plen s then Some True
              else if i = 7 then Some False
              else ipv6_loop b s (i + 1) (pos + 1) True)
           else
             (case hex_run b s pos 4 0 of
                None \<Rightarrow> None
              | Some j \<Rightarrow>
                if j = 0 then Some False
                else if pos + j = plen s \<and> (seenColon \<or> i = 7) then Some True
                else if i = 7 then Some False
                else (case byte_at b s (pos + j) of
                  None \<Rightarrow> None
                | Some d \<Rightarrow>
                  if d \<noteq> CHR '':'' then
                    (if d \<noteq> CHR ''.'' \<or> i < 6 \<and> \<not> seenColon then Some False
                     else isValidIPv4 b \<lparr>ptr = ptr s + pos, plen = plen s - pos\<rparr>)
                  else ipv6_loop b s (i + 1) (pos + (j + 1)) seenColon)))
      else Some True)"
  by pat_completeness auto
termination by (relation "measure (\<lambda>(b, s, i, pos, seen). plen s - pos)") auto

declare ipv6_loop.simps [simp del]

definition isValidIPv6 :: "buffer \<Rightarrow> stringSpan \<Rightarrow> bool option" where
  "isValidIPv6 b s =
     (if plen s < 2 then Some False
      else do {
        first \<leftarrow> is_at b s 0 CHR '':'';
        second \<leftarrow> (if first then is_at b s 1 CHR '':'' else Some True);
        if \<not> second then Some False
        else do {
          open_end \<leftarrow> and_also (is_at b s (plen s - 1) CHR '':'')
                        (do { d \<leftarrow> is_at b s (plen s - 2) CHR '':''; Some (\<not> d) });
          if open_end then Some False
          else ipv6_loop b s 0 (if first then 1 else 0) False } })"

text \<open>
  The two loops of \<^verbatim>\<open>isValidUint\<close>: the value read, if every byte is a digit. At most ten digits
  reach them, so the sum stays within 64 bits.
\<close>

fun uint_dec :: "buffer \<Rightarrow> stringSpan \<Rightarrow> nat \<Rightarrow> nat list \<Rightarrow> nat option option" where
  "uint_dec b s val [] = Some (Some val)"
| "uint_dec b s val (i # is) = do {
     c \<leftarrow> byte_at b s i;
     if \<not> isDecimal c then Some None
     else uint_dec b s (10 * val + byte_minus (code c) (code CHR ''0'')) is }"

fun uint_hex :: "buffer \<Rightarrow> stringSpan \<Rightarrow> nat \<Rightarrow> nat list \<Rightarrow> nat option option" where
  "uint_hex b s val [] = Some (Some val)"
| "uint_hex b s val (i # is) = do {
     c \<leftarrow> byte_at b s i;
     if byte_minus (code c) (code CHR ''0'') < 10
     then uint_hex b s (16 * val + byte_minus (code c) (code CHR ''0'')) is
     else if byte_minus (code c OR 32) (code CHR ''a'') < 6
     then uint_hex b s (16 * val + (byte_minus (code c OR 32) (code CHR ''a'') + 10)) is
     else Some None }"

definition isValidUint :: "buffer \<Rightarrow> stringSpan \<Rightarrow> bool \<Rightarrow> nat \<Rightarrow> nat \<Rightarrow> bool option" where
  "isValidUint b s supportHex lo hi =
     (if plen s > 10 \<or> plen s = 0 then Some False
      else do {
        hex \<leftarrow> and_also (Some (supportHex \<and> plen s > 2))
                 (and_also (is_at b s 0 CHR ''0'') (is_at b s 1 CHR ''x''));
        val \<leftarrow> (if hex then uint_hex b s 0 [2..<plen s] else uint_dec b s 0 [0..<plen s]);
        Some (case val of None \<Rightarrow> False | Some v \<Rightarrow> v \<le> hi \<and> v \<ge> lo) })"

definition isValidPort :: "buffer \<Rightarrow> stringSpan \<Rightarrow> bool option" where
  "isValidPort b s = isValidUint b s False 0 65535"

definition isValidMTU :: "buffer \<Rightarrow> stringSpan \<Rightarrow> bool option" where
  "isValidMTU b s = isValidUint b s False 576 65535"

definition isValidTable :: "buffer \<Rightarrow> stringSpan \<Rightarrow> bool option" where
  "isValidTable b s =
     or_else (isSame b s ''off'') (or_else (isSame b s ''auto'') (or_else (isSame b s ''main'')
       (isValidUint b s False 0 (2 ^ 32 - 1))))"

definition isValidPersistentKeepAlive :: "buffer \<Rightarrow> stringSpan \<Rightarrow> bool option" where
  "isValidPersistentKeepAlive b s = do {
     off \<leftarrow> isSame b s ''off'';
     if off then Some True else isValidUint b s False 0 65535 }"

definition isValidPrePostUpDown :: "stringSpan \<Rightarrow> bool" where
  "isValidPrePostUpDown s \<longleftrightarrow> plen s \<noteq> 0"

definition isValidScope :: "buffer \<Rightarrow> stringSpan \<Rightarrow> bool option" where
  "isValidScope b s =
     (if plen s > 64 \<or> plen s = 0 then Some False
      else every b s (\<lambda>_ c. \<not> (isAlphabet c \<and> \<not> isDecimal c \<and> c \<noteq> CHR ''_'' \<and> c \<noteq> CHR ''='' \<and>
             c \<noteq> CHR ''+'' \<and> c \<noteq> CHR ''.'' \<and> c \<noteq> CHR ''-'')) [0..<plen s])"

text \<open>The loop of \<^verbatim>\<open>isValidEndpoint\<close> behind an opening bracket.\<close>

fun bracket_loop :: "buffer \<Rightarrow> stringSpan \<Rightarrow> bool \<Rightarrow> stringSpan \<Rightarrow> nat list \<Rightarrow> bool option" where
  "bracket_loop b s seenScope hostspan [] = Some False"
| "bracket_loop b s seenScope hostspan (i # is) = do {
     c \<leftarrow> byte_at b s i;
     if c = CHR ''%'' then
       (if seenScope then Some False
        else do {
          ok \<leftarrow> isValidIPv6 b hostspan;
          if \<not> ok then Some False
          else bracket_loop b s True \<lparr>ptr = ptr s + (i + 1), plen = 0\<rparr> is })
     else if c = CHR '']'' then do {
       ok \<leftarrow> (if seenScope then isValidScope b hostspan else isValidIPv6 b hostspan);
       if \<not> ok then Some False
       else do {
         colon \<leftarrow> (if i = plen s - 1 then Some False else is_at b s (i + 1) CHR '':'');
         if \<not> colon then Some False
         else isValidPort b \<lparr>ptr = ptr s + (i + 2), plen = plen s - i - 2\<rparr> } }
     else bracket_loop b s seenScope (hostspan\<lparr>plen := plen hostspan + 1\<rparr>) is }"

definition isValidEndpoint :: "buffer \<Rightarrow> stringSpan \<Rightarrow> bool option" where
  "isValidEndpoint b s =
     (if plen s = 0 then Some False
      else do {
        bracket \<leftarrow> is_at b s 0 CHR ''['';
        if bracket
        then bracket_loop b s False \<lparr>ptr = ptr s + 1, plen = 0\<rparr> [1..<plen s]
        else do {
          colon \<leftarrow> find_at b s CHR '':'' [0..<plen s];
          case colon of
            None \<Rightarrow> Some False
          | Some i \<Rightarrow>
              let host = \<lparr>ptr = ptr s, plen = i\<rparr>;
                  port = \<lparr>ptr = ptr s + (i + 1), plen = plen s - i - 1\<rparr> in
              and_also (isValidPort b port) (or_else (isValidIPv4 b host) (isValidHostname b host)) } })"

definition isValidNetwork :: "buffer \<Rightarrow> stringSpan \<Rightarrow> bool option" where
  "isValidNetwork b s = do {
     slash \<leftarrow> find_at b s CHR ''/'' [0..<plen s];
     case slash of
       None \<Rightarrow> or_else (isValidIPv4 b s) (isValidIPv6 b s)
     | Some i \<Rightarrow>
         let ip = \<lparr>ptr = ptr s, plen = i\<rparr>;
             cidr = \<lparr>ptr = ptr s + (i + 1), plen = plen s - i - 1\<rparr> in
         if plen cidr > 3 \<or> plen cidr = 0 then Some False
         else do {
           cidrval \<leftarrow> uint_dec b cidr 0 [0..<plen cidr];
           case cidrval of
             None \<Rightarrow> Some False
           | Some v \<Rightarrow> do {
               v4 \<leftarrow> isValidIPv4 b ip;
               if v4 then Some (v \<le> 32)
               else do { v6 \<leftarrow> isValidIPv6 b ip; Some (v6 \<and> v \<le> 128) } } } }"

definition isValidRange :: "buffer \<Rightarrow> stringSpan \<Rightarrow> nat \<Rightarrow> bool option" where
  "isValidRange b s bits = do {
     t \<leftarrow> span_text b s;
     Some (case ParseAWGRange t bits of Inl _ \<Rightarrow> False | Inr _ \<Rightarrow> True) }"

definition isValidHField :: "buffer \<Rightarrow> stringSpan \<Rightarrow> bool option" where
  "isValidHField b s = isValidRange b s 32"

definition isValidIField :: "buffer \<Rightarrow> stringSpan \<Rightarrow> bool option" where
  "isValidIField b s = do {
     t \<leftarrow> span_text b s;
     Some (case ValidateCPS t of Inl _ \<Rightarrow> False | Inr _ \<Rightarrow> True) }"

subsection \<open>Fields\<close>

datatype field =
    fieldInterfaceSection | fieldPrivateKey | fieldListenPort | fieldAddress | fieldDNS
  | fieldMTU | fieldTable | fieldPreUp | fieldPostUp | fieldPreDown | fieldPostDown | fieldJc
  | fieldJmin | fieldJmax | fieldS1 | fieldS2 | fieldS3 | fieldS4 | fieldH1 | fieldH2 | fieldH3
  | fieldH4 | fieldI1 | fieldI2 | fieldI3 | fieldI4 | fieldI5 | fieldHeaderProtectionKey
  | fieldContentPaddingAddition | fieldRekeyAfterTime | fieldRekeyTimeout | fieldRejectAfterTime
  | fieldKeepaliveTimeout | fieldMaxHandshakeAttempts | fieldRandomTrailers
  | fieldDisableCookies | fieldPeerSection | fieldPublicKey | fieldPresharedKey
  | fieldAllowedIPs | fieldEndpoint | fieldPersistentKeepalive | fieldInvalid

text \<open>The constants in the order of their declaration; a constant is its position.\<close>

definition fields :: "field list" where
  "fields =
     [fieldInterfaceSection, fieldPrivateKey, fieldListenPort, fieldAddress, fieldDNS, fieldMTU,
      fieldTable, fieldPreUp, fieldPostUp, fieldPreDown, fieldPostDown, fieldJc, fieldJmin,
      fieldJmax, fieldS1, fieldS2, fieldS3, fieldS4, fieldH1, fieldH2, fieldH3, fieldH4, fieldI1,
      fieldI2, fieldI3, fieldI4, fieldI5, fieldHeaderProtectionKey, fieldContentPaddingAddition,
      fieldRekeyAfterTime, fieldRekeyTimeout, fieldRejectAfterTime, fieldKeepaliveTimeout,
      fieldMaxHandshakeAttempts, fieldRandomTrailers, fieldDisableCookies, fieldPeerSection,
      fieldPublicKey, fieldPresharedKey, fieldAllowedIPs, fieldEndpoint,
      fieldPersistentKeepalive, fieldInvalid]"

definition field_value :: "field \<Rightarrow> nat" where
  "field_value t = length (takeWhile (\<lambda>u. u \<noteq> t) fields)"

definition sectionForField :: "field \<Rightarrow> field" where
  "sectionForField t =
     (if field_value t > field_value fieldInterfaceSection \<and> field_value t < field_value fieldPeerSection
      then fieldInterfaceSection
      else if field_value t > field_value fieldPeerSection \<and> field_value t < field_value fieldInvalid
      then fieldPeerSection
      else fieldInvalid)"

text \<open>The cases of \<^verbatim>\<open>field\<close> in their order, and the switch over them.\<close>

definition field_names :: "(string \<times> field) list" where
  "field_names =
     [(''HeaderProtectionKey'', fieldHeaderProtectionKey),
      (''ContentPaddingAddition'', fieldContentPaddingAddition),
      (''RekeyAfterTime'', fieldRekeyAfterTime), (''RekeyTimeout'', fieldRekeyTimeout),
      (''RejectAfterTime'', fieldRejectAfterTime), (''KeepaliveTimeout'', fieldKeepaliveTimeout),
      (''MaxHandshakeAttempts'', fieldMaxHandshakeAttempts),
      (''RandomTrailers'', fieldRandomTrailers), (''DisableCookies'', fieldDisableCookies),
      (''PrivateKey'', fieldPrivateKey), (''ListenPort'', fieldListenPort),
      (''Address'', fieldAddress), (''DNS'', fieldDNS), (''MTU'', fieldMTU),
      (''Table'', fieldTable), (''PublicKey'', fieldPublicKey),
      (''PresharedKey'', fieldPresharedKey), (''AllowedIPs'', fieldAllowedIPs),
      (''Endpoint'', fieldEndpoint), (''PersistentKeepalive'', fieldPersistentKeepalive),
      (''PreUp'', fieldPreUp), (''PostUp'', fieldPostUp), (''PreDown'', fieldPreDown),
      (''PostDown'', fieldPostDown), (''Jc'', fieldJc), (''Jmin'', fieldJmin),
      (''Jmax'', fieldJmax), (''S1'', fieldS1), (''S2'', fieldS2), (''S3'', fieldS3),
      (''S4'', fieldS4), (''H1'', fieldH1), (''H2'', fieldH2), (''H3'', fieldH3),
      (''H4'', fieldH4), (''I1'', fieldI1), (''I2'', fieldI2), (''I3'', fieldI3),
      (''I4'', fieldI4), (''I5'', fieldI5)]"

fun switch_name :: "buffer \<Rightarrow> stringSpan \<Rightarrow> (string \<times> field) list \<Rightarrow> field option" where
  "switch_name b s [] = Some fieldInvalid"
| "switch_name b s ((name, t) # cases) = do {
     same \<leftarrow> isCaselessSame b s name;
     if same then Some t else switch_name b s cases }"

definition field_of :: "buffer \<Rightarrow> stringSpan \<Rightarrow> field option" where
  "field_of b s = switch_name b s field_names"

definition sectionType :: "buffer \<Rightarrow> stringSpan \<Rightarrow> field option" where
  "sectionType b s =
     switch_name b s [(''[Peer]'', fieldPeerSection), (''[Interface]'', fieldInterfaceSection)]"

subsection \<open>Values\<close>

type_synonym highlightSpanArray = "highlightSpan list"

text \<open>
  \<^verbatim>\<open>highlightSpanArray.append\<close>; the parent is always the whole buffer, so the offset from the
  parent is the pointer itself.
\<close>

definition append_span :: "highlightSpanArray \<Rightarrow> stringSpan \<Rightarrow> highlight \<Rightarrow> highlightSpanArray" where
  "append_span hsa s t =
     (if plen s = 0 then hsa else hsa @ [\<lparr>span_t = t, span_s = ptr s, span_len = plen s\<rparr>])"

definition highlightMultivalueValue ::
    "buffer \<Rightarrow> highlightSpanArray \<Rightarrow> stringSpan \<Rightarrow> field \<Rightarrow> highlightSpanArray option" where
  "highlightMultivalueValue b hsa s section =
     (if section = fieldDNS then do {
        ip \<leftarrow> or_else (isValidIPv4 b s) (isValidIPv6 b s);
        if ip then Some (append_span hsa s highlightIP)
        else do {
          host \<leftarrow> isValidHostname b s;
          Some (append_span hsa s (if host then highlightHost else highlightError)) } }
      else if section \<in> {fieldAddress, fieldAllowedIPs} then do {
        net \<leftarrow> isValidNetwork b s;
        if \<not> net then Some (append_span hsa s highlightError)
        else do {
          found \<leftarrow> find_at b s CHR ''/'' [0..<plen s];
          let slash = (case found of None \<Rightarrow> plen s | Some i \<Rightarrow> i);
          if slash = plen s then Some (append_span hsa s highlightIP)
          else Some (append_span (append_span (append_span hsa
                 \<lparr>ptr = ptr s, plen = slash\<rparr> highlightIP)
                 \<lparr>ptr = ptr s + slash, plen = 1\<rparr> highlightDelimiter)
                 \<lparr>ptr = ptr s + (slash + 1), plen = plen s - slash - 1\<rparr> highlightCidr) } }
      else Some (append_span hsa s highlightError))"

text \<open>The loop of \<^verbatim>\<open>highlightMultivalue\<close> over the indices of the value.\<close>

fun multivalue_loop ::
    "buffer \<Rightarrow> stringSpan \<Rightarrow> field \<Rightarrow> highlightSpanArray \<Rightarrow> stringSpan \<Rightarrow> nat \<Rightarrow> nat list \<Rightarrow>
     (highlightSpanArray \<times> stringSpan \<times> nat) option" where
  "multivalue_loop b s section hsa currentSpan lenAtLastSpace [] =
     Some (hsa, currentSpan, lenAtLastSpace)"
| "multivalue_loop b s section hsa currentSpan lenAtLastSpace (i # is) = do {
     c \<leftarrow> byte_at b s i;
     if c = CHR '','' then do {
       hsa \<leftarrow> highlightMultivalueValue b hsa (currentSpan\<lparr>plen := lenAtLastSpace\<rparr>) section;
       multivalue_loop b s section
         (append_span hsa \<lparr>ptr = ptr s + i, plen = 1\<rparr> highlightDelimiter)
         \<lparr>ptr = ptr s + (i + 1), plen = 0\<rparr> 0 is }
     else if c = CHR '' '' \<or> c = CHR 0x09 then
       (if ptr s + i = ptr currentSpan \<and> plen currentSpan = 0
        then multivalue_loop b s section hsa
               (currentSpan\<lparr>ptr := ptr currentSpan + 1\<rparr>) lenAtLastSpace is
        else multivalue_loop b s section hsa
               (currentSpan\<lparr>plen := plen currentSpan + 1\<rparr>) lenAtLastSpace is)
     else multivalue_loop b s section hsa
            (currentSpan\<lparr>plen := plen currentSpan + 1\<rparr>) (plen currentSpan + 1) is }"

definition highlightMultivalue ::
    "buffer \<Rightarrow> highlightSpanArray \<Rightarrow> stringSpan \<Rightarrow> field \<Rightarrow> highlightSpanArray option" where
  "highlightMultivalue b hsa s section = do {
     (hsa, currentSpan, lenAtLastSpace) \<leftarrow>
       multivalue_loop b s section hsa \<lparr>ptr = ptr s, plen = 0\<rparr> 0 [0..<plen s];
     let currentSpan = currentSpan\<lparr>plen := lenAtLastSpace\<rparr>;
     if plen currentSpan \<noteq> 0 then highlightMultivalueValue b hsa currentSpan section
     else if hsa = [] then None
     else if span_t (last hsa) = highlightDelimiter
     then Some (butlast hsa @ [(last hsa)\<lparr>span_t := highlightError\<rparr>])
     else Some hsa }"

text \<open>The cases of \<^verbatim>\<open>highlightValue\<close> that paint the whole value: its validity and its class.\<close>

definition value_highlight ::
    "case_table \<Rightarrow> buffer \<Rightarrow> stringSpan \<Rightarrow> field \<Rightarrow> (bool option \<times> highlight) option" where
  "value_highlight T b s section = map_of
     [(fieldHeaderProtectionKey, (isValidKey b s, highlightPrivateKey)),
      (fieldContentPaddingAddition, (isValidRange b s 16, highlightKeepalive)),
      (fieldRekeyAfterTime, (isValidRange b s 16, highlightKeepalive)),
      (fieldRekeyTimeout, (isValidRange b s 16, highlightKeepalive)),
      (fieldRejectAfterTime, (isValidRange b s 16, highlightKeepalive)),
      (fieldKeepaliveTimeout, (isValidRange b s 16, highlightKeepalive)),
      (fieldMaxHandshakeAttempts, (isValidRange b s 16, highlightKeepalive)),
      (fieldRandomTrailers,
        (map_option (\<lambda>t. \<not> isl (ParseAWGBool T t)) (span_text b s), highlightKeepalive)),
      (fieldDisableCookies,
        (map_option (\<lambda>t. \<not> isl (ParseAWGBool T t)) (span_text b s), highlightKeepalive)),
      (fieldPrivateKey, (isValidKey b s, highlightPrivateKey)),
      (fieldPublicKey, (isValidKey b s, highlightPublicKey)),
      (fieldPresharedKey, (isValidKey b s, highlightPresharedKey)),
      (fieldMTU, (isValidMTU b s, highlightMTU)),
      (fieldTable, (isValidTable b s, highlightTable)),
      (fieldPreUp, (Some (isValidPrePostUpDown s), highlightCmd)),
      (fieldPostUp, (Some (isValidPrePostUpDown s), highlightCmd)),
      (fieldPreDown, (Some (isValidPrePostUpDown s), highlightCmd)),
      (fieldPostDown, (Some (isValidPrePostUpDown s), highlightCmd)),
      (fieldListenPort, (isValidPort b s, highlightPort)),
      (fieldPersistentKeepalive,
        (or_else (isCaselessSame b s ''off'') (isValidRange b s 16), highlightKeepalive)),
      (fieldJc, (isValidUint b s False 0 65535, highlightJc)),
      (fieldJmin, (isValidUint b s False 0 65535, highlightJmin)),
      (fieldJmax, (isValidUint b s False 0 65535, highlightJmax)),
      (fieldS1, (isValidUint b s False 0 65535, highlightS1)),
      (fieldS2, (isValidUint b s False 0 65535, highlightS2)),
      (fieldS3, (isValidUint b s False 0 65535, highlightS3)),
      (fieldS4, (isValidUint b s False 0 65535, highlightS4)),
      (fieldH1, (isValidHField b s, highlightH1)),
      (fieldH2, (isValidHField b s, highlightH2)),
      (fieldH3, (isValidHField b s, highlightH3)),
      (fieldH4, (isValidHField b s, highlightH4)),
      (fieldI1, (isValidIField b s, highlightI1)),
      (fieldI2, (isValidIField b s, highlightI2)),
      (fieldI3, (isValidIField b s, highlightI3)),
      (fieldI4, (isValidIField b s, highlightI4)),
      (fieldI5, (isValidIField b s, highlightI5))] section"

text \<open>The case of an endpoint; the last colon is searched from the end, down to index 0.\<close>

definition highlightEndpoint ::
    "buffer \<Rightarrow> highlightSpanArray \<Rightarrow> stringSpan \<Rightarrow> highlightSpanArray option" where
  "highlightEndpoint b hsa s = do {
     ok \<leftarrow> isValidEndpoint b s;
     if \<not> ok then Some (append_span hsa s highlightError)
     else do {
       found \<leftarrow> find_at b s CHR '':'' (rev [0..<plen s]);
       let colon = (case found of None \<Rightarrow> 0 | Some i \<Rightarrow> i);
       Some (append_span (append_span (append_span hsa
         \<lparr>ptr = ptr s, plen = colon\<rparr> highlightHost)
         \<lparr>ptr = ptr s + colon, plen = 1\<rparr> highlightDelimiter)
         \<lparr>ptr = ptr s + (colon + 1), plen = plen s - colon - 1\<rparr> highlightPort) } }"

definition highlightValue ::
    "case_table \<Rightarrow> buffer \<Rightarrow> highlightSpanArray \<Rightarrow> stringSpan \<Rightarrow> field \<Rightarrow> highlightSpanArray option" where
  "highlightValue T b hsa s section =
     (case value_highlight T b s section of
        Some (valid, t) \<Rightarrow> do { ok \<leftarrow> valid; Some (append_span hsa s (validateHighlight ok t)) }
      | None \<Rightarrow>
        if section = fieldEndpoint then highlightEndpoint b hsa s
        else if section \<in> {fieldAddress, fieldDNS, fieldAllowedIPs}
        then highlightMultivalue b hsa s section
        else Some (append_span hsa s highlightError))"

subsection \<open>The whole text\<close>

datatype hl_mode = onNone | onKey | onValue | onComment | onSection

record hl_state =
  ret :: highlightSpanArray
  currentSpan :: stringSpan
  currentSection :: field
  currentField :: field
  hl_mode_of :: hl_mode
  lenAtLastSpace :: nat
  equalsLocation :: nat

definition hl_init :: hl_state where
  "hl_init = \<lparr>ret = [], currentSpan = \<lparr>ptr = 0, plen = 0\<rparr>, currentSection = fieldInvalid,
     currentField = fieldInvalid, hl_mode_of = onNone, lenAtLastSpace = 0, equalsLocation = 0\<rparr>"

text \<open>What an end of line, the start of a comment and the end of the text do first.\<close>

definition hl_flush :: "case_table \<Rightarrow> buffer \<Rightarrow> hl_state \<Rightarrow> hl_state option" where
  "hl_flush T b st =
     (let cut = (currentSpan st)\<lparr>plen := lenAtLastSpace st\<rparr>;
          equals = \<lparr>ptr = equalsLocation st, plen = 1\<rparr> in
      case hl_mode_of st of
        onKey \<Rightarrow> Some (st\<lparr>currentSpan := cut, ret := append_span (ret st) cut highlightError\<rparr>)
      | onValue \<Rightarrow>
          (if plen (currentSpan st) \<noteq> 0 then do {
             r \<leftarrow> highlightValue T b (append_span (ret st) equals highlightDelimiter) cut (currentField st);
             Some (st\<lparr>currentSpan := cut, ret := r\<rparr>) }
           else Some (st\<lparr>ret := append_span (ret st) equals highlightError\<rparr>))
      | onSection \<Rightarrow> do {
          section \<leftarrow> sectionType b cut;
          Some (st\<lparr>currentSpan := cut, currentSection := section,
            ret := append_span (ret st) cut (validateHighlight (section \<noteq> fieldInvalid) highlightSection)\<rparr>) }
      | onComment \<Rightarrow> Some (st\<lparr>ret := append_span (ret st) (currentSpan st) highlightComment\<rparr>)
      | onNone \<Rightarrow> Some st)"

text \<open>An equals sign behind a key.\<close>

definition hl_equals :: "buffer \<Rightarrow> nat \<Rightarrow> hl_state \<Rightarrow> hl_state option" where
  "hl_equals b i st =
     (let cut = (currentSpan st)\<lparr>plen := lenAtLastSpace st\<rparr> in do {
      t \<leftarrow> field_of b cut;
      let section = sectionForField t;
      let colour = (if section = fieldInvalid \<or> t = fieldInvalid \<or> section \<noteq> currentSection st
                    then highlightError else highlightField);
      Some (st\<lparr>currentField := t, ret := append_span (ret st) cut colour, equalsLocation := i,
        currentSpan := \<lparr>ptr = i + 1, plen = 0\<rparr>, hl_mode_of := onValue\<rparr>) })"

text \<open>One round of the loop of \<^verbatim>\<open>highlightConfig\<close> at an index before the end.\<close>

definition hl_step :: "case_table \<Rightarrow> buffer \<Rightarrow> nat \<Rightarrow> hl_state \<Rightarrow> hl_state option" where
  "hl_step T b i st = do {
     c \<leftarrow> byte_at b \<lparr>ptr = 0, plen = length b - 1\<rparr> i;
     let cur = currentSpan st;
     if c = CHR 0x0A \<or> hl_mode_of st \<noteq> onComment \<and> c = CHR ''#'' then do {
       st \<leftarrow> hl_flush T b st;
       let st = st\<lparr>lenAtLastSpace := 0, currentField := fieldInvalid\<rparr>;
       Some (if c = CHR ''#''
             then st\<lparr>currentSpan := \<lparr>ptr = i, plen = 1\<rparr>, hl_mode_of := onComment\<rparr>
             else st\<lparr>currentSpan := \<lparr>ptr = i + 1, plen = 0\<rparr>, hl_mode_of := onNone\<rparr>) }
     else if hl_mode_of st = onComment then
       Some (st\<lparr>currentSpan := cur\<lparr>plen := plen cur + 1\<rparr>\<rparr>)
     else if c = CHR '' '' \<or> c = CHR 0x09 then
       Some (if i = ptr cur \<and> plen cur = 0
             then st\<lparr>currentSpan := cur\<lparr>ptr := ptr cur + 1\<rparr>\<rparr>
             else st\<lparr>currentSpan := cur\<lparr>plen := plen cur + 1\<rparr>\<rparr>)
     else if c = CHR ''='' \<and> hl_mode_of st = onKey then hl_equals b i st
     else
       (let mode = (if hl_mode_of st = onNone
                    then (if c = CHR ''['' then onSection else onKey) else hl_mode_of st) in
        Some (st\<lparr>hl_mode_of := mode, currentSpan := cur\<lparr>plen := plen cur + 1\<rparr>,
          lenAtLastSpace := plen cur + 1\<rparr>)) }"

fun hl_loop :: "case_table \<Rightarrow> buffer \<Rightarrow> nat list \<Rightarrow> hl_state \<Rightarrow> hl_state option" where
  "hl_loop T b [] st = Some st"
| "hl_loop T b (i # is) st = do { st \<leftarrow> hl_step T b i st; hl_loop T b is st }"

text \<open>The round at the end of the text only flushes.\<close>

definition highlightConfig :: "case_table \<Rightarrow> string \<Rightarrow> highlightSpan list option" where
  "highlightConfig T config =
     (let b = config @ [CHR 0x00] in do {
      st \<leftarrow> hl_loop T b [0..<length config] hl_init;
      st \<leftarrow> hl_flush T b st;
      Some (ret st) })"

subsection \<open>Warnings about the obfuscation parameters\<close>

record asec_vars =
  asec_mtu :: int
  asec_jc :: int
  asec_jmin :: int
  asec_jmax :: int

text \<open>The slice \<^verbatim>\<open>cfg[span.s : span.s+span.len]\<close>, which panics out of range.\<close>

definition slice_span :: "string \<Rightarrow> highlightSpan \<Rightarrow> string option" where
  "slice_span cfg span =
     (if span_s span + span_len span \<le> length cfg
      then Some (take (span_len span) (drop (span_s span) cfg)) else None)"

text \<open>The first loop: \<^term>\<open>Some None\<close> is the early return.\<close>

fun asec_read :: "string \<Rightarrow> highlightSpan list \<Rightarrow> asec_vars \<Rightarrow> asec_vars option option" where
  "asec_read cfg [] v = Some (Some v)"
| "asec_read cfg (span # spans) v =
     (if span_t span = highlightError then Some None
      else if span_t span \<in> {highlightMTU, highlightJc, highlightJmin, highlightJmax} then do {
        t \<leftarrow> slice_span cfg span;
        case Atoi t of
          None \<Rightarrow> Some None
        | Some n \<Rightarrow> asec_read cfg spans
            (if span_t span = highlightMTU then v\<lparr>asec_mtu := n\<rparr>
             else if span_t span = highlightJc then v\<lparr>asec_jc := n\<rparr>
             else if span_t span = highlightJmin then v\<lparr>asec_jmin := n\<rparr>
             else v\<lparr>asec_jmax := n\<rparr>) }
      else asec_read cfg spans v)"

definition maxMTU :: int where "maxMTU = 1500"

definition diffMTU :: int where "diffMTU = 80"

definition DefaultMTU :: int where "DefaultMTU = 1420"

text \<open>The second loop: which span becomes a warning.\<close>

definition asec_warns :: "asec_vars \<Rightarrow> highlight \<Rightarrow> bool" where
  "asec_warns v t =
     (let mtu = (if asec_mtu v = 0 then DefaultMTU else asec_mtu v);
          jc = asec_jc v; jmin = asec_jmin v; jmax = asec_jmax v;
          used = (jc \<noteq> 0 \<or> jmin \<noteq> 0 \<or> jmax \<noteq> 0) in
      if t = highlightJc then jc > 128
      else if t = highlightJmin then used \<and> (jmin \<ge> jmax \<or> jmin \<ge> mtu + diffMTU \<or> jmin \<ge> maxMTU)
      else if t = highlightJmax then used \<and> (jmax \<le> jmin \<or> jmax > mtu + diffMTU \<or> jmax > maxMTU)
      else False)"

definition highlightASecConfig :: "string \<Rightarrow> highlightSpan list \<Rightarrow> highlightSpan list option" where
  "highlightASecConfig cfg spans = do {
     v \<leftarrow> asec_read cfg spans \<lparr>asec_mtu = 0, asec_jc = 0, asec_jmin = 0, asec_jmax = 0\<rparr>;
     case v of
       None \<Rightarrow> Some spans
     | Some v \<Rightarrow> Some (map (\<lambda>span. if asec_warns v (span_t span)
         then span\<lparr>span_t := highlightWarning\<rparr> else span) spans) }"

subsection \<open>The editor\<close>

text \<open>
  The part of \<^verbatim>\<open>syntaxedit.go\<close> that reads the spans: \<^verbatim>\<open>evaluateUntunneledBlocking\<close>,
  \<^verbatim>\<open>evaluateHaveErrors\<close> and what \<^verbatim>\<open>highlightText\<close> publishes. The published events are lists.
\<close>

datatype BlockState =
    InevaluableBlockingUntunneledTraffic
  | BlockingUntunneledTraffic
  | NotBlockingUntunneledTraffic

record SyntaxEdit =
  lastBlockState :: BlockState
  haveErrors :: bool
  blockEvents :: "BlockState list"
  privateKeyEvents :: "string list"

record block_vars =
  onAllowedIPs :: bool
  onTable :: bool
  tableOff :: bool
  seenPeer :: bool
  seen00v6 :: bool
  seen00v4 :: bool
  seen01v6 :: bool
  seen80001v6 :: bool
  seen01v4 :: bool
  seen1281v4 :: bool

definition block_init :: block_vars where
  "block_init = \<lparr>onAllowedIPs = False, onTable = False, tableOff = False, seenPeer = False,
     seen00v6 = False, seen00v4 = False, seen01v6 = False, seen80001v6 = False,
     seen01v4 = False, seen1281v4 = False\<rparr>"

text \<open>The inner switches: the prefix length digit and the address in front of it.\<close>

definition block_prefix :: "char \<Rightarrow> string \<Rightarrow> block_vars \<Rightarrow> block_vars" where
  "block_prefix cidr ip v =
     (if cidr = CHR ''0'' then
        (if ip = ''0.0.0.0'' then v\<lparr>seen00v4 := True\<rparr>
         else if ip = ''::'' then v\<lparr>seen00v6 := True\<rparr> else v)
      else if cidr = CHR ''1'' then
        (if ip = ''0.0.0.0'' then v\<lparr>seen01v4 := True\<rparr>
         else if ip = ''128.0.0.0'' then v\<lparr>seen1281v4 := True\<rparr>
         else if ip = ''::'' then v\<lparr>seen01v6 := True\<rparr>
         else if ip = ''8000::'' then v\<lparr>seen80001v6 := True\<rparr> else v)
      else v)"

text \<open>The case of an address, with the spans behind it.\<close>

definition block_ip ::
    "string \<Rightarrow> highlightSpan \<Rightarrow> highlightSpan list \<Rightarrow> block_vars \<Rightarrow> block_vars option" where
  "block_ip cfg span rest v =
     (if \<not> onAllowedIPs v \<or> \<not> seenPeer v then Some v
      else if length rest < 2 \<or> span_t (rest ! 0) \<noteq> highlightDelimiter \<or> span_t (rest ! 1) \<noteq> highlightCidr
      then Some v
      else if span_len (rest ! 1) \<noteq> 1 then Some v
      else if span_s (rest ! 1) \<ge> length cfg then None
      else if cfg ! span_s (rest ! 1) \<in> {CHR ''0'', CHR ''1''} then do {
        ip \<leftarrow> slice_span cfg span;
        Some (block_prefix (cfg ! span_s (rest ! 1)) ip v) }
      else Some v)"

text \<open>The loop; \<^term>\<open>Some None\<close> is the jump to the label \<^verbatim>\<open>done\<close>.\<close>

fun block_loop ::
    "fold_table \<Rightarrow> string \<Rightarrow> highlightSpan list \<Rightarrow> block_vars \<Rightarrow> block_vars option option" where
  "block_loop F cfg [] v = Some (Some v)"
| "block_loop F cfg (span # rest) v =
     (case span_t span of
        highlightError \<Rightarrow> Some None
      | highlightSection \<Rightarrow> do {
          t \<leftarrow> slice_span cfg span;
          if \<not> EqualFold F t ''[Peer]'' then block_loop F cfg rest v
          else if \<not> seenPeer v then block_loop F cfg rest (v\<lparr>seenPeer := True\<rparr>)
          else Some None }
      | highlightField \<Rightarrow> do {
          t \<leftarrow> slice_span cfg span;
          block_loop F cfg rest
            (v\<lparr>onAllowedIPs := EqualFold F t ''AllowedIPs'', onTable := EqualFold F t ''Table''\<rparr>) }
      | highlightTable \<Rightarrow>
          (if onTable v then do {
             t \<leftarrow> slice_span cfg span;
             block_loop F cfg rest (v\<lparr>tableOff := (t = ''off'')\<rparr>) }
           else block_loop F cfg rest v)
      | highlightIP \<Rightarrow> do { v \<leftarrow> block_ip cfg span rest v; block_loop F cfg rest v }
      | _ \<Rightarrow> block_loop F cfg rest v)"

definition publish_block :: "BlockState \<Rightarrow> SyntaxEdit \<Rightarrow> SyntaxEdit" where
  "publish_block state se =
     (if state \<noteq> lastBlockState se
      then se\<lparr>blockEvents := blockEvents se @ [state], lastBlockState := state\<rparr> else se)"

definition evaluateUntunneledBlocking ::
    "fold_table \<Rightarrow> string \<Rightarrow> highlightSpan list \<Rightarrow> SyntaxEdit \<Rightarrow> SyntaxEdit option" where
  "evaluateUntunneledBlocking F cfg spans se = do {
     found \<leftarrow> block_loop F cfg spans block_init;
     case found of
       None \<Rightarrow> Some (publish_block InevaluableBlockingUntunneledTraffic se)
     | Some v \<Rightarrow>
         if tableOff v then Some se
         else Some (publish_block
           (if seen00v4 v \<or> seen00v6 v then BlockingUntunneledTraffic
            else if seen01v4 v \<and> seen1281v4 v \<or> seen01v6 v \<and> seen80001v6 v
            then NotBlockingUntunneledTraffic
            else InevaluableBlockingUntunneledTraffic) se) }"

definition evaluateHaveErrors :: "highlightSpan list \<Rightarrow> SyntaxEdit \<Rightarrow> SyntaxEdit" where
  "evaluateHaveErrors spans se =
     se\<lparr>haveErrors := \<not> list_ex (\<lambda>span. span_t span = highlightError) spans\<rparr>"

text \<open>The first span painted as a private key is published, or the empty text.\<close>

definition publish_private_key :: "string \<Rightarrow> highlightSpan list \<Rightarrow> SyntaxEdit \<Rightarrow> SyntaxEdit option" where
  "publish_private_key cfg spans se =
     (case find (\<lambda>span. span_t span = highlightPrivateKey) spans of
        None \<Rightarrow> Some (se\<lparr>privateKeyEvents := privateKeyEvents se @ [[]]\<rparr>)
      | Some span \<Rightarrow> do {
          t \<leftarrow> slice_span cfg span;
          Some (se\<lparr>privateKeyEvents := privateKeyEvents se @ [t]\<rparr>) })"

text \<open>\<^verbatim>\<open>highlightText\<close> on the text of the control, up to the calls that paint it.\<close>

definition highlightText ::
    "case_table \<Rightarrow> fold_table \<Rightarrow> string \<Rightarrow> SyntaxEdit \<Rightarrow> (highlightSpan list \<times> SyntaxEdit) option" where
  "highlightText T F msg se =
     (let cfg = map (\<lambda>c. if c = CHR 0x0D then CHR 0x0A else c) msg in do {
      spans \<leftarrow> highlightConfig T cfg;
      spans \<leftarrow> highlightASecConfig cfg spans;
      se \<leftarrow> evaluateUntunneledBlocking F cfg spans se;
      se \<leftarrow> publish_private_key cfg spans (evaluateHaveErrors spans se);
      Some (spans, se) })"
end
