(* ===== verification/HighlighterFacts.thy ===== *)
theory HighlighterFacts
  imports Highlighter ConfCodec
begin

text \<open>
  Properties of the syntax highlighter: every read of its unchecked pointers is inside the buffer
  and its spans can be painted, and what it paints as valid is what the parser accepts.
\<close>

subsection \<open>Reads inside the buffer\<close>

text \<open>
  A span that ends before the last byte of the buffer. The validators may look at the byte behind
  their span, which the terminating zero makes a byte of the buffer.
\<close>

definition inside :: "buffer \<Rightarrow> stringSpan \<Rightarrow> bool" where
  "inside b s \<longleftrightarrow> ptr s + plen s < length b"

definition safe :: "'a option \<Rightarrow> bool" where
  "safe m \<longleftrightarrow> m \<noteq> None"

lemma safeE: "safe m \<Longrightarrow> (\<And>x. m = Some x \<Longrightarrow> P) \<Longrightarrow> P"
  by (cases m) (auto simp: safe_def)

named_theorems safe_intros \<open>routines that stay inside the buffer\<close>

lemma safe_Some [simp, safe_intros]: "safe (Some x)"
  by (simp add: safe_def)

lemma safe_bind [safe_intros]: "safe m \<Longrightarrow> (\<And>x. m = Some x \<Longrightarrow> safe (f x)) \<Longrightarrow> safe (m \<bind> f)"
  by (cases m) (auto simp: safe_def)

lemma safe_if [safe_intros]: "(c \<Longrightarrow> safe m) \<Longrightarrow> (\<not> c \<Longrightarrow> safe n) \<Longrightarrow> safe (if c then m else n)"
  by simp

lemma safe_case [safe_intros]:
  "(p = None \<Longrightarrow> safe m) \<Longrightarrow> (\<And>x. p = Some x \<Longrightarrow> safe (f x)) \<Longrightarrow>
     safe (case p of None \<Rightarrow> m | Some x \<Rightarrow> f x)"
  by (cases p) auto

lemma safe_prod [safe_intros]: "(\<And>x y. p = (x, y) \<Longrightarrow> safe (f x y)) \<Longrightarrow> safe (case p of (x, y) \<Rightarrow> f x y)"
  by (cases p) auto

lemma safe_let [safe_intros]: "safe (f x) \<Longrightarrow> safe (let y = x in f y)"
  by simp

lemma byte_at_inside: "inside b s \<Longrightarrow> i \<le> plen s \<Longrightarrow> byte_at b s i = Some (b ! (ptr s + i))"
  by (simp add: byte_at_def inside_def)

lemma safe_byte_at [safe_intros]: "inside b s \<Longrightarrow> i \<le> plen s \<Longrightarrow> safe (byte_at b s i)"
  by (simp add: byte_at_inside)

lemma safe_is_at [safe_intros]: "inside b s \<Longrightarrow> i \<le> plen s \<Longrightarrow> safe (is_at b s i c)"
  by (simp add: is_at_def byte_at_inside)

lemma safe_span_text [safe_intros]: "inside b s \<Longrightarrow> safe (span_text b s)"
  by (simp add: span_text_def inside_def)

lemma safe_or_else [safe_intros]: "safe m \<Longrightarrow> safe n \<Longrightarrow> safe (or_else m n)"
  by (auto simp: or_else_def intro!: safe_bind)

lemma safe_and_also [safe_intros]: "safe m \<Longrightarrow> (m = Some True \<Longrightarrow> safe n) \<Longrightarrow> safe (and_also m n)"
  by (auto simp: and_also_def intro!: safe_bind)

lemma safe_every [safe_intros]: "inside b s \<Longrightarrow> \<forall>i \<in> set is. i \<le> plen s \<Longrightarrow> safe (every b s P is)"
  by (induction "is") (auto simp: byte_at_inside)

lemma safe_find_at [safe_intros]: "inside b s \<Longrightarrow> \<forall>i \<in> set is. i \<le> plen s \<Longrightarrow> safe (find_at b s c is)"
  by (induction "is") (auto simp: byte_at_inside)

lemma find_at_elem: "find_at b s c is = Some (Some i) \<Longrightarrow> i \<in> set is"
  by (induction "is") (auto split: bind_splits if_splits)

lemma safe_isSame [safe_intros]: "inside b s \<Longrightarrow> safe (isSame b s c)"
  by (auto simp: isSame_def intro!: safe_every)

lemma safe_isCaselessSame [safe_intros]: "inside b s \<Longrightarrow> safe (isCaselessSame b s c)"
  by (auto simp: isCaselessSame_def intro!: safe_every)

lemma safe_isValidKey [safe_intros]: "inside b s \<Longrightarrow> safe (isValidKey b s)"
  by (auto simp: isValidKey_def intro!: safe_intros)

lemma safe_hostname_loop: "inside b s \<Longrightarrow> \<forall>i \<in> set is. i \<le> plen s \<Longrightarrow> safe (hostname_loop b s d e is)"
  by (induction "is" arbitrary: d e) (auto simp: byte_at_inside is_at_def)

lemma safe_isValidHostname [safe_intros]: "inside b s \<Longrightarrow> safe (isValidHostname b s)"
  by (auto simp: isValidHostname_def intro!: safe_intros safe_hostname_loop)

lemma ipv4_digits_inside:
  assumes "inside b s" and "pos + j \<le> plen s"
  obtains k v where "ipv4_digits b s pos n j val = Some (k, v)" and "pos + k \<le> plen s"
proof -
  have "\<exists>k v. ipv4_digits b s pos n j val = Some (k, v) \<and> pos + k \<le> plen s"
    using assms by (induction b s pos n j val rule: ipv4_digits.induct) (auto simp: byte_at_inside)
  then show ?thesis using that by blast
qed

lemma safe_ipv4_loop: "inside b s \<Longrightarrow> safe (ipv4_loop b s n i pos)"
proof (induction n arbitrary: i pos)
  case (Suc n)
  show ?case
  proof (cases "pos < plen s")
    case True
    then obtain j v where "ipv4_digits b s pos 3 0 0 = Some (j, v)" and "pos + j \<le> plen s"
      using ipv4_digits_inside [OF Suc.prems, of pos 0 3 0] by auto
    with True Suc show ?thesis by (auto intro!: safe_intros)
  qed simp
qed simp

lemma safe_isValidIPv4 [safe_intros]: "inside b s \<Longrightarrow> safe (isValidIPv4 b s)"
  by (simp add: isValidIPv4_def safe_ipv4_loop)

lemma hex_run_inside:
  "inside b s \<Longrightarrow> pos + j \<le> plen s \<Longrightarrow> \<exists>k. hex_run b s pos n j = Some k \<and> pos + k \<le> plen s"
  by (induction b s pos n j rule: hex_run.induct) (auto simp: byte_at_inside)

lemma safe_ipv6_loop: "inside b s \<Longrightarrow> safe (ipv6_loop b s i pos seen)"
proof (induction "plen s - pos" arbitrary: i pos seen rule: less_induct)
  case less
  show ?case
  proof (cases "pos < plen s")
    case True
    then obtain k where k: "hex_run b s pos 4 0 = Some k" "pos + k \<le> plen s"
      using hex_run_inside [OF less.prems, of pos 0 4] by auto
    have sub: "inside b \<lparr>ptr = ptr s + pos, plen = plen s - pos\<rparr>"
      using True less.prems by (simp add: inside_def)
    have next_round: "safe (ipv6_loop b s j q x)" if "pos < q" for j q x
      using less True that by simp
    show ?thesis
      using True k less.prems safe_isValidIPv4 [OF sub]
      by (subst ipv6_loop.simps) (auto simp: byte_at_inside intro: next_round)
  qed (subst ipv6_loop.simps, simp)
qed

lemma safe_isValidIPv6 [safe_intros]: "inside b s \<Longrightarrow> safe (isValidIPv6 b s)"
  by (auto simp: isValidIPv6_def intro!: safe_intros safe_ipv6_loop)

lemma safe_uint_dec [safe_intros]: "inside b s \<Longrightarrow> \<forall>i \<in> set is. i \<le> plen s \<Longrightarrow> safe (uint_dec b s v is)"
  by (induction "is" arbitrary: v) (auto simp: byte_at_inside)

lemma safe_uint_hex [safe_intros]: "inside b s \<Longrightarrow> \<forall>i \<in> set is. i \<le> plen s \<Longrightarrow> safe (uint_hex b s v is)"
  by (induction "is" arbitrary: v) (auto simp: byte_at_inside)

lemma safe_isValidUint [safe_intros]: "inside b s \<Longrightarrow> safe (isValidUint b s h lo hi)"
  by (auto simp: isValidUint_def intro!: safe_intros)

lemma safe_isValidScope [safe_intros]: "inside b s \<Longrightarrow> safe (isValidScope b s)"
  by (auto simp: isValidScope_def intro!: safe_intros)

lemma safe_bracket_loop:
  assumes "inside b s" and "ptr h + plen h = ptr s + i" and "i \<le> plen s"
  shows "safe (bracket_loop b s seen h [i..<plen s])"
  using assms
proof (induction "plen s - i" arbitrary: i h seen)
  case (Suc n)
  then have *: "[i..<plen s] = i # [Suc i..<plen s]" by (simp add: upt_conv_Cons)
  have h: "inside b h" using Suc by (simp add: inside_def)
  have rest: "safe (bracket_loop b s x g [Suc i..<plen s])" if "ptr g + plen g = ptr s + Suc i" for g x
    using Suc that by auto
  have port: "inside b \<lparr>ptr = ptr s + (i + 2), plen = plen s - i - 2\<rparr>" if "i \<noteq> plen s - 1"
    using Suc that by (simp add: inside_def)
  show ?case unfolding *
    using Suc h rest port by (auto simp: isValidPort_def intro!: safe_intros split: if_splits)
qed simp

lemma safe_isValidEndpoint [safe_intros]: "inside b s \<Longrightarrow> safe (isValidEndpoint b s)"
  by (auto simp: isValidEndpoint_def isValidPort_def Let_def inside_def dest!: find_at_elem
      intro!: safe_intros safe_bracket_loop)

lemma safe_isValidNetwork [safe_intros]: "inside b s \<Longrightarrow> safe (isValidNetwork b s)"
  by (auto simp: isValidNetwork_def Let_def inside_def dest!: find_at_elem intro!: safe_intros)

subsection \<open>Ordered spans\<close>

text \<open>Spans that are not empty, do not overlap and stand in order between two offsets.\<close>

fun spans_in :: "nat \<Rightarrow> nat \<Rightarrow> highlightSpan list \<Rightarrow> bool" where
  "spans_in lo hi [] \<longleftrightarrow> lo \<le> hi"
| "spans_in lo hi (x # xs) \<longleftrightarrow>
     lo \<le> span_s x \<and> 0 < span_len x \<and> spans_in (span_s x + span_len x) hi xs"

lemma spans_in_append: "spans_in lo hi (xs @ ys) \<longleftrightarrow> (\<exists>m. spans_in lo m xs \<and> spans_in m hi ys)"
proof (induction xs arbitrary: lo)
  case Nil
  have "spans_in lo hi ys" if "lo \<le> m" "spans_in m hi ys" for m
    using that by (cases ys) auto
  then show ?case by auto
qed auto

lemma spans_in_mono: "spans_in lo m xs \<Longrightarrow> m \<le> hi \<Longrightarrow> spans_in lo hi xs"
  by (induction xs arbitrary: lo) auto

lemma spans_in_recolour:
  "(\<And>x. span_s (f x) = span_s x \<and> span_len (f x) = span_len x) \<Longrightarrow>
     spans_in lo hi (map f xs) = spans_in lo hi xs"
  by (induction xs arbitrary: lo) auto

lemma spans_in_bounds: "spans_in lo hi xs \<Longrightarrow> lo \<le> hi"
  by (induction xs arbitrary: lo) force+

lemma spans_in_elem: "spans_in lo hi xs \<Longrightarrow> x \<in> set xs \<Longrightarrow> span_s x + span_len x \<le> hi \<and> 0 < span_len x"
proof (induction xs arbitrary: lo)
  case (Cons y ys)
  have "span_s y + span_len y \<le> hi" using Cons.prems(1)
    by (auto dest: spans_in_bounds)
  with Cons show ?case by auto
qed simp

text \<open>What a painting routine may do to the spans: they stay in order up to the new end.\<close>

definition paints :: "nat \<Rightarrow> highlightSpanArray \<Rightarrow> highlightSpanArray option \<Rightarrow> bool" where
  "paints hi hsa m \<longleftrightarrow> (\<exists>r. m = Some r \<and> spans_in 0 hi r \<and> (hsa \<noteq> [] \<longrightarrow> r \<noteq> []))"

lemma append_span_in:
  "spans_in 0 lo hsa \<Longrightarrow> lo \<le> ptr s \<Longrightarrow> ptr s + plen s \<le> hi \<Longrightarrow> spans_in 0 hi (append_span hsa s t)"
  by (cases "plen s") (auto simp: append_span_def spans_in_append intro: spans_in_mono)

lemma append_span_not_Nil: "hsa \<noteq> [] \<Longrightarrow> append_span hsa s t \<noteq> []"
  by (simp add: append_span_def)

lemma paints_append:
  "spans_in 0 lo hsa \<Longrightarrow> lo \<le> ptr s \<Longrightarrow> ptr s + plen s \<le> hi \<Longrightarrow> paints hi hsa (Some (append_span hsa s t))"
  by (auto simp: paints_def append_span_not_Nil intro: append_span_in)

lemma paints_split:
  assumes "spans_in 0 (ptr s) hsa" and "k < plen s"
  shows "paints (ptr s + plen s) hsa (Some (append_span (append_span (append_span hsa
    \<lparr>ptr = ptr s, plen = k\<rparr> t) \<lparr>ptr = ptr s + k, plen = 1\<rparr> u)
    \<lparr>ptr = ptr s + (k + 1), plen = plen s - k - 1\<rparr> v))"
proof -
  have "spans_in 0 (ptr s + k) (append_span hsa \<lparr>ptr = ptr s, plen = k\<rparr> t)"
    using assms by (intro append_span_in) auto
  then have "spans_in 0 (ptr s + (k + 1))
      (append_span (append_span hsa \<lparr>ptr = ptr s, plen = k\<rparr> t) \<lparr>ptr = ptr s + k, plen = 1\<rparr> u)"
    by (rule append_span_in) auto
  then show ?thesis
    using assms(2) by (auto simp: paints_def append_span_not_Nil intro: append_span_in)
qed

lemma paints_bind: "safe m \<Longrightarrow> (\<And>x. m = Some x \<Longrightarrow> paints hi hsa (f x)) \<Longrightarrow> paints hi hsa (m \<bind> f)"
  by (cases m) (auto simp: safe_def)

lemma paints_if: "(c \<Longrightarrow> paints hi hsa m) \<Longrightarrow> (\<not> c \<Longrightarrow> paints hi hsa n) \<Longrightarrow> paints hi hsa (if c then m else n)"
  by simp

lemmas paints_intros = paints_bind paints_if

lemma highlightMultivalueValue_paints:
  assumes "inside b s" and "spans_in 0 (ptr s) hsa"
  shows "paints (ptr s + plen s) hsa (highlightMultivalueValue b hsa s t)"
proof -
  have whole: "paints (ptr s + plen s) hsa (Some (append_span hsa s c))" for c
    using assms(2) by (rule paints_append) auto
  have parts: "k = plen s \<or> k < plen s"
    if "find_at b s CHR ''/'' [0..<plen s] = Some f" and "k = (case f of None \<Rightarrow> plen s | Some i \<Rightarrow> i)" for f k
    using that by (auto split: option.splits dest: find_at_elem)
  show ?thesis
    unfolding highlightMultivalueValue_def Let_def
    using assms parts by (auto intro!: paints_intros whole paints_split safe_intros)
qed

lemma multivalue_loop_in:
  assumes "inside b s" and "i \<le> plen s" and "ptr cur + plen cur = ptr s + i" and "l \<le> plen cur"
    and "spans_in 0 (ptr cur) hsa" and "hsa \<noteq> []"
  shows "\<exists>hsa' cur' l'. multivalue_loop b s t hsa cur l [i..<plen s] = Some (hsa', cur', l') \<and>
    ptr cur' + plen cur' = ptr s + plen s \<and> l' \<le> plen cur' \<and> spans_in 0 (ptr cur') hsa' \<and> hsa' \<noteq> []"
  using assms
proof (induction "plen s - i" arbitrary: i cur l hsa)
  case (Suc n)
  then have upt: "[i..<plen s] = i # [Suc i..<plen s]" by (simp add: upt_conv_Cons)
  have more: "\<exists>hsa' cur' l'. multivalue_loop b s t h c k [Suc i..<plen s] = Some (hsa', cur', l') \<and>
      ptr cur' + plen cur' = ptr s + plen s \<and> l' \<le> plen cur' \<and> spans_in 0 (ptr cur') hsa' \<and> hsa' \<noteq> []"
    if "ptr c + plen c = ptr s + Suc i" "k \<le> plen c" "spans_in 0 (ptr c) h" "h \<noteq> []" for h c k
    using Suc that by auto
  have "inside b (cur\<lparr>plen := l\<rparr>)" using Suc by (simp add: inside_def)
  then have "paints (ptr cur + l) hsa (highlightMultivalueValue b hsa (cur\<lparr>plen := l\<rparr>) t)"
    using highlightMultivalueValue_paints [of b "cur\<lparr>plen := l\<rparr>" hsa t] Suc.prems by simp
  then obtain r where r: "highlightMultivalueValue b hsa (cur\<lparr>plen := l\<rparr>) t = Some r"
      "spans_in 0 (ptr cur + l) r" "r \<noteq> []"
    using Suc.prems by (auto simp: paints_def)
  have comma: "spans_in 0 (ptr s + Suc i) (append_span r \<lparr>ptr = ptr s + i, plen = 1\<rparr> highlightDelimiter)"
    using r(2) Suc.prems by (intro append_span_in) auto
  have blank: "spans_in 0 (Suc (ptr cur)) hsa" using Suc.prems by (auto intro: spans_in_mono)
  show ?case
    unfolding upt using Suc.prems Suc.hyps(2) r(1,3) comma blank
    by (auto simp: byte_at_inside append_span_not_Nil intro!: more)
qed simp

lemma highlightMultivalue_paints:
  assumes "inside b s" and "spans_in 0 (ptr s) hsa" and "hsa \<noteq> []"
  shows "paints (ptr s + plen s) hsa (highlightMultivalue b hsa s t)"
proof -
  obtain h c l where run: "multivalue_loop b s t hsa \<lparr>ptr = ptr s, plen = 0\<rparr> 0 [0..<plen s] = Some (h, c, l)"
    and c: "ptr c + plen c = ptr s + plen s" "l \<le> plen c" "spans_in 0 (ptr c) h" "h \<noteq> []"
    using multivalue_loop_in [of b s 0 "\<lparr>ptr = ptr s, plen = 0\<rparr>" 0 hsa t] assms by auto
  have "inside b (c\<lparr>plen := l\<rparr>)" using assms(1) c by (simp add: inside_def)
  then have last_value: "paints (ptr c + l) h (highlightMultivalueValue b h (c\<lparr>plen := l\<rparr>) t)"
    using highlightMultivalueValue_paints [of b "c\<lparr>plen := l\<rparr>" h t] c(3) by simp
  obtain h' x where h: "h = h' @ [x]" using c(4) by (cases h rule: rev_cases) auto
  show ?thesis
    using run c last_value h
    by (auto simp: highlightMultivalue_def paints_def spans_in_append elim!: spans_in_mono intro!: exI)
qed

lemma safe_value_highlight:
  assumes "inside b s" and "value_highlight T b s t = Some (valid, colour)"
  shows "safe valid"
proof -
  note checks = safe_isValidKey [OF assms(1)] safe_isValidUint [OF assms(1)]
    safe_span_text [OF assms(1)] safe_isSame [OF assms(1)] safe_isCaselessSame [OF assms(1)]
  have "safe (isValidRange b s n)" for n
    unfolding isValidRange_def by (intro safe_intros checks)
  moreover have "safe (isValidIField b s)"
    unfolding isValidIField_def by (intro safe_intros checks)
  moreover have "safe (isValidTable b s)"
    unfolding isValidTable_def by (intro safe_intros checks)
  moreover have "safe (map_option f (span_text b s))" for f :: "string \<Rightarrow> bool"
    using checks(3) by (auto simp: safe_def)
  ultimately show ?thesis
    using assms(2) checks
    by (cases t) (auto simp: value_highlight_def isValidMTU_def isValidPort_def isValidHField_def
        intro: safe_or_else)
qed

lemma highlightEndpoint_paints:
  assumes "inside b s" and "spans_in 0 (ptr s) hsa"
  shows "paints (ptr s + plen s) hsa (highlightEndpoint b hsa s)"
proof -
  have whole: "paints (ptr s + plen s) hsa (Some (append_span hsa s c))" for c
    using assms(2) by (rule paints_append) auto
  have valid: "0 < plen s" if "isValidEndpoint b s = Some True"
    using that by (auto simp: isValidEndpoint_def split: if_splits)
  have colon: "(case f of None \<Rightarrow> 0 | Some i \<Rightarrow> i) < plen s"
    if "find_at b s CHR '':'' (rev [0..<plen s]) = Some f" "0 < plen s" for f
    using that by (auto split: option.splits dest: find_at_elem)
  show ?thesis
    unfolding highlightEndpoint_def Let_def
    using assms valid colon by (auto intro!: paints_intros whole paints_split safe_intros)
qed

lemma highlightValue_paints:
  assumes "inside b s" and "spans_in 0 (ptr s) hsa" and "hsa \<noteq> []"
  shows "paints (ptr s + plen s) hsa (highlightValue T b hsa s t)"
proof -
  have whole: "paints (ptr s + plen s) hsa (Some (append_span hsa s c))" for c
    using assms(2) by (rule paints_append) auto
  show ?thesis
    using assms highlightEndpoint_paints [OF assms(1,2)] highlightMultivalue_paints [OF assms]
    by (auto simp: highlightValue_def whole split: option.splits
        intro!: paints_bind dest: safe_value_highlight)
qed

subsection \<open>The invariant of the scanner\<close>

definition hl_inv :: "nat \<Rightarrow> hl_state \<Rightarrow> bool" where
  "hl_inv i st \<longleftrightarrow>
     (let cur = currentSpan st in
      ptr cur + plen cur = i \<and>
      (case hl_mode_of st of
         onNone \<Rightarrow> plen cur = 0
       | onComment \<Rightarrow> True
       | onValue \<Rightarrow> equalsLocation st < ptr cur \<and> (plen cur \<noteq> 0 \<longrightarrow> lenAtLastSpace st \<le> plen cur)
       | _ \<Rightarrow> lenAtLastSpace st \<le> plen cur) \<and>
      spans_in 0 (if hl_mode_of st = onValue then equalsLocation st else ptr cur) (ret st))"

lemma hl_init_inv: "hl_inv 0 hl_init"
  by (simp add: hl_inv_def hl_init_def)

lemma safe_switch_name [safe_intros]: "inside b s \<Longrightarrow> safe (switch_name b s cases)"
  by (induction b s cases rule: switch_name.induct) (auto intro!: safe_intros)

lemma inside_cut: "ptr s + plen s < length b \<Longrightarrow> l \<le> plen s \<Longrightarrow> inside b (s\<lparr>plen := l\<rparr>)"
  by (simp add: inside_def)

lemma value_flush:
  assumes "hl_inv i st" and "hl_mode_of st = onValue" and "plen (currentSpan st) \<noteq> 0" and "i < length b"
  shows "\<exists>r. highlightValue T b (append_span (ret st) \<lparr>ptr = equalsLocation st, plen = 1\<rparr> highlightDelimiter)
      ((currentSpan st)\<lparr>plen := lenAtLastSpace st\<rparr>) t = Some r \<and> spans_in 0 i r"
proof -
  let ?hsa = "append_span (ret st) \<lparr>ptr = equalsLocation st, plen = 1\<rparr> highlightDelimiter"
  let ?cut = "(currentSpan st)\<lparr>plen := lenAtLastSpace st\<rparr>"
  have *: "inside b ?cut" "lenAtLastSpace st \<le> plen (currentSpan st)"
    using assms by (auto simp: hl_inv_def Let_def inside_def)
  have "spans_in 0 (ptr ?cut) ?hsa"
    using assms by (intro append_span_in [where lo = "equalsLocation st"]) (auto simp: hl_inv_def Let_def)
  moreover have "?hsa \<noteq> []" by (simp add: append_span_def)
  ultimately have "paints (ptr ?cut + plen ?cut) ?hsa (highlightValue T b ?hsa ?cut t)"
    using highlightValue_paints [OF *(1)] by blast
  then obtain r where "highlightValue T b ?hsa ?cut t = Some r" "spans_in 0 (ptr ?cut + plen ?cut) r"
    by (auto simp: paints_def)
  moreover have "ptr ?cut + plen ?cut \<le> i" using *(2) assms(1) by (auto simp: hl_inv_def Let_def)
  ultimately show ?thesis using spans_in_mono by blast
qed

lemma hl_flush_in:
  assumes "hl_inv i st" and "i < length b"
  shows "\<exists>st'. hl_flush T b st = Some st' \<and> spans_in 0 i (ret st')"
proof (cases "hl_mode_of st")
  case onValue
  show ?thesis
  proof (cases "plen (currentSpan st) = 0")
    case True
    then have "spans_in 0 i (append_span (ret st) \<lparr>ptr = equalsLocation st, plen = 1\<rparr> highlightError)"
      using assms(1) onValue
      by (intro append_span_in [where lo = "equalsLocation st"]) (auto simp: hl_inv_def Let_def)
    with True onValue show ?thesis by (simp add: hl_flush_def Let_def)
  next
    case False
    with value_flush [OF assms(1) onValue False assms(2), of T "currentField st"] onValue show ?thesis
      by (auto simp: hl_flush_def Let_def)
  qed
next
  case onSection
  let ?cut = "(currentSpan st)\<lparr>plen := lenAtLastSpace st\<rparr>"
  have "inside b ?cut" using assms onSection by (auto simp: hl_inv_def Let_def inside_def)
  then obtain t where t: "sectionType b ?cut = Some t"
    unfolding sectionType_def by (metis safe_switch_name safeE)
  have "spans_in 0 i (append_span (ret st) ?cut c)" for c
    using assms(1) onSection
    by (intro append_span_in [where lo = "ptr (currentSpan st)"]) (auto simp: hl_inv_def Let_def)
  with t onSection show ?thesis by (simp add: hl_flush_def Let_def)
next
  case onKey
  with assms(1) show ?thesis
    by (auto simp: hl_flush_def hl_inv_def Let_def intro!: append_span_in [where lo = "ptr (currentSpan st)"])
next
  case onComment
  with assms(1) show ?thesis
    by (auto simp: hl_flush_def hl_inv_def Let_def intro!: append_span_in [where lo = "ptr (currentSpan st)"])
next
  case onNone
  with assms(1) show ?thesis
    by (auto simp: hl_flush_def hl_inv_def Let_def elim: spans_in_mono)
qed

lemma hl_equals_inv:
  assumes "hl_inv i st" and "hl_mode_of st = onKey" and "i < length b"
  shows "\<exists>st'. hl_equals b i st = Some st' \<and> hl_inv (Suc i) st'"
proof -
  let ?cut = "(currentSpan st)\<lparr>plen := lenAtLastSpace st\<rparr>"
  have "inside b ?cut" using assms by (auto simp: hl_inv_def Let_def inside_def)
  then obtain t where t: "field_of b ?cut = Some t"
    unfolding field_of_def by (metis safe_switch_name safeE)
  have "spans_in 0 i (append_span (ret st) ?cut c)" for c
    using assms by (intro append_span_in [where lo = "ptr (currentSpan st)"]) (auto simp: hl_inv_def Let_def)
  with t show ?thesis by (simp add: hl_equals_def hl_inv_def Let_def)
qed

lemma hl_step_inv:
  assumes "hl_inv i st" and "i < length b"
  shows "\<exists>st'. hl_step T b i st = Some st' \<and> hl_inv (Suc i) st'"
proof -
  have read: "byte_at b \<lparr>ptr = 0, plen = length b - 1\<rparr> i = Some (b ! i)"
    using assms(2) by (simp add: byte_at_def)
  consider (line) "b ! i = CHR 0x0A \<or> hl_mode_of st \<noteq> onComment \<and> b ! i = CHR ''#''"
    | (equals) "b ! i = CHR ''=''" "hl_mode_of st = onKey"
    | (other) "\<not> (b ! i = CHR 0x0A \<or> hl_mode_of st \<noteq> onComment \<and> b ! i = CHR ''#'')"
        "\<not> (b ! i = CHR ''='' \<and> hl_mode_of st = onKey)"
    by blast
  then show ?thesis
  proof cases
    case line
    obtain st' where "hl_flush T b st = Some st'" "spans_in 0 i (ret st')"
      using hl_flush_in [OF assms] by blast
    with line read show ?thesis
      by (auto simp: hl_step_def hl_inv_def Let_def elim: spans_in_mono)
  next
    case equals
    with hl_equals_inv [OF assms(1) _ assms(2)] read show ?thesis by (auto simp: hl_step_def Let_def)
  next
    case other
    with assms(1) read show ?thesis
      by (cases "hl_mode_of st") (auto simp: hl_step_def hl_inv_def Let_def elim: spans_in_mono)
  qed
qed

lemma hl_loop_inv:
  "hl_inv i st \<Longrightarrow> i + n < length b \<Longrightarrow> \<exists>st'. hl_loop T b [i..<i + n] st = Some st' \<and> hl_inv (i + n) st'"
proof (induction n arbitrary: i st)
  case (Suc n)
  obtain st' where "hl_step T b i st = Some st'" "hl_inv (Suc i) st'"
    using hl_step_inv [OF Suc.prems(1), of b T] Suc.prems(2) by auto
  moreover have "[i..<i + Suc n] = i # [Suc i..<Suc i + n]" by (simp add: upt_conv_Cons)
  ultimately show ?case using Suc.IH [of "Suc i" st'] Suc.prems(2) by auto
qed simp

lemma highlightConfig_in: "\<exists>spans. highlightConfig T config = Some spans \<and> spans_in 0 (length config) spans"
proof -
  let ?b = "config @ [CHR 0x00]"
  obtain st where "hl_loop T ?b [0..<length config] hl_init = Some st" "hl_inv (length config) st"
    using hl_loop_inv [OF hl_init_inv, of "length config" ?b T] by auto
  with hl_flush_in [of "length config" st ?b T] show ?thesis
    by (auto simp: highlightConfig_def Let_def)
qed

subsection \<open>The readers of the spans\<close>

lemma slice_span_in:
  "spans_in lo (length cfg) (x # xs) \<Longrightarrow> slice_span cfg x = Some (take (span_len x) (drop (span_s x) cfg))"
  using spans_in_elem [of lo "length cfg" "x # xs" x] by (simp add: slice_span_def)

lemma safe_slice_span: "spans_in lo (length cfg) (x # xs) \<Longrightarrow> safe (slice_span cfg x)"
  using slice_span_in by (fastforce simp: safe_def)

lemma spans_in_tl: "spans_in lo hi (x # xs) \<Longrightarrow> spans_in (span_s x + span_len x) hi xs"
  by simp

lemma safe_asec_read: "spans_in lo (length cfg) spans \<Longrightarrow> safe (asec_read cfg spans v)"
proof (induction spans arbitrary: lo v)
  case (Cons x rest)
  note more = Cons.IH [OF spans_in_tl [OF Cons.prems]]
  show ?case
    using slice_span_in [OF Cons.prems] more by (auto split: option.splits)
qed simp

lemma highlightASecConfig_in:
  assumes "spans_in 0 (length cfg) spans"
  shows "\<exists>painted. highlightASecConfig cfg spans = Some painted \<and> spans_in 0 (length cfg) painted"
proof -
  obtain v where "asec_read cfg spans \<lparr>asec_mtu = 0, asec_jc = 0, asec_jmin = 0, asec_jmax = 0\<rparr> = Some v"
    using safe_asec_read [OF assms] safeE by blast
  then show ?thesis
    using assms by (cases v) (auto simp: highlightASecConfig_def spans_in_recolour)
qed

lemma safe_block_ip:
  assumes "spans_in lo (length cfg) (x # rest)"
  shows "safe (block_ip cfg x rest v)"
proof -
  have "span_s (rest ! 1) < length cfg" if "\<not> length rest < 2"
    using spans_in_elem [OF assms, of "rest ! 1"] that by auto
  then show ?thesis
    using slice_span_in [OF assms] by (auto simp: block_ip_def not_less)
qed

lemma safe_block_loop: "spans_in lo (length cfg) spans \<Longrightarrow> safe (block_loop F cfg spans v)"
proof (induction spans arbitrary: lo v)
  case (Cons x rest)
  note more = Cons.IH [OF spans_in_tl [OF Cons.prems]]
  show ?case
    using safe_slice_span [OF Cons.prems] safe_block_ip [OF Cons.prems] more
    by (cases "span_t x") (auto intro!: safe_bind safe_if)
qed simp

subsection \<open>The validators and the parser\<close>

lemma span_text_inside: "inside b s \<Longrightarrow> span_text b s = Some (map (\<lambda>i. b ! (ptr s + i)) [0..<plen s])"
  by (auto simp: span_text_def inside_def intro: nth_equalityI)

lemma every_inside:
  "inside b s \<Longrightarrow> \<forall>i \<in> set is. i \<le> plen s \<Longrightarrow>
     every b s P is = Some (list_all (\<lambda>i. P i (b ! (ptr s + i))) is)"
  by (induction "is") (auto simp: byte_at_inside)

lemma isDecimal_digit: "isDecimal c \<longleftrightarrow> is_digit c"
  by (simp add: isDecimal_def is_digit_def code_def)

lemma byte_minus_digit: "isDecimal c \<Longrightarrow> byte_minus (code c) (code CHR ''0'') = digit_val c"
proof -
  assume "isDecimal c"
  then have "48 \<le> code c" "code c \<le> 57" by (simp_all add: isDecimal_def code_def)
  then obtain d where d: "code c = 48 + d" "d < 256" using le_Suc_ex by fastforce
  have "48 + d + 256 - 48 = d + 256" by simp
  then have "(code c + 256 - 48) mod 256 = d" using d by (simp only: mod_add_self2 mod_less)
  then show ?thesis using d(1) by (simp add: byte_minus_def digit_val_def code_def)
qed

lemma uint_dec_inside:
  "inside b s \<Longrightarrow> \<forall>i \<in> set is. i \<le> plen s \<Longrightarrow>
     uint_dec b s v is =
       (let t = map (\<lambda>i. b ! (ptr s + i)) is in
        Some (if list_all is_digit t then Some (foldl (\<lambda>n c. 10 * n + digit_val c) v t) else None))"
  by (induction "is" arbitrary: v) (auto simp: byte_at_inside byte_minus_digit isDecimal_digit Let_def)

lemma isValidUint_iff:
  assumes "inside b s" and "span_text b s = Some t"
  shows "isValidUint b s False lo hi =
    Some (all_digits t \<and> length t \<le> 10 \<and> lo \<le> dec_val t \<and> dec_val t \<le> hi)"
proof -
  have t: "t = map (\<lambda>i. b ! (ptr s + i)) [0..<plen s]"
    using assms by (simp add: span_text_inside)
  have run: "uint_dec b s 0 [0..<plen s] = Some (if list_all is_digit t then Some (dec_val t) else None)"
    using uint_dec_inside [OF assms(1), of "[0..<plen s]" 0] by (simp add: t dec_val_def Let_def)
  have len: "length t = plen s" by (simp add: t)
  show ?thesis
    using len by (auto simp: isValidUint_def and_also_def run all_digits_def)
qed

text \<open>Keys: the canonical Base64 texts of 32 bytes.\<close>

definition key_char :: "char \<Rightarrow> bool" where
  "key_char c \<longleftrightarrow> isDecimal c \<or> isAlphabet c \<or> c = CHR ''/'' \<or> c = CHR ''+''"

lemma all_chars: "list_all P (map char_of [0..<256 :: nat]) \<Longrightarrow> P c"
proof -
  assume "list_all P (map char_of [0..<256 :: nat])"
  moreover have "c = char_of (code c)" "code c < 256" by (simp_all add: code_def)
  ultimately show ?thesis by (metis (no_types, lifting) atLeastLessThan_iff image_eqI le0 list_all_iff set_map set_upt)
qed

lemma key_char_iff: "key_char c \<longleftrightarrow> (\<exists>n < 64. dec6 c = Some n \<and> enc6 n = c)"
proof -
  have "list_all (\<lambda>c. key_char c = (case dec6 c of None \<Rightarrow> False | Some n \<Rightarrow> n < 64 \<and> enc6 n = c))
      (map char_of [0..<256 :: nat])"
    by code_simp
  then have "key_char c = (case dec6 c of None \<Rightarrow> False | Some n \<Rightarrow> n < 64 \<and> enc6 n = c)"
    by (rule all_chars)
  then show ?thesis by (auto split: option.splits)
qed

lemma key_end_iff: "c \<in> set ''AEIMQUYcgkosw480'' \<longleftrightarrow> (\<exists>n < 16. c = enc6 (4 * n))"
proof -
  have digits: "set ''048'' = set ''480''" by auto
  have canonical: "map (\<lambda>n. enc6 (4 * n)) [0..<16] = ''AEIMQUYcgkosw048''" by code_simp
  have "(\<exists>n < 16. c = enc6 (4 * n)) \<longleftrightarrow> c \<in> set (map (\<lambda>n. enc6 (4 * n)) [0..<16])"
    by (auto simp only: set_map set_upt image_iff atLeastLessThan_iff)
  also have "\<dots> \<longleftrightarrow> c \<in> set ''AEIMQUYcgkosw048''" by (rule arg_cong [OF canonical])
  also have "\<dots> \<longleftrightarrow> c \<in> set (''AEIMQUYcgkosw'' @ ''048'')" by (simp only: append.simps)
  also have "\<dots> \<longleftrightarrow> c \<in> set (''AEIMQUYcgkosw'' @ ''480'')"
    unfolding set_append digits ..
  also have "\<dots> \<longleftrightarrow> c \<in> set ''AEIMQUYcgkosw480''" by (simp only: append.simps)
  finally show ?thesis by (rule sym)
qed

fun key_text :: "nat \<Rightarrow> string \<Rightarrow> bool" where
  "key_text 0 [a, b, c, d] \<longleftrightarrow>
     key_char a \<and> key_char b \<and> c \<in> set ''AEIMQUYcgkosw480'' \<and> d = CHR ''=''"
| "key_text (Suc n) (a # b # c # d # r) \<longleftrightarrow>
     key_char a \<and> key_char b \<and> key_char c \<and> key_char d \<and> key_text n r"
| "key_text n t \<longleftrightarrow> False"

lemma key_text_iff:
  "key_text n t \<longleftrightarrow> length t = 4 * n + 4 \<and> list_all key_char (take (4 * n + 2) t) \<and>
     t ! (4 * n + 2) \<in> set ''AEIMQUYcgkosw480'' \<and> t ! (4 * n + 3) = CHR ''=''"
proof (induction n t rule: key_text.induct)
  case (2 n a b c d r)
  have "4 * Suc n + 2 = Suc (Suc (Suc (Suc (4 * n + 2))))" "4 * Suc n + 3 = Suc (Suc (Suc (Suc (4 * n + 3))))"
    by simp_all
  with 2 show ?case by (simp only: key_text.simps take_Suc_Cons nth_Cons_Suc list.pred_inject list.size) auto
next
  case (1 a b c d)
  show ?case by (simp add: take_Cons' del: set_simps)
qed (auto simp del: set_simps)

lemma unat_small: "n < 256 \<Longrightarrow> unat (word_of_nat n :: byte) = n"
  by (simp add: unsigned_of_nat take_bit_nat_eq_self)

lemma enc_group:
  assumes "x < 64" "y < 64" "z < 64" "w < 64"
  obtains u v t where "EncodeBase64 (u # v # t # r) = enc6 x # enc6 y # enc6 z # enc6 w # EncodeBase64 r"
proof -
  have bytes: "x * 4 + y div 16 < 256" "y mod 16 * 16 + z div 4 < 256" "z mod 4 * 64 + w < 256"
    using assms by linarith+
  have y: "y div 16 < 4" and z: "z div 4 < 16" using assms by linarith+
  have "(x * 4 + y div 16) div 4 = x" "(x * 4 + y div 16) mod 4 = y div 16"
    "(y mod 16 * 16 + z div 4) div 16 = y mod 16" "(y mod 16 * 16 + z div 4) mod 16 = z div 4"
    "(z mod 4 * 64 + w) div 64 = z mod 4" "(z mod 4 * 64 + w) mod 64 = w"
    using y z assms(4) by simp_all
  moreover obtain u v t :: byte where "unat u = x * 4 + y div 16" "unat v = y mod 16 * 16 + z div 4"
      "unat t = z mod 4 * 64 + w"
    using bytes [THEN unat_small] by blast
  ultimately have "EncodeBase64 (u # v # t # r) = enc6 x # enc6 y # enc6 z # enc6 w # EncodeBase64 r"
    by simp
  then show thesis by (rule that)
qed

lemma enc_last:
  assumes "x < 64" "y < 64" "n < 16"
  obtains u v where "EncodeBase64 [u, v] = [enc6 x, enc6 y, enc6 (4 * n), CHR ''='']"
proof -
  have bytes: "x * 4 + y div 16 < 256" "y mod 16 * 16 + n < 256" and y: "y div 16 < 4"
    using assms by linarith+
  have "(x * 4 + y div 16) div 4 = x" "(x * 4 + y div 16) mod 4 = y div 16"
    "(y mod 16 * 16 + n) div 16 = y mod 16" "(y mod 16 * 16 + n) mod 16 = n"
    using y assms(3) by simp_all
  moreover obtain u v :: byte where "unat u = x * 4 + y div 16" "unat v = y mod 16 * 16 + n"
    using bytes [THEN unat_small] by blast
  ultimately have "EncodeBase64 [u, v] = [enc6 x, enc6 y, enc6 (4 * n), CHR ''='']"
    by (simp add: mult.commute)
  then show thesis by (rule that)
qed

lemma key_text_encodes: "key_text n t \<Longrightarrow> \<exists>k. length k = 3 * n + 2 \<and> t = EncodeBase64 k"
proof (induction n t rule: key_text.induct)
  case (1 a b c d)
  then obtain x y n where "x < 64" "enc6 x = a" "y < 64" "enc6 y = b" "n < 16" "c = enc6 (4 * n)" "d = CHR ''=''"
    unfolding key_text.simps key_char_iff key_end_iff by blast
  then obtain u v where "EncodeBase64 [u, v] = [a, b, c, d]"
    using enc_last by metis
  then show ?case by (intro exI [of _ "[u, v]"]) simp
next
  case (2 n a b c d r)
  then obtain k where k: "length k = 3 * n + 2" "r = EncodeBase64 k" by auto
  from 2(2) obtain x y z w where "x < 64" "enc6 x = a" "y < 64" "enc6 y = b"
      "z < 64" "enc6 z = c" "w < 64" "enc6 w = d"
    unfolding key_text.simps key_char_iff by blast
  then obtain u v s where "EncodeBase64 (u # v # s # k) = a # b # c # d # EncodeBase64 k"
    using enc_group by metis
  with k show ?case by (intro exI [of _ "u # v # s # k"]) simp
qed simp_all

lemma key_char_enc6: "n < 64 \<Longrightarrow> key_char (enc6 n)"
  by (auto simp: key_char_iff enc6_facts)

lemma encode_key_text: "length k = 3 * n + 2 \<Longrightarrow> key_text n (EncodeBase64 k)"
proof (induction n arbitrary: k)
  case 0
  then obtain u v where k: "k = [u, v]" by (auto simp: length_Suc_conv eval_nat_numeral)
  have "enc6 (unat v mod 16 * 4) \<in> set ''AEIMQUYcgkosw480''"
    unfolding key_end_iff by (auto simp: mult.commute intro!: exI [of _ "unat v mod 16"])
  then show ?case by (simp only: k EncodeBase64.simps key_text.simps key_char_enc6 base64_bounds simp_thms)
next
  case (Suc n)
  then have "length k = Suc (Suc (Suc (3 * n + 2)))" by simp
  then obtain a b c r where k: "k = a # b # c # r" "length r = 3 * n + 2"
    by (auto simp: length_Suc_conv)
  then show ?case
    using Suc.IH by (simp only: EncodeBase64.simps append.simps key_text.simps key_char_enc6 base64_bounds simp_thms)
qed

lemma isValidKey_text:
  assumes "inside b s" and "span_text b s = Some t"
  shows "isValidKey b s = Some (key_text 10 t)"
proof -
  have t: "t = map (\<lambda>i. b ! (ptr s + i)) [0..<plen s]"
    using assms by (simp add: span_text_inside)
  show ?thesis
  proof (cases "plen s = 44")
    case True
    define ends where "ends = set ''AEIMQUYcgkosw480''"
    have "every b s (\<lambda>_ c. key_char c) [0..<42] = Some (list_all key_char (take 42 t))"
      using every_inside [OF assms(1), of "[0..<42]" "\<lambda>_. key_char"] True
      by (simp add: t take_map list.pred_map comp_def)
    then have "every b s (\<lambda>_ c. isDecimal c \<or> isAlphabet c \<or> c = CHR ''/'' \<or> c = CHR ''+'') [0..<42] =
        Some (list_all key_char (take 42 t))"
      by (simp only: key_char_def)
    moreover have "t ! 42 = b ! (ptr s + 42)" "t ! 43 = b ! (ptr s + 43)" "length t = 44"
      using True by (simp_all add: t)
    ultimately show ?thesis
      using True assms(1) unfolding isValidKey_def key_text_iff ends_def [symmetric]
      by (simp add: byte_at_inside del: upt_rec_numeral every.simps)
  qed (simp add: isValidKey_def key_text_iff t)
qed

lemma isValidKey_iff:
  assumes "inside b s" and "span_text b s = Some t"
  shows "isValidKey b s = Some True \<longleftrightarrow> (\<exists>k. length k = 32 \<and> t = EncodeBase64 k)"
  using key_text_encodes [of 10 t] encode_key_text [of _ 10]
  by (auto simp: isValidKey_text [OF assms])

lemma isSame_iff:
  assumes "inside b s" and "span_text b s = Some t"
  shows "isSame b s c = Some (t = c)"
proof -
  have t: "t = map (\<lambda>i. b ! (ptr s + i)) [0..<plen s]"
    using assms by (simp add: span_text_inside)
  have "every b s (\<lambda>i a. a = c ! i) [0..<plen s] = Some (t = c)" if len: "plen s = length c"
  proof -
    have "every b s (\<lambda>i a. a = c ! i) [0..<plen s] = Some (\<forall>i < length c. b ! (ptr s + i) = c ! i)"
      by (subst every_inside [OF assms(1)]) (auto simp: list_all_iff len)
    moreover have "t = c \<longleftrightarrow> (\<forall>i < length c. b ! (ptr s + i) = c ! i)"
      using len unfolding list_eq_iff_nth_eq by (simp add: t)
    ultimately show ?thesis by simp
  qed
  moreover have "t \<noteq> c" if "plen s \<noteq> length c" using that by (auto simp: t)
  ultimately show ?thesis by (auto simp: isSame_def)
qed

lemma isValidTable_iff:
  assumes "inside b s" and "span_text b s = Some t"
  shows "isValidTable b s = Some (t = ''off'' \<or> t = ''auto'' \<or> t = ''main'' \<or>
    all_digits t \<and> length t \<le> 10 \<and> dec_val t < 2 ^ 32)"
  by (simp add: isValidTable_def or_else_def isSame_iff [OF assms] isValidUint_iff [OF assms])
    (auto simp: less_Suc_eq_le [symmetric])

text \<open>
  C32: For every text of the editor the highlighter terminates without a read outside its buffer and
  without a panic: all its unchecked pointers stay inside. The spans it paints are not empty, do
  not overlap, stand in the order of the text and end within it, after the warnings as before. The
  save button is enabled exactly if no span is an error.
\<close>

theorem highlightText_safe:
  "\<exists>spans se'. highlightText T F msg se = Some (spans, se') \<and>
     spans_in 0 (length msg) spans \<and> haveErrors se' = (highlightError \<notin> span_t ` set spans)"
proof -
  let ?cfg = "map (\<lambda>c. if c = CHR 0x0D then CHR 0x0A else c) msg"
  obtain spans0 where s0: "highlightConfig T ?cfg = Some spans0" "spans_in 0 (length ?cfg) spans0"
    using highlightConfig_in by blast
  obtain spans where s: "highlightASecConfig ?cfg spans0 = Some spans" "spans_in 0 (length ?cfg) spans"
    using highlightASecConfig_in [OF s0(2)] by blast
  have "safe (evaluateUntunneledBlocking F ?cfg spans se)"
    unfolding evaluateUntunneledBlocking_def by (intro safe_intros safe_block_loop [OF s(2)])
  then obtain se1 where se1: "evaluateUntunneledBlocking F ?cfg spans se = Some se1"
    by (rule safeE)
  have "\<exists>se2. publish_private_key ?cfg spans se' = Some se2 \<and> haveErrors se2 = haveErrors se'" for se'
  proof (cases "find (\<lambda>span. span_t span = highlightPrivateKey) spans")
    case (Some x)
    then have "x \<in> set spans" by (auto simp: find_Some_iff)
    with s(2) have "span_s x + span_len x \<le> length ?cfg" using spans_in_elem by blast
    with Some show ?thesis by (auto simp: publish_private_key_def slice_span_def)
  qed (simp add: publish_private_key_def)
  then obtain se2 where "publish_private_key ?cfg spans (evaluateHaveErrors spans se1) = Some se2"
      "haveErrors se2 = haveErrors (evaluateHaveErrors spans se1)"
    by blast
  moreover from this have "highlightText T F msg se = Some (spans, se2)"
    using s0(1) s(1) se1 by (simp add: highlightText_def)
  moreover have "haveErrors (evaluateHaveErrors spans se1) = (highlightError \<notin> span_t ` set spans)"
    by (auto simp: evaluateHaveErrors_def list_ex_iff image_iff)
  ultimately show ?thesis using s(2) by simp
qed

text \<open>
  C33: What the highlighter paints as valid the parser accepts. A span is a valid key exactly if its
  text is the canonical Base64 text of 32 bytes, which \<^verbatim>\<open>parseKeyBase64\<close> reads back. A valid port,
  MTU or 16-bit number is read by the parser as the number it shows, and a valid table value is
  accepted.
\<close>

theorem validators_agree:
  assumes "inside b s" and "span_text b s = Some t"
  shows "(isValidKey b s = Some True \<longleftrightarrow>
           (\<exists>k. length k = 32 \<and> t = EncodeBase64 k \<and> parseKeyBase64 t = Inr k)) \<and>
    (isValidPort b s = Some True \<longrightarrow> parsePort t = Inr (word_of_nat (dec_val t))) \<and>
    (isValidMTU b s = Some True \<longrightarrow> parseMTU t = Inr (word_of_nat (dec_val t))) \<and>
    (isValidUint b s False 0 65535 = Some True \<longrightarrow>
      parseUint16 t name = Inr (word_of_nat (dec_val t))) \<and>
    (isValidTable b s = Some True \<longrightarrow> parseTableOff t = Inr (t = ''off''))"
proof -
  have key: "parseKeyBase64 (EncodeBase64 k) = Inr k" if "length k = 32" for k
    using that by (simp add: parseKeyBase64_def parse_key_def DecodeBase64_Encode KeyLength_def)
  have number: "parse_bounded why (int lo) t = Inr (word_of_nat (dec_val t))"
    if "isValidUint b s False lo 65535 = Some True" for why lo
  proof -
    have "all_digits t" "lo \<le> dec_val t" "dec_val t \<le> 65535"
      using that by (simp_all add: isValidUint_iff [OF assms])
    moreover from this have "Atoi t = Some (int (dec_val t))" by (intro Atoi_digits) auto
    ultimately show ?thesis by (auto simp: parse_bounded_def)
  qed
  have table: "parseTableOff t = Inr (t = ''off'')" if "isValidTable b s = Some True"
    using that by (auto simp: isValidTable_iff [OF assms] parseTableOff_def ParseUint_def)
  show ?thesis
    using key isValidKey_iff [OF assms] number [of 0] number [of 576] table
    by (auto simp: isValidPort_def isValidMTU_def parsePort_def parseMTU_def parseUint16_def)
qed

theorem validators_agree_witness:
  "isValidPort ''51820 '' \<lparr>ptr = 0, plen = 5\<rparr> = Some True \<and> parsePort ''51820'' = Inr 51820"
proof -
  have port: "isValidPort ''51820 '' \<lparr>ptr = 0, plen = 5\<rparr> = Some True" by code_simp
  have "inside ''51820 '' \<lparr>ptr = 0, plen = 5\<rparr>" "span_text ''51820 '' \<lparr>ptr = 0, plen = 5\<rparr> = Some ''51820''"
    by (simp_all add: inside_def span_text_def)
  from validators_agree [OF this] port
  have "parsePort ''51820'' = Inr (word_of_nat (dec_val ''51820''))" by blast
  moreover have "dec_val ''51820'' = 51820" by code_simp
  ultimately show ?thesis using port by simp
qed

text \<open>
  C34: The test of the zone of a link-local endpoint is inverted: a zone is painted as valid exactly
  if it has between 1 and 64 bytes none of which is a letter.
\<close>

theorem isValidScope_rejects_letters:
  assumes "inside b s" and "span_text b s = Some t"
  shows "isValidScope b s = Some (t \<noteq> [] \<and> length t \<le> 64 \<and> list_all (\<lambda>c. \<not> isAlphabet c) t)"
proof -
  have t: "t = map (\<lambda>i. b ! (ptr s + i)) [0..<plen s]"
    using assms by (simp add: span_text_inside)
  have letter: "isAlphabet c \<and> \<not> isDecimal c \<and> c \<noteq> CHR ''_'' \<and> c \<noteq> CHR ''='' \<and>
      c \<noteq> CHR ''+'' \<and> c \<noteq> CHR ''.'' \<and> c \<noteq> CHR ''-'' \<longleftrightarrow> isAlphabet c" for c
    by (rule all_chars [where P = "\<lambda>c. (isAlphabet c \<and> \<not> isDecimal c \<and> c \<noteq> CHR ''_'' \<and> c \<noteq> CHR ''='' \<and>
      c \<noteq> CHR ''+'' \<and> c \<noteq> CHR ''.'' \<and> c \<noteq> CHR ''-'') = isAlphabet c"]) code_simp
  show ?thesis
    unfolding isValidScope_def letter
    by (subst every_inside [OF assms(1)]) (auto simp: t list.pred_map comp_def)
qed

theorem isValidScope_rejects_letters_witness:
  "isValidScope ''eth0]'' \<lparr>ptr = 0, plen = 4\<rparr> = Some False \<and>
   isValidEndpoint ''[fe80::1%eth0]:51820 '' \<lparr>ptr = 0, plen = 20\<rparr> = Some False \<and>
   \<not> isl (parseEndpoint ''[fe80::1%eth0]:51820'')"
proof -
  have "inside ''eth0]'' \<lparr>ptr = 0, plen = 4\<rparr>" "span_text ''eth0]'' \<lparr>ptr = 0, plen = 4\<rparr> = Some ''eth0''"
    by (simp_all add: inside_def span_text_def)
  from isValidScope_rejects_letters [OF this]
  have "isValidScope ''eth0]'' \<lparr>ptr = 0, plen = 4\<rparr> = Some False"
    by (simp add: isAlphabet_def code_def)
  moreover have "isValidEndpoint ''[fe80::1%eth0]:51820 '' \<lparr>ptr = 0, plen = 20\<rparr> = Some False" by code_simp
  moreover have "\<not> isl (parseEndpoint ''[fe80::1%eth0]:51820'')" by code_simp
  ultimately show ?thesis by blast
qed
end
