(* ===== verification/Supervisor.thy ===== *)
theory Supervisor
  imports GoStrings
begin

text \<open>
  The recovery supervisor of \<^verbatim>\<open>client/manager/smart_supervisor.go\<close>: its two channels, the timer of
  the pending recovery and the loop \<^verbatim>\<open>run\<close>.

  Times and durations are integers in nanoseconds. One round of the \<^verbatim>\<open>select\<close> is one event; the
  event carries what the clock and the dependencies (\<^verbatim>\<open>network\<close>, \<^verbatim>\<open>desired\<close>, \<^verbatim>\<open>healthy\<close> and
  \<^verbatim>\<open>recover\<close>) answer in that round, so that a sequence of events is one execution of the
  supervisor among its callers.
\<close>

subsection \<open>Data\<close>

type_synonym duration = int

definition Second :: duration where
  "Second = 1000000000"

definition Millisecond :: duration where
  "Millisecond = 1000000"

record smartRecoveryRequest =
  reason :: string
  force :: bool
  delay :: duration

record smartSupervisorConfig =
  pollInterval :: duration
  networkSettle :: duration
  unhealthyPolls :: int
  retryDelay :: "(int \<Rightarrow> duration) option"

definition smartRecoveryDelay :: "int \<Rightarrow> duration" where
  "smartRecoveryDelay attempt =
     (let delays = [Second, 2 * Second, 5 * Second, 10 * Second, 30 * Second, 60 * Second];
          attempt = (if attempt < 0 then 0 else attempt) in
      if attempt \<ge> int (length delays) then delays ! (length delays - 1)
      else delays ! nat attempt)"

definition supervisor_config :: "smartSupervisorConfig \<Rightarrow> smartSupervisorConfig" where
  "supervisor_config config =
     (let c = (if pollInterval config \<le> 0 then config\<lparr>pollInterval := 5 * Second\<rparr> else config);
          c = (if networkSettle c \<le> 0 then c\<lparr>networkSettle := 2500 * Millisecond\<rparr> else c);
          c = (if unhealthyPolls c < 1 then c\<lparr>unhealthyPolls := 2\<rparr> else c) in
      if retryDelay c = None then c\<lparr>retryDelay := Some smartRecoveryDelay\<rparr> else c)"

text \<open>
  The variables of \<^verbatim>\<open>run\<close> and the contents of the channels. \<open>timer\<close> is the time at which the
  armed timer fires, and \<open>recoveries\<close> lists the calls of \<^verbatim>\<open>recover\<close>.
\<close>

record supervisor =
  requests :: "smartRecoveryRequest list"
  reset :: bool
  stopping :: bool
  finished :: bool
  lastSignature :: string
  lastOnline :: bool
  haveSignature :: bool
  unhealthyCount :: int
  attempts :: int
  timer :: "int option"
  pending :: smartRecoveryRequest
  pendingAt :: int
  hasPending :: bool
  recoveries :: "(bool \<times> string) list"

type_synonym network_answer = "string \<times> bool \<times> bool"
type_synonym desired_answer = "string \<times> bool \<times> bool"
type_synonym clock = "int \<times> int"

definition no_request :: smartRecoveryRequest where
  "no_request = \<lparr>reason = [], force = False, delay = 0\<rparr>"

text \<open>
  A new supervisor after the first lines of \<^verbatim>\<open>run\<close>. The last component of an answer of the
  dependencies says whether there was an error.
\<close>

definition run_init :: "network_answer \<Rightarrow> supervisor" where
  "run_init net =
     (case net of (signature, online, failed) \<Rightarrow>
      \<lparr>requests = [], reset = False, stopping = False, finished = False,
       lastSignature = signature, lastOnline = online, haveSignature = (\<not> failed),
       unhealthyCount = 0, attempts = 0, timer = None, pending = no_request, pendingAt = 0,
       hasPending = False, recoveries = []\<rparr>)"

subsection \<open>The callers\<close>

definition request :: "smartRecoveryRequest \<Rightarrow> supervisor \<Rightarrow> supervisor" where
  "request r sv =
     (let r = (if delay r < 0 then r\<lparr>delay := 0\<rparr> else r) in
      if length (requests sv) < 8 then sv\<lparr>requests := requests sv @ [r]\<rparr> else sv)"

definition markHealthy :: "supervisor \<Rightarrow> supervisor" where
  "markHealthy sv = sv\<lparr>reset := True\<rparr>"

definition close_supervisor :: "supervisor \<Rightarrow> supervisor" where
  "close_supervisor sv = sv\<lparr>stopping := True\<rparr>"

subsection \<open>The loop\<close>

definition cancelPending :: "supervisor \<Rightarrow> supervisor" where
  "cancelPending sv =
     sv\<lparr>timer := None, hasPending := False, pending := no_request, pendingAt := 0\<rparr>"

text \<open>The first clock reading is \<^verbatim>\<open>time.Now\<close>, the second the one inside \<^verbatim>\<open>time.Until\<close>.\<close>

definition schedule :: "clock \<Rightarrow> smartRecoveryRequest \<Rightarrow> supervisor \<Rightarrow> supervisor" where
  "schedule clk r sv =
     (let due = fst clk + delay r;
          arm = (\<lambda>sv. let d = due - snd clk; d = (if d < 0 then 0 else d) in
                   sv\<lparr>pendingAt := due, timer := Some (snd clk + d)\<rparr>) in
      if hasPending sv then
        (let p = pending sv;
             p = p\<lparr>force := force p \<or> force r\<rparr>;
             p = (if reason p = [] then p\<lparr>reason := reason r\<rparr> else p);
             sv = sv\<lparr>pending := p\<rparr> in
         if \<not> due < pendingAt sv then sv else arm sv)
      else arm (sv\<lparr>pending := r, hasPending := True\<rparr>))"

text \<open>The first half of a tick: a changed network asks for a forced recovery.\<close>

definition tick_network ::
    "smartSupervisorConfig \<Rightarrow> clock \<Rightarrow> network_answer \<Rightarrow> supervisor \<Rightarrow> supervisor" where
  "tick_network cfg clk net sv =
     (case net of (signature, online, failed) \<Rightarrow>
      if failed then sv
      else
        (let sv = (if haveSignature sv \<and> online \<and> (\<not> lastOnline sv \<or> signature \<noteq> lastSignature sv)
                    then schedule clk \<lparr>reason = ''network changed'', force = True,
                           delay = networkSettle cfg\<rparr> sv
                    else sv) in
         sv\<lparr>lastSignature := signature, lastOnline := online, haveSignature := True\<rparr>))"

text \<open>The second half: the health of the desired tunnel.\<close>

definition tick_health ::
    "smartSupervisorConfig \<Rightarrow> clock \<Rightarrow> bool \<Rightarrow> desired_answer \<Rightarrow> (string \<Rightarrow> bool) \<Rightarrow> supervisor \<Rightarrow> supervisor" where
  "tick_health cfg clk online desired healthy sv =
     (case desired of (tunnelName, exists, failed) \<Rightarrow>
      if failed then sv
      else if \<not> exists then sv\<lparr>unhealthyCount := 0, attempts := 0\<rparr>
      else if online \<and> healthy tunnelName then sv\<lparr>unhealthyCount := 0, attempts := 0\<rparr>
      else if \<not> online then sv\<lparr>unhealthyCount := 0\<rparr>
      else
        (let sv = sv\<lparr>unhealthyCount := unhealthyCount sv + 1\<rparr> in
         if unhealthyCount sv \<ge> unhealthyPolls cfg \<and> \<not> hasPending sv
         then (schedule clk \<lparr>reason = ''health check failed'', force = False, delay = 0\<rparr> sv)
                \<lparr>unhealthyCount := 0\<rparr>
         else sv))"

definition tick ::
    "smartSupervisorConfig \<Rightarrow> clock \<Rightarrow> network_answer \<Rightarrow> desired_answer \<Rightarrow> (string \<Rightarrow> bool) \<Rightarrow>
     supervisor \<Rightarrow> supervisor" where
  "tick cfg clk net desired healthy sv =
     tick_health cfg clk (fst (snd net)) desired healthy (tick_network cfg clk net sv)"

text \<open>The timer: the recovery is run, and a failed one is scheduled again.\<close>

definition fire :: "smartSupervisorConfig \<Rightarrow> clock \<Rightarrow> bool \<Rightarrow> supervisor \<Rightarrow> supervisor" where
  "fire cfg clk failed sv =
     (let r = pending sv;
          sv = sv\<lparr>timer := None, hasPending := False,
                    recoveries := recoveries sv @ [(force r, reason r)]\<rparr> in
      if failed then
        (let d = (case retryDelay cfg of Some f \<Rightarrow> f (attempts sv) | None \<Rightarrow> 0);
             sv = sv\<lparr>attempts := attempts sv + 1\<rparr> in
         schedule clk \<lparr>reason = reason r, force = force r, delay = d\<rparr> sv)
      else sv\<lparr>attempts := 0, unhealthyCount := 0\<rparr>)"

subsection \<open>Executions\<close>

datatype event =
    Request smartRecoveryRequest
  | MarkHealthy
  | Close
  | TakeRequest clock
  | TakeReset
  | Tick clock network_answer desired_answer "string \<Rightarrow> bool"
  | Fire clock bool
  | Stop

text \<open>
  The effect of an event, or \<^const>\<open>None\<close> if it cannot happen: a case of the \<^verbatim>\<open>select\<close> needs a
  running loop and a ready channel. \<^verbatim>\<open>retryDelay\<close> is never nil in a supervisor that was made by
  \<^verbatim>\<open>newSmartRecoverySupervisor\<close>.
\<close>

definition supervisor_event :: "smartSupervisorConfig \<Rightarrow> event \<Rightarrow> supervisor \<Rightarrow> supervisor option" where
  "supervisor_event cfg e sv =
     (case e of
        Request r \<Rightarrow> Some (request r sv)
      | MarkHealthy \<Rightarrow> Some (markHealthy sv)
      | Close \<Rightarrow> Some (close_supervisor sv)
      | TakeRequest clk \<Rightarrow>
          (case requests sv of
             r # rs \<Rightarrow> if finished sv \<or> snd clk < fst clk then None
                       else Some (schedule clk r (sv\<lparr>requests := rs\<rparr>))
           | [] \<Rightarrow> None)
      | TakeReset \<Rightarrow>
          (if finished sv \<or> \<not> reset sv then None
           else Some (cancelPending (sv\<lparr>reset := False, attempts := 0, unhealthyCount := 0\<rparr>)))
      | Tick clk net desired healthy \<Rightarrow>
          (if finished sv \<or> snd clk < fst clk then None else Some (tick cfg clk net desired healthy sv))
      | Fire clk failed \<Rightarrow>
          (case timer sv of
             Some t \<Rightarrow> if finished sv \<or> snd clk < fst clk \<or> fst clk < t then None
                       else Some (fire cfg clk failed sv)
           | None \<Rightarrow> None)
      | Stop \<Rightarrow>
          (if finished sv \<or> \<not> stopping sv then None
           else Some ((cancelPending sv)\<lparr>finished := True\<rparr>)))"

inductive supervised :: "smartSupervisorConfig \<Rightarrow> event list \<Rightarrow> supervisor \<Rightarrow> supervisor \<Rightarrow> bool"
  for cfg :: smartSupervisorConfig where
  idle: "supervised cfg [] sv sv"
| step: "supervised cfg es sv sv' \<Longrightarrow> supervisor_event cfg e sv' = Some sv'' \<Longrightarrow>
    supervised cfg (es @ [e]) sv sv''"

inductive_cases supervised_snocE: "supervised cfg es sv sv'"

subsection \<open>The choice of the physical network\<close>

record smartDefaultRouteCandidate =
  InterfaceIndex :: int
  RouteMetric :: nat
  InterfaceMetric :: nat
  Up :: bool
  Excluded :: bool

text \<open>The loop over the candidates; two 32-bit metrics are added in 64 bits, so the sum is exact.\<close>

fun select_routes :: "nat \<Rightarrow> int set \<Rightarrow> smartDefaultRouteCandidate list \<Rightarrow> int set" where
  "select_routes lowestMetric selected [] = selected"
| "select_routes lowestMetric selected (c # cs) =
     (if InterfaceIndex c \<le> 0 \<or> \<not> Up c \<or> Excluded c then select_routes lowestMetric selected cs
      else
        (let metric = RouteMetric c + InterfaceMetric c;
             sel = (if metric < lowestMetric then {} else selected);
             low = (if metric < lowestMetric then metric else lowestMetric) in
         select_routes low (if metric = low then insert (InterfaceIndex c) sel else sel) cs))"

definition selectSmartDefaultRouteIndexes :: "smartDefaultRouteCandidate list \<Rightarrow> int set" where
  "selectSmartDefaultRouteIndexes candidates = select_routes (2 ^ 64 - 1) {} candidates"

end
