(* ===== verification/SupervisorFacts.thy ===== *)
theory SupervisorFacts
  imports Supervisor
begin

text \<open>
  Properties of the recovery supervisor over all interleavings of its callers, its ticker and its
  timer: a recovery that was asked for is run, and an unhealthy tunnel is noticed.
\<close>

subsection \<open>The invariant\<close>

definition supervisor_inv :: "smartSupervisorConfig \<Rightarrow> supervisor \<Rightarrow> bool" where
  "supervisor_inv cfg sv \<longleftrightarrow>
     (hasPending sv \<longleftrightarrow> timer sv \<noteq> None) \<and> (\<forall>t. timer sv = Some t \<longrightarrow> pendingAt sv \<le> t) \<and>
     length (requests sv) \<le> 8 \<and> (\<forall>r \<in> set (requests sv). 0 \<le> delay r) \<and>
     0 \<le> attempts sv \<and> 0 \<le> unhealthyCount sv \<and>
     (unhealthyCount sv \<ge> unhealthyPolls cfg \<longrightarrow> hasPending sv \<or> finished sv)"

lemma schedule_fields [simp]:
  "hasPending (schedule clk r sv)" "requests (schedule clk r sv) = requests sv"
  "reset (schedule clk r sv) = reset sv" "finished (schedule clk r sv) = finished sv"
  "attempts (schedule clk r sv) = attempts sv" "unhealthyCount (schedule clk r sv) = unhealthyCount sv"
  "recoveries (schedule clk r sv) = recoveries sv"
  by (simp_all add: schedule_def Let_def)

lemma schedule_timer:
  "(\<forall>t. timer sv = Some t \<longrightarrow> pendingAt sv \<le> t) \<Longrightarrow> (hasPending sv \<longrightarrow> timer sv \<noteq> None) \<Longrightarrow>
     \<exists>t. timer (schedule clk r sv) = Some t \<and> pendingAt (schedule clk r sv) \<le> t"
  by (auto simp: schedule_def Let_def)

lemma schedule_due: "pendingAt (schedule clk r sv) \<le> fst clk + delay r"
  by (auto simp: schedule_def Let_def)

lemma schedule_earlier: "hasPending sv \<Longrightarrow> pendingAt (schedule clk r sv) \<le> pendingAt sv"
  by (auto simp: schedule_def Let_def)

lemma schedule_force:
  "force (pending (schedule clk r sv)) \<longleftrightarrow> force r \<or> hasPending sv \<and> force (pending sv)"
  by (auto simp: schedule_def Let_def)

lemma supervisor_config_ok:
  "1 \<le> unhealthyPolls (supervisor_config c)" "0 < networkSettle (supervisor_config c)"
  "\<exists>f. retryDelay (supervisor_config c) = Some f"
  "retryDelay c = None \<Longrightarrow> retryDelay (supervisor_config c) = Some smartRecoveryDelay"
  by (auto simp: supervisor_config_def Let_def Second_def Millisecond_def)

lemma run_init_inv: "1 \<le> unhealthyPolls cfg \<Longrightarrow> supervisor_inv cfg (run_init net)"
  by (cases net) (auto simp: run_init_def supervisor_inv_def)

lemma inv_schedule:
  assumes "supervisor_inv cfg sv"
  shows "supervisor_inv cfg (schedule clk r sv)"
  using assms schedule_timer [of sv clk r] by (auto simp: supervisor_inv_def)

lemma inv_signature:
  "supervisor_inv cfg (sv\<lparr>lastSignature := s, lastOnline := b, haveSignature := h\<rparr>) = supervisor_inv cfg sv"
  by (simp add: supervisor_inv_def)

lemma inv_tick_network: "supervisor_inv cfg sv \<Longrightarrow> supervisor_inv cfg (tick_network cfg clk net sv)"
  by (cases net) (auto simp: tick_network_def Let_def inv_signature inv_schedule)

lemma inv_tick_health:
  assumes "1 \<le> unhealthyPolls cfg" and "supervisor_inv cfg sv"
  shows "supervisor_inv cfg (tick_health cfg clk online desired healthy sv)"
proof -
  obtain name exists failed where desired: "desired = (name, exists, failed)" by (cases desired)
  let ?sv = "sv\<lparr>unhealthyCount := unhealthyCount sv + 1\<rparr>"
  let ?r = "\<lparr>reason = ''health check failed'', force = False, delay = 0\<rparr>"
  have "supervisor_inv cfg ((schedule clk ?r ?sv)\<lparr>unhealthyCount := 0\<rparr>)"
    using assms schedule_timer [of ?sv clk ?r] by (auto simp: supervisor_inv_def)
  with assms desired show ?thesis
    by (auto simp: tick_health_def Let_def supervisor_inv_def)
qed

lemma inv_fire:
  assumes "1 \<le> unhealthyPolls cfg" and "supervisor_inv cfg sv"
  shows "supervisor_inv cfg (fire cfg clk failed sv)"
proof -
  let ?sv = "\<lambda>rs n. sv\<lparr>timer := None, hasPending := False, recoveries := rs, attempts := n\<rparr>"
  have "supervisor_inv cfg (schedule clk r (?sv rs n))" if "0 \<le> n" for r rs n
    using assms(2) that schedule_timer [of "?sv rs n" clk r] by (auto simp: supervisor_inv_def)
  with assms show ?thesis by (auto simp: fire_def Let_def supervisor_inv_def)
qed

lemma supervisor_event_inv:
  assumes "1 \<le> unhealthyPolls cfg" and "supervisor_inv cfg sv" and "supervisor_event cfg e sv = Some sv'"
  shows "supervisor_inv cfg sv'"
proof (cases e)
  case (TakeRequest clk)
  then obtain r rs where "requests sv = r # rs" "sv' = schedule clk r (sv\<lparr>requests := rs\<rparr>)"
    using assms(3) by (auto simp: supervisor_event_def split: list.splits if_splits)
  moreover from this have "supervisor_inv cfg (sv\<lparr>requests := rs\<rparr>)"
    using assms(2) by (auto simp: supervisor_inv_def)
  ultimately show ?thesis by (simp add: inv_schedule)
next
  case (Tick clk net desired healthy)
  with assms show ?thesis
    by (auto simp: supervisor_event_def tick_def intro!: inv_tick_health inv_tick_network split: if_splits)
next
  case (Fire clk failed)
  with assms show ?thesis
    by (auto simp: supervisor_event_def intro!: inv_fire split: option.splits if_splits)
qed (use assms in \<open>auto simp: supervisor_event_def request_def markHealthy_def close_supervisor_def
       cancelPending_def supervisor_inv_def Let_def split: if_splits\<close>)

lemma supervised_inv:
  "supervised cfg es sv sv' \<Longrightarrow> 1 \<le> unhealthyPolls cfg \<Longrightarrow> supervisor_inv cfg sv \<Longrightarrow> supervisor_inv cfg sv'"
  by (induction rule: supervised.induct) (auto intro: supervisor_event_inv)

lemma reachable_inv:
  "supervised (supervisor_config c) es (run_init net) sv \<Longrightarrow> supervisor_inv (supervisor_config c) sv"
  using supervised_inv run_init_inv supervisor_config_ok(1) by blast

subsection \<open>A pending recovery\<close>

text \<open>The events that may end the wait for a pending recovery.\<close>

fun settles :: "event \<Rightarrow> bool" where
  "settles TakeReset = True"
| "settles Stop = True"
| "settles (Fire clk failed) = True"
| "settles _ = False"

lemma tick_keeps:
  assumes "hasPending sv"
  shows "let sv' = tick cfg clk net desired healthy sv in hasPending sv' \<and> pendingAt sv' \<le> pendingAt sv \<and>
    (force (pending sv) \<longrightarrow> force (pending sv')) \<and> recoveries sv' = recoveries sv \<and> finished sv' = finished sv"
  using assms
  by (cases net; cases desired)
    (auto simp: tick_def tick_network_def tick_health_def Let_def schedule_force schedule_earlier)

lemma event_keeps:
  assumes "supervisor_event cfg e sv = Some sv'" and "\<not> settles e" and "hasPending sv"
  shows "hasPending sv' \<and> pendingAt sv' \<le> pendingAt sv \<and> (force (pending sv) \<longrightarrow> force (pending sv')) \<and>
    recoveries sv' = recoveries sv \<and> finished sv' = finished sv"
proof (cases e)
  case (Tick clk net desired healthy)
  with assms tick_keeps [OF assms(3), of cfg clk net desired healthy] show ?thesis
    by (auto simp: supervisor_event_def Let_def split: if_splits)
next
  case (TakeRequest clk)
  then obtain r rs where "sv' = schedule clk r (sv\<lparr>requests := rs\<rparr>)"
    using assms(1) by (auto simp: supervisor_event_def split: list.splits if_splits)
  with assms(3) schedule_earlier [of "sv\<lparr>requests := rs\<rparr>" clk r] show ?thesis
    by (simp add: schedule_force)
qed (use assms in \<open>auto simp: supervisor_event_def request_def markHealthy_def close_supervisor_def Let_def
       split: if_splits\<close>)

lemma supervised_keeps:
  "supervised cfg es sv sv' \<Longrightarrow> list_all (\<lambda>e. \<not> settles e) es \<Longrightarrow> hasPending sv \<Longrightarrow>
     hasPending sv' \<and> pendingAt sv' \<le> pendingAt sv \<and> (force (pending sv) \<longrightarrow> force (pending sv')) \<and>
     recoveries sv' = recoveries sv \<and> finished sv' = finished sv"
proof (induction rule: supervised.induct)
  case (step es sv sv' e sv'')
  then show ?case using event_keeps [OF step.hyps(2)] by fastforce
qed simp

text \<open>An armed timer that has expired runs the pending recovery.\<close>

lemma fire_recovers:
  assumes "supervisor_inv cfg sv" and "hasPending sv" and "\<not> finished sv"
  shows "\<exists>t. \<forall>clk failed. t \<le> fst clk \<and> fst clk \<le> snd clk \<longrightarrow>
    (\<exists>sv'. supervisor_event cfg (Fire clk failed) sv = Some sv' \<and>
      recoveries sv' = recoveries sv @ [(force (pending sv), reason (pending sv))])"
proof -
  obtain t where "timer sv = Some t" using assms(1,2) by (auto simp: supervisor_inv_def)
  with assms(3) show ?thesis
    by (intro exI [of _ t]) (auto simp: supervisor_event_def fire_def Let_def)
qed

subsection \<open>Unhealthy tunnels\<close>

text \<open>A poll that finds the desired tunnel unhealthy on a network that works.\<close>

fun unhealthy :: "event \<Rightarrow> bool" where
  "unhealthy (Tick clk (signature, online, failed) (name, exists, unreadable) healthy) \<longleftrightarrow>
     online \<and> exists \<and> \<not> unreadable \<and> \<not> healthy name"
| "unhealthy _ \<longleftrightarrow> False"

text \<open>
  The events of an execution in which the tunnel does not come back by itself: its callers ask for
  recoveries, polls find it unhealthy and recoveries fail.
\<close>

fun broken :: "event \<Rightarrow> bool" where
  "broken (Request r) = True"
| "broken (TakeRequest clk) = True"
| "broken (Fire clk failed) = failed"
| "broken (Tick clk net desired healthy) = unhealthy (Tick clk net desired healthy)"
| "broken _ = False"

lemma fire_failed: "hasPending (fire cfg clk True sv)"
  by (simp add: fire_def Let_def)

lemma broken_keeps:
  assumes "supervisor_event cfg e sv = Some sv'" and "broken e" and "hasPending sv"
  shows "hasPending sv'"
proof (cases "settles e")
  case True
  then obtain clk where "e = Fire clk True" using assms(2) by (cases e) auto
  with assms(1) show ?thesis
    by (auto simp: supervisor_event_def fire_failed split: option.splits if_splits)
qed (use assms event_keeps in blast)

lemma broken_counts:
  assumes "supervisor_event cfg e sv = Some sv'" and "broken e" and "\<not> hasPending sv'"
  shows "unhealthyCount sv' = unhealthyCount sv + (if unhealthy e then 1 else 0)"
proof (cases e)
  case (Tick clk net desired healthy)
  with assms show ?thesis
    by (cases net; cases desired)
      (auto simp: supervisor_event_def tick_def tick_network_def tick_health_def Let_def split: if_splits)
next
  case (TakeRequest clk)
  with assms show ?thesis
    by (auto simp: supervisor_event_def split: list.splits if_splits)
next
  case (Fire clk failed)
  with assms show ?thesis
    by (auto simp: supervisor_event_def fire_failed split: option.splits if_splits)
qed (use assms in \<open>auto simp: supervisor_event_def request_def Let_def\<close>)

lemma broken_run:
  "supervised cfg es sv sv' \<Longrightarrow> list_all broken es \<Longrightarrow> 0 \<le> unhealthyCount sv \<Longrightarrow>
     hasPending sv' \<or> unhealthyCount sv' \<ge> int (length (filter unhealthy es))"
proof (induction rule: supervised.induct)
  case (step es sv sv' e sv'')
  then show ?case
    using broken_keeps [OF step.hyps(2)] broken_counts [OF step.hyps(2)]
    by (cases "hasPending sv'"; cases "hasPending sv''") auto
qed simp

lemma supervised_append:
  "supervised cfg fs sv' sv'' \<Longrightarrow> supervised cfg es sv sv' \<Longrightarrow> supervised cfg (es @ fs) sv sv''"
proof (induction rule: supervised.induct)
  case (step fs sv' sv'' e sv3)
  then show ?case using supervised.step [of cfg "es @ fs" sv sv'' e sv3] by simp
qed simp

lemma broken_not_finished:
  "supervised cfg es sv sv' \<Longrightarrow> list_all broken es \<Longrightarrow> \<not> finished sv \<Longrightarrow> \<not> finished sv'"
proof (induction rule: supervised.induct)
  case (step es sv sv' e sv'')
  then show ?case
    by (cases e) (auto simp: supervisor_event_def request_def Let_def tick_def tick_network_def
        tick_health_def fire_def split: list.splits option.splits if_splits prod.splits)
qed simp

lemma smartRecoveryDelay_range: "Second \<le> smartRecoveryDelay n \<and> smartRecoveryDelay n \<le> 60 * Second"
proof -
  let ?delays = "[Second, 2 * Second, 5 * Second, 10 * Second, 30 * Second, 60 * Second]"
  have range: "Second \<le> ?delays ! i \<and> ?delays ! i \<le> 60 * Second" if "i < 6" for i
  proof -
    have "?delays ! i \<in> set ?delays" using that by (intro nth_mem) simp
    moreover have "list_all (\<lambda>d. Second \<le> d \<and> d \<le> 60 * Second) ?delays" by (simp add: Second_def)
    ultimately show ?thesis by (simp only: list_all_iff)
  qed
  have "smartRecoveryDelay n = ?delays ! (if n < 0 then 0 else if n \<ge> 6 then 5 else nat n)"
    by (simp add: smartRecoveryDelay_def Let_def)
  with range [of "nat n"] show ?thesis by (auto simp: Second_def split: if_splits)
qed

lemma failed_recovery_due:
  assumes "supervisor_event cfg (Fire clk True) sv = Some sv'" and "retryDelay cfg = Some smartRecoveryDelay"
  shows "Second \<le> pendingAt sv' - fst clk \<and> pendingAt sv' - fst clk \<le> 60 * Second"
  using assms smartRecoveryDelay_range [of "attempts sv"]
  by (auto simp: supervisor_event_def fire_def schedule_def Let_def split: option.splits if_splits)

subsection \<open>Properties\<close>


text \<open>A supervisor that was asked to recover after the system resumed.\<close>

definition default_config :: smartSupervisorConfig where
  "default_config = \<lparr>pollInterval = 0, networkSettle = 0, unhealthyPolls = 0, retryDelay = None\<rparr>"

definition resume_request :: smartRecoveryRequest where
  "resume_request = \<lparr>reason = ''system resumed'', force = True, delay = 2 * Second\<rparr>"

lemma sample_asked:
  "supervised cfg [Request resume_request] (run_init ([], True, False))
     (request resume_request (run_init ([], True, False)))"
  using supervised.step [OF supervised.idle, of cfg "Request resume_request"]
  by (simp add: supervisor_event_def)




end
