(* ===== verification/SmartDesired.thy ===== *)
theory SmartDesired
  imports SmartSettings
begin

text \<open>
  \<^verbatim>\<open>client/manager/smart_desired.go\<close>: the file that remembers which tunnel the recovery has to keep
  running, on the file store of \<^verbatim>\<open>SmartFiles\<close>. The JSON text of the state is an argument.
\<close>

definition smartDesiredVersion :: int where "smartDesiredVersion = 1"

definition smartDesiredMaxSize :: nat where "smartDesiredMaxSize = 2 * MaxSettingsSize"

record smartDesiredState =
  DesiredVersion :: int
  TunnelName :: string
  DesiredSettings :: RoutingSettings
  UpdatedAt :: time

record desired_json =
  marshal_desired :: "smartDesiredState \<Rightarrow> string option"
  unmarshal_desired :: "string \<Rightarrow> smartDesiredState option"

datatype desired_error =
    InvalidTunnelName | DesiredSettingsError smart_error | NativeTunnel | DesiredMarshal
  | DesiredTooLarge | DesiredFile file_error | DesiredDecode | DesiredVersionError int
  | DesiredValidate desired_error

text \<open>\<^verbatim>\<open>usesNativeTunnel\<close> of \<^verbatim>\<open>smart_process.go\<close>.\<close>

definition usesNativeTunnel :: "smart_env \<Rightarrow> RoutingSettings \<Rightarrow> bool" where
  "usesNativeTunnel E settings \<longleftrightarrow>
     NormalizeMode E (SettingsMode settings) = ModeAll \<and> \<not> HasEnabledCustomRules settings \<and>
     \<not> HasDirectServiceExceptions E settings \<and> Protection settings = [] \<and>
     length (FallbackProfiles settings) = 0"

definition normalizeSmartDesired ::
    "smart_env \<Rightarrow> catalog_state \<Rightarrow> smartDesiredState \<Rightarrow> desired_error + smartDesiredState" where
  "normalizeSmartDesired E c state =
     (let state = state\<lparr>TunnelName := TrimSpace (TunnelName state)\<rparr> in
      if \<not> TunnelNameIsValid (TunnelName state) then Inl InvalidTunnelName
      else case Normalized E c (DesiredSettings state) of
        Inl e \<Rightarrow> Inl (DesiredSettingsError e)
      | Inr settings \<Rightarrow>
        if usesNativeTunnel E settings then Inl NativeTunnel
        else Inr (state\<lparr>DesiredVersion := smartDesiredVersion, DesiredSettings := settings,
               UpdatedAt := (if UpdatedAt state = 0 then Now E else UpdatedAt state)\<rparr>))"

text \<open>The file gets a final newline; the temporary file is removed on every way out.\<close>

definition writeSmartDesiredFile ::
    "smart_env \<Rightarrow> desired_json \<Rightarrow> files \<Rightarrow> catalog_state \<Rightarrow> path \<Rightarrow> smartDesiredState \<Rightarrow> disk
      \<Rightarrow> desired_error option \<times> disk" where
  "writeSmartDesiredFile E J fl c p state d =
     (case normalizeSmartDesired E c state of
        Inl e \<Rightarrow> (Some e, d)
      | Inr state \<Rightarrow>
        (case marshal_desired J state of
           None \<Rightarrow> (Some DesiredMarshal, d)
         | Some data \<Rightarrow>
           if length data > smartDesiredMaxSize then (Some DesiredTooLarge, d)
           else if fails fl (MkdirAll p) then (Some (DesiredFile (OSError (MkdirAll p))), d)
           else replace_file fl DesiredFile p (data @ [CHR 0x0A]) (\<lambda>d1. (None, d1)) d))"

text \<open>\<^const>\<open>None\<close> is a missing file.\<close>

definition readSmartDesiredFile ::
    "smart_env \<Rightarrow> desired_json \<Rightarrow> files \<Rightarrow> catalog_state \<Rightarrow> path \<Rightarrow> disk
      \<Rightarrow> desired_error + smartDesiredState option" where
  "readSmartDesiredFile E J fl c p d =
     (case readLimitedFile fl d p smartDesiredMaxSize of
        Inl NotExist \<Rightarrow> Inr None
      | Inl TooLarge \<Rightarrow> Inl DesiredTooLarge
      | Inl e \<Rightarrow> Inl (DesiredFile e)
      | Inr data \<Rightarrow>
        (case unmarshal_desired J data of
           None \<Rightarrow> Inl DesiredDecode
         | Some state \<Rightarrow>
           if DesiredVersion state \<noteq> smartDesiredVersion
           then Inl (DesiredVersionError (DesiredVersion state))
           else case normalizeSmartDesired E c state of
             Inl e \<Rightarrow> Inl (DesiredValidate e)
           | Inr state \<Rightarrow> Inr (Some state)))"

definition saveSmartDesired ::
    "smart_env \<Rightarrow> desired_json \<Rightarrow> files \<Rightarrow> catalog_state \<Rightarrow> path \<Rightarrow> string \<Rightarrow> RoutingSettings \<Rightarrow> disk
      \<Rightarrow> desired_error option \<times> disk" where
  "saveSmartDesired E J fl c p tunnelName settings d =
     writeSmartDesiredFile E J fl c p
       \<lparr>DesiredVersion = 0, TunnelName = tunnelName, DesiredSettings = settings, UpdatedAt = Now E\<rparr> d"

definition loadSmartDesired ::
    "smart_env \<Rightarrow> desired_json \<Rightarrow> files \<Rightarrow> catalog_state \<Rightarrow> path \<Rightarrow> disk
      \<Rightarrow> desired_error + smartDesiredState option" where
  "loadSmartDesired E J fl c p d = readSmartDesiredFile E J fl c p d"

text \<open>Removing a file that does not exist is no error.\<close>

definition remove_desired :: "files \<Rightarrow> path \<Rightarrow> disk \<Rightarrow> desired_error option \<times> disk" where
  "remove_desired fl p d =
     (case removeFile fl d p of
        (Some NotExist, d) \<Rightarrow> (None, d)
      | (Some e, d) \<Rightarrow> (Some (DesiredFile e), d)
      | (None, d) \<Rightarrow> (None, d))"

definition clearSmartDesired :: "files \<Rightarrow> path \<Rightarrow> disk \<Rightarrow> desired_error option \<times> disk" where
  "clearSmartDesired fl p d = remove_desired fl p d"

definition clearSmartDesiredForTunnel ::
    "smart_env \<Rightarrow> desired_json \<Rightarrow> files \<Rightarrow> catalog_state \<Rightarrow> path \<Rightarrow> string \<Rightarrow> disk
      \<Rightarrow> desired_error option \<times> disk" where
  "clearSmartDesiredForTunnel E J fl c p tunnelName d =
     (case readSmartDesiredFile E J fl c p d of
        Inl e \<Rightarrow> (Some e, d)
      | Inr None \<Rightarrow> (None, d)
      | Inr (Some state) \<Rightarrow>
        if \<not> EqualFold (case_fold E) (TunnelName state) tunnelName then (None, d)
        else remove_desired fl p d)"

end
