(* ===== verification/ManagerWorld.thy ===== *)
theory ManagerWorld
  imports SmartDesired "HOL-Library.State_Monad"
begin

text \<open>
  The state of the manager service and its calls into the operating system, in the state monad.

  Every call is recorded with its answer. An answer may depend on the whole history of calls, so a
  \<open>world\<close> stands for an arbitrary behaviour of the service manager, the file system, the engine
  process, the firewall and the other processes on the machine. A Go function that returns an
  error is a computation of an \<^typ>\<open>'a option\<close>, with \<^const>\<open>None\<close> for nil.

  The handlers hold \<^verbatim>\<open>smartLifecycleLock\<close>; a handler is one step, and the goroutine that notices the
  exit of an engine is a step of its own between them.
\<close>

subsection \<open>Data\<close>

datatype TunnelState =
  TunnelUnknown | TunnelStarted | TunnelStopped | TunnelStarting | TunnelStopping

datatype merror =
    Answer string
  | ServiceMarkedForDelete
  | ServiceDoesNotExist
  | AccessDenied
  | ProcessDone
  | ExitedBeforeReady
  | NetworkUnavailable
  | SystemSuspended
  | SmartRoutingActive
  | MultipleNativePredecessors
  | SettingsRejected smart_error
  | DesiredError desired_error
  | TimedOut string
  | ErrorText string merror
  | Joined "merror list"
  | OutOfDepth

text \<open>
  \<^verbatim>\<open>smartProcessState\<close>; its field \<^verbatim>\<open>process\<close> is nil in none of the states that are ever stored, and
  the once-only wait is the call \<open>WaitEngine\<close>.
\<close>

record smartProcessState =
  tunnelName :: string
  settings :: RoutingSettings
  pid :: nat
  configPath :: path

datatype call =
    Preflight
  | LoadProfile string
  | ProfilePath string
  | BuildProfile string RoutingSettings
  | DiagnosticListener
  | DiagnosticInbound
  | SmartDirectories
  | ReserveConfig path
  | WriteConfig path
  | RemoveConfig path
  | FindEngine
  | CheckEngine path
  | ListNames
  | QueryService string
  | SetGuard nat
  | ClearGuard
  | UninstallTunnel string
  | OpenService string
  | InstallTunnel string
  | RotateLog
  | OpenLog
  | StartEngine nat path
  | AttachJob nat
  | KillEngine nat
  | WaitEngine nat
  | AwaitReady nat
  | TunInterface
  | Desired
  | Notify string TunnelState
  | MarkRecoveryHealthy
  | RequestRecovery string bool int
  | PhysicalNetwork
  | DeleteProfile string

type_synonym entry = "call \<times> merror option"

text \<open>What the wait for a new engine can observe.\<close>

datatype ready_event = EngineExited | StartupTimeout | ReadinessPoll bool bool | Settled

text \<open>What the machine answers after a history of calls.\<close>

record world =
  answer :: "entry list \<Rightarrow> call \<Rightarrow> merror option"
  configName :: "entry list \<Rightarrow> string \<Rightarrow> path"
  newPid :: "entry list \<Rightarrow> nat"
  tunLuid :: "entry list \<Rightarrow> nat"
  tunnelNames :: "entry list \<Rightarrow> string list"
  serviceState :: "entry list \<Rightarrow> string \<Rightarrow> TunnelState"
  pollsLeft :: "entry list \<Rightarrow> nat"
  readyEvents :: "entry list \<Rightarrow> ready_event list"
  online :: "entry list \<Rightarrow> bool"
  interfaceUp :: "entry list \<Rightarrow> bool"
  file_answers :: "entry list \<Rightarrow> files"
  env :: smart_env
  json :: settings_json
  desired_format :: desired_json
  world_catalog :: catalog_state
  desired_path :: path

text \<open>
  The variables of the service. \<open>queuedPauses\<close> holds, for every goroutine that a suspend event started
  and that has not run yet, the generation it was started with.
\<close>

record manager =
  smartProcess :: "smartProcessState option"
  smartSystemSuspended :: bool
  powerGeneration :: "64 word"
  queuedPauses :: "64 word list"
  haveQuit :: bool
  mdisk :: disk
  history :: "entry list"

type_synonym 'a mgr = "(manager, 'a) state"

abbreviation return :: "'a \<Rightarrow> 'a mgr" where
  "return \<equiv> State_Monad.return"

definition call :: "world \<Rightarrow> call \<Rightarrow> merror option mgr" where
  "call w c = do {
     st \<leftarrow> State_Monad.get;
     let e = answer w (history st) c;
     State_Monad.set (st\<lparr>history := history st @ [(c, e)]\<rparr>);
     return e }"

definition record_call :: "call \<Rightarrow> merror option \<Rightarrow> unit mgr" where
  "record_call c e = State_Monad.update (\<lambda>st. st\<lparr>history := history st @ [(c, e)]\<rparr>)"

definition ask :: "(entry list \<Rightarrow> 'a) \<Rightarrow> 'a mgr" where
  "ask f = do { st \<leftarrow> State_Monad.get; return (f (history st)) }"

definition current_process :: "smartProcessState option mgr" where
  "current_process = do { st \<leftarrow> State_Monad.get; return (smartProcess st) }"

definition set_process :: "smartProcessState option \<Rightarrow> unit mgr" where
  "set_process p = State_Monad.update (\<lambda>st. st\<lparr>smartProcess := p\<rparr>)"

text \<open>\<^verbatim>\<open>errors.Join\<close>, which drops nil errors.\<close>

definition errors_Join :: "merror option list \<Rightarrow> merror option" where
  "errors_Join es =
     (let es = concat (map (\<lambda>e. case e of None \<Rightarrow> [] | Some x \<Rightarrow> [x]) es) in
      if es = [] then None else Some (Joined es))"

text \<open>\<^verbatim>\<open>fmt.Errorf\<close> with \<^verbatim>\<open>%w\<close>, on an error that may be nil.\<close>

definition errorf :: "string \<Rightarrow> merror option \<Rightarrow> merror option" where
  "errorf msg e = map_option (ErrorText msg) e"

text \<open>\<^verbatim>\<open>IPCServerNotifyTunnelChange\<close> only queues events for the user interfaces.\<close>

definition notify :: "world \<Rightarrow> string \<Rightarrow> TunnelState \<Rightarrow> unit mgr" where
  "notify w name state = do { _ \<leftarrow> call w (Notify name state); return () }"

subsection \<open>The desired state in the manager\<close>

definition desired_step ::
    "world \<Rightarrow> (files \<Rightarrow> disk \<Rightarrow> desired_error option \<times> disk) \<Rightarrow> merror option mgr" where
  "desired_step w f = do {
     st \<leftarrow> State_Monad.get;
     let r = f (file_answers w (history st)) (mdisk st);
     State_Monad.set (st\<lparr>mdisk := snd r,
       history := history st @ [(Desired, map_option DesiredError (fst r))]\<rparr>);
     return (map_option DesiredError (fst r)) }"

definition save_desired :: "world \<Rightarrow> string \<Rightarrow> RoutingSettings \<Rightarrow> merror option mgr" where
  "save_desired w name s =
     desired_step w (\<lambda>fl. saveSmartDesired (env w) (desired_format w) fl (world_catalog w) (desired_path w) name s)"

definition clear_desired :: "world \<Rightarrow> merror option mgr" where
  "clear_desired w = desired_step w (\<lambda>fl. clearSmartDesired fl (desired_path w))"

definition clear_desired_for :: "world \<Rightarrow> string \<Rightarrow> merror option mgr" where
  "clear_desired_for w name =
     desired_step w (\<lambda>fl. clearSmartDesiredForTunnel (env w) (desired_format w) fl (world_catalog w)
       (desired_path w) name)"

definition load_desired :: "world \<Rightarrow> (desired_error + smartDesiredState option) mgr" where
  "load_desired w = do {
     st \<leftarrow> State_Monad.get;
     return (loadSmartDesired (env w) (desired_format w) (file_answers w (history st)) (world_catalog w)
       (desired_path w) (mdisk st)) }"

end
