(* ===== verification/NativeSwitch.thy ===== *)
theory NativeSwitch
  imports ManagerWorld
begin

text \<open>
  Native tunnels: \<^verbatim>\<open>client/manager/native_switch.go\<close> and the start and the wait of
  \<^verbatim>\<open>client/manager/ipc_server.go\<close>. A Go map of states is the list of its entries in the order of an
  iteration.
\<close>

subsection \<open>The plan of a switch\<close>

record nativeSwitchPlan =
  plan_stop :: "string list"
  plan_wait :: "string list"
  plan_install :: bool

text \<open>\<^verbatim>\<open>sort.Strings\<close>: byte-wise lexicographic order.\<close>

fun string_insert :: "string \<Rightarrow> string list \<Rightarrow> string list" where
  "string_insert x [] = [x]"
| "string_insert x (y # ys) =
     (if \<not> string_less y x then x # y # ys
      else y # string_insert x ys)"

fun sort_Strings :: "string list \<Rightarrow> string list" where
  "sort_Strings [] = []"
| "sort_Strings (x # xs) = string_insert x (sort_Strings xs)"

definition plan_entry :: "string \<Rightarrow> string \<times> TunnelState \<Rightarrow> nativeSwitchPlan \<Rightarrow> nativeSwitchPlan" where
  "plan_entry target e plan =
     (case e of (name, state) \<Rightarrow>
      if name = target then
        (if state \<in> {TunnelStarted, TunnelStarting, TunnelUnknown} then plan\<lparr>plan_install := False\<rparr>
         else if state = TunnelStopping then plan\<lparr>plan_wait := plan_wait plan @ [name]\<rparr>
         else plan)
      else if state = TunnelStopped then plan
      else plan\<lparr>plan_stop := plan_stop plan @ [name], plan_wait := plan_wait plan @ [name]\<rparr>)"

definition planNativeSwitch :: "string \<Rightarrow> (string \<times> TunnelState) list \<Rightarrow> nativeSwitchPlan" where
  "planNativeSwitch target states =
     (let plan = fold (plan_entry target) states \<lparr>plan_stop = [], plan_wait = [], plan_install = True\<rparr> in
      plan\<lparr>plan_stop := sort_Strings (plan_stop plan), plan_wait := sort_Strings (plan_wait plan)\<rparr>)"

text \<open>A loop that calls a function for every name and joins the errors.\<close>

fun join_each :: "string \<Rightarrow> (string \<Rightarrow> merror option mgr) \<Rightarrow> string list \<Rightarrow> merror option \<Rightarrow> merror option mgr" where
  "join_each msg f [] err = return err"
| "join_each msg f (name # names) err = do {
     e \<leftarrow> f name;
     join_each msg f names (if e = None then err else errors_Join [err, errorf msg e]) }"

definition executeNativeSwitch ::
    "nativeSwitchPlan \<Rightarrow> (string \<Rightarrow> merror option mgr) \<Rightarrow> (string \<Rightarrow> merror option mgr) \<Rightarrow>
     merror option mgr \<Rightarrow> merror option mgr" where
  "executeNativeSwitch plan stop wait install = do {
     err \<leftarrow> join_each ''stop native tunnel'' stop (plan_stop plan) None;
     err \<leftarrow> join_each ''wait for native tunnel'' wait (plan_wait plan) err;
     if err \<noteq> None \<or> \<not> plan_install plan then return err else install }"

definition normalizeNativeUninstallError :: "merror option \<Rightarrow> merror option" where
  "normalizeNativeUninstallError e =
     (if e = Some ServiceMarkedForDelete \<or> e = Some ServiceDoesNotExist then None else e)"

definition uninstall :: "world \<Rightarrow> string \<Rightarrow> merror option mgr" where
  "uninstall w name = do {
     e \<leftarrow> call w (UninstallTunnel name);
     return (normalizeNativeUninstallError e) }"

subsection \<open>States and waiting\<close>

definition smartStateForTunnel :: "string \<Rightarrow> manager \<Rightarrow> TunnelState \<times> bool" where
  "smartStateForTunnel name st =
     (case smartProcess st of
        Some p \<Rightarrow> if tunnelName p = name then (TunnelStarted, True) else (TunnelStopped, False)
      | None \<Rightarrow> (TunnelStopped, False))"

definition is_smart :: "string \<Rightarrow> bool mgr" where
  "is_smart name = do { st \<leftarrow> State_Monad.get; return (snd (smartStateForTunnel name st)) }"

definition smartAnyStarted :: "bool mgr" where
  "smartAnyStarted = do { st \<leftarrow> State_Monad.get; return (smartProcess st \<noteq> None) }"

text \<open>
  \<^verbatim>\<open>ManagerService.State\<close>: a running engine answers for its tunnel; otherwise the service manager
  does, where a service that does not exist is stopped.
\<close>

definition State_of :: "world \<Rightarrow> string \<Rightarrow> (merror option \<times> TunnelState) mgr" where
  "State_of w name = do {
     smart \<leftarrow> is_smart name;
     if smart then return (None, TunnelStarted)
     else do {
       e \<leftarrow> call w (QueryService name);
       state \<leftarrow> ask (\<lambda>h. serviceState w h name);
       return (if e = None then (None, state)
               else if e = Some ServiceDoesNotExist then (None, TunnelStopped)
               else (e, TunnelUnknown)) } }"

text \<open>\<^verbatim>\<open>WaitForStop\<close>: one round per poll; the deadline leaves \<open>n\<close> further polls.\<close>

fun wait_polls :: "world \<Rightarrow> string \<Rightarrow> nat \<Rightarrow> merror option mgr" where
  "wait_polls w name n = do {
     e \<leftarrow> call w (OpenService name);
     if e = Some ServiceDoesNotExist then return None
     else if e \<noteq> None \<and> e \<noteq> Some ServiceMarkedForDelete then return e
     else (case n of 0 \<Rightarrow> return (Some (TimedOut name)) | Suc m \<Rightarrow> wait_polls w name m) }"

declare wait_polls.simps [simp del]

definition WaitForStop :: "world \<Rightarrow> string \<Rightarrow> merror option mgr" where
  "WaitForStop w name = do { n \<leftarrow> ask (pollsLeft w); wait_polls w name n }"

fun query_states ::
    "world \<Rightarrow> string list \<Rightarrow> (string \<times> TunnelState) list \<Rightarrow> (merror option \<times> (string \<times> TunnelState) list) mgr" where
  "query_states w [] states = return (None, states)"
| "query_states w (name # names) states = do {
     r \<leftarrow> State_of w name;
     if fst r \<noteq> None then return (errorf ''query native tunnel'' (fst r), [])
     else query_states w names (states @ [(name, snd r)]) }"

definition nativeTunnelStates :: "world \<Rightarrow> (merror option \<times> (string \<times> TunnelState) list) mgr" where
  "nativeTunnelStates w = do {
     e \<leftarrow> call w ListNames;
     if e \<noteq> None then return (e, [])
     else do {
       names \<leftarrow> ask (tunnelNames w);
       query_states w (remdups names) [] } }"

definition stopNativeTunnelsLocked :: "world \<Rightarrow> string list \<Rightarrow> merror option mgr" where
  "stopNativeTunnelsLocked w names =
     (let ordered = sort_Strings (remdups (filter (\<lambda>n. n \<noteq> []) names)) in do {
      err \<leftarrow> join_each ''stop native tunnel'' (uninstall w) ordered None;
      join_each ''wait for native tunnel'' (WaitForStop w) ordered err })"

definition stopAllNativeTunnels :: "world \<Rightarrow> merror option mgr" where
  "stopAllNativeTunnels w = do {
     r \<leftarrow> nativeTunnelStates w;
     if fst r \<noteq> None then return (fst r)
     else stopNativeTunnelsLocked w
       (map fst (filter (\<lambda>(name, state). state \<noteq> TunnelStopped) (snd r))) }"

subsection \<open>Starting a native tunnel\<close>

text \<open>The predecessor of a failed switch is installed again.\<close>

definition restore_predecessor :: "world \<Rightarrow> string \<Rightarrow> merror option mgr" where
  "restore_predecessor w name = do {
     e \<leftarrow> call w (LoadProfile name);
     if e \<noteq> None then return e
     else do {
       e \<leftarrow> call w (ProfilePath name);
       if e \<noteq> None then return e else call w (InstallTunnel name) } }"

fun restore_predecessors ::
    "world \<Rightarrow> (string \<times> TunnelState) list \<Rightarrow> string list \<Rightarrow> merror option \<Rightarrow> merror option mgr" where
  "restore_predecessors w states [] err = return err"
| "restore_predecessors w states (name # names) err =
     (if map_of states name \<noteq> Some TunnelStarted \<and> map_of states name \<noteq> Some TunnelStarting
      then restore_predecessors w states names err
      else do {
        r \<leftarrow> State_of w name;
        if fst r \<noteq> None then restore_predecessors w states names (errors_Join [err, fst r])
        else if snd r \<noteq> TunnelStopped then restore_predecessors w states names err
        else do {
          e \<leftarrow> restore_predecessor w name;
          restore_predecessors w states names
            (if e = None then err else errors_Join [err, errorf ''restore'' e]) } })"

definition startNativeUnlocked :: "world \<Rightarrow> string \<Rightarrow> merror option mgr" where
  "startNativeUnlocked w name = do {
     e \<leftarrow> call w Preflight;
     if e \<noteq> None then return e
     else do {
     e \<leftarrow> call w (LoadProfile name);
     if e \<noteq> None then return e
     else do {
     e \<leftarrow> call w (ProfilePath name);
     if e \<noteq> None then return e
     else do {
     active \<leftarrow> smartAnyStarted;
     if active then return (Some SmartRoutingActive)
     else do {
     r \<leftarrow> nativeTunnelStates w;
     if fst r \<noteq> None then return (fst r)
     else do {
     let plan = planNativeSwitch name (snd r);
     e \<leftarrow> executeNativeSwitch plan (uninstall w) (WaitForStop w) (call w (InstallTunnel name));
     if e \<noteq> None then restore_predecessors w (snd r) (plan_stop plan) e
     else do {
     e \<leftarrow> clear_desired w;
     if e \<noteq> None then do {
       rollback \<leftarrow> stopNativeTunnelsLocked w [name];
       return (errors_Join [errorf ''clear smart recovery state after native start'' e, rollback]) }
     else return None }}}}}}}"
end
