(* ===== verification/SmartProcess.thy ===== *)
theory SmartProcess
  imports NativeSwitch
begin

text \<open>
  The life of the routing engine, \<^verbatim>\<open>client/manager/smart_process.go\<close>.

  A failed start brings the predecessor back, which is a start of its own: \<^verbatim>\<open>smartStartLocked\<close> calls
  itself. The inner call never has a predecessor, so two levels are enough; \<open>smartStartLocked\<close> is
  the second level, and \<^verbatim>\<open>SmartProcessFacts\<close> shows that it satisfies the recursive equation of the
  code.
\<close>

subsection \<open>Stopping\<close>

definition stopSmartProcessState :: "world \<Rightarrow> smartProcessState option \<Rightarrow> merror option mgr" where
  "stopSmartProcessState w state =
     (case state of
        None \<Rightarrow> return None
      | Some p \<Rightarrow> do {
          killErr \<leftarrow> call w (KillEngine (pid p));
          _ \<leftarrow> call w (WaitEngine (pid p));
          _ \<leftarrow> call w (RemoveConfig (configPath p));
          return (if killErr = Some ProcessDone then None else killErr) })"

definition detachSmartProcessLocked :: "smartProcessState option mgr" where
  "detachSmartProcessLocked = do { p \<leftarrow> current_process; set_process None; return p }"

definition notify_stopped :: "world \<Rightarrow> smartProcessState option \<Rightarrow> unit mgr" where
  "notify_stopped w state =
     (case state of
        None \<Rightarrow> return ()
      | Some p \<Rightarrow> if tunnelName p \<noteq> [] then notify w (tunnelName p) TunnelStopped else return ())"

definition smartStopUnlocked :: "world \<Rightarrow> merror option mgr" where
  "smartStopUnlocked w = do {
     state \<leftarrow> detachSmartProcessLocked;
     err \<leftarrow> stopSmartProcessState w state;
     notify_stopped w state;
     return err }"

definition smartStopTunnel :: "world \<Rightarrow> string \<Rightarrow> (bool \<times> merror option) mgr" where
  "smartStopTunnel w name = do {
     matches \<leftarrow> is_smart name;
     if \<not> matches then return (False, None)
     else do { e \<leftarrow> smartStopUnlocked w; return (True, e) } }"

text \<open>The names are compared without case, and the interface has to be up.\<close>

definition smartProcessHealthyFor :: "world \<Rightarrow> string \<Rightarrow> bool mgr" where
  "smartProcessHealthyFor w name = do {
     p \<leftarrow> current_process;
     up \<leftarrow> ask (interfaceUp w);
     return (case p of
               None \<Rightarrow> False
             | Some p \<Rightarrow> EqualFold (case_fold (env w)) (tunnelName p) name \<and> up) }"

subsection \<open>Waiting for the interface\<close>

text \<open>
  \<^verbatim>\<open>waitForSmartInterface\<close> on the events its \<^verbatim>\<open>select\<close> statements see: the outer loop until a poll
  finds the interface or the log line, then the inner one until the settle timer. Events that
  end are followed by the timeout.
\<close>

fun wait_settle :: "ready_event list \<Rightarrow> merror option" where
  "wait_settle [] = Some (TimedOut ''stabilizing'')"
| "wait_settle (EngineExited # es) = Some ExitedBeforeReady"
| "wait_settle (StartupTimeout # es) = Some (TimedOut ''stabilizing'')"
| "wait_settle (Settled # es) = None"
| "wait_settle (ReadinessPoll i l # es) = wait_settle es"

fun waitForSmartInterface :: "ready_event list \<Rightarrow> merror option" where
  "waitForSmartInterface [] = Some (TimedOut ''waiting'')"
| "waitForSmartInterface (EngineExited # es) = Some ExitedBeforeReady"
| "waitForSmartInterface (StartupTimeout # es) = Some (TimedOut ''waiting'')"
| "waitForSmartInterface (Settled # es) = waitForSmartInterface es"
| "waitForSmartInterface (ReadinessPoll interfaceReady logReady # es) =
     (if \<not> interfaceReady \<and> \<not> logReady then waitForSmartInterface es else wait_settle es)"

definition await_ready :: "world \<Rightarrow> nat \<Rightarrow> merror option mgr" where
  "await_ready w n = do {
     es \<leftarrow> ask (readyEvents w);
     let e = waitForSmartInterface es;
     record_call (AwaitReady n) e;
     return e }"

subsection \<open>Starting\<close>

text \<open>The steps before the configuration file exists: its name, or an error.\<close>

definition prepare_config :: "world \<Rightarrow> string \<Rightarrow> RoutingSettings \<Rightarrow> (merror + path) mgr" where
  "prepare_config w name s = do {
     e \<leftarrow> call w (LoadProfile name);
     case e of Some x \<Rightarrow> return (Inl x) | None \<Rightarrow> do {
     e \<leftarrow> call w (BuildProfile name s);
     case e of Some x \<Rightarrow> return (Inl x) | None \<Rightarrow> do {
     e \<leftarrow> call w DiagnosticListener;
     case e of Some x \<Rightarrow> return (Inl x) | None \<Rightarrow> do {
     e \<leftarrow> call w DiagnosticInbound;
     case e of Some x \<Rightarrow> return (Inl x) | None \<Rightarrow> do {
     e \<leftarrow> call w SmartDirectories;
     case e of Some x \<Rightarrow> return (Inl x) | None \<Rightarrow> do {
     cfg \<leftarrow> ask (\<lambda>h. configName w h name);
     e \<leftarrow> call w (ReserveConfig cfg);
     case e of Some x \<Rightarrow> return (Inl x) | None \<Rightarrow> return (Inr cfg) }}}}}}"

text \<open>The native tunnel that runs before the switch; more than one is an error.\<close>

fun find_prior :: "(string \<times> TunnelState) list \<Rightarrow> string \<Rightarrow> manager \<Rightarrow> merror + string" where
  "find_prior [] prior st = Inr prior"
| "find_prior ((name, state) # states) prior st =
     (if \<not> snd (smartStateForTunnel name st) \<and> state \<in> {TunnelStarted, TunnelStarting} then
        (if prior \<noteq> [] then Inl MultipleNativePredecessors else find_prior states name st)
      else find_prior states prior st)"

type_synonym start = "string \<Rightarrow> RoutingSettings \<Rightarrow> bool \<Rightarrow> merror option mgr"

text \<open>The closure \<^verbatim>\<open>restoreNative\<close>, and the start that it calls.\<close>

definition restoreNative ::
    "world \<Rightarrow> start \<Rightarrow> string \<Rightarrow> smartProcessState option \<Rightarrow> merror option \<Rightarrow> merror option mgr" where
  "restoreNative w restart priorNative priorSmart cause =
     (if priorNative = [] then
        (case priorSmart of
           None \<Rightarrow> return cause
         | Some p \<Rightarrow> do {
             e \<leftarrow> restart (tunnelName p) (settings p) False;
             return (if e = None then cause
                     else errors_Join [cause, errorf ''restore smart predecessor'' e]) })
      else do {
        guardErr \<leftarrow> call w ClearGuard;
        let cause = (if guardErr = None then cause else errors_Join [cause, guardErr]);
        e \<leftarrow> startNativeUnlocked w priorNative;
        return (if e = None then errorf ''native AWG was restored'' cause
                else errors_Join [cause, errorf ''restore native AWG'' e]) })"

text \<open>The guard bound to the interface of the engine.\<close>

definition bind_guard :: "world \<Rightarrow> merror option mgr" where
  "bind_guard w = do {
     e \<leftarrow> call w TunInterface;
     if e \<noteq> None then return e
     else do { luid \<leftarrow> ask (tunLuid w); call w (SetGuard luid) } }"

text \<open>A native tunnel could not be stopped: the provisional guard must not strand a predecessor.\<close>

definition stop_failed ::
    "world \<Rightarrow> RoutingSettings \<Rightarrow> string \<Rightarrow> smartProcessState option \<Rightarrow> merror option \<Rightarrow> merror option mgr" where
  "stop_failed w s priorNative priorSmart err =
     (if Protection s = ''all'' \<and> (priorNative \<noteq> [] \<or> priorSmart \<noteq> None) then do {
        guardErr \<leftarrow> (case priorSmart of
            Some p \<Rightarrow> if Protection (settings p) = ''all'' then bind_guard w else call w ClearGuard
          | None \<Rightarrow> call w ClearGuard);
        return (errors_Join [err, guardErr]) }
      else return err)"

text \<open>The steps once the engine is ready; the second component is \<^verbatim>\<open>keepConfig\<close>.\<close>

definition engine_ready ::
    "world \<Rightarrow> (merror option \<Rightarrow> merror option mgr) \<Rightarrow> string \<Rightarrow> RoutingSettings \<Rightarrow> bool \<Rightarrow>
     smartProcessState \<Rightarrow> (merror option \<times> bool) mgr" where
  "engine_ready w restore name s persistDesired state = do {
     guardErr \<leftarrow> (if Protection s = ''all''
       then do { e \<leftarrow> bind_guard w; return (errorf ''activate protection'' e) }
       else call w ClearGuard);
     if guardErr \<noteq> None then do {
       _ \<leftarrow> stopSmartProcessState w (Some state);
       e \<leftarrow> restore guardErr;
       return (e, False) }
     else do {
     e \<leftarrow> (if persistDesired then save_desired w name s else return None);
     if e \<noteq> None then do {
       _ \<leftarrow> stopSmartProcessState w (Some state);
       notify w name TunnelStopped;
       e \<leftarrow> restore (errorf ''persist smart recovery state'' e);
       return (e, False) }
     else do {
     set_process (Some state);
     _ \<leftarrow> call w MarkRecoveryHealthy;
     _ \<leftarrow> call w (RemoveConfig (configPath state));
     notify w name TunnelStarted;
     return (None, True) }}}"

text \<open>The steps from the stop of the previous engine on.\<close>

definition launch_engine ::
    "world \<Rightarrow> (merror option \<Rightarrow> merror option mgr) \<Rightarrow> string \<Rightarrow> RoutingSettings \<Rightarrow> bool \<Rightarrow> path \<Rightarrow>
     (merror option \<times> bool) mgr" where
  "launch_engine w restore name s persistDesired cfg = do {
     e \<leftarrow> call w RotateLog;
     if e \<noteq> None then do { e \<leftarrow> restore e; return (e, False) }
     else do {
     e \<leftarrow> call w OpenLog;
     if e \<noteq> None then do { e \<leftarrow> restore e; return (e, False) }
     else do {
     notify w name TunnelStarting;
     n \<leftarrow> ask (newPid w);
     e \<leftarrow> call w (StartEngine n cfg);
     if e \<noteq> None then do {
       notify w name TunnelStopped;
       e \<leftarrow> restore (errorf ''start smart engine'' e);
       return (e, False) }
     else do {
     e \<leftarrow> call w (AttachJob n);
     if e \<noteq> None then do {
       _ \<leftarrow> call w (KillEngine n);
       _ \<leftarrow> call w (WaitEngine n);
       notify w name TunnelStopped;
       e \<leftarrow> restore (errorf ''attach smart engine to lifecycle job'' e);
       return (e, False) }
     else do {
     readyErr \<leftarrow> await_ready w n;
     if readyErr \<noteq> None then do {
       _ \<leftarrow> call w (KillEngine n);
       waitErr \<leftarrow> call w (WaitEngine n);
       let readyErr = (if readyErr = Some ExitedBeforeReady \<and> waitErr \<noteq> None then waitErr else readyErr);
       notify w name TunnelStopped;
       e \<leftarrow> restore (errorf ''start smart engine'' readyErr);
       return (e, False) }
     else engine_ready w restore name s persistDesired
            \<lparr>tunnelName = name, settings = s, pid = n, configPath = cfg\<rparr> }}}}}"

text \<open>The steps with a configuration file; the second component is \<^verbatim>\<open>keepConfig\<close>.\<close>

definition start_with_config ::
    "world \<Rightarrow> start \<Rightarrow> string \<Rightarrow> RoutingSettings \<Rightarrow> bool \<Rightarrow> path \<Rightarrow> (merror option \<times> bool) mgr" where
  "start_with_config w restart name s persistDesired cfg = do {
     e \<leftarrow> call w (WriteConfig cfg);
     if e \<noteq> None then return (e, False)
     else do {
     e \<leftarrow> call w FindEngine;
     if e \<noteq> None then return (e, False)
     else do {
     e \<leftarrow> call w (CheckEngine cfg);
     if e \<noteq> None then return (errorf ''routing config validation failed'' e, False)
     else do {
     r \<leftarrow> nativeTunnelStates w;
     if fst r \<noteq> None then return (fst r, False)
     else do {
     st \<leftarrow> State_Monad.get;
     case find_prior (snd r) [] st of
       Inl e \<Rightarrow> return (Some e, False)
     | Inr priorNative \<Rightarrow> do {
     let priorSmart = smartProcess st;
     e \<leftarrow> (if Protection s = ''all'' then call w (SetGuard 0) else return None);
     if e \<noteq> None then return (errorf ''enable protection'' e, False)
     else do {
     e \<leftarrow> stopAllNativeTunnels w;
     if e \<noteq> None then do {
       e \<leftarrow> stop_failed w s priorNative priorSmart e;
       return (e, False) }
     else do {
     let restore = restoreNative w restart priorNative priorSmart;
     previous \<leftarrow> detachSmartProcessLocked;
     stopErr \<leftarrow> stopSmartProcessState w previous;
     notify_stopped w previous;
     if stopErr \<noteq> None then do {
       e \<leftarrow> restore (errorf ''stop previous smart routing'' stopErr);
       return (e, False) }
     else launch_engine w restore name s persistDesired cfg }}}}}}}}"

text \<open>The branch for settings that need no engine.\<close>

definition start_native_branch :: "world \<Rightarrow> start \<Rightarrow> string \<Rightarrow> bool \<Rightarrow> merror option mgr" where
  "start_native_branch w restart name persistDesired = do {
     previous \<leftarrow> current_process;
     e \<leftarrow> smartStopUnlocked w;
     if e \<noteq> None then return (errorf ''stop smart routing before native tunnel'' e)
     else do {
     e \<leftarrow> startNativeUnlocked w name;
     if e \<noteq> None then
       (case previous of
          None \<Rightarrow> return e
        | Some p \<Rightarrow> do {
            r \<leftarrow> restart (tunnelName p) (settings p) False;
            return (errors_Join [e, r]) })
     else do {
     e \<leftarrow> call w ClearGuard;
     if e \<noteq> None then return e
     else if persistDesired then do {
       e \<leftarrow> clear_desired w;
       if e \<noteq> None then do {
         _ \<leftarrow> stopNativeTunnelsLocked w [name];
         return (errorf ''clear smart recovery state'' e) }
       else do { _ \<leftarrow> call w MarkRecoveryHealthy; return None } }
     else return None }}}"

text \<open>The body; the configuration file is removed unless it was kept.\<close>

definition smart_start_body :: "world \<Rightarrow> start \<Rightarrow> start" where
  "smart_start_body w restart name s persistDesired = do {
     e \<leftarrow> call w Preflight;
     if e \<noteq> None then return e
     else if usesNativeTunnel (env w) s then start_native_branch w restart name persistDesired
     else do {
     r \<leftarrow> prepare_config w name s;
     case r of
       Inl e \<Rightarrow> return (Some e)
     | Inr cfg \<Rightarrow> do {
         r \<leftarrow> start_with_config w restart name s persistDesired cfg;
         if snd r then return (fst r)
         else do { _ \<leftarrow> call w (RemoveConfig cfg); return (fst r) } } }}"

fun start_level :: "world \<Rightarrow> nat \<Rightarrow> start" where
  "start_level w 0 name s persistDesired = return (Some OutOfDepth)"
| "start_level w (Suc n) name s persistDesired = smart_start_body w (start_level w n) name s persistDesired"

definition smartStartLocked :: "world \<Rightarrow> start" where
  "smartStartLocked w = start_level w 2"
end
