(* ===== verification/ManagerService.thy ===== *)
theory ManagerService
  imports SmartProcess
begin

text \<open>
  The operations of the manager service on tunnels: \<^verbatim>\<open>SmartStart\<close> and \<^verbatim>\<open>SmartStop\<close> of
  \<^verbatim>\<open>smart_process.go\<close>, \<^verbatim>\<open>Start\<close>, \<^verbatim>\<open>Stop\<close>, \<^verbatim>\<open>Delete\<close> and \<^verbatim>\<open>Quit\<close> of \<^verbatim>\<open>ipc_server.go\<close>, the recovery with
  fallbacks of \<^verbatim>\<open>smart_supervisor.go\<close> and \<^verbatim>\<open>fallback.go\<close>, the events of the power management of
  \<^verbatim>\<open>power_events.go\<close>, and the goroutine that
  notices the exit of the engine. An \<open>operation\<close> is one of them with its arguments.
\<close>

subsection \<open>Operations\<close>

definition Start :: "world \<Rightarrow> string \<Rightarrow> merror option mgr" where
  "Start w name = startNativeUnlocked w name"

definition Stop :: "world \<Rightarrow> string \<Rightarrow> merror option mgr" where
  "Stop w name = do {
     before \<leftarrow> load_desired w;
     wasSmart \<leftarrow> is_smart name;
     let clearProtection = (wasSmart \<or>
       (case before of Inr (Some state) \<Rightarrow> TunnelName state = name | _ \<Rightarrow> False));
     desiredErr \<leftarrow> clear_desired_for w name;
     smart \<leftarrow> is_smart name;
     smartErr \<leftarrow> (if smart then smartStopUnlocked w else return None);
     nativeErr \<leftarrow> stopNativeTunnelsLocked w [name];
     guardErr \<leftarrow> (if clearProtection then call w ClearGuard else return None);
     return (errors_Join [desiredErr, smartErr, nativeErr, guardErr]) }"

definition Delete :: "world \<Rightarrow> bool \<Rightarrow> string \<Rightarrow> merror option mgr" where
  "Delete w elevated name =
     (if \<not> elevated then return (Some AccessDenied)
      else do {
        e \<leftarrow> Stop w name;
        if e \<noteq> None then return e else call w (DeleteProfile name) })"

definition SmartStart :: "world \<Rightarrow> bool \<Rightarrow> string \<Rightarrow> string \<Rightarrow> merror option mgr" where
  "SmartStart w elevated name rawSettings =
     (if \<not> elevated then return (Some AccessDenied)
      else case ParseSettingsPayload (env w) (json w) (world_catalog w) rawSettings of
        Inl e \<Rightarrow> return (Some (SettingsRejected e))
      | Inr s \<Rightarrow> do {
          e \<leftarrow> smartStartLocked w name s True;
          if e \<noteq> None then do {
            _ \<leftarrow> call w (RequestRecovery ''manual start failed'' False 500000000);
            return e }
          else return None })"

definition SmartStop :: "world \<Rightarrow> bool \<Rightarrow> merror option mgr" where
  "SmartStop w elevated =
     (if \<not> elevated then return (Some AccessDenied)
      else do {
        desiredErr \<leftarrow> clear_desired w;
        stopErr \<leftarrow> smartStopUnlocked w;
        _ \<leftarrow> call w MarkRecoveryHealthy;
        guardErr \<leftarrow> call w ClearGuard;
        return (errors_Join [desiredErr, stopErr, guardErr]) })"

text \<open>The part of \<^verbatim>\<open>Quit\<close> that stops tunnels; the rest is about the connections of the interfaces.\<close>

fun uninstall_all :: "world \<Rightarrow> string list \<Rightarrow> unit mgr" where
  "uninstall_all w [] = return ()"
| "uninstall_all w (name # names) = do { _ \<leftarrow> call w (UninstallTunnel name); uninstall_all w names }"

definition set_quit :: "bool \<Rightarrow> unit mgr" where
  "set_quit b = State_Monad.update (\<lambda>st. st\<lparr>haveQuit := b\<rparr>)"

definition Quit :: "world \<Rightarrow> bool \<Rightarrow> bool \<Rightarrow> (bool \<times> merror option) mgr" where
  "Quit w elevated stopTunnelsOnQuit =
     (if \<not> elevated then return (False, Some AccessDenied)
      else do {
        st \<leftarrow> State_Monad.get;
        if haveQuit st then return (True, None)
        else do {
          set_quit True;
          if \<not> stopTunnelsOnQuit then return (False, None)
          else do {
            e \<leftarrow> call w ListNames;
            if e \<noteq> None then do { set_quit False; return (False, e) }
            else do {
              names \<leftarrow> ask (tunnelNames w);
              _ \<leftarrow> smartStopUnlocked w;
              uninstall_all w names;
              return (False, None) } } } })"

subsection \<open>Recovery\<close>

text \<open>\<^verbatim>\<open>recoverWithFallbacks\<close>: \<open>seen\<close> holds the names tried so far, in lower case.\<close>

fun recover_names ::
    "case_table \<Rightarrow> (string \<Rightarrow> merror option mgr) \<Rightarrow> string list \<Rightarrow> string list \<Rightarrow> merror option \<Rightarrow> merror option mgr" where
  "recover_names T start seen [] result = return result"
| "recover_names T start seen (name # names) result =
     (let key = ToLower T name in
      if key \<in> set seen then recover_names T start seen names result
      else do {
        e \<leftarrow> start name;
        if e = None then return None
        else recover_names T start (key # seen) names (errors_Join [result, errorf name e]) })"

definition recoverWithFallbacks ::
    "case_table \<Rightarrow> string \<Rightarrow> RoutingSettings \<Rightarrow> (string \<Rightarrow> merror option mgr) \<Rightarrow> merror option mgr" where
  "recoverWithFallbacks T primary s start = recover_names T start [] (primary # FallbackProfiles s) None"

definition recover_start :: "world \<Rightarrow> smartDesiredState \<Rightarrow> string \<Rightarrow> merror option mgr" where
  "recover_start w state name = do {
     e \<leftarrow> smartStartLocked w name (DesiredSettings state) False;
     if e \<noteq> None then return e
     else if name \<noteq> TunnelName state then save_desired w name (DesiredSettings state)
     else return None }"

definition recoverSmartDesired :: "world \<Rightarrow> bool \<Rightarrow> merror option mgr" where
  "recoverSmartDesired w forced = do {
     st \<leftarrow> State_Monad.get;
     if smartSystemSuspended st then return (Some SystemSuspended)
     else do {
     r \<leftarrow> load_desired w;
     case r of
       Inl e \<Rightarrow> return (Some (DesiredError e))
     | Inr None \<Rightarrow> return None
     | Inr (Some state) \<Rightarrow> do {
     e \<leftarrow> call w PhysicalNetwork;
     if e \<noteq> None then return e
     else do {
     up \<leftarrow> ask (online w);
     if \<not> up then return (Some NetworkUnavailable)
     else do {
     healthy \<leftarrow> smartProcessHealthyFor w (TunnelName state);
     if \<not> forced \<and> healthy then return None
     else recoverWithFallbacks (case_lower (env w)) (TunnelName state) (DesiredSettings state)
            (recover_start w state) }}}}}"

subsection \<open>Suspend and exit\<close>

definition set_suspended :: "bool \<Rightarrow> unit mgr" where
  "set_suspended b = State_Monad.update (\<lambda>st. st\<lparr>smartSystemSuspended := b\<rparr>)"

definition pauseSmartForSuspend :: "world \<Rightarrow> merror option mgr" where
  "pauseSmartForSuspend w = do {
     set_suspended True;
     _ \<leftarrow> call w MarkRecoveryHealthy;
     r \<leftarrow> load_desired w;
     case r of
       Inl e \<Rightarrow> return (Some (DesiredError e))
     | Inr None \<Rightarrow> return None
     | Inr (Some state) \<Rightarrow> smartStopUnlocked w }"

definition resumeSmartAfterSuspend :: "world \<Rightarrow> unit mgr" where
  "resumeSmartAfterSuspend w = do {
     set_suspended False;
     _ \<leftarrow> call w (RequestRecovery ''system resumed'' True 2000000000);
     return () }"

text \<open>
  \<^verbatim>\<open>handleSmartPowerEvent\<close> of \<^verbatim>\<open>power_events.go\<close>, as \<^verbatim>\<open>service.go\<close> calls it: a suspend starts a goroutine,
  which is queued here and is a step of its own. That goroutine holds \<^verbatim>\<open>powerTransitionMutex\<close>
  while it pauses, so no other event comes in between.
\<close>

definition pbtAPMSuspend :: "32 word" where "pbtAPMSuspend = 0x0004"

definition pbtAPMResumeSuspend :: "32 word" where "pbtAPMResumeSuspend = 0x0007"

definition pbtAPMResumeAuto :: "32 word" where "pbtAPMResumeAuto = 0x0012"

definition next_generation :: "64 word mgr" where
  "next_generation = do {
     st \<leftarrow> State_Monad.get;
     State_Monad.set (st\<lparr>powerGeneration := powerGeneration st + 1\<rparr>);
     return (powerGeneration st + 1) }"

definition queue_pause :: "64 word \<Rightarrow> unit mgr" where
  "queue_pause generation = State_Monad.update (\<lambda>st. st\<lparr>queuedPauses := queuedPauses st @ [generation]\<rparr>)"

definition handleSmartPowerEvent :: "world \<Rightarrow> 32 word \<Rightarrow> bool mgr" where
  "handleSmartPowerEvent w eventType =
     (if eventType = pbtAPMSuspend then do {
        generation \<leftarrow> next_generation;
        set_suspended True;
        queue_pause generation;
        return True }
      else if eventType = pbtAPMResumeSuspend \<or> eventType = pbtAPMResumeAuto then do {
        _ \<leftarrow> next_generation;
        resumeSmartAfterSuspend w;
        return True }
      else return False)"

text \<open>The goroutine with index \<open>i\<close> of those that are queued.\<close>

definition queued_pause :: "world \<Rightarrow> nat \<Rightarrow> merror option mgr" where
  "queued_pause w i = do {
     st \<leftarrow> State_Monad.get;
     if i < length (queuedPauses st) then do {
       State_Monad.set (st\<lparr>queuedPauses := take i (queuedPauses st) @ drop (Suc i) (queuedPauses st)\<rparr>);
       if queuedPauses st ! i \<noteq> powerGeneration st then return None
       else pauseSmartForSuspend w }
     else return None }"

text \<open>
  The goroutine behind a started engine, once the engine has exited: its wait returns and it
  removes the configuration file; only the current engine is forgotten and reported.
\<close>

definition engine_exited :: "world \<Rightarrow> smartProcessState \<Rightarrow> unit mgr" where
  "engine_exited w expected = do {
     _ \<leftarrow> call w (WaitEngine (pid expected));
     _ \<leftarrow> call w (RemoveConfig (configPath expected));
     p \<leftarrow> current_process;
     if p = Some expected then do {
       set_process None;
       notify w (tunnelName expected) TunnelStopped;
       _ \<leftarrow> call w (RequestRecovery ''engine exited'' False 500000000);
       return () }
     else return () }"

subsection \<open>Executions\<close>

datatype operation =
    OpStart string
  | OpStop string
  | OpDelete bool string
  | OpSmartStart bool string string
  | OpSmartStop bool
  | OpQuit bool bool
  | OpRecover bool
  | OpPowerEvent "32 word"
  | OpQueuedPause nat
  | OpEngineExited smartProcessState

definition perform :: "world \<Rightarrow> operation \<Rightarrow> merror option mgr" where
  "perform w op =
     (case op of
        OpStart name \<Rightarrow> Start w name
      | OpStop name \<Rightarrow> Stop w name
      | OpDelete elevated name \<Rightarrow> Delete w elevated name
      | OpSmartStart elevated name raw \<Rightarrow> SmartStart w elevated name raw
      | OpSmartStop elevated \<Rightarrow> SmartStop w elevated
      | OpQuit elevated stopTunnels \<Rightarrow> do { r \<leftarrow> Quit w elevated stopTunnels; return (snd r) }
      | OpRecover forced \<Rightarrow> recoverSmartDesired w forced
      | OpPowerEvent eventType \<Rightarrow> do { _ \<leftarrow> handleSmartPowerEvent w eventType; return None }
      | OpQueuedPause i \<Rightarrow> queued_pause w i
      | OpEngineExited p \<Rightarrow> do { engine_exited w p; return None })"

text \<open>The state that a sequence of operations reaches.\<close>

inductive managed :: "world \<Rightarrow> operation list \<Rightarrow> manager \<Rightarrow> manager \<Rightarrow> bool" for w :: world where
  start: "managed w [] st st"
| operate: "managed w ops st st' \<Longrightarrow> run_state (perform w op) st' = (r, st'') \<Longrightarrow>
    managed w (ops @ [op]) st st''"
end
