(* ===== verification/ManagerLogic.thy ===== *)
theory ManagerLogic
  imports ManagerService
begin

text \<open>
  A small program logic for the manager: triples over its state monad, the bookkeeping of engines
  and configuration files in a history of calls, and the triples of the native tunnels.
\<close>

subsection \<open>Triples\<close>

definition valid :: "(manager \<Rightarrow> bool) \<Rightarrow> 'a mgr \<Rightarrow> ('a \<Rightarrow> manager \<Rightarrow> bool) \<Rightarrow> bool" where
  "valid P m Q \<longleftrightarrow> (\<forall>st. P st \<longrightarrow> (case run_state m st of (r, st') \<Rightarrow> Q r st'))"

named_theorems triples \<open>triples of the routines of the manager\<close>

lemma validD: "valid P m Q \<Longrightarrow> P st \<Longrightarrow> run_state m st = (r, st') \<Longrightarrow> Q r st'"
  by (auto simp: valid_def)

lemma valid_return: "(\<And>st. P st \<Longrightarrow> Q x st) \<Longrightarrow> valid P (return x) Q"
  by (simp add: valid_def)

lemma valid_bind: "valid P m R \<Longrightarrow> (\<And>x. valid (R x) (f x) Q) \<Longrightarrow> valid P (m \<bind> f) Q"
  by (fastforce simp: valid_def split: prod.splits)

lemma valid_if: "(c \<Longrightarrow> valid P m Q) \<Longrightarrow> (\<not> c \<Longrightarrow> valid P n Q) \<Longrightarrow> valid P (if c then m else n) Q"
  by simp

lemma valid_option:
  "(x = None \<Longrightarrow> valid P m Q) \<Longrightarrow> (\<And>y. x = Some y \<Longrightarrow> valid P (f y) Q) \<Longrightarrow>
     valid P (case x of None \<Rightarrow> m | Some y \<Rightarrow> f y) Q"
  by (cases x) auto

lemma valid_sum:
  "(\<And>y. x = Inl y \<Longrightarrow> valid P (f y) Q) \<Longrightarrow> (\<And>y. x = Inr y \<Longrightarrow> valid P (g y) Q) \<Longrightarrow>
     valid P (case x of Inl y \<Rightarrow> f y | Inr y \<Rightarrow> g y) Q"
  by (cases x) auto

lemma valid_let: "valid P (f x) Q \<Longrightarrow> valid P (let y = x in f y) Q"
  by simp

lemma valid_post: "valid P m R \<Longrightarrow> (\<And>r st. R r st \<Longrightarrow> Q r st) \<Longrightarrow> valid P m Q"
  by (fastforce simp: valid_def split: prod.splits)

lemma valid_pre: "valid R m Q \<Longrightarrow> (\<And>st. P st \<Longrightarrow> R st) \<Longrightarrow> valid P m Q"
  by (simp add: valid_def)

lemma valid_get: "valid P State_Monad.get (\<lambda>x st. P st \<and> x = st)"
  by (simp add: valid_def)

lemma valid_get_weak: "valid P State_Monad.get (\<lambda>_. P)"
  by (simp add: valid_def)

lemma valid_ask: "valid P (ask f) (\<lambda>_. P)"
  by (simp add: valid_def ask_def)

lemmas valid_control = valid_bind valid_if valid_option valid_sum valid_let

lemma run_call: "run_state (call w c) st =
    (answer w (history st) c, st\<lparr>history := history st @ [(c, answer w (history st) c)]\<rparr>)"
  by (simp add: call_def Let_def)

text \<open>Two computations that do the same from the states of a predicate.\<close>

definition same :: "(manager \<Rightarrow> bool) \<Rightarrow> 'a mgr \<Rightarrow> 'a mgr \<Rightarrow> bool" where
  "same P m n \<longleftrightarrow> (\<forall>st. P st \<longrightarrow> run_state m st = run_state n st)"

lemma same_refl: "same P m m"
  by (simp add: same_def)

lemma same_bind:
  "same P m m' \<Longrightarrow> valid P m R \<Longrightarrow> (\<And>x. same (R x) (f x) (f' x)) \<Longrightarrow> same P (m \<bind> f) (m' \<bind> f')"
  by (fastforce simp: same_def valid_def split: prod.splits)

lemma same_if: "(c \<Longrightarrow> same P m m') \<Longrightarrow> (\<not> c \<Longrightarrow> same P n n') \<Longrightarrow> same P (if c then m else n) (if c then m' else n')"
  by simp

lemma same_option:
  "(x = None \<Longrightarrow> same P m m') \<Longrightarrow> (\<And>y. x = Some y \<Longrightarrow> same P (f y) (f' y)) \<Longrightarrow>
     same P (case x of None \<Rightarrow> m | Some y \<Rightarrow> f y) (case x of None \<Rightarrow> m' | Some y \<Rightarrow> f' y)"
  by (cases x) auto

lemma same_sum:
  "(\<And>y. x = Inl y \<Longrightarrow> same P (f y) (f' y)) \<Longrightarrow> (\<And>y. x = Inr y \<Longrightarrow> same P (g y) (g' y)) \<Longrightarrow>
     same P (case x of Inl y \<Rightarrow> f y | Inr y \<Rightarrow> g y) (case x of Inl y \<Rightarrow> f' y | Inr y \<Rightarrow> g' y)"
  by (cases x) auto

subsection \<open>Engines, configuration files and guards of a history\<close>

fun engine_step :: "entry \<Rightarrow> nat set \<Rightarrow> nat set" where
  "engine_step (StartEngine n p, None) S = insert n S"
| "engine_step (WaitEngine n, e) S = S - {n}"
| "engine_step _ S = S"

text \<open>The engines that were started and whose exit nobody waited for.\<close>

definition engines :: "entry list \<Rightarrow> nat set" where
  "engines h = fold engine_step h {}"

fun config_step :: "entry \<Rightarrow> path set \<Rightarrow> path set" where
  "config_step (ReserveConfig p, None) S = insert p S"
| "config_step (RemoveConfig p, e) S = S - {p}"
| "config_step _ S = S"

text \<open>The configuration files that were made and not removed since.\<close>

definition leftovers :: "entry list \<Rightarrow> path set" where
  "leftovers h = fold config_step h {}"

fun is_guard :: "call \<Rightarrow> bool" where
  "is_guard (SetGuard n) = True"
| "is_guard ClearGuard = True"
| "is_guard _ = False"

definition guards :: "entry list \<Rightarrow> entry list" where
  "guards h = filter (\<lambda>(c, e). is_guard c) h"

lemma history_snoc [simp]:
  "engines (h @ [x]) = engine_step x (engines h)"
  "leftovers (h @ [x]) = config_step x (leftovers h)"
  "guards (h @ [x]) = guards h @ (if is_guard (fst x) then [x] else [])"
  by (simp_all add: engines_def leftovers_def guards_def split: prod.splits)

fun neutral :: "call \<Rightarrow> bool" where
  "neutral (StartEngine n p) = False"
| "neutral (WaitEngine n) = False"
| "neutral (ReserveConfig p) = False"
| "neutral (RemoveConfig p) = False"
| "neutral _ = True"

lemma neutral_steps: "neutral c \<Longrightarrow> engine_step (c, e) S = S \<and> config_step (c, e) L = L"
  by (cases c) auto

definition pids :: "smartProcessState option \<Rightarrow> nat set" where
  "pids p = (case p of None \<Rightarrow> {} | Some q \<Rightarrow> {pid q})"

lemma pids_simps [simp]: "pids None = {}" "pids (Some q) = {pid q}"
  by (simp_all add: pids_def)

text \<open>Bounds on the engines, the configuration files and the guards, and the current process.\<close>

definition books :: "nat set \<Rightarrow> path set \<Rightarrow> smartProcessState option \<Rightarrow> manager \<Rightarrow> bool" where
  "books E L p st \<longleftrightarrow> engines (history st) \<subseteq> E \<and> leftovers (history st) \<subseteq> L \<and> smartProcess st = p"

lemma books_mono: "books E L p st \<Longrightarrow> E \<subseteq> E' \<Longrightarrow> L \<subseteq> L' \<Longrightarrow> books E' L' p st"
  by (auto simp: books_def)

lemma books_neutral [triples]: "neutral c \<Longrightarrow> valid (books E L p) (call w c) (\<lambda>_. books E L p)"
  by (auto simp: valid_def run_call books_def neutral_steps)

lemma books_start:
  "valid (books E L p) (call w (StartEngine n c)) (\<lambda>e. books (if e = None then insert n E else E) L p)"
  by (auto simp: valid_def run_call books_def)

lemma books_wait [triples]: "valid (books E L p) (call w (WaitEngine n)) (\<lambda>_. books (E - {n}) L p)"
  by (auto simp: valid_def run_call books_def)

lemma books_reserve [triples]: "valid (books E L p) (call w (ReserveConfig c)) (\<lambda>_. books E (insert c L) p)"
proof -
  have "config_step (ReserveConfig c, e) S \<subseteq> insert c S" for e S by (cases e) auto
  then show ?thesis by (fastforce simp: valid_def run_call books_def)
qed

lemma books_remove [triples]: "valid (books E L p) (call w (RemoveConfig c)) (\<lambda>_. books E (L - {c}) p)"
  by (auto simp: valid_def run_call books_def)

lemma books_record [triples]: "neutral c \<Longrightarrow> valid (books E L p) (record_call c e) (\<lambda>_. books E L p)"
  by (auto simp: valid_def record_call_def State_Monad.update_def books_def neutral_steps)

lemma books_desired [triples]: "valid (books E L p) (desired_step w f) (\<lambda>_. books E L p)"
  by (auto simp: valid_def desired_step_def Let_def books_def)

lemma books_set [triples]: "valid (books E L p) (set_process q) (\<lambda>_. books E L q)"
  by (auto simp: valid_def set_process_def State_Monad.update_def books_def)

lemma books_current [triples]: "valid (books E L p) current_process (\<lambda>x st. books E L p st \<and> x = p)"
  by (auto simp: valid_def current_process_def books_def)

lemma books_current_weak: "valid (books E L p) current_process (\<lambda>_. books E L p)"
  by (auto simp: valid_def current_process_def books_def)

subsection \<open>What native tunnels leave alone\<close>

fun native_call :: "call \<Rightarrow> bool" where
  "native_call Preflight = True"
| "native_call (LoadProfile n) = True"
| "native_call (ProfilePath n) = True"
| "native_call ListNames = True"
| "native_call (QueryService n) = True"
| "native_call (UninstallTunnel n) = True"
| "native_call (OpenService n) = True"
| "native_call (InstallTunnel n) = True"
| "native_call _ = False"

text \<open>
  A predicate on the manager that the calls about native tunnels and the file of the desired state
  keep is kept by every routine of the native tunnels.
\<close>

locale native_frame =
  fixes w :: world and P :: "manager \<Rightarrow> bool"
  assumes keeps_call: "native_call c \<Longrightarrow> valid P (call w c) (\<lambda>_. P)"
    and keeps_desired: "valid P (desired_step w f) (\<lambda>_. P)"
begin

lemma keeps_join: "(\<And>n. valid P (f n) (\<lambda>_. P)) \<Longrightarrow> valid P (join_each msg f names err) (\<lambda>_. P)"
  by (induction names arbitrary: err) (auto intro!: valid_return intro: valid_bind)

lemma keeps_uninstall: "valid P (uninstall w n) (\<lambda>_. P)"
  unfolding uninstall_def by (rule valid_bind [OF keeps_call]) (auto intro: valid_return)

lemma keeps_polls: "valid P (wait_polls w n k) (\<lambda>_. P)"
proof (induction k)
  case 0
  show ?case
    by (subst wait_polls.simps, rule valid_bind [OF keeps_call]) (auto intro!: valid_return)
next
  case (Suc k)
  then show ?case
    by (subst wait_polls.simps, intro valid_bind [OF keeps_call]) (auto intro!: valid_return)
qed

lemma keeps_wait: "valid P (WaitForStop w n) (\<lambda>_. P)"
  unfolding WaitForStop_def by (rule valid_bind [OF valid_ask keeps_polls])

lemma keeps_is_smart: "valid P (is_smart n) (\<lambda>_. P)"
  unfolding is_smart_def by (rule valid_bind [OF valid_get_weak]) (rule valid_return)

lemma keeps_any: "valid P smartAnyStarted (\<lambda>_. P)"
  unfolding smartAnyStarted_def by (rule valid_bind [OF valid_get_weak]) (rule valid_return)

lemma keeps_state: "valid P (State_of w n) (\<lambda>_. P)"
  unfolding State_of_def
  by (intro valid_bind [OF keeps_is_smart] valid_if valid_return valid_bind [OF keeps_call]
      valid_bind [OF valid_ask]) simp_all

lemma keeps_query: "valid P (query_states w names states) (\<lambda>_. P)"
  by (induction names arbitrary: states)
    (auto intro!: valid_return valid_bind [OF keeps_state])

lemma keeps_states: "valid P (nativeTunnelStates w) (\<lambda>_. P)"
  unfolding nativeTunnelStates_def
  by (intro valid_bind [OF keeps_call] valid_if valid_return valid_bind [OF valid_ask] keeps_query) simp_all

lemma keeps_stop: "valid P (stopNativeTunnelsLocked w names) (\<lambda>_. P)"
  unfolding stopNativeTunnelsLocked_def Let_def
  by (intro valid_bind [OF keeps_join] keeps_join keeps_uninstall keeps_wait)

lemma keeps_stop_all: "valid P (stopAllNativeTunnels w) (\<lambda>_. P)"
  unfolding stopAllNativeTunnels_def
  by (intro valid_bind [OF keeps_states] valid_if valid_return keeps_stop)

lemma keeps_execute: "valid P i (\<lambda>_. P) \<Longrightarrow> valid P (executeNativeSwitch plan (uninstall w) (WaitForStop w) i) (\<lambda>_. P)"
  unfolding executeNativeSwitch_def
  by (intro valid_bind [OF keeps_join] valid_if valid_return keeps_uninstall keeps_wait)

lemma keeps_restore: "valid P (restore_predecessor w n) (\<lambda>_. P)"
  unfolding restore_predecessor_def
  by (intro valid_bind [OF keeps_call] valid_if valid_return keeps_call) simp_all

lemma keeps_restores: "valid P (restore_predecessors w states names err) (\<lambda>_. P)"
proof (induction names arbitrary: err)
  case (Cons n names)
  show ?case
    unfolding restore_predecessors.simps
    by (intro valid_if valid_bind [OF keeps_state] valid_bind [OF keeps_restore] Cons.IH)
qed (simp add: valid_return)

lemma keeps_clear: "valid P (clear_desired w) (\<lambda>_. P)" "valid P (save_desired w n s) (\<lambda>_. P)"
  "valid P (clear_desired_for w n) (\<lambda>_. P)"
  unfolding clear_desired_def save_desired_def clear_desired_for_def by (rule keeps_desired)+

lemma keeps_start: "valid P (startNativeUnlocked w n) (\<lambda>_. P)"
  unfolding startNativeUnlocked_def Let_def
  by (intro valid_bind [OF keeps_call] valid_if valid_return valid_bind [OF keeps_any]
      valid_bind [OF keeps_states] valid_bind [OF keeps_execute] valid_bind [OF keeps_clear(1)]
      valid_bind [OF keeps_stop] keeps_restores keeps_call) simp_all

end

lemma native_neutral: "native_call c \<Longrightarrow> neutral c"
  by (cases c) auto

interpretation books_frame: native_frame w "books E L p" for w E L p
  by unfold_locales (auto intro: books_neutral native_neutral books_desired)

definition guarded :: "entry list \<Rightarrow> smartProcessState option \<Rightarrow> manager \<Rightarrow> bool" where
  "guarded g p st \<longleftrightarrow> guards (history st) = g \<and> smartProcess st = p"

lemma guarded_call: "\<not> is_guard c \<Longrightarrow> valid (guarded g p) (call w c) (\<lambda>_. guarded g p)"
  by (simp add: valid_def run_call guarded_def)

interpretation guarded_frame: native_frame w "guarded g p" for w g p
proof
  show "valid (guarded g p) (call w c) (\<lambda>_. guarded g p)" if "native_call c" for c
    using that by (intro guarded_call) (cases c; simp)
  show "valid (guarded g p) (desired_step w f) (\<lambda>_. guarded g p)" for f
    by (simp add: valid_def desired_step_def Let_def guarded_def)
qed
end
