(* ===== verification/SmartProcessFacts.thy ===== *)
theory SmartProcessFacts
  imports ManagerLogic
begin

text \<open>
  The routing engine: the recursive equation of its start, that no engine and no configuration file
  with the private key is left behind, and what the guard against leaks does during a start.
\<close>

subsection \<open>Engines and configuration files\<close>

text \<open>The only engine is the current one, and all configuration files outside a set are removed.\<close>

definition tidy :: "path set \<Rightarrow> manager \<Rightarrow> bool" where
  "tidy L st \<longleftrightarrow> (\<exists>p. books (pids p) L p st)"

lemma tidyI: "books (pids p) L p st \<Longrightarrow> tidy L st"
  by (auto simp: tidy_def)

lemma tidy_None: "books {} L None st \<Longrightarrow> tidy L st"
  by (rule tidyI [of None]) simp

lemma tidy_mono: "tidy L st \<Longrightarrow> L \<subseteq> L' \<Longrightarrow> tidy L' st"
  by (auto simp: tidy_def intro: books_mono)

text \<open>The triples of the single calls, each for its own call.\<close>

lemma books_calls:
  "valid (books E L p) (call w Preflight) (\<lambda>_. books E L p)"
  "valid (books E L p) (call w (LoadProfile n)) (\<lambda>_. books E L p)"
  "valid (books E L p) (call w (BuildProfile n s)) (\<lambda>_. books E L p)"
  "valid (books E L p) (call w DiagnosticListener) (\<lambda>_. books E L p)"
  "valid (books E L p) (call w DiagnosticInbound) (\<lambda>_. books E L p)"
  "valid (books E L p) (call w SmartDirectories) (\<lambda>_. books E L p)"
  "valid (books E L p) (call w (WriteConfig c)) (\<lambda>_. books E L p)"
  "valid (books E L p) (call w FindEngine) (\<lambda>_. books E L p)"
  "valid (books E L p) (call w (CheckEngine c)) (\<lambda>_. books E L p)"
  "valid (books E L p) (call w (SetGuard k)) (\<lambda>_. books E L p)"
  "valid (books E L p) (call w ClearGuard) (\<lambda>_. books E L p)"
  "valid (books E L p) (call w RotateLog) (\<lambda>_. books E L p)"
  "valid (books E L p) (call w OpenLog) (\<lambda>_. books E L p)"
  "valid (books E L p) (call w (AttachJob k)) (\<lambda>_. books E L p)"
  "valid (books E L p) (call w (KillEngine k)) (\<lambda>_. books E L p)"
  "valid (books E L p) (call w TunInterface) (\<lambda>_. books E L p)"
  "valid (books E L p) (call w (Notify n t)) (\<lambda>_. books E L p)"
  "valid (books E L p) (call w MarkRecoveryHealthy) (\<lambda>_. books E L p)"
  "valid (books E L p) (call w (RequestRecovery n f d)) (\<lambda>_. books E L p)"
  "valid (books E L p) (call w PhysicalNetwork) (\<lambda>_. books E L p)"
  "valid (books E L p) (call w (DeleteProfile n)) (\<lambda>_. books E L p)"
  "valid (books E L p) (call w (UninstallTunnel n)) (\<lambda>_. books E L p)"
  "valid (books E L p) (call w ListNames) (\<lambda>_. books E L p)"
  by (rule books_neutral, simp)+

lemmas books_binds = books_calls [THEN valid_bind]

lemma books_notify: "valid (books E L p) (notify w n s) (\<lambda>_. books E L p)"
  unfolding notify_def by (intro books_binds valid_return)

lemma books_stop: "valid (books E L p) (stopSmartProcessState w q) (\<lambda>_. books (E - pids q) L p)"
proof (cases q)
  case (Some s)
  show ?thesis
    unfolding stopSmartProcessState_def Some option.case
    by (intro books_binds valid_bind [OF books_wait] valid_bind [OF books_remove] valid_return)
      (auto intro: books_mono)
qed (simp add: stopSmartProcessState_def valid_return)

lemma books_notify_stopped: "valid (books E L p) (notify_stopped w q) (\<lambda>_. books E L p)"
  unfolding notify_stopped_def by (intro valid_option valid_if valid_return books_notify)

lemma books_detach: "valid (books E L p) detachSmartProcessLocked (\<lambda>q st. books E L None st \<and> q = p)"
  by (auto simp: valid_def detachSmartProcessLocked_def current_process_def set_process_def
      State_Monad.update_def books_def)

lemma bind_detach:
  "valid (books E L None) (f p) Q \<Longrightarrow> valid (books E L p) (detachSmartProcessLocked \<bind> f) Q"
  by (rule valid_bind [OF books_detach]) (auto simp: valid_def)

lemma books_smartStop: "valid (books (pids p) L p) (smartStopUnlocked w) (\<lambda>_. books {} L None)"
  unfolding smartStopUnlocked_def
  by (intro bind_detach valid_bind [OF books_stop] valid_bind [OF books_notify_stopped] valid_return)
    (auto elim: books_mono)

lemma books_bind_guard: "valid (books E L p) (bind_guard w) (\<lambda>_. books E L p)"
  unfolding bind_guard_def
  by (intro books_binds valid_if valid_return valid_bind [OF valid_ask] books_calls)

lemma valid_bind_end:
  "valid P m (\<lambda>_. R) \<Longrightarrow> (\<And>x st. R st \<Longrightarrow> Q (f x) st) \<Longrightarrow> valid P (m \<bind> (\<lambda>x. return (f x))) Q"
  by (rule valid_bind) (auto intro: valid_return)

lemma books_stop_failed: "valid (books E L p) (stop_failed w s n q e) (\<lambda>_. books E L p)"
  unfolding stop_failed_def
  by (intro valid_if valid_return valid_bind_end [where R = "books E L p"] valid_option
      books_bind_guard books_calls)

text \<open>What the recursive call has to keep.\<close>

definition tidy_start :: "start \<Rightarrow> bool" where
  "tidy_start f \<longleftrightarrow> (\<forall>n s b L p. valid (books (pids p) L p) (f n s b) (\<lambda>_. tidy L))"

lemma tidy_startD: "tidy_start f \<Longrightarrow> valid (books {} L None) (f n s b) (\<lambda>_. tidy L)"
  unfolding tidy_start_def by (metis pids_simps(1))

lemma tidy_restoreNative:
  assumes "tidy_start f"
  shows "valid (books {} L None) (restoreNative w f n p c) (\<lambda>_. tidy L)"
  unfolding restoreNative_def Let_def
  by (intro valid_if valid_option valid_return valid_bind_end [OF tidy_startD [OF assms]]
      books_binds valid_bind_end [OF books_frame.keeps_start])
    (auto intro: tidy_None)

lemma tidy_engine_ready:
  assumes "\<And>c. valid (books {} L None) (restore c) (\<lambda>_. tidy L)"
  shows "valid (books {pid q} L None) (engine_ready w restore n s b q)
    (\<lambda>r st. tidy L st \<and> (snd r \<longrightarrow> tidy (L - {configPath q}) st))"
proof -
  have stopped: "valid (books {pid q} L None) (stopSmartProcessState w (Some q)) (\<lambda>_. books {} L None)"
    using books_stop [of "{pid q}" L None w "Some q"] by simp
  have kept: "books {pid q} (L - {configPath q}) (Some q) st \<Longrightarrow>
      tidy L st \<and> (True \<longrightarrow> tidy (L - {configPath q}) st)" for st
    using tidyI [of "Some q"] tidy_mono [of "L - {configPath q}" st L] by auto
  have guard: "valid (books {pid q} L None) (if Protection s = ''all''
      then do { e \<leftarrow> bind_guard w; return (errorf ''activate protection'' e) } else call w ClearGuard)
      (\<lambda>_. books {pid q} L None)"
    by (intro valid_if valid_bind_end [OF books_bind_guard] books_calls)
  have persist: "valid (books {pid q} L None) (if b then save_desired w n s else return None)
      (\<lambda>_. books {pid q} L None)"
    by (intro valid_if valid_return books_frame.keeps_clear(2))
  show ?thesis
    unfolding engine_ready_def
    by (intro valid_bind [OF guard] valid_bind [OF persist] valid_if
        valid_bind [OF stopped] valid_bind [OF books_notify]
        valid_bind_end [OF assms] valid_bind [OF books_set] valid_bind [OF books_remove]
        books_binds valid_return)
      (use kept in auto)
qed

lemma tidy_launch:
  assumes "\<And>c. valid (books {} L None) (restore c) (\<lambda>_. tidy L)"
  shows "valid (books {} L None) (launch_engine w restore n s b cfg)
    (\<lambda>r st. tidy L st \<and> (snd r \<longrightarrow> tidy (L - {cfg}) st))"
proof -
  note ready = tidy_engine_ready [OF assms]
  have await: "valid (books E L None) (await_ready w k) (\<lambda>_. books E L None)" for E k
    unfolding await_ready_def Let_def
    by (intro valid_bind [OF valid_ask] valid_bind [OF books_record] valid_return) simp_all
  have gone: "valid (books {k} L None) (call w (WaitEngine k)) (\<lambda>_. books {} L None)" for k
    using books_wait [of "{k}" L None w k] by simp
  have started: "valid (books {} L None) (call w (StartEngine k cfg))
      (\<lambda>e. books (if e = None then {k} else {}) L None)" for k
    using books_start [of "{}" L None w k cfg] by (simp add: if_distrib)
  have fail: "valid (books {} L None) (restore c \<bind> (\<lambda>e. return (e, False)))
      (\<lambda>r st. tidy L st \<and> (snd r \<longrightarrow> tidy (L - {cfg}) st))" for c
    by (rule valid_bind_end [OF assms]) simp
  have rest: "valid (books {k} L None) (m k) Q \<Longrightarrow> valid (books {} L None) f Q \<Longrightarrow>
      valid (books (if e = None then {k} else {}) L None) (if e \<noteq> None then f else m k) Q"
    for e :: "merror option" and k f m Q
    by simp
  show ?thesis
    unfolding launch_engine_def Let_def
    by (intro books_binds valid_bind [OF started] rest valid_if
        valid_bind [OF books_notify] valid_bind [OF valid_ask] valid_bind [OF await]
        valid_bind [OF gone] fail)
      (use ready [where q = "\<lparr>tunnelName = n, settings = s, pid = _, configPath = cfg\<rparr>"] in simp_all)
qed

lemma tidy_start_with_config:
  assumes "tidy_start f"
  shows "valid (books (pids p) L p) (start_with_config w f n s b cfg)
    (\<lambda>r st. tidy L st \<and> (snd r \<longrightarrow> tidy (L - {cfg}) st))"
proof -
  let ?Q = "\<lambda>(r :: merror option \<times> bool) st. tidy L st \<and> (snd r \<longrightarrow> tidy (L - {cfg}) st)"
  have guard: "valid (books (pids p) L p) (if Protection s = ''all'' then call w (SetGuard 0) else return None)
      (\<lambda>_. books (pids p) L p)"
    by (intro valid_if books_calls valid_return)
  have stopped: "valid (books (pids p) L None) (stopSmartProcessState w p) (\<lambda>_. books {} L None)"
    using books_stop [of "pids p" L None w p] by simp
  have launch: "valid (books {} L None) (launch_engine w (restoreNative w f m q) n s b cfg) ?Q" for m q
    by (rule tidy_launch [OF tidy_restoreNative [OF assms]])
  have quit: "books (pids p) L p st \<Longrightarrow> ?Q (e, False) st" for e st
    by (simp add: tidyI)
  have get: "valid (books (pids p) L p) State_Monad.get (\<lambda>_. books (pids p) L p)"
    by (rule valid_get_weak)
  show ?thesis
    unfolding start_with_config_def Let_def
    by (intro books_binds valid_if valid_return valid_bind [OF books_frame.keeps_states]
        valid_bind [OF get] valid_sum valid_bind [OF guard] valid_bind [OF books_frame.keeps_stop_all]
        valid_bind_end [OF books_stop_failed] bind_detach
        valid_bind [OF stopped] valid_bind [OF books_notify_stopped]
        valid_bind_end [OF tidy_restoreNative [OF assms]] launch)
      (use quit in simp_all)
qed

lemma tidy_native_branch:
  assumes "tidy_start f"
  shows "valid (books (pids p) L p) (start_native_branch w f n b) (\<lambda>_. tidy L)"
  unfolding start_native_branch_def
  by (intro books_binds valid_if valid_return valid_bind [OF books_current_weak]
      valid_bind [OF books_smartStop] valid_bind [OF books_frame.keeps_start] valid_option
      valid_bind_end [OF tidy_startD [OF assms]] valid_bind [OF books_frame.keeps_clear(1)]
      valid_bind_end [OF books_frame.keeps_stop])
    (auto intro: tidy_None)

lemma books_prepare:
  "valid (books E L p) (prepare_config w n s)
     (\<lambda>r st. case r of Inl e \<Rightarrow> books E L p st | Inr cfg \<Rightarrow> books E (insert cfg L) p st)"
proof -
  have reserve: "valid (books E L p) (call w (ReserveConfig cfg))
      (\<lambda>e. books E (if e = None then insert cfg L else L) p)" for cfg
    by (auto simp: valid_def run_call books_def)
  show ?thesis
    unfolding prepare_config_def
    by (intro books_binds valid_option valid_return valid_bind [OF valid_ask] valid_bind [OF reserve]) auto
qed

lemma tidy_body:
  assumes "tidy_start f"
  shows "tidy_start (smart_start_body w f)"
  unfolding tidy_start_def
proof (intro allI)
  fix n s b L p
  have config: "valid (books (pids p) (insert cfg L) p) (do {
       r \<leftarrow> start_with_config w f n s b cfg;
       if snd r then return (fst r) else do { _ \<leftarrow> call w (RemoveConfig cfg); return (fst r) } })
     (\<lambda>_. tidy L)" for cfg
  proof (rule valid_bind [OF tidy_start_with_config [OF assms]], rule valid_if)
    have "tidy (insert cfg L - {cfg}) st \<Longrightarrow> tidy L st" for st by (rule tidy_mono) auto
    then show "valid (\<lambda>st. tidy (insert cfg L) st \<and> (snd r \<longrightarrow> tidy (insert cfg L - {cfg}) st))
        (return (fst r)) (\<lambda>_. tidy L)" if "snd r" for r :: "merror option \<times> bool"
      using that by (auto intro!: valid_return)
    have "valid (tidy (insert cfg L)) (call w (RemoveConfig cfg)) (\<lambda>_. tidy L)"
      by (fastforce simp: valid_def run_call tidy_def books_def)
    then have "valid (tidy (insert cfg L)) (call w (RemoveConfig cfg) \<bind> (\<lambda>_. return (fst r))) (\<lambda>_. tidy L)"
      for r :: "merror option \<times> bool"
      by (rule valid_bind_end)
    then show "valid (\<lambda>st. tidy (insert cfg L) st \<and> (snd r \<longrightarrow> tidy (insert cfg L - {cfg}) st))
        (call w (RemoveConfig cfg) \<bind> (\<lambda>_. return (fst r))) (\<lambda>_. tidy L)" for r :: "merror option \<times> bool"
      by (rule valid_pre) simp
  qed
  have prepared: "valid (case r of Inl e \<Rightarrow> books (pids p) L p | Inr cfg \<Rightarrow> books (pids p) (insert cfg L) p)
      (case r of Inl e \<Rightarrow> return (Some e) | Inr cfg \<Rightarrow> do {
         r \<leftarrow> start_with_config w f n s b cfg;
         if snd r then return (fst r) else do { _ \<leftarrow> call w (RemoveConfig cfg); return (fst r) } })
      (\<lambda>_. tidy L)" for r
    using config by (cases r) (auto intro!: valid_return tidyI)
  have prep: "valid (books (pids p) L p) (prepare_config w n s)
      (\<lambda>r. case r of Inl e \<Rightarrow> books (pids p) L p | Inr cfg \<Rightarrow> books (pids p) (insert cfg L) p)"
    by (rule valid_post [OF books_prepare]) (auto split: sum.splits)
  show "valid (books (pids p) L p) (smart_start_body w f n s b) (\<lambda>_. tidy L)"
    unfolding smart_start_body_def
    by (intro books_binds valid_if valid_return tidy_native_branch [OF assms] valid_bind [OF prep] prepared)
      (rule tidyI)
qed

lemma tidy_level: "tidy_start (start_level w n)"
proof (induction n)
  case 0
  show ?case by (auto simp: tidy_start_def intro!: valid_return tidyI)
next
  case (Suc n)
  have "start_level w (Suc n) = smart_start_body w (start_level w n)" by (intro ext) simp
  with tidy_body [OF Suc] show ?case by simp
qed

lemma tidy_smartStartLocked: "tidy_start (smartStartLocked w)"
  unfolding smartStartLocked_def by (rule tidy_level)

subsection \<open>The recursive equation of the start\<close>

definition proc :: "smartProcessState option \<Rightarrow> manager \<Rightarrow> bool" where
  "proc p st \<longleftrightarrow> smartProcess st = p"

lemma proc_call: "valid (proc p) (call w c) (\<lambda>_. proc p)"
  by (simp add: valid_def run_call proc_def)

interpretation proc_frame: native_frame w "proc p" for w p
  by unfold_locales (rule proc_call, simp add: valid_def desired_step_def Let_def proc_def)

lemma proc_notify: "valid (proc p) (notify w n s) (\<lambda>_. proc p)"
  unfolding notify_def by (rule valid_bind_end [OF proc_call])

lemma proc_stop: "valid (proc p) (stopSmartProcessState w q) (\<lambda>_. proc p)"
  unfolding stopSmartProcessState_def
  by (intro valid_option valid_return valid_bind [OF proc_call])

lemma proc_notify_stopped: "valid (proc p) (notify_stopped w q) (\<lambda>_. proc p)"
  unfolding notify_stopped_def by (intro valid_option valid_if valid_return proc_notify)

lemma proc_detach: "valid (proc p) detachSmartProcessLocked (\<lambda>_. proc None)"
  by (auto simp: valid_def detachSmartProcessLocked_def current_process_def set_process_def
      State_Monad.update_def proc_def)

lemma proc_smartStop: "valid (proc p) (smartStopUnlocked w) (\<lambda>_. proc None)"
  unfolding smartStopUnlocked_def
  by (intro valid_bind [OF proc_detach] valid_bind [OF proc_stop] valid_bind [OF proc_notify_stopped] valid_return)

lemma proc_await: "valid (proc p) (await_ready w k) (\<lambda>_. proc p)"
  by (simp add: valid_def await_ready_def record_call_def State_Monad.update_def ask_def Let_def proc_def)

lemma proc_bind_guard: "valid (proc p) (bind_guard w) (\<lambda>_. proc p)"
  unfolding bind_guard_def
  by (intro valid_bind [OF proc_call] valid_if valid_return valid_bind [OF valid_ask] proc_call)

lemma proc_prepare: "valid (proc p) (prepare_config w n s) (\<lambda>_. proc p)"
  unfolding prepare_config_def
  by (intro valid_bind [OF proc_call] valid_option valid_return valid_bind [OF valid_ask])

lemma same_step: "valid P m (\<lambda>_. R) \<Longrightarrow> (\<And>x. same R (f x) (g x)) \<Longrightarrow> same P (m \<bind> f) (m \<bind> g)"
  by (rule same_bind [OF same_refl])

lemma same_end: "same P m n \<Longrightarrow> same P (m \<bind> f) (n \<bind> f)"
  by (simp add: same_def)

text \<open>Two starts that do the same when there is no engine.\<close>

definition agree :: "start \<Rightarrow> start \<Rightarrow> bool" where
  "agree f g \<longleftrightarrow> (\<forall>n s b. same (proc None) (f n s b) (g n s b))"

lemma same_restoreNative:
  "(q \<noteq> None \<Longrightarrow> agree f g) \<Longrightarrow> same (proc None) (restoreNative w f n q c) (restoreNative w g n q c)"
  by (auto simp: restoreNative_def agree_def intro!: same_refl same_end split: option.splits)

lemma same_engine_ready:
  assumes "\<And>c. same (proc None) (f c) (g c)"
  shows "same (proc None) (engine_ready w f n s b q) (engine_ready w g n s b q)"
proof -
  have guard: "valid (proc None) (if Protection s = ''all''
      then do { e \<leftarrow> bind_guard w; return (errorf ''activate protection'' e) } else call w ClearGuard)
      (\<lambda>_. proc None)"
    by (intro valid_if valid_bind_end [OF proc_bind_guard] proc_call)
  have persist: "valid (proc None) (if b then save_desired w n s else return None) (\<lambda>_. proc None)"
    by (intro valid_if valid_return proc_frame.keeps_clear(2))
  show ?thesis
    unfolding engine_ready_def
    by (intro same_step [OF guard] same_step [OF persist] same_if same_step [OF proc_stop]
        same_step [OF proc_notify] same_end assms same_refl)
qed

lemma same_launch:
  assumes "\<And>c. same (proc None) (f c) (g c)"
  shows "same (proc None) (launch_engine w f n s b cfg) (launch_engine w g n s b cfg)"
  unfolding launch_engine_def Let_def
  by (intro same_step [OF proc_call] same_if same_step [OF proc_notify] same_step [OF valid_ask]
      same_step [OF proc_await] same_end same_engine_ready assms)

lemma same_start_with_config:
  assumes "p \<noteq> None \<Longrightarrow> agree f g"
  shows "same (proc p) (start_with_config w f n s b cfg) (start_with_config w g n s b cfg)"
proof -
  have guard: "valid (proc p) (if Protection s = ''all'' then call w (SetGuard 0) else return None) (\<lambda>_. proc p)"
    by (intro valid_if proc_call valid_return)
  have get: "same (proc p) (State_Monad.get \<bind> h) (State_Monad.get \<bind> h')"
    if "\<And>st. smartProcess st = p \<Longrightarrow> same (proc p) (h st) (h' st)" for h h' :: "manager \<Rightarrow> (merror option \<times> bool) mgr"
    using that by (auto simp: same_def proc_def)
  show ?thesis
    unfolding start_with_config_def Let_def
    by (intro same_step [OF proc_call] same_if same_step [OF proc_frame.keeps_states] get same_sum
        same_step [OF guard] same_step [OF proc_frame.keeps_stop_all] same_step [OF proc_detach]
        same_step [OF proc_stop] same_step [OF proc_notify_stopped] same_end same_launch
        same_restoreNative same_refl) (use assms in simp_all)
qed

lemma same_native_branch:
  assumes "p \<noteq> None \<Longrightarrow> agree f g"
  shows "same (proc p) (start_native_branch w f n b) (start_native_branch w g n b)"
proof -
  have current: "same (proc p) (current_process \<bind> h) (current_process \<bind> h')"
    if "same (proc p) (h p) (h' p)" for h h' :: "smartProcessState option \<Rightarrow> merror option mgr"
    using that by (auto simp: same_def proc_def current_process_def)
  show ?thesis
    unfolding start_native_branch_def
    by (intro current same_step [OF proc_smartStop] same_if same_refl
        same_step [OF proc_frame.keeps_start] same_option same_end)
      (use assms in \<open>simp_all add: agree_def\<close>)
qed

lemma same_body:
  assumes "p \<noteq> None \<Longrightarrow> agree f g"
  shows "same (proc p) (smart_start_body w f n s b) (smart_start_body w g n s b)"
  unfolding smart_start_body_def
  by (intro same_step [OF proc_call] same_if same_refl same_native_branch same_step [OF proc_prepare]
      same_sum same_end same_start_with_config) (use assms in simp_all)

lemma same_all: "(\<And>p. same (proc p) m n) \<Longrightarrow> m = n"
  by (rule state_ext) (simp add: same_def proc_def)

text \<open>Two levels of \<^const>\<open>start_level\<close> are enough: the start satisfies the equation of the code.\<close>

lemma smartStartLocked_unfold:
  "smartStartLocked w n s b = smart_start_body w (smartStartLocked w) n s b"
proof -
  have inner: "agree (start_level w 1) (start_level w 2)"
  proof -
    have "start_level w 1 = smart_start_body w (start_level w 0)"
      "start_level w 2 = smart_start_body w (start_level w 1)"
      by (intro ext, simp add: numeral_2_eq_2)+
    then show ?thesis unfolding agree_def by (simp only:) (intro allI same_body, simp)
  qed
  have "smart_start_body w (start_level w 1) n s b = smart_start_body w (start_level w 2) n s b"
    by (rule same_all, rule same_body) (rule inner)
  then show ?thesis by (simp add: smartStartLocked_def numeral_2_eq_2)
qed
end
