(* ===== verification/ManagerFacts.thy ===== *)
theory ManagerFacts
  imports SmartProcessFacts SmartSettingsFacts
begin

text \<open>
  Properties of the manager over all sequences of its operations and all behaviours of the machine.
\<close>

subsection \<open>No engine and no configuration file is left behind\<close>

lemma valid_tidy: "(\<And>p. valid (books (pids p) L p) m (\<lambda>_. tidy L)) \<Longrightarrow> valid (tidy L) m (\<lambda>_. tidy L)"
  by (fastforce simp: valid_def tidy_def)

lemma tidy_books: "(\<And>p. valid (books (pids p) L p) m (\<lambda>_. books (pids p) L p)) \<Longrightarrow> valid (tidy L) m (\<lambda>_. tidy L)"
  by (rule valid_tidy) (blast intro: valid_post tidyI)

interpretation tidy_frame: native_frame w "tidy L" for w L
  by unfold_locales (auto intro!: tidy_books intro: books_neutral native_neutral books_desired)

lemmas tidy_calls = tidy_books [OF books_calls(20)] tidy_books [OF books_calls(21)]
  tidy_books [OF books_calls(18)] tidy_books [OF books_calls(19)] tidy_books [OF books_calls(11)]
  tidy_books [OF books_calls(23)] tidy_books [OF books_calls(22)]

lemmas tidy_binds = tidy_calls [THEN valid_bind]

lemma tidy_stop: "valid (tidy L) (smartStopUnlocked w) (\<lambda>_. tidy L)"
  by (rule valid_tidy, rule valid_post [OF books_smartStop]) (rule tidy_None)

lemma tidy_smart_start: "valid (tidy L) (smartStartLocked w n s b) (\<lambda>_. tidy L)"
  using tidy_smartStartLocked by (auto intro!: valid_tidy simp: tidy_start_def)

lemma tidy_load: "valid (tidy L) (load_desired w) (\<lambda>_. tidy L)"
  unfolding load_desired_def by (rule valid_bind [OF valid_get_weak]) (rule valid_return)

lemma tidy_Stop: "valid (tidy L) (Stop w n) (\<lambda>_. tidy L)"
proof -
  have stop: "valid (tidy L) (if x then smartStopUnlocked w else return None) (\<lambda>_. tidy L)" for x
    by (intro valid_if tidy_stop valid_return)
  have guard: "valid (tidy L) (if x then call w ClearGuard else return None) (\<lambda>_. tidy L)" for x
    by (intro valid_if tidy_calls valid_return)
  show ?thesis
    unfolding Stop_def Let_def
    by (intro valid_bind [OF tidy_load] valid_bind [OF tidy_frame.keeps_is_smart]
        valid_bind [OF tidy_frame.keeps_clear(3)] valid_bind [OF stop]
        valid_bind [OF tidy_frame.keeps_stop] valid_bind_end [OF guard])
qed

lemma tidy_Delete: "valid (tidy L) (Delete w x n) (\<lambda>_. tidy L)"
  unfolding Delete_def by (intro valid_if valid_return valid_bind [OF tidy_Stop] tidy_calls)

lemma tidy_SmartStart: "valid (tidy L) (SmartStart w x n raw) (\<lambda>_. tidy L)"
  unfolding SmartStart_def
  by (intro valid_if valid_sum valid_return valid_bind [OF tidy_smart_start] tidy_binds)

lemma tidy_SmartStop: "valid (tidy L) (SmartStop w x) (\<lambda>_. tidy L)"
  unfolding SmartStop_def
  by (intro valid_if valid_return valid_bind [OF tidy_frame.keeps_clear(1)] valid_bind [OF tidy_stop] tidy_binds)

lemma tidy_uninstall_all: "valid (tidy L) (uninstall_all w names) (\<lambda>_. tidy L)"
  by (induction names) (auto intro!: valid_return tidy_binds)

lemma tidy_flags:
  "valid (tidy L) (set_suspended x) (\<lambda>_. tidy L)" "valid (tidy L) (set_quit x) (\<lambda>_. tidy L)"
  "valid (tidy L) next_generation (\<lambda>_. tidy L)" "valid (tidy L) (queue_pause g) (\<lambda>_. tidy L)"
  by (auto simp: valid_def set_suspended_def set_quit_def next_generation_def queue_pause_def
      State_Monad.update_def tidy_def books_def)

lemma tidy_Quit: "valid (tidy L) (Quit w x y) (\<lambda>_. tidy L)"
  unfolding Quit_def
  by (intro valid_bind [OF valid_get_weak] valid_bind [OF tidy_flags(2)] valid_if valid_return tidy_binds valid_bind [OF valid_ask] valid_bind [OF tidy_stop]
      valid_bind_end [OF tidy_uninstall_all])

lemma tidy_recover_names:
  "(\<And>n. valid (tidy L) (f n) (\<lambda>_. tidy L)) \<Longrightarrow> valid (tidy L) (recover_names T f seen names e) (\<lambda>_. tidy L)"
proof (induction names arbitrary: seen e)
  case (Cons n names)
  show ?case
    unfolding recover_names.simps Let_def
    by (intro valid_if valid_bind [OF Cons.prems] valid_return Cons.IH Cons.prems)
qed (simp add: valid_return)

lemma tidy_recover_start: "valid (tidy L) (recover_start w d n) (\<lambda>_. tidy L)"
  unfolding recover_start_def
  by (intro valid_bind [OF tidy_smart_start] valid_if valid_return tidy_frame.keeps_clear)

lemma tidy_healthy: "valid (tidy L) (smartProcessHealthyFor w n) (\<lambda>_. tidy L)"
  by (auto simp: valid_def smartProcessHealthyFor_def current_process_def ask_def)

lemma tidy_recover: "valid (tidy L) (recoverSmartDesired w x) (\<lambda>_. tidy L)"
  unfolding recoverSmartDesired_def recoverWithFallbacks_def
  by (intro valid_bind [OF valid_get_weak] valid_if valid_return valid_bind [OF tidy_load] valid_sum
      valid_option tidy_binds valid_bind [OF valid_ask] valid_bind [OF tidy_healthy]
      tidy_recover_names tidy_recover_start)

lemma tidy_pause: "valid (tidy L) (pauseSmartForSuspend w) (\<lambda>_. tidy L)"
  unfolding pauseSmartForSuspend_def
  by (intro valid_bind [OF tidy_flags(1)] tidy_binds valid_bind [OF tidy_load] valid_sum valid_option
      valid_return tidy_stop)

lemma tidy_resume: "valid (tidy L) (resumeSmartAfterSuspend w) (\<lambda>_. tidy L)"
  unfolding resumeSmartAfterSuspend_def
  by (intro valid_bind [OF tidy_flags(1)] tidy_binds valid_return)

lemma tidy_power: "valid (tidy L) (handleSmartPowerEvent w t) (\<lambda>_. tidy L)"
  unfolding handleSmartPowerEvent_def
  by (intro valid_if valid_return tidy_flags [THEN valid_bind] valid_bind [OF tidy_resume])

lemma tidy_queued: "valid (tidy L) (queued_pause w i) (\<lambda>_. tidy L)"
proof -
  have dequeue: "valid (\<lambda>st. tidy L st \<and> st0 = st) (State_Monad.set (st0\<lparr>queuedPauses := q\<rparr>)) (\<lambda>_. tidy L)" for st0 q
    by (auto simp: valid_def tidy_def books_def)
  show ?thesis
    unfolding queued_pause_def
    by (rule valid_bind [OF valid_get]) (intro valid_if valid_bind [OF dequeue] valid_return tidy_pause, auto)
qed

lemma tidy_exited: "valid (tidy L) (engine_exited w q) (\<lambda>_. tidy L)"
proof (rule valid_tidy)
  fix p
  have current: "valid (books (pids p - {pid q}) (L - {c}) p) (current_process \<bind> f) (\<lambda>_. tidy L)"
    if "valid (books (pids p - {pid q}) (L - {c}) p) (f p) (\<lambda>_. tidy L)" for f :: "_ \<Rightarrow> unit mgr" and c
    using that by (auto simp: valid_def current_process_def books_def)
  have gone: "books (pids p - {pid q}) (L - {c}) None st \<Longrightarrow> tidy L st" if "p = Some q" for c st
    using that by (auto simp: tidy_def books_def intro!: exI [of _ None])
  have other: "books (pids p - {pid q}) (L - {c}) p st \<Longrightarrow> tidy L st" for c st
    by (rule tidyI [of p]) (auto elim: books_mono)
  show "valid (books (pids p) L p) (engine_exited w q) (\<lambda>_. tidy L)"
    unfolding engine_exited_def
    by (intro valid_bind [OF books_wait] valid_bind [OF books_remove] current valid_if
        valid_bind [OF books_set] valid_bind [OF books_notify] books_binds valid_return)
      (auto intro: gone other)
qed

lemma tidy_perform: "valid (tidy L) (perform w op) (\<lambda>_. tidy L)"
  unfolding perform_def
  by (cases op) (auto simp: Start_def intro: tidy_frame.keeps_start tidy_Stop tidy_Delete tidy_SmartStart
      tidy_SmartStop tidy_recover tidy_queued
      intro!: valid_bind_end [OF tidy_Quit] valid_bind_end [OF tidy_power] valid_bind_end [OF tidy_exited])

subsection \<open>The guard during a start\<close>

lemma errors_Join_None [simp]:
  "errors_Join [] = None" "errors_Join (e # es) = None \<longleftrightarrow> e = None \<and> errors_Join es = None"
  by (auto simp: errors_Join_def Let_def split: option.splits)

lemma errorf_None [simp]: "errorf msg e = None \<longleftrightarrow> e = None"
  by (simp add: errorf_def)

lemma valid_true: "valid P m (\<lambda>_ _. True)"
  by (simp add: valid_def)

lemma valid_ends: "(\<And>x. Q (f x)) \<Longrightarrow> valid P (m \<bind> (\<lambda>x. return (f x))) (\<lambda>r _. Q r)"
  by (rule valid_bind [OF valid_true]) (rule valid_return)

lemma restoreNative_fails:
  "c \<noteq> None \<Longrightarrow> valid P (restoreNative w f n q c) (\<lambda>r _. r \<noteq> None)"
proof -
  assume c: "c \<noteq> None"
  then have c': "(if g = None then c else errors_Join [c, g]) \<noteq> None" for g
    by (simp del: not_None_eq)
  have *: "valid P (call w ClearGuard \<bind> h) (\<lambda>r _. r \<noteq> None)"
    if "\<And>g. valid (\<lambda>_. True) (h g) (\<lambda>r _. r \<noteq> None)" for h :: "merror option \<Rightarrow> merror option mgr"
    using that by (rule valid_bind [OF valid_true])
  show ?thesis
    unfolding restoreNative_def Let_def
    by (intro valid_if valid_option valid_return valid_ends *)
      (use c c' in \<open>simp_all del: not_None_eq\<close>)
qed

lemma stop_failed_fails: "e \<noteq> None \<Longrightarrow> valid P (stop_failed w s n q e) (\<lambda>r _. r \<noteq> None)"
  unfolding stop_failed_def
  by (intro valid_if valid_return valid_ends) (simp_all del: not_None_eq)

lemma guarded_notify: "valid (guarded g p) (notify w n s) (\<lambda>_. guarded g p)"
  unfolding notify_def by (rule valid_bind_end [OF guarded_call]) simp_all

lemma guarded_stop: "valid (guarded g p) (stopSmartProcessState w q) (\<lambda>_. guarded g p)"
  unfolding stopSmartProcessState_def
  by (intro valid_option valid_return valid_bind [OF guarded_call]) simp_all

lemma guarded_notify_stopped: "valid (guarded g p) (notify_stopped w q) (\<lambda>_. guarded g p)"
  unfolding notify_stopped_def by (intro valid_option valid_if valid_return guarded_notify)

lemma guarded_detach: "valid (guarded g p) detachSmartProcessLocked (\<lambda>_. guarded g None)"
  by (auto simp: valid_def detachSmartProcessLocked_def current_process_def set_process_def
      State_Monad.update_def guarded_def)

lemma guarded_await: "valid (guarded g p) (await_ready w k) (\<lambda>_. guarded g p)"
  by (simp add: valid_def await_ready_def record_call_def State_Monad.update_def ask_def Let_def guarded_def)

lemma guarded_prepare: "valid (guarded g p) (prepare_config w n s) (\<lambda>_. guarded g p)"
  unfolding prepare_config_def
  by (intro valid_bind [OF guarded_call] valid_option valid_return valid_bind [OF valid_ask]) simp_all

lemma guarded_set: "valid (guarded g p) (set_process q) (\<lambda>_. guarded g q)"
  by (simp add: valid_def set_process_def State_Monad.update_def guarded_def)

text \<open>A step that succeeds changes the guards; one that fails ends the routine.\<close>

lemma valid_fallible:
  assumes "valid P m (\<lambda>e st. e = None \<longrightarrow> R st)"
    and "\<And>x. x \<noteq> None \<Longrightarrow> valid (\<lambda>_. True) (f x) Q" and "valid R g Q"
  shows "valid P (m \<bind> (\<lambda>x. if x \<noteq> None then f x else g)) Q"
proof (rule valid_bind [OF assms(1)])
  fix x :: "'a option"
  show "valid (\<lambda>st. x = None \<longrightarrow> R st) (if x \<noteq> None then f x else g) Q"
    using assms(2,3) by (cases x) (auto simp: valid_def)
qed

text \<open>The guards after the interface of the engine was bound.\<close>

definition bound :: "world \<Rightarrow> entry list \<Rightarrow> smartProcessState option \<Rightarrow> manager \<Rightarrow> bool" where
  "bound w g p st \<longleftrightarrow> (\<exists>h. guarded (g @ [(SetGuard (tunLuid w h), None)]) p st)"

lemma valid_bound:
  "(\<And>h. valid (guarded (g @ [(SetGuard (tunLuid w h), None)]) p) m Q) \<Longrightarrow> valid (bound w g p) m Q"
  by (fastforce simp: valid_def bound_def)

lemma bound_guard: "valid (guarded g p) (bind_guard w) (\<lambda>e st. e = None \<longrightarrow> bound w g p st)"
proof -
  have set: "valid (guarded g p) (ask (tunLuid w) \<bind> (\<lambda>luid. call w (SetGuard luid)))
      (\<lambda>e st. e = None \<longrightarrow> bound w g p st)"
    by (auto simp: valid_def ask_def run_call guarded_def bound_def)
  show ?thesis
    unfolding bind_guard_def
    by (intro valid_bind [OF guarded_call] valid_if set) (auto intro: valid_return)
qed

text \<open>A kept state of a successful start: the result and the flag \<^verbatim>\<open>keepConfig\<close>.\<close>

lemma engine_ready_bound:
  assumes "Protection s = ''all''" and "\<And>c P. c \<noteq> None \<Longrightarrow> valid P (restore c) (\<lambda>r _. r \<noteq> None)"
  shows "valid (guarded g None) (engine_ready w restore n s b q) (\<lambda>r st. fst r = None \<longrightarrow> bound w g (Some q) st)"
proof -
  let ?Q = "\<lambda>(r :: merror option \<times> bool) st. fst r = None \<longrightarrow> bound w g (Some q) st"
  have lost: "valid P (restore c \<bind> (\<lambda>e. return (e, False))) ?Q" if "c \<noteq> None" for c P
    by (rule valid_bind [OF assms(2) [OF that]]) (auto intro!: valid_return)
  have guard: "valid (guarded g None) (do { e \<leftarrow> bind_guard w; return (errorf ''activate protection'' e) })
      (\<lambda>e st. e = None \<longrightarrow> bound w g None st)"
    by (rule valid_bind [OF bound_guard]) (auto intro!: valid_return)
  let ?g = "\<lambda>h. g @ [(SetGuard (tunLuid w h), None)]"
  have persist: "valid (guarded (?g h) None) (if b then save_desired w n s else return None)
      (\<lambda>_. guarded (?g h) None)" for h
    by (intro valid_if valid_return guarded_frame.keeps_clear(2))
  have keep: "guarded (?g h) (Some q) st \<Longrightarrow> ?Q (None, True) st" for h st
    by (auto simp: bound_def)
  have rest: "valid (bound w g None) (do {
       e \<leftarrow> (if b then save_desired w n s else return None);
       if e \<noteq> None then do {
         _ \<leftarrow> stopSmartProcessState w (Some q);
         notify w n TunnelStopped;
         e \<leftarrow> restore (errorf ''persist smart recovery state'' e);
         return (e, False) }
       else do {
         set_process (Some q);
         _ \<leftarrow> call w MarkRecoveryHealthy;
         _ \<leftarrow> call w (RemoveConfig (configPath q));
         notify w n TunnelStarted;
         return (None, True) } }) ?Q"
    by (intro valid_bound valid_bind [OF persist] valid_if valid_bind [OF guarded_stop]
        valid_bind [OF guarded_notify] lost valid_bind [OF guarded_set] valid_bind [OF guarded_call] valid_return)
      (use keep in auto)
  show ?thesis
    unfolding engine_ready_def assms(1)
    using assms(1)
    by (simp only: if_True simp_thms)
      (rule valid_fallible, rule guard, rule valid_bind [OF valid_true], erule lost, rule rest)
qed

text \<open>The engine of a tunnel runs behind the guard of its interface.\<close>

definition protected :: "world \<Rightarrow> entry list \<Rightarrow> string \<Rightarrow> RoutingSettings \<Rightarrow> manager \<Rightarrow> bool" where
  "protected w g n s st \<longleftrightarrow> (\<exists>q. tunnelName q = n \<and> settings q = s \<and> bound w g (Some q) st)"

lemma launch_protected:
  assumes "Protection s = ''all''" and "\<And>c P. c \<noteq> None \<Longrightarrow> valid P (restore c) (\<lambda>r _. r \<noteq> None)"
  shows "valid (guarded g None) (launch_engine w restore n s b cfg) (\<lambda>r st. fst r = None \<longrightarrow> protected w g n s st)"
proof -
  let ?Q = "\<lambda>(r :: merror option \<times> bool) st. fst r = None \<longrightarrow> protected w g n s st"
  have lost: "valid P (restore c \<bind> (\<lambda>e. return (e, False))) ?Q" if "c \<noteq> None" for c P
    by (rule valid_bind [OF assms(2) [OF that]]) (auto intro!: valid_return)
  have ready: "valid (guarded g None) (engine_ready w restore n s b
      \<lparr>tunnelName = n, settings = s, pid = k, configPath = cfg\<rparr>) ?Q" for k
    by (rule valid_post [OF engine_ready_bound [OF assms]])
      (auto simp: protected_def intro!: exI [of _ "\<lparr>tunnelName = n, settings = s, pid = k, configPath = cfg\<rparr>"])
  have why: "errorf msg (if c then x else e) \<noteq> None" if "e \<noteq> None" "c \<Longrightarrow> x \<noteq> None" for msg c e x
    using that by simp
  show ?thesis
    unfolding launch_engine_def Let_def
    by (intro valid_bind [OF guarded_call] valid_if valid_bind [OF guarded_notify]
        valid_bind [OF valid_ask] valid_bind [OF guarded_await] lost ready why) simp_all
qed

lemma guarded_plain:
  "valid (guarded g p) (call w (WriteConfig c)) (\<lambda>_. guarded g p)"
  "valid (guarded g p) (call w FindEngine) (\<lambda>_. guarded g p)"
  "valid (guarded g p) (call w (CheckEngine c)) (\<lambda>_. guarded g p)"
  by (rule guarded_call, simp)+

lemma start_with_config_protected:
  assumes "Protection s = ''all''"
  shows "valid (guarded g p) (start_with_config w f n s b cfg)
    (\<lambda>r st. fst r = None \<longrightarrow> protected w (g @ [(SetGuard 0, None)]) n s st)"
proof -
  let ?g = "g @ [(SetGuard 0, None)]"
  let ?Q = "\<lambda>(r :: merror option \<times> bool) st. fst r = None \<longrightarrow> protected w ?g n s st"
  have lost: "valid P (m \<bind> (\<lambda>e. return (e, False))) ?Q" if "valid P m (\<lambda>r _. r \<noteq> None)"
    for P and m :: "merror option mgr"
    by (rule valid_bind [OF that]) (auto intro!: valid_return)
  have guard: "valid (guarded g p) (call w (SetGuard 0)) (\<lambda>e st. e = None \<longrightarrow> guarded ?g p st)"
    by (auto simp: valid_def run_call guarded_def)
  have launch: "valid (guarded ?g None) (launch_engine w (restoreNative w f m q) n s b cfg) ?Q" for m q
    by (rule launch_protected [OF assms restoreNative_fails])
  have rest: "valid (guarded ?g p) (do {
      e \<leftarrow> stopAllNativeTunnels w;
      if e \<noteq> None then do { e \<leftarrow> stop_failed w s m q e; return (e, False) }
      else do {
        previous \<leftarrow> detachSmartProcessLocked;
        stopErr \<leftarrow> stopSmartProcessState w previous;
        notify_stopped w previous;
        if stopErr \<noteq> None
        then do { e \<leftarrow> restoreNative w f m q (errorf ''stop previous smart routing'' stopErr); return (e, False) }
        else launch_engine w (restoreNative w f m q) n s b cfg } }) ?Q" for m q
    by (intro valid_bind [OF guarded_frame.keeps_stop_all] valid_if lost stop_failed_fails
        valid_bind [OF guarded_detach] valid_bind [OF guarded_stop] valid_bind [OF guarded_notify_stopped]
        restoreNative_fails launch) simp_all
  have get: "valid (guarded g p) State_Monad.get (\<lambda>_. guarded g p)" by (rule valid_get_weak)
  have enable: "valid (guarded g p) (call w (SetGuard 0) \<bind>
      (\<lambda>e. if e \<noteq> None then return (errorf ''enable protection'' e, False) else m)) ?Q"
    if "valid (guarded ?g p) m ?Q" for m
    by (rule valid_fallible [OF guard]) (use that in \<open>auto intro!: valid_return\<close>)
  show ?thesis
    unfolding start_with_config_def Let_def
    by (simp only: assms if_True simp_thms,
        intro guarded_plain [THEN valid_bind] valid_if valid_bind [OF guarded_frame.keeps_states]
          valid_bind [OF get] valid_sum enable rest valid_return) auto
qed

lemma smart_start_protected:
  assumes "Protection s = ''all''"
  shows "valid (guarded g p) (smartStartLocked w n s b)
    (\<lambda>r st. r = None \<longrightarrow> protected w (g @ [(SetGuard 0, None)]) n s st)"
proof -
  let ?P = "protected w (g @ [(SetGuard 0, None)]) n s"
  have smart: "\<not> usesNativeTunnel (env w) s" using assms by (simp add: usesNativeTunnel_def)
  have config: "valid (guarded g p) (do {
      r \<leftarrow> start_with_config w f n s b cfg;
      if snd r then return (fst r) else do { _ \<leftarrow> call w (RemoveConfig cfg); return (fst r) } })
    (\<lambda>r st. r = None \<longrightarrow> ?P st)" for f cfg
  proof (rule valid_bind [OF start_with_config_protected [OF assms]], rule valid_if)
    show "valid (\<lambda>st. fst r = None \<longrightarrow> ?P st) (return (fst r)) (\<lambda>r st. r = None \<longrightarrow> ?P st)"
      for r :: "merror option \<times> bool"
      by (rule valid_return)
    show "valid (\<lambda>st. fst r = None \<longrightarrow> ?P st) (call w (RemoveConfig cfg) \<bind> (\<lambda>_. return (fst r)))
        (\<lambda>r st. r = None \<longrightarrow> ?P st)" for r :: "merror option \<times> bool"
      by (auto simp: valid_def run_call protected_def bound_def guarded_def)
  qed
  show ?thesis
    unfolding smartStartLocked_unfold [of w n s b] smart_start_body_def
    by (simp only: smart if_False, intro valid_bind [OF guarded_call] valid_if
        valid_bind [OF guarded_prepare] valid_sum config valid_return) auto
qed

text \<open>The guard was not cleared since a history with the guards \<open>g\<close>.\<close>

definition uncleared :: "entry list \<Rightarrow> smartProcessState option \<Rightarrow> manager \<Rightarrow> bool" where
  "uncleared g p st \<longleftrightarrow>
     (\<exists>x. guards (history st) = g @ x \<and> ClearGuard \<notin> fst ` set x) \<and> smartProcess st = p"

lemma uncleared_call: "c \<noteq> ClearGuard \<Longrightarrow> valid (uncleared g p) (call w c) (\<lambda>_. uncleared g p)"
  by (fastforce simp: valid_def run_call uncleared_def)

interpretation uncleared_frame: native_frame w "uncleared g p" for w g p
proof
  show "valid (uncleared g p) (call w c) (\<lambda>_. uncleared g p)" if "native_call c" for c
    using that by (intro uncleared_call) auto
  show "valid (uncleared g p) (desired_step w f) (\<lambda>_. uncleared g p)" for f
    by (auto simp: valid_def desired_step_def Let_def uncleared_def)
qed

lemma uncleared_notify: "valid (uncleared g p) (notify w n s) (\<lambda>_. uncleared g p)"
  unfolding notify_def by (rule valid_bind_end [OF uncleared_call]) simp_all

lemma uncleared_stop: "valid (uncleared g p) (stopSmartProcessState w q) (\<lambda>_. uncleared g p)"
  unfolding stopSmartProcessState_def
  by (intro valid_option valid_return valid_bind [OF uncleared_call]) simp_all

lemma uncleared_notify_stopped: "valid (uncleared g p) (notify_stopped w q) (\<lambda>_. uncleared g p)"
  unfolding notify_stopped_def by (intro valid_option valid_if valid_return uncleared_notify)

lemma uncleared_detach: "valid (uncleared g p) detachSmartProcessLocked (\<lambda>_. uncleared g None)"
  by (auto simp: valid_def detachSmartProcessLocked_def current_process_def set_process_def
      State_Monad.update_def uncleared_def)

lemma uncleared_await: "valid (uncleared g p) (await_ready w k) (\<lambda>_. uncleared g p)"
  by (auto simp: valid_def await_ready_def record_call_def State_Monad.update_def ask_def Let_def uncleared_def)

lemma uncleared_set: "valid (uncleared g p) (set_process q) (\<lambda>_. uncleared g q)"
  by (auto simp: valid_def set_process_def State_Monad.update_def uncleared_def)

lemma uncleared_prepare: "valid (uncleared g p) (prepare_config w n s) (\<lambda>_. uncleared g p)"
  unfolding prepare_config_def
  by (intro valid_bind [OF uncleared_call] valid_option valid_return valid_bind [OF valid_ask]) simp_all

lemma uncleared_bind_guard: "valid (uncleared g p) (bind_guard w) (\<lambda>_. uncleared g p)"
  unfolding bind_guard_def
  by (intro valid_bind [OF uncleared_call] valid_if valid_return valid_bind [OF valid_ask] uncleared_call) simp_all

lemma uncleared_engine_ready:
  assumes "Protection s = ''all''"
  shows "valid (uncleared g None) (engine_ready w return n s b q) (\<lambda>_ st. \<exists>p. uncleared g p st)"
proof -
  have guard: "valid (uncleared g None)
      (do { e \<leftarrow> bind_guard w; return (errorf ''activate protection'' e) }) (\<lambda>_. uncleared g None)"
    by (rule valid_bind_end [OF uncleared_bind_guard])
  have persist: "valid (uncleared g None) (if b then save_desired w n s else return None) (\<lambda>_. uncleared g None)"
    by (intro valid_if valid_return uncleared_frame.keeps_clear(2))
  show ?thesis
    unfolding engine_ready_def
    by (simp only: assms if_True simp_thms,
        intro valid_bind [OF guard] valid_bind [OF persist] valid_if valid_bind [OF uncleared_stop]
          valid_bind [OF uncleared_notify] valid_bind [OF uncleared_set] valid_bind [OF uncleared_call]
          valid_bind_end [OF valid_return] valid_return) auto
qed

lemma uncleared_launch:
  assumes "Protection s = ''all''"
  shows "valid (uncleared g None) (launch_engine w return n s b cfg) (\<lambda>_ st. \<exists>p. uncleared g p st)"
  unfolding launch_engine_def Let_def
  by (intro valid_bind [OF uncleared_call] valid_if valid_bind [OF uncleared_notify]
      valid_bind [OF valid_ask] valid_bind [OF uncleared_await] valid_bind_end [OF valid_return]
      uncleared_engine_ready assms) auto

text \<open>A machine on which no native tunnel runs.\<close>

definition no_native :: "world \<Rightarrow> bool" where
  "no_native w \<longleftrightarrow> (\<forall>h n. serviceState w h n \<notin> {TunnelStarted, TunnelStarting})"

definition not_running :: "(string \<times> TunnelState) list \<Rightarrow> bool" where
  "not_running states \<longleftrightarrow> list_all (\<lambda>(n, t). t \<notin> {TunnelStarted, TunnelStarting}) states"

lemma find_prior_none: "not_running states \<Longrightarrow> find_prior states [] st = Inr []"
  by (induction states) (auto simp: not_running_def)

lemma State_of_idle:
  assumes "no_native w"
  shows "valid (uncleared g None) (State_of w n)
    (\<lambda>r st. uncleared g None st \<and> snd r \<notin> {TunnelStarted, TunnelStarting})"
  using assms uncleared_call [of "QueryService n" g None w]
  by (fastforce simp: valid_def State_of_def is_smart_def smartStateForTunnel_def run_call ask_def
      uncleared_def no_native_def)

lemma query_states_idle:
  assumes "no_native w" and "not_running states"
  shows "valid (uncleared g None) (query_states w names states)
    (\<lambda>r st. uncleared g None st \<and> not_running (snd r))"
  using assms(2)
proof (induction names arbitrary: states)
  case (Cons n names)
  have more: "valid (uncleared g None) (query_states w names (states @ [(n, snd r)]))
      (\<lambda>r st. uncleared g None st \<and> not_running (snd r))"
    if "snd r \<notin> {TunnelStarted, TunnelStarting}" for r :: "merror option \<times> TunnelState"
    using that Cons by (intro Cons.IH) (auto simp: not_running_def)
  show ?case
    unfolding query_states.simps
  proof (rule valid_bind [OF State_of_idle [OF assms(1)]], rule valid_if)
    fix r :: "merror option \<times> TunnelState"
    show "valid (\<lambda>st. uncleared g None st \<and> snd r \<notin> {TunnelStarted, TunnelStarting})
        (return (errorf ''query native tunnel'' (fst r), []))
        (\<lambda>r st. uncleared g None st \<and> not_running (snd r))"
      by (rule valid_return) (simp add: not_running_def)
    show "valid (\<lambda>st. uncleared g None st \<and> snd r \<notin> {TunnelStarted, TunnelStarting})
        (query_states w names (states @ [(n, snd r)])) (\<lambda>r st. uncleared g None st \<and> not_running (snd r))"
      using more [of r] by (auto simp: valid_def)
  qed
qed (simp add: valid_return)

lemma nativeTunnelStates_idle:
  assumes "no_native w"
  shows "valid (uncleared g None) (nativeTunnelStates w)
    (\<lambda>r st. uncleared g None st \<and> not_running (snd r))"
  unfolding nativeTunnelStates_def
  by (intro valid_bind [OF uncleared_call] valid_if valid_return valid_bind [OF valid_ask]
      query_states_idle assms) (simp_all add: not_running_def)

lemma restoreNative_none [simp]: "restoreNative w f [] None = return"
  by (simp add: restoreNative_def fun_eq_iff)

lemma stop_failed_none [simp]: "stop_failed w s [] None e = return e"
  by (simp add: stop_failed_def)

lemma uncleared_start_with_config:
  assumes "Protection s = ''all''" and "no_native w"
  shows "valid (uncleared g None) (start_with_config w f n s b cfg) (\<lambda>_ st. \<exists>p. uncleared g p st)"
proof -
  let ?Q = "\<lambda>_ st. \<exists>p. uncleared g p st"
  have rest: "valid (uncleared g None) (do {
      e \<leftarrow> stopAllNativeTunnels w;
      if e \<noteq> None then do { e \<leftarrow> return e; return (e, False) }
      else do {
        previous \<leftarrow> detachSmartProcessLocked;
        stopErr \<leftarrow> stopSmartProcessState w previous;
        notify_stopped w previous;
        if stopErr \<noteq> None
        then do { e \<leftarrow> return (errorf ''stop previous smart routing'' stopErr); return (e, False) }
        else launch_engine w return n s b cfg } }) ?Q"
    by (intro valid_bind [OF uncleared_frame.keeps_stop_all] valid_if valid_bind_end [OF valid_return]
        valid_bind [OF uncleared_detach] valid_bind [OF uncleared_stop] valid_bind [OF uncleared_notify_stopped]
        uncleared_launch assms) auto
  have tail: "valid (\<lambda>st. uncleared g None st \<and> not_running states) (State_Monad.get \<bind> h) ?Q"
    if "\<And>st. smartProcess st = None \<Longrightarrow> not_running states \<Longrightarrow> valid (uncleared g None) (h st) ?Q"
    for states and h :: "manager \<Rightarrow> (merror option \<times> bool) mgr"
    using that by (auto simp: valid_def uncleared_def)
  have abort: "valid (\<lambda>st. uncleared g None st \<and> not_running states) (return x) ?Q" for states and x :: "merror option \<times> bool"
    by (rule valid_return) auto
  have enabled: "valid (uncleared g None) (call w (SetGuard 0) \<bind>
      (\<lambda>e. if e \<noteq> None then return (errorf ''enable protection'' e, False) else m)) ?Q"
    if "valid (uncleared g None) m ?Q" for m
    by (intro valid_bind [OF uncleared_call] valid_if valid_return that) auto
  show ?thesis
    unfolding start_with_config_def Let_def
    by (simp only: assms(1) if_True simp_thms,
        intro valid_bind [OF uncleared_call] valid_if valid_bind [OF nativeTunnelStates_idle [OF assms(2)]]
          tail abort)
      (simp_all only: find_prior_none sum.case restoreNative_none stop_failed_none enabled rest,
        auto intro!: valid_return)
qed

lemma uncleared_smart_start:
  assumes "Protection s = ''all''" and "no_native w"
  shows "valid (uncleared g None) (smartStartLocked w n s b) (\<lambda>_ st. \<exists>p. uncleared g p st)"
proof -
  let ?Q = "\<lambda>_ st. \<exists>p. uncleared g p st"
  have smart: "\<not> usesNativeTunnel (env w) s" using assms by (simp add: usesNativeTunnel_def)
  have remove: "valid (\<lambda>st. \<exists>p. uncleared g p st) (call w (RemoveConfig cfg) \<bind> (\<lambda>_. return x)) ?Q"
    for cfg and x :: "merror option"
    by (fastforce simp: valid_def run_call uncleared_def)
  show ?thesis
    unfolding smartStartLocked_unfold [of w n s b] smart_start_body_def
    by (simp only: smart if_False, intro valid_bind [OF uncleared_call] valid_if
        valid_bind [OF uncleared_prepare] valid_sum valid_return remove
        valid_bind [OF uncleared_start_with_config [OF assms]]) auto
qed

subsection \<open>Properties\<close>


text \<open>
  C36: The leak protection of a start with protection \<^verbatim>\<open>all\<close>. If the start succeeds, its only two calls
  of the guard are the provisional one that admits no interface, set before anything is stopped,
  and the one bound to the interface of the engine, both successful and in this order, with the
  engine as the current process: at no moment of the switch is the guard cleared. If neither a native
  tunnel nor an engine ran before, the guard is not cleared on any failing path either.
\<close>

theorem protection_never_lifted:
  assumes "Protection s = ''all''" and "run_state (smartStartLocked w name s persist) st = (r, st')"
  shows "(r = None \<longrightarrow> (\<exists>q h. smartProcess st' = Some q \<and> tunnelName q = name \<and> settings q = s \<and>
      guards (history st') = guards (history st) @ [(SetGuard 0, None), (SetGuard (tunLuid w h), None)])) \<and>
    (smartProcess st = None \<and> no_native w \<longrightarrow>
      (\<exists>x. guards (history st') = guards (history st) @ x \<and> ClearGuard \<notin> fst ` set x))"
proof -
  have "guarded (guards (history st)) (smartProcess st) st" by (simp add: guarded_def)
  from validD [OF smart_start_protected [OF assms(1)] this assms(2)]
  have "r = None \<longrightarrow> protected w (guards (history st) @ [(SetGuard 0, None)]) name s st'" .
  moreover have "\<exists>p. uncleared (guards (history st)) p st'" if "smartProcess st = None" "no_native w"
  proof -
    have "uncleared (guards (history st)) None st" using that by (simp add: uncleared_def)
    from validD [OF uncleared_smart_start [OF assms(1) that(2)] this assms(2)] show ?thesis .
  qed
  ultimately show ?thesis
    by (auto simp: protected_def bound_def guarded_def uncleared_def)
qed

text \<open>A machine that does everything it is asked for.\<close>

definition calm_world :: world where
  "calm_world =
     \<lparr>answer = (\<lambda>_ _. None), configName = (\<lambda>_ n. n @ ''.json''), newPid = (\<lambda>h. 42), tunLuid = (\<lambda>_. 7),
      tunnelNames = (\<lambda>_. []), serviceState = (\<lambda>_ _. TunnelStopped), pollsLeft = (\<lambda>_. 45),
      readyEvents = (\<lambda>_. [ReadinessPoll False False, ReadinessPoll True False, Settled]),
      online = (\<lambda>_. True), interfaceUp = (\<lambda>_. True), file_answers = (\<lambda>_. good_files), env = sample_env,
      json = sample_json,
      desired_format = \<lparr>marshal_desired = (\<lambda>_. Some ''{}''), unmarshal_desired = (\<lambda>_. None)\<rparr>,
      world_catalog = initial_catalog, desired_path = ''desired.json''\<rparr>"

definition calm_manager :: manager where
  "calm_manager = \<lparr>smartProcess = None, smartSystemSuspended = False, powerGeneration = 0,
     queuedPauses = [], haveQuit = False, mdisk = (\<lambda>_. None), history = []\<rparr>"

definition guarded_settings :: RoutingSettings where
  "guarded_settings = sample_settings\<lparr>Protection := ''all''\<rparr>"

lemmas run_defs = smart_start_body_def prepare_config_def start_with_config_def
  nativeTunnelStates_def stopAllNativeTunnels_def stopNativeTunnelsLocked_def detachSmartProcessLocked_def
  stopSmartProcessState_def notify_stopped_def launch_engine_def await_ready_def record_call_def
  engine_ready_def bind_guard_def notify_def current_process_def set_process_def ask_def
  State_Monad.update_def

lemma calm_guarded_start:
  "fst (run_state (smartStartLocked calm_world ''home'' guarded_settings False) calm_manager) = None"
proof -
  have prot: "Protection guarded_settings = ''all''" by (simp add: guarded_settings_def)
  then have smart: "\<not> usesNativeTunnel (env calm_world) guarded_settings" by (simp add: usesNativeTunnel_def)
  have calm: "answer calm_world h c = None" "tunnelNames calm_world h = []"
    "waitForSmartInterface (readyEvents calm_world h) = None" for h c
    by (simp_all add: calm_world_def)
  show ?thesis
    by (simp add: smartStartLocked_def numeral_2_eq_2 run_defs smart prot run_call calm calm_manager_def Let_def)
qed


theorem protection_never_lifted_witness:
  "\<exists>st. run_state (smartStartLocked calm_world ''home'' guarded_settings False) calm_manager = (None, st) \<and>
     guards (history st) = [(SetGuard 0, None), (SetGuard 7, None)]"
proof -
  obtain st where run: "run_state (smartStartLocked calm_world ''home'' guarded_settings False) calm_manager = (None, st)"
    using calm_guarded_start by (metis prod.collapse)
  have "Protection guarded_settings = ''all''" by (simp add: guarded_settings_def)
  from protection_never_lifted [OF this run] run
  show ?thesis by (auto simp: calm_manager_def calm_world_def guards_def)
qed
end
