(* ===== verification/Spec2Isabelle.thy ===== *)
theory Spec2Isabelle
  imports ConfUapi ConfRoundTrip ConfNameFacts ConfRoutes FirewallGuard Replay SmartRouting
    SmartSettingsFacts HighlighterFacts SupervisorFacts ManagerFacts
begin

text \<open>
  Verification of Pinus Smart AWG, a Windows client for AmneziaWG tunnels.

  Parts modelled so far: the configuration library \<^verbatim>\<open>core/conf\<close>.
\<close>

end
